(* ===== verification/Prelude.thy ===== *)
theory Prelude
  imports Main
begin

text \<open>
  Shared vocabulary of the development: the fact collections the component proofs use and the
  lemmas on lists and options that several components need.  \<open>prog\<close> collects the equations
  that run a handler symbolically, \<open>tables\<close> the equations of table reads after table writes.
\<close>

named_theorems prog "equations that run a handler symbolically"
named_theorems tables "reads of a table after a write"

subsection \<open>Options\<close>

text \<open>JavaScript's \<open>a ?? b\<close> on a value that may be \<open>null\<close> or \<open>undefined\<close>.\<close>

definition nullish :: "'a option \<Rightarrow> 'a option \<Rightarrow> 'a option" where
  "nullish a b = (case a of None \<Rightarrow> b | Some x \<Rightarrow> Some x)"

lemma nullish_simps [simp]: "nullish None b = b" "nullish (Some x) b = Some x"
  by (simp_all add: nullish_def)

definition get_or :: "'a option \<Rightarrow> 'a \<Rightarrow> 'a" where
  "get_or a d = (case a of None \<Rightarrow> d | Some x \<Rightarrow> x)"

lemma get_or_simps [simp]: "get_or None d = d" "get_or (Some x) d = x"
  by (simp_all add: get_or_def)

text \<open>An optional string that is present and not empty: what \<open>if (x)\<close> tests.\<close>

definition truthy :: "string option \<Rightarrow> bool" where
  "truthy x = (case x of None \<Rightarrow> False | Some s \<Rightarrow> s \<noteq> [])"

lemma truthy_simps [simp]: "\<not> truthy None" "truthy (Some s) \<longleftrightarrow> s \<noteq> []"
  by (simp_all add: truthy_def)

lemma truthyE: "truthy x \<Longrightarrow> (\<And>s. x = Some s \<Longrightarrow> s \<noteq> [] \<Longrightarrow> P) \<Longrightarrow> P"
  by (cases x) auto

text \<open>\<open>a || b\<close> on optional strings.\<close>

definition orElse :: "string option \<Rightarrow> string option \<Rightarrow> string option" where
  "orElse a b = (if truthy a then a else b)"

subsection \<open>Lists as keyed collections\<close>

lemma find_SomeD: "List.find p xs = Some x \<Longrightarrow> x \<in> set xs \<and> p x"
  by (induction xs) (auto split: if_splits)

lemma find_None_iff_ball: "List.find p xs = None \<longleftrightarrow> (\<forall>x\<in>set xs. \<not> p x)"
  by (induction xs) auto

lemma find_map_if:
  assumes "\<And>x. k (f x) = k x"
  shows "List.find (\<lambda>x. k x = i) (map (\<lambda>x. if k x = j then f x else x) xs)
    = (if i = j then map_option f (List.find (\<lambda>x. k x = i) xs) else List.find (\<lambda>x. k x = i) xs)"
  using assms by (induction xs) auto

lemma find_filter_ne:
  "List.find (\<lambda>x. k x = i) (filter (\<lambda>x. k x \<noteq> j) xs)
    = (if i = j then None else List.find (\<lambda>x. k x = i) xs)"
  by (induction xs) auto

lemma find_append:
  "List.find p (xs @ ys) = (case List.find p xs of None \<Rightarrow> List.find p ys | Some x \<Rightarrow> Some x)"
  by (induction xs) auto

lemma find_unique:
  assumes "distinct (map k xs)" "x \<in> set xs"
  shows "List.find (\<lambda>y. k y = k x) xs = Some x"
  using assms by (induction xs) (auto simp: rev_image_eqI)

lemma map_key_update:
  "(\<And>x. k (f x) = k x) \<Longrightarrow> map k (map (\<lambda>x. if p x then f x else x) xs) = map k xs"
  by simp

lemma distinct_map_filter_key: "distinct (map k xs) \<Longrightarrow> distinct (map k (filter p xs))"
  by (rule distinct_map_filter)

end
