(* ===== verification/JsText.thy ===== *)
theory JsText
  imports Prelude
begin

text \<open>
  The string primitives of JavaScript that the source uses, and JSON values.

  A JavaScript string is a list of UTF-16 code units; here it is a list of \<open>char\<close>, that is of
  code units below 256.  \<open>js_space\<close> lists the white space of that range (what \<open>\s\<close> matches and
  \<open>trim\<close> removes); \<open>toUpperCase\<close> and \<open>toLowerCase\<close> change the ASCII letters only, so the model
  describes them on ASCII text (and is silent on accented letters).
\<close>

subsection \<open>Character classes\<close>

definition code_of :: "char \<Rightarrow> nat" where
  "code_of c = of_char c"

definition is_digit :: "char \<Rightarrow> bool" where
  "is_digit c \<longleftrightarrow> 48 \<le> code_of c \<and> code_of c \<le> 57"

definition is_upper :: "char \<Rightarrow> bool" where
  "is_upper c \<longleftrightarrow> 65 \<le> code_of c \<and> code_of c \<le> 90"

definition is_lower :: "char \<Rightarrow> bool" where
  "is_lower c \<longleftrightarrow> 97 \<le> code_of c \<and> code_of c \<le> 122"

definition is_hex :: "char \<Rightarrow> bool" where
  "is_hex c \<longleftrightarrow> is_digit c \<or> (97 \<le> code_of c \<and> code_of c \<le> 102) \<or> (65 \<le> code_of c \<and> code_of c \<le> 70)"

definition is_alnum :: "char \<Rightarrow> bool" where
  "is_alnum c \<longleftrightarrow> is_digit c \<or> is_upper c \<or> is_lower c"

definition js_space :: "char \<Rightarrow> bool" where
  "js_space c \<longleftrightarrow> (9 \<le> code_of c \<and> code_of c \<le> 13) \<or> code_of c = 32 \<or> code_of c = 160"

lemma digit_not_space [simp]: "is_digit c \<Longrightarrow> \<not> js_space c"
  by (auto simp: is_digit_def js_space_def)

subsection \<open>Case, trimming, splitting\<close>

definition upper_char :: "char \<Rightarrow> char" where
  "upper_char c = (if is_lower c then char_of (code_of c - 32) else c)"

definition lower_char :: "char \<Rightarrow> char" where
  "lower_char c = (if is_upper c then char_of (code_of c + 32) else c)"

definition toUpper :: "string \<Rightarrow> string" where
  "toUpper s = map upper_char s"

definition toLower :: "string \<Rightarrow> string" where
  "toLower s = map lower_char s"

definition trim :: "string \<Rightarrow> string" where
  "trim s = rev (dropWhile js_space (rev (dropWhile js_space s)))"

text \<open>\<open>s.replace(/\D/g, '')\<close> and \<open>s.replace(/\s+/g, '')\<close>.\<close>

definition stripNonDigits :: "string \<Rightarrow> string" where
  "stripNonDigits s = filter is_digit s"

definition stripSpaces :: "string \<Rightarrow> string" where
  "stripSpaces s = filter (\<lambda>c. \<not> js_space c) s"

definition starts_with :: "string \<Rightarrow> string \<Rightarrow> bool" where
  "starts_with p s \<longleftrightarrow> take (length p) s = p"

fun js_includes :: "string \<Rightarrow> string \<Rightarrow> bool" where
  "js_includes p [] = (p = [])"
| "js_includes p (c # cs) = (starts_with p (c # cs) \<or> js_includes p cs)"

text \<open>\<open>s.split(d)\<close> for a separator of one character.\<close>

fun split_on :: "char \<Rightarrow> string \<Rightarrow> string list" where
  "split_on d [] = [[]]"
| "split_on d (c # cs) =
     (if c = d then [] # split_on d cs
      else (case split_on d cs of [] \<Rightarrow> [[c]] | w # ws \<Rightarrow> (c # w) # ws))"

fun join :: "string \<Rightarrow> string list \<Rightarrow> string" where
  "join d [] = []"
| "join d [w] = w"
| "join d (w # ws) = w @ d @ join d ws"

definition padStart :: "nat \<Rightarrow> char \<Rightarrow> string \<Rightarrow> string" where
  "padStart n c s = replicate (n - length s) c @ s"

definition padEnd :: "nat \<Rightarrow> char \<Rightarrow> string \<Rightarrow> string" where
  "padEnd n c s = s @ replicate (n - length s) c"

lemma split_on_nonempty: "split_on d s \<noteq> []"
  by (induction s) (auto split: list.split)

lemma split_on_none: "d \<notin> set s \<Longrightarrow> split_on d s = [s]"
  by (induction s) auto

lemma split_on_append: "d \<notin> set a \<Longrightarrow> split_on d (a @ d # b) = a # split_on d b"
  by (induction a) auto

lemma split_on_last: "split_on d (a @ d # b) = split_on d a @ split_on d b"
proof (induction a)
  case (Cons c a)
  then show ?case
    using split_on_nonempty[of d a] by (cases "split_on d a") auto
qed simp

lemma split_on_no_sep: "w \<in> set (split_on d s) \<Longrightarrow> d \<notin> set w"
proof (induction s arbitrary: w)
  case (Cons c cs)
  then show ?case
    by (cases "split_on d cs") (auto split: if_splits)
qed simp

lemma join_split: "join [d] (split_on d s) = s"
proof (induction s)
  case (Cons c cs)
  show ?case
  proof (cases "split_on d cs")
    case Nil
    then show ?thesis using split_on_nonempty by blast
  next
    case (Cons w ws)
    with Cons.IH show ?thesis by (cases ws) auto
  qed
qed simp

lemma starts_with_append [simp]: "starts_with p (p @ s)"
  by (simp add: starts_with_def)

lemma starts_with_iff: "starts_with p s \<longleftrightarrow> (\<exists>t. s = p @ t)"
  by (metis append_eq_conv_conj append_take_drop_id starts_with_def)

lemma js_includes_iff: "js_includes p s \<longleftrightarrow> (\<exists>a b. s = a @ p @ b)"
proof (induction s)
  case (Cons c cs)
  note IH = Cons.IH
  show ?case
  proof
    assume "js_includes p (c # cs)"
    then consider t where "c # cs = p @ t" | "js_includes p cs"
      by (auto simp: starts_with_iff)
    then show "\<exists>a b. c # cs = a @ p @ b"
    proof cases
      case 1
      then have "c # cs = [] @ p @ t" by simp
      then show ?thesis by blast
    next
      case 2
      then obtain a b where "cs = a @ p @ b" using Cons.IH by blast
      then have "c # cs = (c # a) @ p @ b" by simp
      then show ?thesis by blast
    qed
  next
    assume "\<exists>a b. c # cs = a @ p @ b"
    then obtain a b where ab: "c # cs = a @ p @ b" by blast
    show "js_includes p (c # cs)"
    proof (cases a)
      case Nil
      with ab have "starts_with p (c # cs)" by simp
      then show ?thesis by simp
    next
      case (Cons x a')
      with ab have "cs = a' @ p @ b" by simp
      then have "js_includes p cs" using IH by blast
      then show ?thesis by simp
    qed
  qed
qed auto

lemma trim_no_space: "\<forall>c\<in>set s. \<not> js_space c \<Longrightarrow> trim s = s"
proof -
  assume a: "\<forall>c\<in>set s. \<not> js_space c"
  have d: "dropWhile js_space t = t" if "\<forall>c\<in>set t. \<not> js_space c" for t
    using that by (cases t) auto
  show "trim s = s"
    using a by (simp add: trim_def d)
qed

lemma dropWhile_idem: "dropWhile p (dropWhile p xs) = dropWhile p xs"
  by (induction xs) auto

lemma hd_dropWhile_or: "dropWhile p xs = [] \<or> \<not> p (hd (dropWhile p xs))"
  by (induction xs) auto

lemma last_rev_dropWhile:
  "xs \<noteq> [] \<Longrightarrow> \<not> p (hd xs) \<Longrightarrow> rev (dropWhile p (rev xs)) \<noteq> [] \<and> hd (rev (dropWhile p (rev xs))) = hd xs"
  by (cases xs) (auto simp: dropWhile_append)

lemma trim_idem: "trim (trim s) = trim s"
proof -
  let ?t = "dropWhile js_space s"
  have "dropWhile js_space (rev (dropWhile js_space (rev ?t))) = rev (dropWhile js_space (rev ?t))"
  proof (cases "?t = []")
    case True
    then show ?thesis by (simp del: dropWhile_eq_Nil_conv)
  next
    case False
    then have "\<not> js_space (hd ?t)" using hd_dropWhile_or[of js_space s] by blast
    with last_rev_dropWhile[OF False] have
      "rev (dropWhile js_space (rev ?t)) \<noteq> []" "\<not> js_space (hd (rev (dropWhile js_space (rev ?t))))"
      by auto
    then show ?thesis by (cases "rev (dropWhile js_space (rev ?t))") auto
  qed
  then show ?thesis by (simp add: trim_def dropWhile_idem)
qed

end
