(* ===== verification/Decimal.thy ===== *)
theory Decimal
  imports JsText
begin

text \<open>
  Decimal numerals: \<open>String(n)\<close> / \<open>BigInt.toString\<close> on a natural number (\<open>show_nat\<close>) and
  \<open>BigInt(s)\<close> / \<open>Number(s)\<close> on a string of digits (\<open>digits_val\<close>), with the two round trips the
  amount conversions and the check-digit routines need.
\<close>

definition digit_char :: "nat \<Rightarrow> char" where
  "digit_char d = char_of (48 + d)"

definition digit_val :: "char \<Rightarrow> nat" where
  "digit_val c = code_of c - 48"

fun show_nat :: "nat \<Rightarrow> string" where
  "show_nat n = (if n < 10 then [digit_char n] else show_nat (n div 10) @ [digit_char (n mod 10)])"

declare show_nat.simps [simp del]

definition show_int :: "int \<Rightarrow> string" where
  "show_int i = (if i < 0 then CHR ''-'' # show_nat (nat (- i)) else show_nat (nat i))"

definition digits_val :: "string \<Rightarrow> nat" where
  "digits_val s = foldl (\<lambda>a c. 10 * a + digit_val c) 0 s"

definition all_digits :: "string \<Rightarrow> bool" where
  "all_digits s \<longleftrightarrow> list_all is_digit s"

lemma all_digits_simps [simp]:
  "all_digits []" "all_digits (c # s) \<longleftrightarrow> is_digit c \<and> all_digits s"
  "all_digits (s @ t) \<longleftrightarrow> all_digits s \<and> all_digits t"
  by (auto simp: all_digits_def)

lemma code_of_digit_char: "d < 10 \<Longrightarrow> code_of (digit_char d) = 48 + d"
  by (simp add: code_of_def digit_char_def)

lemma is_digit_digit_char [simp]: "d < 10 \<Longrightarrow> is_digit (digit_char d)"
  by (simp add: is_digit_def code_of_digit_char)

lemma digit_val_digit_char [simp]: "d < 10 \<Longrightarrow> digit_val (digit_char d) = d"
  by (simp add: digit_val_def code_of_digit_char)

lemma digit_char_digit_val [simp]: "is_digit c \<Longrightarrow> digit_char (digit_val c) = c"
  by (simp add: digit_char_def digit_val_def is_digit_def code_of_def)

lemma digit_val_less [simp]: "is_digit c \<Longrightarrow> digit_val c < 10"
  by (auto simp: digit_val_def is_digit_def)

lemma digit_char_inj: "a < 10 \<Longrightarrow> b < 10 \<Longrightarrow> digit_char a = digit_char b \<longleftrightarrow> a = b"
  by (metis digit_val_digit_char)

lemma foldl_digits:
  "foldl (\<lambda>a c. 10 * a + digit_val c) x s = x * 10 ^ length s + digits_val s"
proof (induction s arbitrary: x)
  case (Cons c s)
  show ?case
    using Cons[of "10 * x + digit_val c"] Cons[of "digit_val c"]
    by (simp add: digits_val_def algebra_simps)
qed (simp add: digits_val_def)

lemma digits_val_Nil [simp]: "digits_val [] = 0"
  by (simp add: digits_val_def)

lemma digits_val_append: "digits_val (s @ t) = digits_val s * 10 ^ length t + digits_val t"
  using foldl_digits[of "digits_val s" t] by (simp add: digits_val_def)

lemma digits_val_Cons: "digits_val (c # s) = digit_val c * 10 ^ length s + digits_val s"
  using digits_val_append[of "[c]" s] by (simp add: digits_val_def)

lemma digits_val_snoc: "digits_val (s @ [c]) = 10 * digits_val s + digit_val c"
  by (simp add: digits_val_def)

lemma digits_val_less: "all_digits s \<Longrightarrow> digits_val s < 10 ^ length s"
proof (induction s rule: rev_induct)
  case (snoc c s)
  then have "digits_val s + 1 \<le> 10 ^ length s" "digit_val c < 10" by auto
  then show ?case by (simp add: digits_val_snoc)
qed simp

lemma digits_val_replicate_zero [simp]: "digits_val (replicate n (CHR ''0'')) = 0"
proof -
  have z: "digit_val (CHR ''0'') = 0" by code_simp
  show ?thesis by (induction n) (simp_all add: digits_val_Cons z)
qed

lemma digits_val_zeros_prefix [simp]: "digits_val (replicate n (CHR ''0'') @ s) = digits_val s"
  by (simp add: digits_val_append)

lemma show_nat_nonempty [simp]: "show_nat n \<noteq> []"
  by (simp add: show_nat.simps[of n])

lemma all_digits_show_nat [simp]: "all_digits (show_nat n)"
proof (induction n rule: show_nat.induct)
  case (1 n)
  then show ?case by (cases "n < 10") (simp_all add: show_nat.simps[of n])
qed

lemma digits_val_show_nat [simp]: "digits_val (show_nat n) = n"
proof (induction n rule: show_nat.induct)
  case (1 n)
  then show ?case
    by (cases "n < 10") (simp_all add: show_nat.simps[of n] digits_val_snoc digits_val_Cons)
qed

lemma show_nat_inj: "show_nat m = show_nat n \<longleftrightarrow> m = n"
  by (metis digits_val_show_nat)

lemma length_show_nat: "0 < k \<Longrightarrow> n < 10 ^ k \<Longrightarrow> length (show_nat n) \<le> k"
proof (induction n arbitrary: k rule: show_nat.induct)
  case (1 n)
  show ?case
  proof (cases "n < 10")
    case True
    then show ?thesis using "1.prems" by (simp add: show_nat.simps[of n])
  next
    case False
    then obtain j where k: "k = Suc j" "0 < j"
      using "1.prems" by (cases k; cases "k - 1") auto
    with "1.prems" have "n div 10 < 10 ^ j" by (simp add: less_mult_imp_div_less)
    with "1.IH" False k show ?thesis by (simp add: show_nat.simps[of n])
  qed
qed

text \<open>A numeral without a leading zero is what its value is printed as.\<close>

definition canonical :: "string \<Rightarrow> bool" where
  "canonical s \<longleftrightarrow> s \<noteq> [] \<and> all_digits s \<and> (length s = 1 \<or> hd s \<noteq> CHR ''0'')"

lemma zero_digit: "CHR ''0'' = digit_char 0"
  by code_simp

lemma digit_val_pos: "is_digit c \<Longrightarrow> c \<noteq> CHR ''0'' \<Longrightarrow> 0 < digit_val c"
  by (metis digit_char_digit_val gr0I zero_digit)

lemma canonical_show_nat: "canonical (show_nat n)"
proof (induction n rule: show_nat.induct)
  case (1 n)
  show ?case
  proof (cases "n < 10")
    case True
    then show ?thesis by (simp add: canonical_def show_nat.simps[of n])
  next
    case False
    with 1 have c: "canonical (show_nat (n div 10))" by simp
    have "hd (show_nat (n div 10)) \<noteq> CHR ''0''"
    proof (cases "length (show_nat (n div 10)) = 1")
      case True
      then obtain d where d: "show_nat (n div 10) = [d]" by (cases "show_nat (n div 10)") auto
      have "n div 10 = digit_val d" "is_digit d"
        using digits_val_show_nat[of "n div 10"] all_digits_show_nat[of "n div 10"]
        by (simp_all add: d digits_val_Cons)
      moreover have "n div 10 \<noteq> 0" using False by simp
      ultimately have "d \<noteq> CHR ''0''" by (auto simp: zero_digit)
      then show ?thesis by (simp add: d)
    next
      case False
      then show ?thesis using c by (simp add: canonical_def)
    qed
    then show ?thesis using c False
      by (simp add: canonical_def show_nat.simps[of n])
  qed
qed

lemma show_nat_digits_val: "canonical s \<Longrightarrow> show_nat (digits_val s) = s"
proof (induction s rule: rev_induct)
  case (snoc c s)
  then have dc: "is_digit c" and ds: "all_digits s" by (simp_all add: canonical_def)
  show ?case
  proof (cases "s = []")
    case True
    then show ?thesis using dc by (simp add: digits_val_Cons show_nat.simps[of "digit_val c"])
  next
    case False
    with snoc.prems have h: "hd s \<noteq> CHR ''0''" by (auto simp: canonical_def)
    then have "canonical s" using False ds by (simp add: canonical_def)
    then have IH: "show_nat (digits_val s) = s" by (rule snoc.IH)
    have "0 < digits_val s"
    proof -
      obtain x xs where s: "s = x # xs" using False by (cases s) auto
      have "0 < digit_val x" using h ds by (simp add: s digit_val_pos)
      then show ?thesis by (simp add: s digits_val_Cons)
    qed
    then have "\<not> 10 * digits_val s + digit_val c < 10" by simp
    then show ?thesis
      using dc IH by (simp add: show_nat.simps[of "10 * digits_val s + digit_val c"] digits_val_snoc)
  qed
qed (simp add: canonical_def)

end
