(* ===== verification/Errors.thy ===== *)
theory Errors
  imports Decimal
begin

text \<open>
  The stable error codes of \<open>src/common/errors/error-codes.enum.ts\<close>, their HTTP status
  (\<open>errorCodeToHttpStatus\<close>), the exceptions a handler can end with, and the global
  \<open>HttpExceptionFilter\<close> that turns an exception into the response body.  The human-readable
  message of an exception is kept only where the filter reads it.
\<close>

subsection \<open>JSON values\<close>

text \<open>
  What the code handles as \<open>unknown\<close> or \<open>Record<string, unknown>\<close>.  Numbers are integers (the
  source reads ledger numbers, indices and stroop amounts); an object is its list of entries,
  each key once.
\<close>

datatype json =
    JNull
  | JBool bool
  | JNum int
  | JStr string
  | JArr "json list"
  | JObj "(string \<times> json) list"

fun jfield :: "json \<Rightarrow> string \<Rightarrow> json option" where
  "jfield (JObj kvs) k = map_of kvs k"
| "jfield _ k = None"

definition jhas :: "json \<Rightarrow> string \<Rightarrow> bool" where
  "jhas j k \<longleftrightarrow> jfield j k \<noteq> None"

subsection \<open>Error codes\<close>

datatype (plugins only: code size) error_code =
    INVALID_WALLET
  | UNAUTHORIZED_ACTION
  | KYC_REQUIRED
  | INVALID_CHALLENGE
  | INVALID_SIGNATURE
  | TOO_MANY_REQUESTS
  | USER_NOT_FOUND
  | USER_ALREADY_EXISTS
  | ALIAS_TAKEN
  | INVALID_EMAIL
  | MISSING_EMAIL
  | OFFER_NOT_FOUND
  | ORDER_NOT_FOUND
  | INVALID_ORDER_STATUS
  | ORDER_CANCELLATION_NOT_ALLOWED
  | ESCROW_NOT_FOUND
  | ESCROW_ALREADY_EXISTS
  | ESCROW_NOT_INITIALIZED
  | ESCROW_NO_CONTRACT
  | ESCROW_CREATION_FAILED
  | ESCROW_INVALID_STATUS
  | ESCROW_SYNC_FAILED
  | ESCROW_APPROVE_FAILED
  | UNSUPPORTED_ASSET
  | PAYMENT_METHOD_NOT_FOUND
  | PAYMENT_PROVIDER_NOT_FOUND
  | MISSING_PAYMENT_PROVIDER
  | INVALID_ACCOUNT_IDENTIFIER
  | CHAT_MESSAGE_NOT_FOUND
  | INVALID_STELLAR_ADDRESS
  | INVALID_AMOUNT
  | STELLAR_ACCOUNT_NOT_FOUND
  | STELLAR_TRANSACTION_FAILED
  | MISSING_SIGNER_SECRET
  | MISSING_ASSET_ISSUER
  | KYC_SESSION_FAILED
  | KYC_WEBHOOK_INVALID_SIGNATURE
  | KYC_WEBHOOK_MISSING_BODY
  | KYC_WEBHOOK_SECRET_MISSING
  | MISSING_USER_ID
  | SELF_SEND
  | INVALID_RECIPIENT
  | AMOUNT_TOO_SMALL
  | MISSING_FEE_COLLECTOR
  | VALIDATION_ERROR
  | RESOURCE_NOT_FOUND
  | INTERNAL_SERVER_ERROR
  | CSRF_TOKEN_MISSING
  | CSRF_TOKEN_INVALID

primrec code_string :: "error_code \<Rightarrow> string" where
  "code_string INVALID_WALLET = ''INVALID_WALLET''"
| "code_string UNAUTHORIZED_ACTION = ''UNAUTHORIZED_ACTION''"
| "code_string KYC_REQUIRED = ''KYC_REQUIRED''"
| "code_string INVALID_CHALLENGE = ''INVALID_CHALLENGE''"
| "code_string INVALID_SIGNATURE = ''INVALID_SIGNATURE''"
| "code_string TOO_MANY_REQUESTS = ''TOO_MANY_REQUESTS''"
| "code_string USER_NOT_FOUND = ''USER_NOT_FOUND''"
| "code_string USER_ALREADY_EXISTS = ''USER_ALREADY_EXISTS''"
| "code_string ALIAS_TAKEN = ''ALIAS_TAKEN''"
| "code_string INVALID_EMAIL = ''INVALID_EMAIL''"
| "code_string MISSING_EMAIL = ''MISSING_EMAIL''"
| "code_string OFFER_NOT_FOUND = ''OFFER_NOT_FOUND''"
| "code_string ORDER_NOT_FOUND = ''ORDER_NOT_FOUND''"
| "code_string INVALID_ORDER_STATUS = ''INVALID_ORDER_STATUS''"
| "code_string ORDER_CANCELLATION_NOT_ALLOWED = ''ORDER_CANCELLATION_NOT_ALLOWED''"
| "code_string ESCROW_NOT_FOUND = ''ESCROW_NOT_FOUND''"
| "code_string ESCROW_ALREADY_EXISTS = ''ESCROW_ALREADY_EXISTS''"
| "code_string ESCROW_NOT_INITIALIZED = ''ESCROW_NOT_INITIALIZED''"
| "code_string ESCROW_NO_CONTRACT = ''ESCROW_NO_CONTRACT''"
| "code_string ESCROW_CREATION_FAILED = ''ESCROW_CREATION_FAILED''"
| "code_string ESCROW_INVALID_STATUS = ''ESCROW_INVALID_STATUS''"
| "code_string ESCROW_SYNC_FAILED = ''ESCROW_SYNC_FAILED''"
| "code_string ESCROW_APPROVE_FAILED = ''ESCROW_APPROVE_FAILED''"
| "code_string UNSUPPORTED_ASSET = ''UNSUPPORTED_ASSET''"
| "code_string PAYMENT_METHOD_NOT_FOUND = ''PAYMENT_METHOD_NOT_FOUND''"
| "code_string PAYMENT_PROVIDER_NOT_FOUND = ''PAYMENT_PROVIDER_NOT_FOUND''"
| "code_string MISSING_PAYMENT_PROVIDER = ''MISSING_PAYMENT_PROVIDER''"
| "code_string INVALID_ACCOUNT_IDENTIFIER = ''INVALID_ACCOUNT_IDENTIFIER''"
| "code_string CHAT_MESSAGE_NOT_FOUND = ''CHAT_MESSAGE_NOT_FOUND''"
| "code_string INVALID_STELLAR_ADDRESS = ''INVALID_STELLAR_ADDRESS''"
| "code_string INVALID_AMOUNT = ''INVALID_AMOUNT''"
| "code_string STELLAR_ACCOUNT_NOT_FOUND = ''STELLAR_ACCOUNT_NOT_FOUND''"
| "code_string STELLAR_TRANSACTION_FAILED = ''STELLAR_TRANSACTION_FAILED''"
| "code_string MISSING_SIGNER_SECRET = ''MISSING_SIGNER_SECRET''"
| "code_string MISSING_ASSET_ISSUER = ''MISSING_ASSET_ISSUER''"
| "code_string KYC_SESSION_FAILED = ''KYC_SESSION_FAILED''"
| "code_string KYC_WEBHOOK_INVALID_SIGNATURE = ''KYC_WEBHOOK_INVALID_SIGNATURE''"
| "code_string KYC_WEBHOOK_MISSING_BODY = ''KYC_WEBHOOK_MISSING_BODY''"
| "code_string KYC_WEBHOOK_SECRET_MISSING = ''KYC_WEBHOOK_SECRET_MISSING''"
| "code_string MISSING_USER_ID = ''MISSING_USER_ID''"
| "code_string SELF_SEND = ''SELF_SEND''"
| "code_string INVALID_RECIPIENT = ''INVALID_RECIPIENT''"
| "code_string AMOUNT_TOO_SMALL = ''AMOUNT_TOO_SMALL''"
| "code_string MISSING_FEE_COLLECTOR = ''MISSING_FEE_COLLECTOR''"
| "code_string VALIDATION_ERROR = ''VALIDATION_ERROR''"
| "code_string RESOURCE_NOT_FOUND = ''RESOURCE_NOT_FOUND''"
| "code_string INTERNAL_SERVER_ERROR = ''INTERNAL_SERVER_ERROR''"
| "code_string CSRF_TOKEN_MISSING = ''CSRF_TOKEN_MISSING''"
| "code_string CSRF_TOKEN_INVALID = ''CSRF_TOKEN_INVALID''"

text \<open>The entries of the map inside \<open>errorCodeToHttpStatus\<close>; a code it does not list is \<open>None\<close>.\<close>

primrec statusMap :: "error_code \<Rightarrow> nat option" where
  "statusMap INVALID_WALLET = Some 400"
| "statusMap UNAUTHORIZED_ACTION = Some 403"
| "statusMap KYC_REQUIRED = Some 403"
| "statusMap INVALID_CHALLENGE = Some 401"
| "statusMap INVALID_SIGNATURE = Some 401"
| "statusMap TOO_MANY_REQUESTS = Some 429"
| "statusMap USER_NOT_FOUND = Some 404"
| "statusMap USER_ALREADY_EXISTS = Some 400"
| "statusMap ALIAS_TAKEN = Some 409"
| "statusMap INVALID_EMAIL = Some 400"
| "statusMap MISSING_EMAIL = Some 400"
| "statusMap OFFER_NOT_FOUND = Some 404"
| "statusMap ORDER_NOT_FOUND = Some 404"
| "statusMap INVALID_ORDER_STATUS = None"
| "statusMap ORDER_CANCELLATION_NOT_ALLOWED = Some 409"
| "statusMap ESCROW_NOT_FOUND = Some 404"
| "statusMap ESCROW_ALREADY_EXISTS = Some 400"
| "statusMap ESCROW_NOT_INITIALIZED = Some 400"
| "statusMap ESCROW_NO_CONTRACT = Some 400"
| "statusMap ESCROW_CREATION_FAILED = Some 400"
| "statusMap ESCROW_INVALID_STATUS = Some 400"
| "statusMap ESCROW_SYNC_FAILED = Some 500"
| "statusMap ESCROW_APPROVE_FAILED = Some 500"
| "statusMap UNSUPPORTED_ASSET = Some 400"
| "statusMap PAYMENT_METHOD_NOT_FOUND = Some 404"
| "statusMap PAYMENT_PROVIDER_NOT_FOUND = Some 404"
| "statusMap MISSING_PAYMENT_PROVIDER = Some 400"
| "statusMap INVALID_ACCOUNT_IDENTIFIER = Some 400"
| "statusMap CHAT_MESSAGE_NOT_FOUND = Some 404"
| "statusMap INVALID_STELLAR_ADDRESS = Some 400"
| "statusMap INVALID_AMOUNT = Some 400"
| "statusMap STELLAR_ACCOUNT_NOT_FOUND = Some 404"
| "statusMap STELLAR_TRANSACTION_FAILED = Some 500"
| "statusMap MISSING_SIGNER_SECRET = Some 400"
| "statusMap MISSING_ASSET_ISSUER = Some 400"
| "statusMap KYC_SESSION_FAILED = Some 500"
| "statusMap KYC_WEBHOOK_INVALID_SIGNATURE = Some 401"
| "statusMap KYC_WEBHOOK_MISSING_BODY = Some 500"
| "statusMap KYC_WEBHOOK_SECRET_MISSING = Some 500"
| "statusMap MISSING_USER_ID = Some 400"
| "statusMap SELF_SEND = Some 400"
| "statusMap INVALID_RECIPIENT = Some 404"
| "statusMap AMOUNT_TOO_SMALL = Some 400"
| "statusMap MISSING_FEE_COLLECTOR = Some 400"
| "statusMap VALIDATION_ERROR = Some 400"
| "statusMap RESOURCE_NOT_FOUND = Some 404"
| "statusMap INTERNAL_SERVER_ERROR = Some 500"
| "statusMap CSRF_TOKEN_MISSING = Some 403"
| "statusMap CSRF_TOKEN_INVALID = Some 403"

definition errorCodeToHttpStatus :: "error_code \<Rightarrow> nat" where
  "errorCodeToHttpStatus c = get_or (statusMap c) 400"

subsection \<open>Exceptions of a handler\<close>

text \<open>
  What a handler can throw: an \<open>AppException\<close> (its code and HTTP status), another Nest
  \<open>HttpException\<close> by its status, a plain \<open>Error\<close>, and the errors of a database call: Prisma's
  P2025 (no record for an update or delete), P2002 (unique constraint), P2003 (foreign key), a
  malformed call (\<open>PrismaClientValidationError\<close>) and a failing connection.
\<close>

datatype exn =
    AppException error_code nat
  | HttpException nat
  | PlainError
  | RecordNotFound
  | UniqueViolation
  | ForeignKeyViolation
  | QueryInvalid
  | DbUnavailable

text \<open>\<open>new AppException(code, message)\<close>: the status is inferred from the code.\<close>

definition appExc :: "error_code \<Rightarrow> exn" where
  "appExc c = AppException c (errorCodeToHttpStatus c)"

lemma appExc_inj [simp]: "appExc a = appExc b \<longleftrightarrow> a = b"
  by (auto simp: appExc_def)

lemma appExc_neq [simp]:
  "appExc c \<noteq> RecordNotFound" "appExc c \<noteq> UniqueViolation" "appExc c \<noteq> ForeignKeyViolation"
  "appExc c \<noteq> DbUnavailable" "appExc c \<noteq> PlainError" "appExc c \<noteq> QueryInvalid"
  "appExc c \<noteq> HttpException n"
  "RecordNotFound \<noteq> appExc c" "UniqueViolation \<noteq> appExc c" "ForeignKeyViolation \<noteq> appExc c"
  "DbUnavailable \<noteq> appExc c" "PlainError \<noteq> appExc c" "QueryInvalid \<noteq> appExc c"
  "HttpException n \<noteq> appExc c"
  by (simp_all add: appExc_def)

subsection \<open>The global exception filter\<close>

text \<open>The body \<open>AppException\<close> hands to \<open>HttpException\<close>.\<close>

definition appErrorResponse :: "error_code \<Rightarrow> nat \<Rightarrow> string \<Rightarrow> json" where
  "appErrorResponse code status msg =
     JObj [(''statusCode'', JNum (int status)), (''error'', JStr (code_string code)),
           (''message'', JStr msg)]"

text \<open>What is thrown at the filter: an \<open>HttpException\<close> with its status and response, or anything else.\<close>

datatype thrown = HttpThrown nat json | OtherThrown

definition httpStatusToErrorCode :: "nat \<Rightarrow> error_code" where
  "httpStatusToErrorCode status =
     get_or (map_of [(400, VALIDATION_ERROR), (401, UNAUTHORIZED_ACTION), (403, UNAUTHORIZED_ACTION),
                     (404, RESOURCE_NOT_FOUND), (422, VALIDATION_ERROR),
                     (500, INTERNAL_SERVER_ERROR), (502, INTERNAL_SERVER_ERROR),
                     (503, INTERNAL_SERVER_ERROR)] status)
            INTERNAL_SERVER_ERROR"

text \<open>An element of \<open>message: string[]\<close> as \<open>join\<close> prints it.\<close>

fun elem_text :: "json \<Rightarrow> string" where
  "elem_text (JStr s) = s"
| "elem_text (JNum n) = show_int n"
| "elem_text (JBool b) = (if b then ''true'' else ''false'')"
| "elem_text JNull = []"
| "elem_text (JArr xs) = join '','' (map elem_text xs)"
| "elem_text (JObj kvs) = ''[object Object]''"

definition extractMessage :: "json \<Rightarrow> string" where
  "extractMessage raw =
     (case raw of
        JStr s \<Rightarrow> s
      | JObj kvs \<Rightarrow>
          (case jfield raw ''message'' of
             Some (JArr xs) \<Rightarrow> join ''; '' (map elem_text xs)
           | Some (JStr s) \<Rightarrow> s
           | _ \<Rightarrow> (case jfield raw ''error'' of Some (JStr s) \<Rightarrow> s | _ \<Rightarrow> ''An error occurred''))
      | _ \<Rightarrow> ''An error occurred'')"

definition isStructured :: "json \<Rightarrow> bool" where
  "isStructured raw \<longleftrightarrow> jhas raw ''error'' \<and> jhas raw ''message'' \<and> jhas raw ''statusCode''"

text \<open>\<open>HttpExceptionFilter.catch\<close>: the HTTP status and the JSON body of the response.\<close>

definition filterCatch :: "thrown \<Rightarrow> nat \<times> json" where
  "filterCatch e =
     (case e of
        HttpThrown status raw \<Rightarrow>
          if isStructured raw then (status, raw)
          else (status, appErrorResponse (httpStatusToErrorCode status) status (extractMessage raw))
      | OtherThrown \<Rightarrow>
          (500, appErrorResponse INTERNAL_SERVER_ERROR 500 ''An unexpected error occurred''))"

lemma jfield_appErrorResponse [simp]:
  "jfield (appErrorResponse c n m) ''statusCode'' = Some (JNum (int n))"
  "jfield (appErrorResponse c n m) ''error'' = Some (JStr (code_string c))"
  "jfield (appErrorResponse c n m) ''message'' = Some (JStr m)"
  by (simp_all add: appErrorResponse_def)

lemma isStructured_appErrorResponse [simp]: "isStructured (appErrorResponse c n m)"
  by (simp add: isStructured_def jhas_def)

lemma filterCatch_structured:
  "isStructured (snd (filterCatch e))"
  by (auto simp: filterCatch_def split: thrown.split)

end
