(* ===== verification/Prog.thy ===== *)
theory Prog
  imports Errors
begin

text \<open>
  How an \<open>async\<close> method is modelled: a function from the state to a result and a state, the
  result an exception (\<open>Inl\<close>) or a value (\<open>Inr\<close>).  State changes made before an exception
  stay, as they do in the source.  \<open>wp m Q E s\<close> says that running \<open>m\<close> from \<open>s\<close> ends in \<open>Q\<close>
  with a value or in \<open>E\<close> with an exception; its equations (collection \<open>prog\<close>) run a handler
  symbolically.  The locale \<open>effect\<close> is the contract of a relation between the state before
  and after that every step of a handler obeys.
\<close>

type_synonym ('s, 'a) prog = "'s \<Rightarrow> (exn + 'a) \<times> 's"

definition ret :: "'a \<Rightarrow> ('s, 'a) prog" where
  "ret a = (\<lambda>s. (Inr a, s))"

definition throw :: "exn \<Rightarrow> ('s, 'a) prog" where
  "throw e = (\<lambda>s. (Inl e, s))"

definition bindE :: "('s, 'a) prog \<Rightarrow> ('a \<Rightarrow> ('s, 'b) prog) \<Rightarrow> ('s, 'b) prog" where
  "bindE m f = (\<lambda>s. case m s of (Inl e, t) \<Rightarrow> (Inl e, t) | (Inr a, t) \<Rightarrow> f a t)"

definition andThen :: "('s, 'a) prog \<Rightarrow> ('s, 'b) prog \<Rightarrow> ('s, 'b) prog" where
  "andThen m k = bindE m (\<lambda>_. k)"

text \<open>\<open>try { m } catch (e) { h e }\<close>.\<close>

definition tryCatch :: "('s, 'a) prog \<Rightarrow> (exn \<Rightarrow> ('s, 'a) prog) \<Rightarrow> ('s, 'a) prog" where
  "tryCatch m h = (\<lambda>s. case m s of (Inl e, t) \<Rightarrow> h e t | (Inr a, t) \<Rightarrow> (Inr a, t))"

definition throwIf :: "bool \<Rightarrow> exn \<Rightarrow> ('s, unit) prog" where
  "throwIf b e = (if b then throw e else ret ())"

definition getState :: "('s \<Rightarrow> 'a) \<Rightarrow> ('s, 'a) prog" where
  "getState f = (\<lambda>s. (Inr (f s), s))"

definition modify :: "('s \<Rightarrow> 's) \<Rightarrow> ('s, unit) prog" where
  "modify f = (\<lambda>s. (Inr (), f s))"

definition lift :: "exn + 'a \<Rightarrow> ('s, 'a) prog" where
  "lift r = (\<lambda>s. (r, s))"

primrec forEach :: "'b list \<Rightarrow> ('b \<Rightarrow> ('s, unit) prog) \<Rightarrow> ('s, unit) prog" where
  "forEach [] f = ret ()"
| "forEach (x # xs) f = andThen (f x) (forEach xs f)"

subsection \<open>Running a handler symbolically\<close>

definition wp :: "('s, 'a) prog \<Rightarrow> ('a \<Rightarrow> 's \<Rightarrow> bool) \<Rightarrow> (exn \<Rightarrow> 's \<Rightarrow> bool) \<Rightarrow> 's \<Rightarrow> bool" where
  "wp m Q E s = (case m s of (Inl e, t) \<Rightarrow> E e t | (Inr a, t) \<Rightarrow> Q a t)"

lemma wp_ret [prog]: "wp (ret a) Q E s = Q a s"
  by (simp add: wp_def ret_def)

lemma wp_throw [prog]: "wp (throw e) Q E s = E e s"
  by (simp add: wp_def throw_def)

lemma wp_bindE [prog]: "wp (bindE m f) Q E s = wp m (\<lambda>a. wp (f a) Q E) E s"
  by (auto simp: wp_def bindE_def split: prod.splits sum.splits)

lemma wp_andThen [prog]: "wp (andThen m k) Q E s = wp m (\<lambda>_. wp k Q E) E s"
  by (simp add: andThen_def wp_bindE)

lemma wp_tryCatch [prog]: "wp (tryCatch m h) Q E s = wp m Q (\<lambda>e. wp (h e) Q E) s"
  by (auto simp: wp_def tryCatch_def split: prod.splits sum.splits)

lemma wp_throwIf [prog]: "wp (throwIf b e) Q E s = (if b then E e s else Q () s)"
  by (simp add: throwIf_def wp_ret wp_throw)

lemma wp_getState [prog]: "wp (getState f) Q E s = Q (f s) s"
  by (simp add: wp_def getState_def)

lemma wp_modify [prog]: "wp (modify f) Q E s = Q () (f s)"
  by (simp add: wp_def modify_def)

lemma wp_lift [prog]: "wp (lift r) Q E s = (case r of Inl e \<Rightarrow> E e s | Inr a \<Rightarrow> Q a s)"
  by (simp add: wp_def lift_def)

lemma wp_if [prog]: "wp (if b then m else k) Q E s = (if b then wp m Q E s else wp k Q E s)"
  by simp

lemma wp_option [prog]:
  "wp (case x of None \<Rightarrow> m | Some a \<Rightarrow> k a) Q E s = (case x of None \<Rightarrow> wp m Q E s | Some a \<Rightarrow> wp (k a) Q E s)"
  by (simp split: option.split)

lemma wp_prod [prog]:
  "wp (case x of (a, b) \<Rightarrow> k a b) Q E s = (case x of (a, b) \<Rightarrow> wp (k a b) Q E s)"
  by (simp split: prod.split)

lemma wp_mono:
  "wp m Q E s \<Longrightarrow> (\<And>a t. Q a t \<Longrightarrow> Q' a t) \<Longrightarrow> (\<And>e t. E e t \<Longrightarrow> E' e t) \<Longrightarrow> wp m Q' E' s"
  by (auto simp: wp_def split: prod.splits sum.splits)

lemma wp_run:
  "wp m Q E s \<Longrightarrow> m s = (r, t) \<Longrightarrow> (case r of Inl e \<Rightarrow> E e t | Inr a \<Rightarrow> Q a t)"
  by (auto simp: wp_def split: sum.splits)

lemma wp_value: "wp m Q E s \<Longrightarrow> m s = (Inr a, t) \<Longrightarrow> Q a t"
  by (simp add: wp_def)

lemma wp_returns: "wp m Q (\<lambda>_ _. False) s \<Longrightarrow> \<exists>a t. m s = (Inr a, t) \<and> Q a t"
  by (auto simp: wp_def split: prod.splits sum.splits)

lemma wp_throws: "wp m (\<lambda>_ _. False) E s \<Longrightarrow> \<exists>e t. m s = (Inl e, t) \<and> E e t"
  by (auto simp: wp_def split: prod.splits sum.splits)

lemma wp_snd: "wp m (\<lambda>_. P) (\<lambda>_. P) s \<longleftrightarrow> P (snd (m s))"
  by (auto simp: wp_def split: prod.splits sum.splits)

lemma wp_post: "wp m (\<lambda>_. P) (\<lambda>_. P) s \<Longrightarrow> m s = (r, t) \<Longrightarrow> P t"
  by (simp add: wp_snd)

lemma wp_exn: "wp m Q E s \<Longrightarrow> m s = (Inl e, t) \<Longrightarrow> E e t"
  by (simp add: wp_def)

lemma run_eqI: "wp m (\<lambda>a t. r = Inr a \<and> u = t) (\<lambda>e t. r = Inl e \<and> u = t) s \<Longrightarrow> m s = (r, u)"
  by (cases "m s"; cases "fst (m s)") (auto simp: wp_def)

text \<open>Running a closed handler on a closed state: the definitions, unfolded.\<close>

lemmas run_defs = ret_def throw_def bindE_def andThen_def tryCatch_def throwIf_def getState_def
  modify_def lift_def

subsection \<open>Relations every step of a handler obeys\<close>

definition obeys :: "('s \<Rightarrow> 's \<Rightarrow> bool) \<Rightarrow> ('s, 'a) prog \<Rightarrow> bool" where
  "obeys R m \<longleftrightarrow> (\<forall>s. R s (snd (m s)))"

lemma obeysI: "(\<And>s. wp m (\<lambda>_ t. R s t) (\<lambda>_ t. R s t) s) \<Longrightarrow> obeys R m"
  by (simp add: obeys_def wp_snd)

lemma obeysD: "obeys R m \<Longrightarrow> R s (snd (m s))"
  by (simp add: obeys_def)

locale effect =
  fixes R :: "'s \<Rightarrow> 's \<Rightarrow> bool"
  assumes refl: "R s s"
    and trans: "R s t \<Longrightarrow> R t u \<Longrightarrow> R s u"
begin

lemma ob_ret: "obeys R (ret a)"
  by (simp add: obeys_def ret_def refl)

lemma ob_throw: "obeys R (throw e)"
  by (simp add: obeys_def throw_def refl)

lemma ob_throwIf: "obeys R (throwIf b e)"
  by (simp add: throwIf_def ob_ret ob_throw)

lemma ob_getState: "obeys R (getState f)"
  by (simp add: obeys_def getState_def refl)

lemma ob_lift: "obeys R (lift r)"
  by (simp add: obeys_def lift_def refl)

lemma ob_bindE:
  assumes "obeys R m" "\<And>a. obeys R (f a)"
  shows "obeys R (bindE m f)"
  unfolding obeys_def
proof
  fix s
  show "R s (snd (bindE m f s))"
    using obeysD[OF assms(1), of s] obeysD[OF assms(2)] trans
    by (auto simp: bindE_def split: prod.splits sum.splits)
qed

lemma ob_andThen: "obeys R m \<Longrightarrow> obeys R k \<Longrightarrow> obeys R (andThen m k)"
  by (simp add: andThen_def ob_bindE)

lemma ob_tryCatch:
  assumes "obeys R m" "\<And>e. obeys R (h e)"
  shows "obeys R (tryCatch m h)"
  unfolding obeys_def
proof
  fix s
  show "R s (snd (tryCatch m h s))"
    using obeysD[OF assms(1), of s] obeysD[OF assms(2)] trans
    by (auto simp: tryCatch_def split: prod.splits sum.splits)
qed

lemma ob_if: "(b \<Longrightarrow> obeys R m) \<Longrightarrow> (\<not> b \<Longrightarrow> obeys R k) \<Longrightarrow> obeys R (if b then m else k)"
  by simp

lemma ob_option:
  "(x = None \<Longrightarrow> obeys R m) \<Longrightarrow> (\<And>a. x = Some a \<Longrightarrow> obeys R (k a)) \<Longrightarrow>
   obeys R (case x of None \<Rightarrow> m | Some a \<Rightarrow> k a)"
  by (cases x) auto

lemma ob_prod: "(\<And>a b. obeys R (k a b)) \<Longrightarrow> obeys R (case x of (a, b) \<Rightarrow> k a b)"
  by (cases x) auto

lemma ob_forEach: "(\<And>x. obeys R (f x)) \<Longrightarrow> obeys R (forEach xs f)"
  by (induction xs) (auto intro: ob_ret ob_andThen)

lemmas ob_rules = ob_ret ob_throw ob_throwIf ob_getState ob_lift ob_bindE ob_andThen ob_tryCatch
  ob_if ob_option ob_prod ob_forEach

end

end
