(* ===== verification/TrustlessTypes.thy ===== *)
theory TrustlessTypes
  imports Prog
begin

text \<open>
  The payloads and responses of the Trustless Work REST API as
  \<open>src/modules/escrow/trustless-work.types.ts\<close> declares them, one record per type, its optional
  fields \<open>option\<close>s, and the requests the service can send.  Amounts travel as decimal text; a
  number the source makes of one with \<open>Number(x)\<close> is \<open>Number x\<close>.
\<close>

datatype js_number = Number string

subsection \<open>Roles, trustlines and milestones\<close>

record MultiReleaseRoles =
  approver :: string
  serviceProvider :: string
  platformAddress :: string
  releaseSigner :: string
  disputeResolver :: string

record Trustline =
  tl_address :: string
  tl_symbol :: string

record MultiReleaseMilestonePayload =
  ms_description :: string
  ms_amount :: js_number
  ms_receiver :: string

record MultiReleaseMilestone = MultiReleaseMilestonePayload +
  ms_status :: "string option"

subsection \<open>Requests\<close>

record InitializeMultiReleaseEscrowPayload =
  ini_signer :: string
  ini_engagementId :: string
  ini_title :: string
  ini_description :: string
  ini_roles :: MultiReleaseRoles
  ini_platformFee :: js_number
  ini_milestones :: "MultiReleaseMilestonePayload list"
  ini_trustline :: Trustline

record FundEscrowPayload =
  fe_contractId :: string
  fe_signer :: string
  fe_amount :: js_number

record ChangeMilestoneStatusPayload =
  cm_contractId :: "string option"
  cm_milestoneIndex :: string
  cm_newStatus :: string
  cm_newEvidence :: string
  cm_serviceProvider :: string

record ApproveMilestonePayload =
  am_contractId :: string
  am_milestoneIndex :: string
  am_approver :: string

record ReleaseMilestoneFundsPayload =
  rm_contractId :: string
  rm_releaseSigner :: string
  rm_milestoneIndex :: string

text \<open>One request per method of the client, by its endpoint.\<close>

datatype tw_call =
    DeployMultiRelease InitializeMultiReleaseEscrowPayload
  | FundEscrow FundEscrowPayload
  | ChangeMilestoneStatus ChangeMilestoneStatusPayload
  | ApproveMilestone ApproveMilestonePayload
  | ReleaseMilestoneFunds ReleaseMilestoneFundsPayload
  | SendTransaction string
  | GetEscrowByContractIds string bool
  | GetMultipleEscrowBalance string

subsection \<open>Responses\<close>

record SendTransactionResponse =
  sr_status :: string
  sr_message :: "string option"
  sr_contractId :: "string option"

record EscrowIndexerEntry =
  ie_contractId :: "string option"
  ie_milestones :: "MultiReleaseMilestone list"

record EscrowBalanceResponse =
  eb_address :: string
  eb_balance :: js_number

end
