(* ===== verification/Store.thy ===== *)
theory Store
  imports TrustlessTypes
begin

text \<open>
  The database of \<open>prisma/schema.prisma\<close>: one row record per model, the tables as lists of rows,
  and what the code relies on when it calls Prisma: a read sees the rows written before, a write
  is refused by a unique or foreign key, an update or delete of a missing record throws, a
  transaction that throws leaves no trace in the tables, and any call can fail with the
  connection.  \<open>faults\<close> is the script of connection failures (one entry per call, empty: none),
  \<open>clock\<close> the time in milliseconds, \<open>uuid_source\<close> the stream of generated identifiers.
\<close>

subsection \<open>Enumerations\<close>

datatype (plugins only: code size) kyc_status =
    KS_pending | KS_approved | KS_rejected | KS_not_started | KS_in_progress | KS_in_review
  | KS_expired | KS_kyc_expired | KS_abandoned | KS_resubmitted

datatype (plugins only: code size) offer_type = OT_buy | OT_sell

datatype (plugins only: code size) offer_status = FS_active | FS_paused | FS_closed

datatype (plugins only: code size) order_status =
  OS_created | OS_locked | OS_released | OS_cancelled | OS_expired | OS_disputed

datatype (plugins only: code size) escrow_status =
    ES_pending | ES_initialized | ES_funded | ES_fiat_sent | ES_released | ES_disputed
  | ES_resolved

datatype (plugins only: code size) payment_provider_type = PT_MOBILE | PT_PLATFORM | PT_BANK

datatype (plugins only: code size) app_role = Role_user | Role_admin | Role_support

subsection \<open>Rows\<close>

text \<open>A \<open>Decimal\<close> column is kept as the text written to it, a \<open>DateTime\<close> as milliseconds.\<close>

type_synonym amount = string

record user =
  u_userId :: string
  u_publicKey :: string
  u_alias :: "string option"
  u_username :: "string option"
  u_kycStatus :: kyc_status
  u_role :: app_role
  u_kycUpdatedAt :: "int option"
  u_totalVolume :: amount
  u_createdAt :: int
  u_currentNonce :: "string option"
  u_email :: "string option"
  u_profileImageUrl :: "string option"
  u_notificationsEnabled :: bool
  u_pendingAccountInfo :: bool
  u_preferredCurrency :: "string option"
  u_bio :: "string option"
  u_securityUpdates :: bool
  u_deletedAt :: "int option"

record offer =
  f_offerId :: string
  f_creatorId :: string
  f_type :: offer_type
  f_assetCode :: string
  f_price :: amount
  f_minAmount :: amount
  f_maxAmount :: amount
  f_status :: offer_status
  f_executed :: bool

record order =
  o_orderId :: string
  o_offerId :: string
  o_buyerId :: string
  o_sellerId :: string
  o_assetAmount :: amount
  o_fiatAmount :: amount
  o_orderStatus :: order_status
  o_expiresAt :: "int option"

record escrow =
  e_escrowId :: string
  e_orderId :: string
  e_txHashLock :: "string option"
  e_txHashRelease :: "string option"
  e_amount :: "amount option"
  e_buyerAddress :: "string option"
  e_contractId :: "string option"
  e_escrowStatus :: escrow_status
  e_sellerAddress :: "string option"
  e_evidenceUrl :: "string option"

record chat_message =
  c_messageId :: string
  c_orderId :: string
  c_senderId :: string
  c_content :: string
  c_timestamp :: int

record payment_method =
  m_paymentId :: string
  m_userId :: string
  m_providerId :: string
  m_type :: payment_provider_type
  m_accountIdentifier :: string
  m_beneficiaryName :: "string option"
  m_identificationNumber :: "string option"
  m_description :: "string option"
  m_isActive :: bool
  m_createdAt :: int
  m_updatedAt :: int

record payment_provider =
  pp_provider_id :: string
  pp_name :: string
  pp_type :: payment_provider_type
  pp_country_code :: "string option"
  pp_is_active :: bool
  pp_metadata :: "json option"

record audit_log =
  a_id :: string
  a_userId :: "string option"
  a_action :: string
  a_resourceType :: string
  a_resourceId :: "string option"
  a_result :: string
  a_ipAddress :: "string option"
  a_userAgent :: "string option"
  a_correlationId :: "string option"
  a_metadata :: "json option"
  a_createdAt :: int

record auth_challenge =
  ac_challengeId :: string
  ac_publicKey :: string
  ac_challenge :: string
  ac_expiresAt :: int
  ac_usedAt :: "int option"
  ac_createdAt :: int

record waitlist_entry =
  wl_id :: string
  wl_email :: string
  wl_createdAt :: int

text \<open>\<open>offer_methods\<close> is the join table of the relation \<open>OfferPaymentMethods\<close>.\<close>

record db =
  users :: "user list"
  offers :: "offer list"
  offer_methods :: "(string \<times> string) list"
  orders :: "order list"
  escrows :: "escrow list"
  chats :: "chat_message list"
  pmethods :: "payment_method list"
  providers :: "payment_provider list"
  audits :: "audit_log list"
  challenges :: "auth_challenge list"
  waitlist :: "waitlist_entry list"

record world =
  tables :: db
  faults :: "bool list"
  clock :: int
  uuid_source :: "nat \<Rightarrow> string"
  uuid_next :: nat
  tw_calls :: "tw_call list"

definition empty_db :: db where
  "empty_db = \<lparr> users = [], offers = [], offer_methods = [], orders = [], escrows = [], chats = [],
     pmethods = [], providers = [], audits = [], challenges = [], waitlist = [] \<rparr>"

end
