(* ===== verification/Tables.thy ===== *)
theory Tables
  imports Store
begin

text \<open>
  Prisma's model delegates over the tables of \<open>Store\<close>.  A \<open>table\<close> bundles a model's rows with
  its constraints; \<open>findUnique\<close>, \<open>findMany\<close>, \<open>createRow\<close>, \<open>updateUnique\<close>, \<open>updateMany\<close>,
  \<open>deleteUnique\<close>, \<open>deleteMany\<close> and \<open>transaction\<close> are the calls the source makes.  The locale
  \<open>prisma_model\<close> is the contract of one model (reads after writes, its key unique); every
  model of the schema is an interpretation of it.
\<close>

type_synonym ('z, 'a) act = "('z world_scheme, 'a) prog"

subsection \<open>Database calls\<close>

text \<open>One call: it fails with the connection when the script says so.\<close>

definition db_call :: "('z, 'a) act \<Rightarrow> ('z, 'a) act" where
  "db_call m = (\<lambda>s. case faults s of
       [] \<Rightarrow> m s
     | b # bs \<Rightarrow> if b then (Inl DbUnavailable, s\<lparr>faults := bs\<rparr>) else m (s\<lparr>faults := bs\<rparr>))"

text \<open>
  \<open>prisma.$transaction(async (tx) => ...)\<close>: the commit is a call of its own, and on an
  exception, of the body or of the commit, the tables are as before.
\<close>

definition transaction :: "('z, 'a) act \<Rightarrow> ('z, 'a) act" where
  "transaction m = (\<lambda>s.
     case bindE m (\<lambda>a. db_call (ret a)) s of
       (Inl e, t) \<Rightarrow> (Inl e, t\<lparr>tables := tables s\<rparr>)
     | (Inr a, t) \<Rightarrow> (Inr a, t))"

definition newUuid :: "('z, string) act" where
  "newUuid = (\<lambda>s. (Inr (uuid_source s (uuid_next s)), s\<lparr>uuid_next := Suc (uuid_next s)\<rparr>))"

subsection \<open>Models\<close>

text \<open>
  A model: its key, its rows, how to put them back, the constraint a row breaks when it is
  written beside the rows \<open>rs\<close>, and its deletion with the referential actions.
\<close>

record 'r table =
  t_key :: "'r \<Rightarrow> string"
  t_rows :: "db \<Rightarrow> 'r list"
  t_put :: "'r list \<Rightarrow> db \<Rightarrow> db"
  t_check :: "db \<Rightarrow> 'r list \<Rightarrow> 'r \<Rightarrow> exn option"
  t_drop :: "db \<Rightarrow> 'r \<Rightarrow> exn + db"

definition findUnique :: "'r table \<Rightarrow> ('r \<Rightarrow> bool) \<Rightarrow> ('z, 'r option) act" where
  "findUnique T p = db_call (getState (\<lambda>s. List.find p (t_rows T (tables s))))"

definition findMany :: "'r table \<Rightarrow> ('r \<Rightarrow> bool) \<Rightarrow> ('z, 'r list) act" where
  "findMany T p = db_call (getState (\<lambda>s. filter p (t_rows T (tables s))))"

definition putRows :: "'r table \<Rightarrow> 'r list \<Rightarrow> 'z world_scheme \<Rightarrow> 'z world_scheme" where
  "putRows T rs s = s\<lparr>tables := t_put T rs (tables s)\<rparr>"

definition createRow :: "'r table \<Rightarrow> 'r \<Rightarrow> ('z, 'r) act" where
  "createRow T r = db_call (\<lambda>s.
     case t_check T (tables s) (t_rows T (tables s)) r of
       Some e \<Rightarrow> (Inl e, s)
     | None \<Rightarrow> (Inr r, putRows T (t_rows T (tables s) @ [r]) s))"

definition updateUnique :: "'r table \<Rightarrow> ('r \<Rightarrow> bool) \<Rightarrow> ('r \<Rightarrow> 'r) \<Rightarrow> ('z, 'r) act" where
  "updateUnique T p f = db_call (\<lambda>s.
     case List.find p (t_rows T (tables s)) of
       None \<Rightarrow> (Inl RecordNotFound, s)
     | Some r \<Rightarrow>
         case t_check T (tables s) (filter (\<lambda>x. t_key T x \<noteq> t_key T r) (t_rows T (tables s))) (f r) of
           Some e \<Rightarrow> (Inl e, s)
         | None \<Rightarrow> (Inr (f r),
             putRows T (map (\<lambda>x. if t_key T x = t_key T r then f x else x) (t_rows T (tables s))) s))"

text \<open>\<open>upsert\<close>: one statement that updates the row of the key or creates it.\<close>

definition upsertUnique :: "'r table \<Rightarrow> ('r \<Rightarrow> bool) \<Rightarrow> 'r \<Rightarrow> ('r \<Rightarrow> 'r) \<Rightarrow> ('z, 'r) act" where
  "upsertUnique T p row f = db_call (\<lambda>s.
     case List.find p (t_rows T (tables s)) of
       None \<Rightarrow>
         (case t_check T (tables s) (t_rows T (tables s)) row of
            Some e \<Rightarrow> (Inl e, s)
          | None \<Rightarrow> (Inr row, putRows T (t_rows T (tables s) @ [row]) s))
     | Some r \<Rightarrow>
         (case t_check T (tables s) (filter (\<lambda>x. t_key T x \<noteq> t_key T r) (t_rows T (tables s))) (f r) of
            Some e \<Rightarrow> (Inl e, s)
          | None \<Rightarrow> (Inr (f r),
              putRows T (map (\<lambda>x. if t_key T x = t_key T r then f x else x) (t_rows T (tables s))) s)))"

text \<open>\<open>updateMany\<close> returns how many rows it matched; the source uses it on unconstrained columns.\<close>

definition updateMany :: "'r table \<Rightarrow> ('r \<Rightarrow> bool) \<Rightarrow> ('r \<Rightarrow> 'r) \<Rightarrow> ('z, nat) act" where
  "updateMany T p f = db_call (\<lambda>s.
     (Inr (length (filter p (t_rows T (tables s)))),
      putRows T (map (\<lambda>x. if p x then f x else x) (t_rows T (tables s))) s))"

definition deleteUnique :: "'r table \<Rightarrow> ('r \<Rightarrow> bool) \<Rightarrow> ('z, 'r) act" where
  "deleteUnique T p = db_call (\<lambda>s.
     case List.find p (t_rows T (tables s)) of
       None \<Rightarrow> (Inl RecordNotFound, s)
     | Some r \<Rightarrow>
         case t_drop T (tables s) r of
           Inl e \<Rightarrow> (Inl e, s)
         | Inr d \<Rightarrow> (Inr r, s\<lparr>tables := d\<rparr>))"

text \<open>\<open>deleteMany\<close>, for a model no other model refers to.\<close>

definition deleteMany :: "'r table \<Rightarrow> ('r \<Rightarrow> bool) \<Rightarrow> ('z, nat) act" where
  "deleteMany T p = db_call (\<lambda>s.
     (Inr (length (filter p (t_rows T (tables s)))),
      putRows T (filter (\<lambda>x. \<not> p x) (t_rows T (tables s))) s))"

subsection \<open>Constraints and referential actions\<close>

text \<open>The first constraint that is broken.\<close>

fun firstBroken :: "(bool \<times> exn) list \<Rightarrow> exn option" where
  "firstBroken [] = None"
| "firstBroken ((b, e) # rest) = (if b then Some e else firstBroken rest)"

text \<open>A nullable unique column: two rows may both be null.\<close>

definition clash :: "('r \<Rightarrow> 'k option) \<Rightarrow> 'r list \<Rightarrow> 'r \<Rightarrow> bool" where
  "clash k rs r \<longleftrightarrow> k r \<noteq> None \<and> k r \<in> set (map k rs)"

definition user_table :: "user table" where
  "user_table = \<lparr> t_key = u_userId, t_rows = users, t_put = (\<lambda>rs d. d\<lparr>users := rs\<rparr>),
     t_check = (\<lambda>d rs r. firstBroken
       [(u_userId r \<in> set (map u_userId rs), UniqueViolation),
        (u_publicKey r \<in> set (map u_publicKey rs), UniqueViolation),
        (clash u_alias rs r, UniqueViolation)]),
     t_drop = (\<lambda>d r.
       if \<exists>x \<in> set (orders d). o_buyerId x = u_userId r \<or> o_sellerId x = u_userId r \<or>
            o_offerId x \<in> set (map f_offerId (filter (\<lambda>f. f_creatorId f = u_userId r) (offers d)))
       then Inl ForeignKeyViolation
       else if \<exists>c \<in> set (chats d). c_senderId c = u_userId r then Inl ForeignKeyViolation
       else if \<exists>m \<in> set (pmethods d). m_userId m = u_userId r then Inl ForeignKeyViolation
       else Inr (d\<lparr>users := filter (\<lambda>x. u_userId x \<noteq> u_userId r) (users d),
                   offers := filter (\<lambda>f. f_creatorId f \<noteq> u_userId r) (offers d),
                   offer_methods := filter (\<lambda>j. fst j \<notin> set (map f_offerId
                     (filter (\<lambda>f. f_creatorId f = u_userId r) (offers d)))) (offer_methods d),
                   audits := map (\<lambda>a. if a_userId a = Some (u_userId r) then a\<lparr>a_userId := None\<rparr> else a)
                     (audits d)\<rparr>)) \<rparr>"

definition offer_table :: "offer table" where
  "offer_table = \<lparr> t_key = f_offerId, t_rows = offers, t_put = (\<lambda>rs d. d\<lparr>offers := rs\<rparr>),
     t_check = (\<lambda>d rs r. firstBroken
       [(f_offerId r \<in> set (map f_offerId rs), UniqueViolation),
        (f_creatorId r \<notin> set (map u_userId (users d)), ForeignKeyViolation)]),
     t_drop = (\<lambda>d r.
       if \<exists>x \<in> set (orders d). o_offerId x = f_offerId r then Inl ForeignKeyViolation
       else Inr (d\<lparr>offers := filter (\<lambda>x. f_offerId x \<noteq> f_offerId r) (offers d),
                   offer_methods := filter (\<lambda>j. fst j \<noteq> f_offerId r) (offer_methods d)\<rparr>)) \<rparr>"

definition order_table :: "order table" where
  "order_table = \<lparr> t_key = o_orderId, t_rows = orders, t_put = (\<lambda>rs d. d\<lparr>orders := rs\<rparr>),
     t_check = (\<lambda>d rs r. firstBroken
       [(o_orderId r \<in> set (map o_orderId rs), UniqueViolation),
        (o_offerId r \<notin> set (map f_offerId (offers d)), ForeignKeyViolation),
        (o_buyerId r \<notin> set (map u_userId (users d)), ForeignKeyViolation),
        (o_sellerId r \<notin> set (map u_userId (users d)), ForeignKeyViolation)]),
     t_drop = (\<lambda>d r. Inr (d\<lparr>orders := filter (\<lambda>x. o_orderId x \<noteq> o_orderId r) (orders d),
                            escrows := filter (\<lambda>x. e_orderId x \<noteq> o_orderId r) (escrows d),
                            chats := filter (\<lambda>x. c_orderId x \<noteq> o_orderId r) (chats d)\<rparr>)) \<rparr>"

definition escrow_table :: "escrow table" where
  "escrow_table = \<lparr> t_key = e_escrowId, t_rows = escrows, t_put = (\<lambda>rs d. d\<lparr>escrows := rs\<rparr>),
     t_check = (\<lambda>d rs r. firstBroken
       [(e_escrowId r \<in> set (map e_escrowId rs), UniqueViolation),
        (e_orderId r \<in> set (map e_orderId rs), UniqueViolation),
        (clash e_contractId rs r, UniqueViolation),
        (e_orderId r \<notin> set (map o_orderId (orders d)), ForeignKeyViolation)]),
     t_drop = (\<lambda>d r. Inr (d\<lparr>escrows := filter (\<lambda>x. e_escrowId x \<noteq> e_escrowId r) (escrows d)\<rparr>)) \<rparr>"

definition chat_table :: "chat_message table" where
  "chat_table = \<lparr> t_key = c_messageId, t_rows = chats, t_put = (\<lambda>rs d. d\<lparr>chats := rs\<rparr>),
     t_check = (\<lambda>d rs r. firstBroken
       [(c_messageId r \<in> set (map c_messageId rs), UniqueViolation),
        (c_orderId r \<notin> set (map o_orderId (orders d)), ForeignKeyViolation),
        (c_senderId r \<notin> set (map u_userId (users d)), ForeignKeyViolation)]),
     t_drop = (\<lambda>d r. Inr (d\<lparr>chats := filter (\<lambda>x. c_messageId x \<noteq> c_messageId r) (chats d)\<rparr>)) \<rparr>"

definition pmethod_table :: "payment_method table" where
  "pmethod_table = \<lparr> t_key = m_paymentId, t_rows = pmethods, t_put = (\<lambda>rs d. d\<lparr>pmethods := rs\<rparr>),
     t_check = (\<lambda>d rs r. firstBroken
       [(m_paymentId r \<in> set (map m_paymentId rs), UniqueViolation),
        (m_providerId r \<notin> set (map pp_provider_id (providers d)), ForeignKeyViolation),
        (m_userId r \<notin> set (map u_userId (users d)), ForeignKeyViolation)]),
     t_drop = (\<lambda>d r. Inr (d\<lparr>pmethods := filter (\<lambda>x. m_paymentId x \<noteq> m_paymentId r) (pmethods d),
                            offer_methods := filter (\<lambda>j. snd j \<noteq> m_paymentId r) (offer_methods d)\<rparr>)) \<rparr>"

definition provider_table :: "payment_provider table" where
  "provider_table = \<lparr> t_key = pp_provider_id, t_rows = providers,
     t_put = (\<lambda>rs d. d\<lparr>providers := rs\<rparr>),
     t_check = (\<lambda>d rs r. firstBroken
       [(pp_provider_id r \<in> set (map pp_provider_id rs), UniqueViolation),
        (clash (\<lambda>x. map_option (\<lambda>c. (pp_name x, c, pp_type x)) (pp_country_code x)) rs r,
         UniqueViolation)]),
     t_drop = (\<lambda>d r.
       if \<exists>m \<in> set (pmethods d). m_providerId m = pp_provider_id r then Inl ForeignKeyViolation
       else Inr (d\<lparr>providers := filter (\<lambda>x. pp_provider_id x \<noteq> pp_provider_id r) (providers d)\<rparr>)) \<rparr>"

definition audit_table :: "audit_log table" where
  "audit_table = \<lparr> t_key = a_id, t_rows = audits, t_put = (\<lambda>rs d. d\<lparr>audits := rs\<rparr>),
     t_check = (\<lambda>d rs r. firstBroken
       [(a_id r \<in> set (map a_id rs), UniqueViolation),
        (\<not> (case a_userId r of None \<Rightarrow> True | Some u \<Rightarrow> u \<in> set (map u_userId (users d))),
         ForeignKeyViolation)]),
     t_drop = (\<lambda>d r. Inr (d\<lparr>audits := filter (\<lambda>x. a_id x \<noteq> a_id r) (audits d)\<rparr>)) \<rparr>"

definition challenge_table :: "auth_challenge table" where
  "challenge_table = \<lparr> t_key = ac_challengeId, t_rows = challenges,
     t_put = (\<lambda>rs d. d\<lparr>challenges := rs\<rparr>),
     t_check = (\<lambda>d rs r. firstBroken
       [(ac_challengeId r \<in> set (map ac_challengeId rs), UniqueViolation),
        (ac_publicKey r \<in> set (map ac_publicKey rs), UniqueViolation)]),
     t_drop = (\<lambda>d r.
       Inr (d\<lparr>challenges := filter (\<lambda>x. ac_challengeId x \<noteq> ac_challengeId r) (challenges d)\<rparr>)) \<rparr>"

definition waitlist_table :: "waitlist_entry table" where
  "waitlist_table = \<lparr> t_key = wl_id, t_rows = waitlist, t_put = (\<lambda>rs d. d\<lparr>waitlist := rs\<rparr>),
     t_check = (\<lambda>d rs r. firstBroken
       [(wl_id r \<in> set (map wl_id rs), UniqueViolation),
        (wl_email r \<in> set (map wl_email rs), UniqueViolation)]),
     t_drop = (\<lambda>d r. Inr (d\<lparr>waitlist := filter (\<lambda>x. wl_id x \<noteq> wl_id r) (waitlist d)\<rparr>)) \<rparr>"

text \<open>Every model, unfolded: for running a handler on the tables themselves.\<close>

lemmas table_defs = user_table_def offer_table_def order_table_def escrow_table_def chat_table_def
  pmethod_table_def provider_table_def audit_table_def challenge_table_def waitlist_table_def

end
