(* ===== verification/Repository.thy ===== *)
theory Repository
  imports Tables
begin

text \<open>
  The contract of a Prisma model (locale \<open>prisma_model\<close>), with every model of the schema as an
  interpretation of it, the relations between the tables before and after a handler (locale
  \<open>table_relation\<close>), and \<open>BaseRepository\<close> of \<open>src/common/base.repository.ts\<close>, whose laws are
  proved once for all models.
\<close>

subsection \<open>Running a database call\<close>

lemma wp_db_call:
  "wp (db_call m) Q E s =
     (case faults s of [] \<Rightarrow> wp m Q E s
      | b # bs \<Rightarrow> if b then E DbUnavailable (s\<lparr>faults := bs\<rparr>) else wp m Q E (s\<lparr>faults := bs\<rparr>))"
  by (simp add: wp_def db_call_def split: list.split)

lemma wp_newUuid [prog]:
  "wp newUuid Q E s = Q (uuid_source s (uuid_next s)) (s\<lparr>uuid_next := Suc (uuid_next s)\<rparr>)"
  by (simp add: wp_def newUuid_def)

lemma wp_findUnique [prog]:
  "faults s = [] \<Longrightarrow> wp (findUnique T p) Q E s = Q (List.find p (t_rows T (tables s))) s"
  by (simp add: findUnique_def wp_db_call wp_getState)

lemma wp_findMany [prog]:
  "faults s = [] \<Longrightarrow> wp (findMany T p) Q E s = Q (filter p (t_rows T (tables s))) s"
  by (simp add: findMany_def wp_db_call wp_getState)

lemma wp_createRow [prog]:
  "faults s = [] \<Longrightarrow> wp (createRow T r) Q E s =
     (case t_check T (tables s) (t_rows T (tables s)) r of
        Some e \<Rightarrow> E e s | None \<Rightarrow> Q r (putRows T (t_rows T (tables s) @ [r]) s))"
  unfolding createRow_def by (subst wp_db_call) (simp add: wp_def split: option.split)

lemma wp_updateUnique [prog]:
  "faults s = [] \<Longrightarrow> wp (updateUnique T p f) Q E s =
     (case List.find p (t_rows T (tables s)) of
        None \<Rightarrow> E RecordNotFound s
      | Some r \<Rightarrow>
          (case t_check T (tables s) (filter (\<lambda>x. t_key T x \<noteq> t_key T r) (t_rows T (tables s))) (f r) of
             Some e \<Rightarrow> E e s
           | None \<Rightarrow> Q (f r)
               (putRows T (map (\<lambda>x. if t_key T x = t_key T r then f x else x) (t_rows T (tables s))) s)))"
  unfolding updateUnique_def by (subst wp_db_call) (simp add: wp_def split: option.split)

lemma wp_upsertUnique [prog]:
  "faults s = [] \<Longrightarrow> wp (upsertUnique T p row f) Q E s =
     (case List.find p (t_rows T (tables s)) of
        None \<Rightarrow>
          (case t_check T (tables s) (t_rows T (tables s)) row of
             Some e \<Rightarrow> E e s | None \<Rightarrow> Q row (putRows T (t_rows T (tables s) @ [row]) s))
      | Some r \<Rightarrow>
          (case t_check T (tables s) (filter (\<lambda>x. t_key T x \<noteq> t_key T r) (t_rows T (tables s))) (f r) of
             Some e \<Rightarrow> E e s
           | None \<Rightarrow> Q (f r)
               (putRows T (map (\<lambda>x. if t_key T x = t_key T r then f x else x) (t_rows T (tables s))) s)))"
  unfolding upsertUnique_def by (subst wp_db_call) (simp add: wp_def split: option.split)

lemma wp_updateMany [prog]:
  "faults s = [] \<Longrightarrow> wp (updateMany T p f) Q E s =
     Q (length (filter p (t_rows T (tables s))))
       (putRows T (map (\<lambda>x. if p x then f x else x) (t_rows T (tables s))) s)"
  unfolding updateMany_def by (subst wp_db_call) (simp add: wp_def)

lemma wp_deleteUnique [prog]:
  "faults s = [] \<Longrightarrow> wp (deleteUnique T p) Q E s =
     (case List.find p (t_rows T (tables s)) of
        None \<Rightarrow> E RecordNotFound s
      | Some r \<Rightarrow> (case t_drop T (tables s) r of Inl e \<Rightarrow> E e s | Inr d \<Rightarrow> Q r (s\<lparr>tables := d\<rparr>)))"
  unfolding deleteUnique_def by (subst wp_db_call) (simp add: wp_def split: option.split sum.split)

lemma wp_deleteMany [prog]:
  "faults s = [] \<Longrightarrow> wp (deleteMany T p) Q E s =
     Q (length (filter p (t_rows T (tables s))))
       (putRows T (filter (\<lambda>x. \<not> p x) (t_rows T (tables s))) s)"
  unfolding deleteMany_def by (subst wp_db_call) (simp add: wp_def)

text \<open>
  The same calls with any script of failures: \<open>db_any s E k\<close> is the call that fails with \<open>E\<close> or
  continues with \<open>k\<close>, its entry of the script gone.
\<close>

definition db_any :: "'z world_scheme \<Rightarrow> (exn \<Rightarrow> 'z world_scheme \<Rightarrow> bool) \<Rightarrow>
    ('z world_scheme \<Rightarrow> bool) \<Rightarrow> bool" where
  "db_any s E k = (case faults s of [] \<Rightarrow> k s
     | b # bs \<Rightarrow> if b then E DbUnavailable (s\<lparr>faults := bs\<rparr>) else k (s\<lparr>faults := bs\<rparr>))"

lemma db_anyI:
  assumes "\<And>bs. E DbUnavailable (s\<lparr>faults := bs\<rparr>)" "\<And>bs. k (s\<lparr>faults := bs\<rparr>)"
  shows "db_any s E k"
proof -
  have "k s" using assms(2)[of "faults s"] by (cases s) simp
  then show ?thesis using assms by (auto simp: db_any_def split: list.split)
qed

lemma wp_db_call_any: "wp (db_call m) Q E s = db_any s E (\<lambda>s. wp m Q E s)"
  by (simp add: wp_db_call db_any_def)

lemma wp_findUnique_any:
  "wp (findUnique T p) Q E s = db_any s E (\<lambda>s. Q (List.find p (t_rows T (tables s))) s)"
  by (simp add: findUnique_def wp_db_call_any wp_getState)

lemma wp_findMany_any:
  "wp (findMany T p) Q E s = db_any s E (\<lambda>s. Q (filter p (t_rows T (tables s))) s)"
  by (simp add: findMany_def wp_db_call_any wp_getState)

lemma wp_createRow_any:
  "wp (createRow T r) Q E s = db_any s E (\<lambda>s.
     case t_check T (tables s) (t_rows T (tables s)) r of
       Some e \<Rightarrow> E e s | None \<Rightarrow> Q r (putRows T (t_rows T (tables s) @ [r]) s))"
  unfolding createRow_def wp_db_call_any db_any_def
  by (auto simp: wp_def split: option.split list.split)

lemma wp_updateUnique_any:
  "wp (updateUnique T p f) Q E s = db_any s E (\<lambda>s.
     case List.find p (t_rows T (tables s)) of
        None \<Rightarrow> E RecordNotFound s
      | Some r \<Rightarrow>
          (case t_check T (tables s) (filter (\<lambda>x. t_key T x \<noteq> t_key T r) (t_rows T (tables s))) (f r) of
             Some e \<Rightarrow> E e s
           | None \<Rightarrow> Q (f r)
               (putRows T (map (\<lambda>x. if t_key T x = t_key T r then f x else x) (t_rows T (tables s))) s)))"
  unfolding updateUnique_def wp_db_call_any db_any_def
  by (auto simp: wp_def split: option.split list.split)

lemma wp_updateMany_any:
  "wp (updateMany T p f) Q E s = db_any s E (\<lambda>s.
     Q (length (filter p (t_rows T (tables s))))
       (putRows T (map (\<lambda>x. if p x then f x else x) (t_rows T (tables s))) s))"
  unfolding updateMany_def wp_db_call_any db_any_def
  by (auto simp: wp_def split: list.split)

lemma wp_deleteUnique_any:
  "wp (deleteUnique T p) Q E s = db_any s E (\<lambda>s.
     case List.find p (t_rows T (tables s)) of
        None \<Rightarrow> E RecordNotFound s
      | Some r \<Rightarrow> (case t_drop T (tables s) r of Inl e \<Rightarrow> E e s | Inr d \<Rightarrow> Q r (s\<lparr>tables := d\<rparr>)))"
  unfolding deleteUnique_def wp_db_call_any db_any_def
  by (auto simp: wp_def split: option.split sum.split list.split)

lemma wp_upsertUnique_any:
  "wp (upsertUnique T p row f) Q E s = db_any s E (\<lambda>s.
     case List.find p (t_rows T (tables s)) of
        None \<Rightarrow>
          (case t_check T (tables s) (t_rows T (tables s)) row of
             Some e \<Rightarrow> E e s | None \<Rightarrow> Q row (putRows T (t_rows T (tables s) @ [row]) s))
      | Some r \<Rightarrow>
          (case t_check T (tables s) (filter (\<lambda>x. t_key T x \<noteq> t_key T r) (t_rows T (tables s))) (f r) of
             Some e \<Rightarrow> E e s
           | None \<Rightarrow> Q (f r)
               (putRows T (map (\<lambda>x. if t_key T x = t_key T r then f x else x) (t_rows T (tables s))) s)))"
  unfolding upsertUnique_def wp_db_call_any db_any_def
  by (auto simp: wp_def split: option.split list.split)

lemma wp_deleteMany_any:
  "wp (deleteMany T p) Q E s = db_any s E (\<lambda>s.
     Q (length (filter p (t_rows T (tables s))))
       (putRows T (filter (\<lambda>x. \<not> p x) (t_rows T (tables s))) s))"
  unfolding deleteMany_def wp_db_call_any db_any_def
  by (auto simp: wp_def split: list.split)

lemmas wp_any = wp_findUnique_any wp_findMany_any wp_createRow_any wp_updateUnique_any
  wp_updateMany_any wp_deleteUnique_any wp_upsertUnique_any wp_deleteMany_any

lemma wp_transaction:
  "wp (transaction m) Q E s =
     wp m (\<lambda>a t. wp (db_call (ret a)) Q (\<lambda>e u. E e (u\<lparr>tables := tables s\<rparr>)) t)
          (\<lambda>e t. E e (t\<lparr>tables := tables s\<rparr>)) s"
  unfolding transaction_def
  by (auto simp: wp_def bindE_def split: prod.splits sum.splits)

lemma putRows_simps [simp]:
  "faults (putRows T rs s) = faults s" "clock (putRows T rs s) = clock s"
  "uuid_source (putRows T rs s) = uuid_source s" "uuid_next (putRows T rs s) = uuid_next s"
  "tw_calls (putRows T rs s) = tw_calls s" "tables (putRows T rs s) = t_put T rs (tables s)"
  by (simp_all add: putRows_def)

lemma firstBroken_None [simp]: "firstBroken cs = None \<longleftrightarrow> (\<forall>c\<in>set cs. \<not> fst c)"
  by (induction cs rule: firstBroken.induct) auto

subsection \<open>The contract of a model\<close>

locale prisma_model =
  fixes T :: "'r table"
  assumes put_rows: "t_rows T (t_put T rs d) = rs"
    and rows_put: "t_put T (t_rows T d) d = d"
    and put_put: "t_put T rs (t_put T rs' d) = t_put T rs d"
    and check_key: "t_check T d rs r = None \<Longrightarrow> t_key T r \<notin> t_key T ` set rs"
    and drop_rows: "t_drop T d r = Inr d' \<Longrightarrow>
      t_rows T d' = filter (\<lambda>x. t_key T x \<noteq> t_key T r) (t_rows T d)"
begin

definition keyed :: "db \<Rightarrow> bool" where
  "keyed d \<longleftrightarrow> distinct (map (t_key T) (t_rows T d))"

definition at :: "db \<Rightarrow> string \<Rightarrow> 'r option" where
  "at d i = List.find (\<lambda>r. t_key T r = i) (t_rows T d)"

lemma at_put_append:
  "at (t_put T (t_rows T d @ [r]) d) i = (case at d i of None \<Rightarrow> if t_key T r = i then Some r else None | x \<Rightarrow> x)"
  by (simp add: at_def put_rows find_append split: option.split)

lemma at_create:
  assumes "t_check T d (t_rows T d) r = None"
  shows "at (t_put T (t_rows T d @ [r]) d) i = (if i = t_key T r then Some r else at d i)"
proof -
  have "at d (t_key T r) = None"
    using check_key[OF assms] by (auto simp: at_def find_None_iff_ball image_iff)
  then show ?thesis by (auto simp: at_put_append split: option.split)
qed

lemma at_update:
  assumes "\<And>x. t_key T (f x) = t_key T x"
  shows "at (t_put T (map (\<lambda>x. if t_key T x = j then f x else x) (t_rows T d)) d) i
    = (if i = j then map_option f (at d i) else at d i)"
  using find_map_if[of "t_key T" f i j, OF assms] by (auto simp: at_def put_rows)

lemma at_drop: "t_drop T d r = Inr d' \<Longrightarrow> at d' i = (if i = t_key T r then None else at d i)"
  by (simp add: at_def drop_rows find_filter_ne)

lemma keyed_create: "keyed d \<Longrightarrow> t_check T d (t_rows T d) r = None \<Longrightarrow> keyed (t_put T (t_rows T d @ [r]) d)"
  using check_key by (auto simp: keyed_def put_rows)

lemma keyed_update:
  assumes "keyed d" "r \<in> set (t_rows T d)"
    "t_check T d (filter (\<lambda>x. t_key T x \<noteq> t_key T r) (t_rows T d)) (f r) = None"
  shows "keyed (t_put T (map (\<lambda>x. if t_key T x = t_key T r then f x else x) (t_rows T d)) d)"
proof -
  have d: "distinct (map (t_key T) (t_rows T d))" using assms(1) by (simp add: keyed_def)
  have fresh: "t_key T (f r) \<notin> t_key T ` {x \<in> set (t_rows T d). t_key T x \<noteq> t_key T r}"
    using check_key[OF assms(3)] by auto
  have "distinct (map (t_key T) (map (\<lambda>x. if t_key T x = t_key T r then f x else x) xs))"
    if "distinct (map (t_key T) xs)" "set xs \<subseteq> set (t_rows T d)" for xs
    using that
  proof (induction xs)
    case (Cons x xs)
    have "y = r" if "y \<in> set (t_rows T d)" "t_key T y = t_key T r" for y
      using that d assms(2) by (metis inj_on_eq_iff distinct_map)
    with Cons fresh show ?case by (auto simp: image_iff) (metis Cons.prems(2) list.set_intros(2) subsetD)+
  qed simp
  then show ?thesis using d by (simp add: keyed_def put_rows)
qed

lemma keyed_drop: "keyed d \<Longrightarrow> t_drop T d r = Inr d' \<Longrightarrow> keyed d'"
  by (simp add: keyed_def drop_rows distinct_map_filter)

lemma keyed_updateMany:
  "keyed d \<Longrightarrow> (\<And>x. t_key T (f x) = t_key T x) \<Longrightarrow>
   keyed (t_put T (map (\<lambda>x. if p x then f x else x) (t_rows T d)) d)"
  by (simp add: keyed_def put_rows map_key_update del: map_map)

lemma keyed_filter: "keyed d \<Longrightarrow> keyed (t_put T (filter p (t_rows T d)) d)"
  by (simp add: keyed_def put_rows distinct_map_filter)

end

text \<open>Every model of the schema satisfies the contract.\<close>

interpretation user_model: prisma_model user_table
  by unfold_locales (auto simp: user_table_def split: if_splits)

interpretation offer_model: prisma_model offer_table
  by unfold_locales (auto simp: offer_table_def split: if_splits)

interpretation order_model: prisma_model order_table
  by unfold_locales (auto simp: order_table_def split: if_splits)

interpretation escrow_model: prisma_model escrow_table
  by unfold_locales (auto simp: escrow_table_def split: if_splits)

interpretation chat_model: prisma_model chat_table
  by unfold_locales (auto simp: chat_table_def split: if_splits)

interpretation pmethod_model: prisma_model pmethod_table
  by unfold_locales (auto simp: pmethod_table_def split: if_splits)

interpretation provider_model: prisma_model provider_table
  by unfold_locales (auto simp: provider_table_def split: if_splits)

interpretation audit_model: prisma_model audit_table
  by unfold_locales (auto simp: audit_table_def split: if_splits)

interpretation challenge_model: prisma_model challenge_table
  by unfold_locales (auto simp: challenge_table_def split: if_splits)

interpretation waitlist_model: prisma_model waitlist_table
  by unfold_locales (auto simp: waitlist_table_def split: if_splits)

text \<open>Projections of the models' descriptors.\<close>

lemma table_rows [simp]:
  "t_rows user_table = users" "t_rows offer_table = offers" "t_rows order_table = orders"
  "t_rows escrow_table = escrows" "t_rows chat_table = chats" "t_rows pmethod_table = pmethods"
  "t_rows provider_table = providers" "t_rows audit_table = audits"
  "t_rows challenge_table = challenges" "t_rows waitlist_table = waitlist"
  by (simp_all add: table_defs)

lemma table_key [simp]:
  "t_key user_table = u_userId" "t_key offer_table = f_offerId" "t_key order_table = o_orderId"
  "t_key escrow_table = e_escrowId" "t_key chat_table = c_messageId"
  "t_key pmethod_table = m_paymentId" "t_key provider_table = pp_provider_id"
  "t_key audit_table = a_id" "t_key challenge_table = ac_challengeId" "t_key waitlist_table = wl_id"
  by (simp_all add: table_defs)

lemma table_put [simp]:
  "t_put user_table us d = d\<lparr>users := us\<rparr>" "t_put offer_table fs d = d\<lparr>offers := fs\<rparr>"
  "t_put order_table os d = d\<lparr>orders := os\<rparr>" "t_put escrow_table es d = d\<lparr>escrows := es\<rparr>"
  "t_put chat_table cs d = d\<lparr>chats := cs\<rparr>" "t_put pmethod_table ms d = d\<lparr>pmethods := ms\<rparr>"
  "t_put provider_table ps d = d\<lparr>providers := ps\<rparr>" "t_put audit_table as d = d\<lparr>audits := as\<rparr>"
  "t_put challenge_table ch d = d\<lparr>challenges := ch\<rparr>"
  "t_put waitlist_table ws d = d\<lparr>waitlist := ws\<rparr>"
  by (simp_all add: table_defs)

subsection \<open>Relations between the tables before and after\<close>

text \<open>
  A handler obeys a relation \<open>P\<close> on the tables when every database write of it does, whatever
  calls fail and wherever it stops; a transaction obeys it as a whole.
\<close>

locale table_relation =
  fixes P :: "db \<Rightarrow> db \<Rightarrow> bool"
  assumes same: "P d d"
    and comp: "P d d' \<Longrightarrow> P d' d'' \<Longrightarrow> P d d''"

definition on_tables :: "(db \<Rightarrow> db \<Rightarrow> bool) \<Rightarrow> 'z world_scheme \<Rightarrow> 'z world_scheme \<Rightarrow> bool" where
  "on_tables P s t \<longleftrightarrow> P (tables s) (tables t)"

sublocale table_relation \<subseteq> eff: effect "on_tables P"
  by unfold_locales (auto simp: on_tables_def intro: same comp)

context table_relation
begin

lemma ob_db_call:
  assumes "obeys (on_tables P) m"
  shows "obeys (on_tables P) (db_call m)"
proof (rule obeysI)
  fix s :: "'a world_scheme"
  have "on_tables P s (snd (m s'))" if "tables s' = tables s" for s' :: "'a world_scheme"
    using obeysD[OF assms, of s'] that by (simp add: on_tables_def)
  then show "wp (db_call m) (\<lambda>_. on_tables P s) (\<lambda>_. on_tables P s) s"
    by (auto simp: wp_snd db_call_def on_tables_def same split: list.split)
qed

lemma ob_findUnique: "obeys (on_tables P) (findUnique T p)"
  by (simp add: findUnique_def ob_db_call eff.ob_getState)

lemma ob_findMany: "obeys (on_tables P) (findMany T p)"
  by (simp add: findMany_def ob_db_call eff.ob_getState)

lemma ob_newUuid: "obeys (on_tables P) newUuid"
  by (simp add: obeys_def newUuid_def on_tables_def same)

lemma ob_world:
  "(\<And>s. tables (f s) = tables s) \<Longrightarrow> obeys (on_tables P) (modify f)"
  by (simp add: obeys_def modify_def on_tables_def same)

lemma ob_createRow:
  assumes "\<And>d. t_check T d (t_rows T d) r = None \<Longrightarrow> P d (t_put T (t_rows T d @ [r]) d)"
  shows "obeys (on_tables P) (createRow T r)"
  unfolding createRow_def
  by (rule ob_db_call) (auto simp: obeys_def on_tables_def same assms split: option.split)

lemma ob_updateUnique:
  assumes "\<And>d r. List.find p (t_rows T d) = Some r \<Longrightarrow>
      t_check T d (filter (\<lambda>x. t_key T x \<noteq> t_key T r) (t_rows T d)) (f r) = None \<Longrightarrow>
      P d (t_put T (map (\<lambda>x. if t_key T x = t_key T r then f x else x) (t_rows T d)) d)"
  shows "obeys (on_tables P) (updateUnique T p f)"
  unfolding updateUnique_def
  by (rule ob_db_call) (auto simp: obeys_def on_tables_def same assms split: option.split)

lemma ob_updateMany:
  assumes "\<And>d. P d (t_put T (map (\<lambda>x. if p x then f x else x) (t_rows T d)) d)"
  shows "obeys (on_tables P) (updateMany T p f)"
  unfolding updateMany_def
  by (rule ob_db_call) (auto simp: obeys_def on_tables_def assms)

lemma ob_deleteUnique:
  assumes "\<And>d r d'. List.find p (t_rows T d) = Some r \<Longrightarrow> t_drop T d r = Inr d' \<Longrightarrow> P d d'"
  shows "obeys (on_tables P) (deleteUnique T p)"
  unfolding deleteUnique_def
  by (rule ob_db_call) (auto simp: obeys_def on_tables_def same assms split: option.split sum.split)

lemma ob_deleteMany:
  assumes "\<And>d. P d (t_put T (filter (\<lambda>x. \<not> p x) (t_rows T d)) d)"
  shows "obeys (on_tables P) (deleteMany T p)"
  unfolding deleteMany_def
  by (rule ob_db_call) (auto simp: obeys_def on_tables_def assms)

lemma ob_upsertUnique:
  assumes "\<And>d. t_check T d (t_rows T d) row = None \<Longrightarrow> P d (t_put T (t_rows T d @ [row]) d)"
    and "\<And>d r. List.find p (t_rows T d) = Some r \<Longrightarrow>
      t_check T d (filter (\<lambda>x. t_key T x \<noteq> t_key T r) (t_rows T d)) (f r) = None \<Longrightarrow>
      P d (t_put T (map (\<lambda>x. if t_key T x = t_key T r then f x else x) (t_rows T d)) d)"
  shows "obeys (on_tables P) (upsertUnique T p row f)"
  unfolding upsertUnique_def
  by (rule ob_db_call) (auto simp: obeys_def on_tables_def same assms split: option.split)

lemma ob_transaction:
  assumes "obeys (on_tables P) m"
  shows "obeys (on_tables P) (transaction m)"
proof -
  have "obeys (on_tables P) (bindE m (\<lambda>a. db_call (ret a)))"
    by (intro eff.ob_bindE assms ob_db_call eff.ob_ret)
  then show ?thesis
    by (auto simp: obeys_def transaction_def on_tables_def same split: prod.splits sum.splits)
      (metis snd_conv)
qed

lemmas ob_reads = ob_findUnique ob_findMany ob_newUuid eff.ob_rules ob_db_call

end

text \<open>A transaction that ends in an exception leaves the tables as they were.\<close>

lemma transaction_aborts: "transaction m s = (Inl e, t) \<Longrightarrow> tables t = tables s"
  by (auto simp: transaction_def split: prod.splits sum.splits)

lemma wp_transaction_nil:
  assumes "\<And>a t. Q' a t \<Longrightarrow> faults t = [] \<and> Q a t"
    and "wp m Q' (\<lambda>e t. E e (t\<lparr>tables := tables s\<rparr>)) s"
  shows "wp (transaction m) Q E s"
  unfolding wp_transaction
  by (rule wp_mono[OF assms(2)]) (use assms(1) in \<open>auto simp: wp_db_call wp_ret\<close>)

subsection \<open>\<open>BaseRepository\<close>\<close>

text \<open>
  A repository is given by its model, the \<open>idKey\<close> being the model's key.  The \<open>data\<close> of an update
  is the change it makes of a row, the \<open>where\<close> of a query a predicate, its \<open>orderBy\<close> a sorting.
\<close>

record 'r FindManyArgs =
  fm_skip :: "nat option"
  fm_take :: "nat option"
  fm_where :: "'r \<Rightarrow> bool"
  fm_orderBy :: "'r list \<Rightarrow> 'r list"
  fm_include :: bool
  fm_select :: bool

definition base_create :: "'r table \<Rightarrow> 'r \<Rightarrow> ('z, 'r) act" where
  "base_create T row = createRow T row"

definition base_findById :: "'r table \<Rightarrow> string \<Rightarrow> ('z, 'r option) act" where
  "base_findById T i = findUnique T (\<lambda>r. t_key T r = i)"

definition page :: "nat option \<Rightarrow> nat option \<Rightarrow> nat \<Rightarrow> 'r list \<Rightarrow> 'r list" where
  "page sk tk dflt rs = take (get_or tk dflt) (drop (get_or sk 0) rs)"

definition base_findMany :: "'r table \<Rightarrow> 'r FindManyArgs \<Rightarrow> ('z, 'r list) act" where
  "base_findMany T args =
     (if fm_include args \<and> fm_select args then throw PlainError
      else bindE (findMany T (fm_where args))
             (\<lambda>rs. ret (page (fm_skip args) (fm_take args) 20 (fm_orderBy args rs))))"

definition base_update :: "'r table \<Rightarrow> string \<Rightarrow> ('r \<Rightarrow> 'r) \<Rightarrow> ('z, 'r) act" where
  "base_update T i f = updateUnique T (\<lambda>r. t_key T r = i) f"

definition base_delete :: "'r table \<Rightarrow> string \<Rightarrow> ('z, 'r) act" where
  "base_delete T i = deleteUnique T (\<lambda>r. t_key T r = i)"

lemma length_page: "length (page sk tk n rs) \<le> get_or tk n"
  by (simp add: page_def)

context prisma_model
begin

lemma wp_findById: "faults s = [] \<Longrightarrow> wp (base_findById T i) Q E s = Q (at (tables s) i) s"
  by (simp add: base_findById_def wp_findUnique at_def)

lemma at_key: "at d i = Some r \<Longrightarrow> t_key T r = i \<and> r \<in> set (t_rows T d)"
  by (auto simp: at_def dest: find_SomeD)

lemma at_unique: "keyed d \<Longrightarrow> r \<in> set (t_rows T d) \<Longrightarrow> at d (t_key T r) = Some r"
  by (simp add: at_def keyed_def find_unique)

text \<open>What a later \<open>findById\<close> returns after a write.\<close>

lemma create_then_find:
  assumes "faults s = []"
  shows "wp (base_create T r)
    (\<lambda>x t. x = r \<and> (\<forall>i. at (tables t) i = (if i = t_key T r then Some r else at (tables s) i)))
    (\<lambda>e t. t = s) s"
  using assms by (auto simp: base_create_def wp_createRow at_create split: option.split)

lemma update_then_find:
  assumes "faults s = []" "\<And>x. t_key T (f x) = t_key T x"
  shows "wp (base_update T j f)
    (\<lambda>x t. \<exists>r. at (tables s) j = Some r \<and> x = f r \<and>
        (\<forall>i. at (tables t) i = (if i = j then Some (f r) else at (tables s) i)))
    (\<lambda>e t. t = s) s"
proof (cases "at (tables s) j")
  case None
  then show ?thesis using assms(1) by (simp add: base_update_def wp_updateUnique at_def)
next
  case (Some r)
  then have "t_key T r = j" by (simp add: at_key)
  with Some show ?thesis using assms at_update[OF assms(2), of j "tables s"]
    by (auto simp: base_update_def wp_updateUnique at_def split: option.split)
qed

lemma delete_then_find:
  assumes "faults s = []"
  shows "wp (base_delete T j)
    (\<lambda>x t. at (tables s) j = Some x \<and> (\<forall>i. at (tables t) i = (if i = j then None else at (tables s) i)))
    (\<lambda>e t. t = s) s"
proof (cases "at (tables s) j")
  case None
  then show ?thesis using assms by (simp add: base_delete_def wp_deleteUnique at_def)
next
  case (Some r)
  then have "t_key T r = j" by (simp add: at_key)
  with Some show ?thesis using assms at_drop[of "tables s" r]
    by (auto simp: base_delete_def wp_deleteUnique at_def split: sum.split)
qed

end

end
