(* ===== verification/AuditLog.thy ===== *)
theory AuditLog
  imports Repository
begin

text \<open>
  The audit log of \<open>src/modules/audit-log\<close>: the closed list of actions, the repository (create
  and reads only) and the service, whose \<open>create\<close> never throws and whose \<open>createOrThrow\<close> does.
\<close>

datatype (plugins only: code size) AuditAction =
    USER_LOGIN_SUCCESS | USER_LOGIN_FAILURE | AUTH_CHALLENGE_CREATED
  | USER_DATA_EXPORTED | USER_DATA_DELETED
  | PAYMENT_METHOD_CREATED | PAYMENT_METHOD_UPDATED | PAYMENT_METHOD_DELETED
  | OFFER_CREATED | OFFER_UPDATED | OFFER_CANCELLED
  | ORDER_CREATED | ORDER_CANCELLED | ORDER_EXPIRED
  | AA_ESCROW_CREATED | AA_ESCROW_FUNDED | AA_ESCROW_RELEASED | AA_ESCROW_REFUNDED
  | AA_ESCROW_CANCELLED | AA_ESCROW_DISPUTED
  | DISPUTE_OPENED | DISPUTE_RESOLVED
  | KYC_STATUS_UPDATED
  | ADMIN_ACTION_EXECUTED

primrec action_name :: "AuditAction \<Rightarrow> string" where
  "action_name USER_LOGIN_SUCCESS = ''USER_LOGIN_SUCCESS''"
| "action_name USER_LOGIN_FAILURE = ''USER_LOGIN_FAILURE''"
| "action_name AUTH_CHALLENGE_CREATED = ''AUTH_CHALLENGE_CREATED''"
| "action_name USER_DATA_EXPORTED = ''USER_DATA_EXPORTED''"
| "action_name USER_DATA_DELETED = ''USER_DATA_DELETED''"
| "action_name PAYMENT_METHOD_CREATED = ''PAYMENT_METHOD_CREATED''"
| "action_name PAYMENT_METHOD_UPDATED = ''PAYMENT_METHOD_UPDATED''"
| "action_name PAYMENT_METHOD_DELETED = ''PAYMENT_METHOD_DELETED''"
| "action_name OFFER_CREATED = ''OFFER_CREATED''"
| "action_name OFFER_UPDATED = ''OFFER_UPDATED''"
| "action_name OFFER_CANCELLED = ''OFFER_CANCELLED''"
| "action_name ORDER_CREATED = ''ORDER_CREATED''"
| "action_name ORDER_CANCELLED = ''ORDER_CANCELLED''"
| "action_name ORDER_EXPIRED = ''ORDER_EXPIRED''"
| "action_name AA_ESCROW_CREATED = ''ESCROW_CREATED''"
| "action_name AA_ESCROW_FUNDED = ''ESCROW_FUNDED''"
| "action_name AA_ESCROW_RELEASED = ''ESCROW_RELEASED''"
| "action_name AA_ESCROW_REFUNDED = ''ESCROW_REFUNDED''"
| "action_name AA_ESCROW_CANCELLED = ''ESCROW_CANCELLED''"
| "action_name AA_ESCROW_DISPUTED = ''ESCROW_DISPUTED''"
| "action_name DISPUTE_OPENED = ''DISPUTE_OPENED''"
| "action_name DISPUTE_RESOLVED = ''DISPUTE_RESOLVED''"
| "action_name KYC_STATUS_UPDATED = ''KYC_STATUS_UPDATED''"
| "action_name ADMIN_ACTION_EXECUTED = ''ADMIN_ACTION_EXECUTED''"

datatype (plugins only: code size) AuditResult = SUCCESS | FAILURE

primrec result_name :: "AuditResult \<Rightarrow> string" where
  "result_name SUCCESS = ''SUCCESS''"
| "result_name FAILURE = ''FAILURE''"

record CreateAuditLogInput =
  ai_userId :: "string option"
  ai_action :: AuditAction
  ai_resourceType :: string
  ai_resourceId :: "string option"
  ai_result :: AuditResult
  ai_ipAddress :: "string option"
  ai_userAgent :: "string option"
  ai_correlationId :: "string option"
  ai_metadata :: "json option"

text \<open>The input with only its required fields; the call sites update it with the others.\<close>

definition audit_input :: "AuditAction \<Rightarrow> string \<Rightarrow> AuditResult \<Rightarrow> CreateAuditLogInput" where
  "audit_input act rt res = \<lparr> ai_userId = None, ai_action = act, ai_resourceType = rt,
     ai_resourceId = None, ai_result = res, ai_ipAddress = None, ai_userAgent = None,
     ai_correlationId = None, ai_metadata = None \<rparr>"

subsection \<open>The repository\<close>

definition audit_row :: "CreateAuditLogInput \<Rightarrow> string \<Rightarrow> int \<Rightarrow> audit_log" where
  "audit_row inp i now = \<lparr> a_id = i, a_userId = ai_userId inp, a_action = action_name (ai_action inp),
     a_resourceType = ai_resourceType inp, a_resourceId = ai_resourceId inp,
     a_result = result_name (ai_result inp), a_ipAddress = ai_ipAddress inp,
     a_userAgent = ai_userAgent inp, a_correlationId = ai_correlationId inp,
     a_metadata = ai_metadata inp, a_createdAt = now \<rparr>"

definition audit_repo_create :: "CreateAuditLogInput \<Rightarrow> ('z, audit_log) act" where
  "audit_repo_create inp =
     bindE newUuid (\<lambda>i. bindE (getState clock) (\<lambda>now. createRow audit_table (audit_row inp i now)))"

text \<open>\<open>orderBy: { createdAt: 'desc' }\<close>.\<close>

definition newestFirst :: "audit_log list \<Rightarrow> audit_log list" where
  "newestFirst rs = sort_key (\<lambda>a. - a_createdAt a) rs"

definition audit_repo_findByUser :: "string \<Rightarrow> nat \<Rightarrow> nat \<Rightarrow> ('z, audit_log list) act" where
  "audit_repo_findByUser uid sk tk =
     bindE (findMany audit_table (\<lambda>a. a_userId a = Some uid))
       (\<lambda>rs. ret (take tk (drop sk (newestFirst rs))))"

definition audit_repo_findByResource ::
    "string \<Rightarrow> string \<Rightarrow> nat \<Rightarrow> nat \<Rightarrow> ('z, audit_log list) act" where
  "audit_repo_findByResource rt rid sk tk =
     bindE (findMany audit_table (\<lambda>a. a_resourceType a = rt \<and> a_resourceId a = Some rid))
       (\<lambda>rs. ret (take tk (drop sk (newestFirst rs))))"

subsection \<open>The service\<close>

definition audit_create :: "CreateAuditLogInput \<Rightarrow> ('z, unit) act" where
  "audit_create inp = tryCatch (andThen (audit_repo_create inp) (ret ())) (\<lambda>_. ret ())"

definition audit_createOrThrow :: "CreateAuditLogInput \<Rightarrow> ('z, unit) act" where
  "audit_createOrThrow inp = tryCatch (andThen (audit_repo_create inp) (ret ())) (\<lambda>e. throw e)"

subsection \<open>What an audit write changes\<close>

text \<open>The state after \<open>audit_create\<close>: the audit table and the identifier stream may move, the rest not.\<close>

definition audited :: "CreateAuditLogInput \<Rightarrow> 'z world_scheme \<Rightarrow> 'z world_scheme" where
  "audited inp s = snd (audit_create inp s)"

lemma audit_create_run: "audit_create inp s = (Inr (), audited inp s)"
proof -
  have "fst (audit_create inp s) = Inr ()"
    by (auto simp: audit_create_def tryCatch_def andThen_def bindE_def ret_def split: prod.splits sum.splits)
  then show ?thesis by (simp add: audited_def prod_eq_iff)
qed

lemma wp_audit_create [prog]: "wp (audit_create inp) Q E s = Q () (audited inp s)"
  by (simp add: wp_def audit_create_run)

lemma audited_cases:
  obtains n bs where "audited inp s = s\<lparr>uuid_next := n, faults := bs\<rparr>"
  | n bs row where "a_action row = action_name (ai_action inp)" "a_userId row = ai_userId inp"
      "a_resourceId row = ai_resourceId inp"
      "audited inp s = s\<lparr>uuid_next := n, faults := bs,
         tables := (tables s)\<lparr>audits := audits (tables s) @ [row]\<rparr>\<rparr>"
proof -
  let ?row = "audit_row inp (uuid_source s (uuid_next s)) (clock s)"
  let ?A = "\<lambda>t. \<exists>n bs. t = s\<lparr>uuid_next := n, faults := bs\<rparr>"
  let ?B = "\<lambda>t. \<exists>n bs. t = s\<lparr>uuid_next := n, faults := bs,
         tables := (tables s)\<lparr>audits := audits (tables s) @ [?row]\<rparr>\<rparr>"
  have "wp (audit_create inp) (\<lambda>_ t. ?A t \<or> ?B t) (\<lambda>_ t. ?A t \<or> ?B t) s"
    unfolding audit_create_def audit_repo_create_def
    by (cases s) (auto simp: wp_tryCatch wp_andThen wp_bindE wp_newUuid wp_getState wp_ret
          wp_createRow_any db_any_def putRows_def split: list.split option.split)
  then have "?A (audited inp s) \<or> ?B (audited inp s)"
    by (simp add: wp_snd audited_def)
  moreover have "a_action ?row = action_name (ai_action inp)" "a_userId ?row = ai_userId inp"
    "a_resourceId ?row = ai_resourceId inp"
    by (simp_all add: audit_row_def)
  ultimately show thesis using that by blast
qed

lemma audited_frame [simp]:
  "users (tables (audited inp s)) = users (tables s)"
  "offers (tables (audited inp s)) = offers (tables s)"
  "offer_methods (tables (audited inp s)) = offer_methods (tables s)"
  "orders (tables (audited inp s)) = orders (tables s)"
  "escrows (tables (audited inp s)) = escrows (tables s)"
  "chats (tables (audited inp s)) = chats (tables s)"
  "pmethods (tables (audited inp s)) = pmethods (tables s)"
  "providers (tables (audited inp s)) = providers (tables s)"
  "challenges (tables (audited inp s)) = challenges (tables s)"
  "waitlist (tables (audited inp s)) = waitlist (tables s)"
  "clock (audited inp s) = clock s" "tw_calls (audited inp s) = tw_calls s"
  "uuid_source (audited inp s) = uuid_source s"
  by (rule audited_cases[of inp s]; simp)+

lemma audited_audits:
  "audits (tables (audited inp s)) = audits (tables s) \<or>
   (\<exists>row. a_action row = action_name (ai_action inp) \<and>
      audits (tables (audited inp s)) = audits (tables s) @ [row])"
  by (rule audited_cases[of inp s]) auto

text \<open>With a working connection, a fresh identifier and a known user, the record is written.\<close>

definition audit_ready :: "'z world_scheme \<Rightarrow> string option \<Rightarrow> bool" where
  "audit_ready s u \<longleftrightarrow> faults s = [] \<and> uuid_source s (uuid_next s) \<notin> set (map a_id (audits (tables s)))
     \<and> (\<forall>x. u = Some x \<longrightarrow> x \<in> set (map u_userId (users (tables s))))"

lemma audited_ready:
  assumes "audit_ready s (ai_userId inp)"
  shows "audited inp s = s\<lparr>uuid_next := Suc (uuid_next s), tables := (tables s)\<lparr>audits :=
    audits (tables s) @ [audit_row inp (uuid_source s (uuid_next s)) (clock s)]\<rparr>\<rparr>"
proof -
  have ok: "t_check audit_table (tables s) (audits (tables s))
      (audit_row inp (uuid_source s (uuid_next s)) (clock s)) = None"
    using assms by (auto simp: audit_table_def audit_row_def audit_ready_def split: option.splits)
  have "wp (audit_create inp) (\<lambda>_ t. t = s\<lparr>uuid_next := Suc (uuid_next s), tables := (tables s)\<lparr>audits :=
    audits (tables s) @ [audit_row inp (uuid_source s (uuid_next s)) (clock s)]\<rparr>\<rparr>) (\<lambda>_ _. False) s"
    using assms ok unfolding audit_create_def audit_repo_create_def audit_ready_def
    by (simp add: wp_tryCatch wp_andThen wp_bindE wp_newUuid wp_getState wp_ret wp_createRow putRows_def)
  then show ?thesis by (simp add: wp_audit_create)
qed

lemma audited_faults [simp]: "faults s = [] \<Longrightarrow> faults (audited inp s) = []"
proof -
  assume a: "faults s = []"
  have "wp (audit_create inp) (\<lambda>_ t. faults t = []) (\<lambda>_ t. faults t = []) s"
    unfolding audit_create_def audit_repo_create_def
    using a by (simp add: wp_tryCatch wp_andThen wp_bindE wp_newUuid wp_getState wp_ret wp_createRow
        split: option.split)
  then show ?thesis by (simp add: wp_audit_create)
qed

text \<open>No operation of the audit service touches anything but the audit table, which it appends to.\<close>

definition audits_extend :: "db \<Rightarrow> db \<Rightarrow> bool" where
  "audits_extend d d' \<longleftrightarrow> (\<exists>rs. audits d' = audits d @ rs)"

interpretation audit_log_grows: table_relation audits_extend
  by unfold_locales (auto simp: audits_extend_def)

context table_relation
begin

lemma ob_audit_create:
  assumes "\<And>d row. P d (d\<lparr>audits := audits d @ [row]\<rparr>)"
  shows "obeys (on_tables P) (audit_create inp)"
proof -
  have "P (tables s) (tables (audited inp s))" for s :: "'a world_scheme"
    by (rule audited_cases[of inp s]) (auto intro: same assms)
  then show ?thesis by (simp add: obeys_def audit_create_run on_tables_def)
qed

end

text \<open>Databases that differ in the audit log only.\<close>

definition same_but_audits :: "db \<Rightarrow> db \<Rightarrow> bool" where
  "same_but_audits d d' \<longleftrightarrow> d'\<lparr>audits := audits d\<rparr> = d"

lemma same_but_audits_refl [simp]: "same_but_audits d d"
  by (simp add: same_but_audits_def)

lemma same_but_audits_audited [simp]:
  "same_but_audits d (tables (audited inp s)) \<longleftrightarrow> same_but_audits d (tables s)"
  by (rule audited_cases[of inp s]) (auto simp: same_but_audits_def)

lemma same_but_audits_eqs:
  assumes "same_but_audits d d'"
  shows "orders d' = orders d" "escrows d' = escrows d" "offers d' = offers d" "users d' = users d"
    "chats d' = chats d" "pmethods d' = pmethods d" "providers d' = providers d"
    "challenges d' = challenges d" "waitlist d' = waitlist d" "offer_methods d' = offer_methods d"
proof -
  have "d' = d\<lparr>audits := audits d'\<rparr>"
    using assms unfolding same_but_audits_def by (metis db.surjective db.update_convs(9))
  then show "orders d' = orders d" "escrows d' = escrows d" "offers d' = offers d" "users d' = users d"
    "chats d' = chats d" "pmethods d' = pmethods d" "providers d' = providers d"
    "challenges d' = challenges d" "waitlist d' = waitlist d" "offer_methods d' = offer_methods d"
    by (metis db.select_convs db.surjective db.update_convs(9))+
qed

end
