(* ===== verification/TrustlessWork.thy ===== *)
theory TrustlessWork
  imports Repository "HOL-Library.Word"
begin

text \<open>
  The HTTP client of the Trustless Work API, \<open>src/modules/escrow/trustless-work.service.ts\<close>.
  The remote service, the Stellar SDK and base64 are the parameters of \<open>tw_env\<close>: an answer may
  depend on every request sent before.  Requests are logged in \<open>tw_calls\<close>, which no rollback
  undoes.  The first part is the byte-level signing of an envelope.
\<close>

subsection \<open>Buffers\<close>

type_synonym byte = "8 word"

definition readUInt32BE :: "byte list \<Rightarrow> nat \<Rightarrow> nat" where
  "readUInt32BE b i = foldl (\<lambda>acc x. acc * 256 + unat x) 0 (take 4 (drop i b))"

definition writeUInt32BE :: "nat \<Rightarrow> byte list" where
  "writeUInt32BE n = [of_nat (n div 16777216), of_nat (n div 65536 mod 256),
                      of_nat (n div 256 mod 256), of_nat (n mod 256)]"

text \<open>\<open>buf.subarray(start, end)\<close>: a negative index counts from the end, and both are clamped.\<close>

definition clampIndex :: "nat \<Rightarrow> int \<Rightarrow> nat" where
  "clampIndex n i = (if i < 0 then nat (max 0 (int n + i)) else min (nat i) n)"

definition subarray :: "byte list \<Rightarrow> int \<Rightarrow> int \<Rightarrow> byte list" where
  "subarray b i j = take (clampIndex (length b) j - clampIndex (length b) i)
                         (drop (clampIndex (length b) i) b)"

text \<open>\<open>src.copy(dst, offset)\<close>: as many bytes as fit.\<close>

definition copyInto :: "byte list \<Rightarrow> byte list \<Rightarrow> nat \<Rightarrow> byte list" where
  "copyInto src dst off =
     take off dst @ take (length dst - off) src @ drop (off + length src) dst"

subsection \<open>Signing an envelope\<close>

record keypair =
  kp_sign :: "byte list \<Rightarrow> byte list"
  kp_hint :: "byte list"

text \<open>The bytes that are hashed and signed: network id, envelope type, and the transaction bytes.\<close>

definition txBodyBytes :: "byte list \<Rightarrow> byte list" where
  "txBodyBytes raw = subarray raw 4 (int (length raw) - 4)"

definition hashPreimage :: "(byte list \<Rightarrow> byte list) \<Rightarrow> byte list \<Rightarrow> byte list \<Rightarrow> byte list" where
  "hashPreimage h passphrase raw =
     h passphrase @ writeUInt32BE (readUInt32BE raw 0) @ txBodyBytes raw"

definition decoratedSig :: "keypair \<Rightarrow> byte list \<Rightarrow> byte list" where
  "decoratedSig kp txHash =
     copyInto (kp_sign kp txHash)
       (copyInto (writeUInt32BE 64) (copyInto (kp_hint kp) (replicate 72 0) 0) 4) 8"

definition sigCount :: "byte list \<Rightarrow> nat" where
  "sigCount raw = readUInt32BE raw (length raw - 4)"

text \<open>
  The signed envelope.  A buffer of fewer than four bytes and a count that overflows 32 bits throw
  (\<open>RangeError\<close>).
\<close>

definition signEnvelope ::
    "(byte list \<Rightarrow> byte list) \<Rightarrow> keypair \<Rightarrow> byte list \<Rightarrow> byte list \<Rightarrow> exn + byte list" where
  "signEnvelope h kp passphrase raw =
     (if length raw < 4 then Inl PlainError
      else
        let n = sigCount raw;
            txHash = h (hashPreimage h passphrase raw);
            deco = decoratedSig kp txHash;
            len = int (length raw);
            sigs = int n * 72
        in if n + 1 \<ge> 2 ^ 32 then Inl PlainError
           else if n > 0 then
             Inr (subarray raw 0 4 @ subarray raw 4 (len - 4 - sigs) @ writeUInt32BE (n + 1)
                  @ subarray raw (len - 4 - sigs) (len - 4) @ deco)
           else
             Inr (subarray raw 0 4 @ txBodyBytes raw @ writeUInt32BE (n + 1) @ deco))"

lemma unat_writeUInt32BE_byte: "unat (of_nat n :: byte) = n mod 256"
  by (simp add: unat_of_nat take_bit_eq_mod)

lemma length_writeUInt32BE [simp]: "length (writeUInt32BE n) = 4"
  by (simp add: writeUInt32BE_def)

lemma readUInt32BE_write:
  assumes "n < 2 ^ 32"
  shows "readUInt32BE (pre @ writeUInt32BE n @ post) (length pre) = n"
proof -
  have "n div 16777216 < 256" using assms by (simp add: div_less_iff_less_mult)
  then have "readUInt32BE (pre @ writeUInt32BE n @ post) (length pre)
      = ((n div 16777216 * 256 + n div 65536 mod 256) * 256 + n div 256 mod 256) * 256 + n mod 256"
    by (simp add: readUInt32BE_def writeUInt32BE_def unat_writeUInt32BE_byte)
  also have "\<dots> = n"
  proof -
    have "n div 65536 = n div 256 div 256" "n div 16777216 = n div 256 div 256 div 256"
      by (simp_all add: div_mult2_eq[symmetric])
    then show ?thesis by (simp only: div_mult_mod_eq)
  qed
  finally show ?thesis .
qed

lemma decoratedSig_eq:
  assumes "length (kp_hint kp) = 4" "length (kp_sign kp h) = 64"
  shows "decoratedSig kp h = kp_hint kp @ writeUInt32BE 64 @ kp_sign kp h"
  using assms by (simp add: decoratedSig_def copyInto_def)

lemma envelope_parts:
  assumes "raw = tag @ body @ cnt" "length tag = 4" "length cnt = 4"
  shows "subarray raw 0 4 = tag" "txBodyBytes raw = body" "length raw = 8 + length body"
  using assms by (auto simp: subarray_def txBodyBytes_def clampIndex_def min_def nat_add_distrib)

lemma sigCount_last:
  assumes "k < 2 ^ 32"
  shows "sigCount (pre @ writeUInt32BE k) = k"
  using readUInt32BE_write[OF assms, of pre "[]"] by (simp add: sigCount_def)

lemma signEnvelope_zero:
  assumes "ty < 2 ^ 32" "length (kp_hint kp) = 4" "\<And>m. length (kp_sign kp m) = 64"
    and raw: "raw = writeUInt32BE ty @ body @ writeUInt32BE 0"
  shows "signEnvelope h kp pass raw =
    Inr (writeUInt32BE ty @ body @ writeUInt32BE 1 @ kp_hint kp @ writeUInt32BE 64 @
         kp_sign kp (h (h pass @ writeUInt32BE ty @ body)))"
proof -
  note parts = envelope_parts[OF raw, simplified]
  have n: "sigCount raw = 0"
    using sigCount_last[of 0 "writeUInt32BE ty @ body"] by (simp add: raw)
  have t: "readUInt32BE raw 0 = ty"
    using readUInt32BE_write[OF assms(1), of "[]" "body @ writeUInt32BE 0"] by (simp add: raw)
  show ?thesis
    using parts assms(2,3) by (simp add: signEnvelope_def Let_def n t hashPreimage_def decoratedSig_eq)
qed

text \<open>
  Signing an unsigned envelope (type tag, transaction, signature count zero) yields the same tag
  and transaction followed by count one and one decorated signature (hint, length 64, signature),
  the signature being of the hash of network id, tag and transaction.
\<close>

theorem signEnvelope_unsigned:
  assumes "ty < 2 ^ 32" "length (kp_hint kp) = 4" "\<And>m. length (kp_sign kp m) = 64"
  shows "signEnvelope h kp pass (writeUInt32BE ty @ body @ writeUInt32BE 0) =
    Inr (writeUInt32BE ty @ body @ writeUInt32BE 1 @ kp_hint kp @ writeUInt32BE 64 @
         kp_sign kp (h (h pass @ writeUInt32BE ty @ body)))"
  by (rule signEnvelope_zero[OF assms refl])

text \<open>A concrete signer for the witnesses: a fixed hint, and a signature made of zeros.\<close>

definition sample_keypair :: keypair where
  "sample_keypair = \<lparr> kp_sign = (\<lambda>_. replicate 64 0), kp_hint = [1, 2, 3, 4] \<rparr>"

theorem signEnvelope_unsigned_witness:
  "signEnvelope (\<lambda>b. take 2 b) sample_keypair [9, 9] (writeUInt32BE 2 @ [7, 8] @ writeUInt32BE 0) =
    Inr (writeUInt32BE 2 @ [7, 8] @ writeUInt32BE 1 @ [1, 2, 3, 4] @ writeUInt32BE 64 @ replicate 64 0)"
  using signEnvelope_unsigned[of 2 sample_keypair "\<lambda>b. take 2 b" "[9, 9]" "[7, 8]"]
  by (simp add: sample_keypair_def)

text \<open>
  An envelope that already carries a signature is not signed correctly: XDR puts the count
  before the signatures, and the client reads it from the last four bytes, which belong to the
  existing signature.  When these are zero the envelope is taken for an unsigned one: its
  signature list becomes part of the signed transaction bytes, and its last four bytes are
  overwritten by the new count.
\<close>

theorem signEnvelope_already_signed:
  assumes "ty < 2 ^ 32" "length (kp_hint kp) = 4" "\<And>m. length (kp_sign kp m) = 64" "k < 2 ^ 32"
  shows "sigCount (writeUInt32BE ty @ body @ writeUInt32BE 1 @ hint0 @ writeUInt32BE 64 @ sig60
                   @ writeUInt32BE k) = k
    \<and> signEnvelope h kp pass (writeUInt32BE ty @ body @ writeUInt32BE 1 @ hint0 @ writeUInt32BE 64
                   @ sig60 @ writeUInt32BE 0) =
      Inr (writeUInt32BE ty @ body @ writeUInt32BE 1 @ hint0 @ writeUInt32BE 64 @ sig60
           @ writeUInt32BE 1 @ kp_hint kp @ writeUInt32BE 64 @
           kp_sign kp (h (h pass @ writeUInt32BE ty @ body @ writeUInt32BE 1 @ hint0
                          @ writeUInt32BE 64 @ sig60)))"
  using sigCount_last[OF assms(4), of "writeUInt32BE ty @ body @ writeUInt32BE 1 @ hint0
      @ writeUInt32BE 64 @ sig60"]
    signEnvelope_zero[OF assms(1-3) refl, of h pass "body @ writeUInt32BE 1 @ hint0
      @ writeUInt32BE 64 @ sig60"]
  by simp

theorem signEnvelope_already_signed_witness:
  "sigCount (writeUInt32BE 2 @ [7] @ writeUInt32BE 1 @ [1, 2, 3, 4] @ writeUInt32BE 64
             @ replicate 60 5 @ writeUInt32BE 77) = 77"
  using signEnvelope_already_signed[of 2 sample_keypair 77 "[7]" "[1, 2, 3, 4]" "replicate 60 5"
      "\<lambda>b. b" "[]"]
  by (simp add: sample_keypair_def)

subsection \<open>The client\<close>

text \<open>How a request can fail: an \<open>AxiosError\<close>, or anything else.\<close>

datatype tw_failure = AxiosFailure | OtherFailure

record tw_env =
  http_unsigned :: "tw_call list \<Rightarrow> tw_call \<Rightarrow> tw_failure + string"
  http_send :: "tw_call list \<Rightarrow> string \<Rightarrow> tw_failure + SendTransactionResponse"
  http_escrows :: "tw_call list \<Rightarrow> string \<Rightarrow> bool \<Rightarrow> tw_failure + EscrowIndexerEntry list"
  http_balances :: "tw_call list \<Rightarrow> string \<Rightarrow> tw_failure + EscrowBalanceResponse list"
  fromSecret :: "string \<Rightarrow> keypair option"
  sdk_hash :: "byte list \<Rightarrow> byte list"
  utf8_bytes :: "string \<Rightarrow> byte list"
  base64_decode :: "string \<Rightarrow> byte list"
  base64_encode :: "byte list \<Rightarrow> string"

definition handleError :: "tw_failure \<Rightarrow> exn" where
  "handleError err = (case err of AxiosFailure \<Rightarrow> appExc ESCROW_CREATION_FAILED
                                | OtherFailure \<Rightarrow> appExc INTERNAL_SERVER_ERROR)"

text \<open>\<open>post\<close> and \<open>get\<close>: log the request, and turn a failure into an exception.\<close>

definition tw_request :: "(tw_call list \<Rightarrow> tw_failure + 'a) \<Rightarrow> tw_call \<Rightarrow> ('z, 'a) act" where
  "tw_request api c = (\<lambda>s.
     (case api (tw_calls s) of Inl err \<Rightarrow> Inl (handleError err) | Inr r \<Rightarrow> Inr r,
      s\<lparr>tw_calls := tw_calls s @ [c]\<rparr>))"

definition tw_unsigned :: "tw_env \<Rightarrow> tw_call \<Rightarrow> ('z, string) act" where
  "tw_unsigned env c = tw_request (\<lambda>past. http_unsigned env past c) c"

definition tw_initializeEscrow ::
    "tw_env \<Rightarrow> InitializeMultiReleaseEscrowPayload \<Rightarrow> ('z, string) act" where
  "tw_initializeEscrow env payload =
     (if toUpper (tl_symbol (ini_trustline payload)) \<noteq> ''USDC'' then throw (appExc UNSUPPORTED_ASSET)
      else tw_unsigned env (DeployMultiRelease payload))"

definition tw_fundEscrow :: "tw_env \<Rightarrow> FundEscrowPayload \<Rightarrow> ('z, string) act" where
  "tw_fundEscrow env payload = tw_unsigned env (FundEscrow payload)"

definition tw_changeMilestoneStatus ::
    "tw_env \<Rightarrow> ChangeMilestoneStatusPayload \<Rightarrow> ('z, string) act" where
  "tw_changeMilestoneStatus env payload = tw_unsigned env (ChangeMilestoneStatus payload)"

definition tw_approveMilestone :: "tw_env \<Rightarrow> ApproveMilestonePayload \<Rightarrow> ('z, string) act" where
  "tw_approveMilestone env payload = tw_unsigned env (ApproveMilestone payload)"

definition tw_releaseMilestoneFunds ::
    "tw_env \<Rightarrow> ReleaseMilestoneFundsPayload \<Rightarrow> ('z, string) act" where
  "tw_releaseMilestoneFunds env payload = tw_unsigned env (ReleaseMilestoneFunds payload)"

definition tw_sendTransaction :: "tw_env \<Rightarrow> string \<Rightarrow> ('z, SendTransactionResponse) act" where
  "tw_sendTransaction env xdr = tw_request (\<lambda>past. http_send env past xdr) (SendTransaction xdr)"

definition tw_signAndBroadcast ::
    "tw_env \<Rightarrow> string \<Rightarrow> string \<Rightarrow> string \<Rightarrow> ('z, SendTransactionResponse) act" where
  "tw_signAndBroadcast env unsignedXdr signerSecret networkPassphrase =
     (case fromSecret env signerSecret of
        None \<Rightarrow> throw PlainError
      | Some kp \<Rightarrow>
          (case signEnvelope (sdk_hash env) kp (utf8_bytes env networkPassphrase)
                  (base64_decode env unsignedXdr) of
             Inl e \<Rightarrow> throw e
           | Inr envelope \<Rightarrow> tw_sendTransaction env (base64_encode env envelope)))"

definition tw_getEscrowByContractId ::
    "tw_env \<Rightarrow> string \<Rightarrow> bool \<Rightarrow> ('z, EscrowIndexerEntry list) act" where
  "tw_getEscrowByContractId env cid validateOnChain =
     tw_request (\<lambda>past. http_escrows env past cid validateOnChain)
       (GetEscrowByContractIds cid validateOnChain)"

definition tw_getEscrowBalance :: "tw_env \<Rightarrow> string \<Rightarrow> ('z, EscrowBalanceResponse list) act" where
  "tw_getEscrowBalance env cid =
     tw_request (\<lambda>past. http_balances env past cid) (GetMultipleEscrowBalance cid)"

subsection \<open>What a request changes\<close>

lemma wp_tw_request:
  "wp (tw_request api c) Q E s =
     (let t = s\<lparr>tw_calls := tw_calls s @ [c]\<rparr> in
      case api (tw_calls s) of Inl err \<Rightarrow> E (handleError err) t | Inr r \<Rightarrow> Q r t)"
  by (simp add: wp_def tw_request_def Let_def split: sum.split)

lemma wp_tw_unsigned:
  "wp (tw_unsigned env c) Q E s =
     (let t = s\<lparr>tw_calls := tw_calls s @ [c]\<rparr> in
      case http_unsigned env (tw_calls s) c of Inl err \<Rightarrow> E (handleError err) t | Inr x \<Rightarrow> Q x t)"
  by (simp add: tw_unsigned_def wp_tw_request)

lemma wp_tw_send:
  "wp (tw_sendTransaction env xdr) Q E s =
     (let t = s\<lparr>tw_calls := tw_calls s @ [SendTransaction xdr]\<rparr> in
      case http_send env (tw_calls s) xdr of Inl err \<Rightarrow> E (handleError err) t | Inr res \<Rightarrow> Q res t)"
  by (simp add: tw_sendTransaction_def wp_tw_request)

text \<open>The envelope \<open>signAndBroadcast\<close> sends, when there is one.\<close>

definition broadcast_xdr :: "tw_env \<Rightarrow> string \<Rightarrow> string \<Rightarrow> string \<Rightarrow> exn + string" where
  "broadcast_xdr env xdr secret pass =
     (case fromSecret env secret of
        None \<Rightarrow> Inl PlainError
      | Some kp \<Rightarrow> map_sum id (base64_encode env)
          (signEnvelope (sdk_hash env) kp (utf8_bytes env pass) (base64_decode env xdr)))"

lemma wp_tw_signAndBroadcast:
  "wp (tw_signAndBroadcast env xdr secret pass) Q E s =
     (case broadcast_xdr env xdr secret pass of
        Inl e \<Rightarrow> E e s | Inr signed_xdr \<Rightarrow> wp (tw_sendTransaction env signed_xdr) Q E s)"
  by (simp add: tw_signAndBroadcast_def broadcast_xdr_def wp_throw split: option.split sum.split)

lemma wp_sum [prog]:
  "wp (case x of Inl a \<Rightarrow> m a | Inr b \<Rightarrow> k b) Q E s = (case x of Inl a \<Rightarrow> wp (m a) Q E s | Inr b \<Rightarrow> wp (k b) Q E s)"
  by (simp split: sum.split)

lemmas tw_client_defs = tw_unsigned_def tw_initializeEscrow_def tw_fundEscrow_def
  tw_changeMilestoneStatus_def tw_approveMilestone_def tw_releaseMilestoneFunds_def
  tw_sendTransaction_def tw_signAndBroadcast_def tw_getEscrowByContractId_def
  tw_getEscrowBalance_def

text \<open>The client never touches the database, and every failure of the API is an \<open>AppException\<close>.\<close>

definition only_calls :: "'z world_scheme \<Rightarrow> 'z world_scheme \<Rightarrow> bool" where
  "only_calls s t \<longleftrightarrow> (\<exists>cs. t = s\<lparr>tw_calls := tw_calls s @ cs\<rparr>)"

lemma only_calls_refl: "only_calls s s"
  unfolding only_calls_def by (rule exI[of _ "[]"], cases s) simp

interpretation calls_only: effect only_calls
  by (unfold_locales, rule only_calls_refl) (auto simp: only_calls_def)

lemma ob_tw_request: "obeys only_calls (tw_request api c)"
  by (auto simp: obeys_def tw_request_def only_calls_def)

lemma tw_client_only_calls:
  "obeys only_calls (tw_unsigned env call)"
  "obeys only_calls (tw_initializeEscrow env p1)"
  "obeys only_calls (tw_fundEscrow env p2)"
  "obeys only_calls (tw_changeMilestoneStatus env p3)"
  "obeys only_calls (tw_approveMilestone env p4)"
  "obeys only_calls (tw_releaseMilestoneFunds env p5)"
  "obeys only_calls (tw_sendTransaction env xdr)"
  "obeys only_calls (tw_signAndBroadcast env xdr secret pass)"
  "obeys only_calls (tw_getEscrowByContractId env cid v)"
  "obeys only_calls (tw_getEscrowBalance env cid)"
  by (auto simp: tw_client_defs intro!: ob_tw_request calls_only.ob_if calls_only.ob_throw
      split: option.split sum.split)

lemma obeys_mono: "obeys R m \<Longrightarrow> (\<And>s t. R s t \<Longrightarrow> R' s t) \<Longrightarrow> obeys R' m"
  by (simp add: obeys_def)

lemma only_calls_tables: "only_calls s t \<Longrightarrow> tables t = tables s"
  by (auto simp: only_calls_def)

context table_relation
begin

lemma ob_only_calls: "obeys only_calls m \<Longrightarrow> obeys (on_tables P) m"
  by (erule obeys_mono) (simp add: on_tables_def only_calls_tables same)

lemmas ob_tw_client = tw_client_only_calls[THEN ob_only_calls]

end

end
