(* ===== verification/Samples.thy ===== *)
theory Samples
  imports AuditLog TrustlessWork
begin

text \<open>
  Concrete rows and a concrete world, on which the witnesses of the properties run: two users, one
  offer of the first, the identifiers \<open>u\<close>, \<open>u-\<close>, \<open>u--\<close>, ..., no failing call, the clock at 1000.
\<close>

definition sample_user :: "string \<Rightarrow> string \<Rightarrow> user" where
  "sample_user i pk = \<lparr> u_userId = i, u_publicKey = pk, u_alias = None, u_username = None,
     u_kycStatus = KS_pending, u_role = Role_user, u_kycUpdatedAt = None, u_totalVolume = ''0'',
     u_createdAt = 0, u_currentNonce = None, u_email = None, u_profileImageUrl = None,
     u_notificationsEnabled = True, u_pendingAccountInfo = True, u_preferredCurrency = None,
     u_bio = None, u_securityUpdates = True, u_deletedAt = None \<rparr>"

definition sample_offer :: "string \<Rightarrow> string \<Rightarrow> offer" where
  "sample_offer i creator = \<lparr> f_offerId = i, f_creatorId = creator, f_type = OT_sell,
     f_assetCode = ''USDC'', f_price = ''1'', f_minAmount = ''1'', f_maxAmount = ''9'',
     f_status = FS_active, f_executed = False \<rparr>"

definition sample_order :: "string \<Rightarrow> order_status \<Rightarrow> int option \<Rightarrow> order" where
  "sample_order i st expires = \<lparr> o_orderId = i, o_offerId = ''f1'', o_buyerId = ''b'',
     o_sellerId = ''c'', o_assetAmount = ''5'', o_fiatAmount = ''5'', o_orderStatus = st,
     o_expiresAt = expires \<rparr>"

definition sample_escrow :: "string \<Rightarrow> string \<Rightarrow> escrow_status \<Rightarrow> string option \<Rightarrow> escrow" where
  "sample_escrow i ordr st contract = \<lparr> e_escrowId = i, e_orderId = ordr, e_txHashLock = None,
     e_txHashRelease = None, e_amount = Some ''5'', e_buyerAddress = Some ''GB'',
     e_contractId = contract, e_escrowStatus = st, e_sellerAddress = Some ''GC'',
     e_evidenceUrl = None \<rparr>"

definition sample_db :: db where
  "sample_db = empty_db\<lparr>users := [sample_user ''b'' ''GB'', sample_user ''c'' ''GC''],
                        offers := [sample_offer ''f1'' ''c'']\<rparr>"

definition quiet_world :: "db \<Rightarrow> world" where
  "quiet_world d = \<lparr> tables = d, faults = [], clock = 1000,
     uuid_source = (\<lambda>n. CHR ''u'' # replicate n (CHR ''-'')), uuid_next = 0, tw_calls = [] \<rparr>"

lemma quiet_world_simps [simp]:
  "tables (quiet_world d) = d" "faults (quiet_world d) = []" "clock (quiet_world d) = 1000"
  "uuid_next (quiet_world d) = 0" "tw_calls (quiet_world d) = []"
  "uuid_source (quiet_world d) n = CHR ''u'' # replicate n (CHR ''-'')"
  by (simp_all add: quiet_world_def)

text \<open>A Trustless Work API that accepts everything, and one that rejects every broadcast.\<close>

definition sample_tw :: "string \<Rightarrow> tw_env" where
  "sample_tw st = \<lparr> http_unsigned = (\<lambda>_ _. Inr ''XDR''),
     http_send = (\<lambda>_ _. Inr \<lparr> sr_status = st, sr_message = None, sr_contractId = Some ''CNEW'' \<rparr>),
     http_escrows = (\<lambda>_ _ _. Inr []), http_balances = (\<lambda>_ _. Inl AxiosFailure),
     fromSecret = (\<lambda>_. Some sample_keypair), sdk_hash = (\<lambda>b. take 2 b), utf8_bytes = (\<lambda>_. []),
     base64_decode = (\<lambda>_. writeUInt32BE 2 @ [7] @ writeUInt32BE 0), base64_encode = (\<lambda>_. ''SIGNED'') \<rparr>"

text \<open>The projections, so that a witness never unfolds a whole database.\<close>

lemma sample_simps [simp]:
  "users sample_db = [sample_user ''b'' ''GB'', sample_user ''c'' ''GC'']"
  "offers sample_db = [sample_offer ''f1'' ''c'']"
  "orders sample_db = []" "escrows sample_db = []" "audits sample_db = []" "chats sample_db = []"
  "pmethods sample_db = []" "providers sample_db = []" "challenges sample_db = []"
  "offer_methods sample_db = []" "waitlist sample_db = []"
  "u_userId (sample_user i pk) = i" "u_publicKey (sample_user i pk) = pk"
  "u_alias (sample_user i pk) = None" "u_kycStatus (sample_user i pk) = KS_pending"
  "u_role (sample_user i pk) = Role_user"
  "f_offerId (sample_offer i cr) = i" "f_creatorId (sample_offer i cr) = cr"
  "f_executed (sample_offer i cr) = False"
  "o_orderId (sample_order i st ex) = i" "o_offerId (sample_order i st ex) = ''f1''"
  "o_buyerId (sample_order i st ex) = ''b''" "o_sellerId (sample_order i st ex) = ''c''"
  "o_orderStatus (sample_order i st ex) = st" "o_expiresAt (sample_order i st ex) = ex"
  "e_escrowId (sample_escrow i ordr es ct) = i" "e_orderId (sample_escrow i ordr es ct) = ordr"
  "e_escrowStatus (sample_escrow i ordr es ct) = es" "e_contractId (sample_escrow i ordr es ct) = ct"
  by (simp_all add: sample_db_def empty_db_def sample_user_def sample_offer_def sample_order_def
      sample_escrow_def)

lemma sample_tw_simps [simp]:
  "http_unsigned (sample_tw st) past c = Inr ''XDR''"
  "http_send (sample_tw st) past x =
     Inr \<lparr> sr_status = st, sr_message = None, sr_contractId = Some ''CNEW'' \<rparr>"
  "http_escrows (sample_tw st) past cid v = Inr []"
  "http_balances (sample_tw st) past cid = Inl AxiosFailure"
  by (simp_all add: sample_tw_def)

lemma sample_broadcast [simp]: "broadcast_xdr (sample_tw st) x secret pass = Inr ''SIGNED''"
proof -
  have "signEnvelope h sample_keypair b (writeUInt32BE 2 @ [7] @ writeUInt32BE 0) =
      Inr (writeUInt32BE 2 @ [7] @ writeUInt32BE 1 @ kp_hint sample_keypair @ writeUInt32BE 64 @
           kp_sign sample_keypair (h (h b @ writeUInt32BE 2 @ [7])))" for h b
    by (rule signEnvelope_zero) (simp_all add: sample_keypair_def)
  then show ?thesis by (simp add: broadcast_xdr_def sample_tw_def)
qed

end
