(* ===== verification/AuditProps.thy ===== *)
theory AuditProps
  imports Samples
begin

text \<open>The guarantees of the audit service of \<open>AuditLog\<close>.\<close>

text \<open>
  Auditing never fails the operation it records: whatever the database does, \<open>create\<close> returns
  normally, changes no table but the audit log, adds at most the one record it was asked for, and
  adds exactly that record when the connection works, its identifier is fresh and the user exists.
\<close>

theorem audit_create_never_throws:
  "fst (audit_create inp s) = Inr () \<and>
   (let t = snd (audit_create inp s) in
      tables t\<lparr>audits := audits (tables s)\<rparr> = tables s \<and>
      (audits (tables t) = audits (tables s) \<or>
       (\<exists>row. a_action row = action_name (ai_action inp) \<and> audits (tables t) = audits (tables s) @ [row])) \<and>
      (audit_ready s (ai_userId inp) \<longrightarrow> audits (tables t) =
         audits (tables s) @ [audit_row inp (uuid_source s (uuid_next s)) (clock s)]))"
proof -
  have "tables (audited inp s)\<lparr>audits := audits (tables s)\<rparr> = tables s"
    by (rule audited_cases[of inp s]) simp_all
  then show ?thesis
    using audited_audits[of inp s] audited_ready[of s inp] by (simp add: audit_create_run Let_def)
qed

theorem audit_create_never_throws_witness:
  "map a_action (audits (tables (snd (audit_create (audit_input OFFER_CREATED ''Offer'' SUCCESS)
      (quiet_world sample_db))))) = [''OFFER_CREATED'']"
  using audit_create_never_throws[of "audit_input OFFER_CREATED ''Offer'' SUCCESS" "quiet_world sample_db"]
  by (simp add: audit_ready_def audit_input_def audit_row_def Let_def)

text \<open>
  The strict form: \<open>createOrThrow\<close> returns only if its record is in the audit log, and throws, with
  the tables unchanged, otherwise.
\<close>

theorem audit_createOrThrow_strict:
  assumes "audit_createOrThrow inp s = (r, t)"
  shows "case r of
      Inl _ \<Rightarrow> tables t = tables s
    | Inr _ \<Rightarrow> \<exists>row. a_action row = action_name (ai_action inp) \<and> a_userId row = ai_userId inp
        \<and> a_resourceId row = ai_resourceId inp
        \<and> tables t = (tables s)\<lparr>audits := audits (tables s) @ [row]\<rparr>"
proof -
  have "wp (audit_createOrThrow inp)
      (\<lambda>_ t. \<exists>row. a_action row = action_name (ai_action inp) \<and> a_userId row = ai_userId inp
        \<and> a_resourceId row = ai_resourceId inp \<and> tables t = (tables s)\<lparr>audits := audits (tables s) @ [row]\<rparr>)
      (\<lambda>_ t. tables t = tables s) s"
    unfolding audit_createOrThrow_def audit_repo_create_def
    by (auto intro!: db_anyI exI simp: prog wp_any audit_row_def split: option.split)
  from wp_run[OF this assms] show ?thesis by (auto split: sum.splits)
qed

theorem audit_createOrThrow_strict_witness:
  "\<exists>t. audit_createOrThrow (audit_input ADMIN_ACTION_EXECUTED ''System'' SUCCESS)
      ((quiet_world sample_db)\<lparr>faults := [True]\<rparr>) = (Inl DbUnavailable, t) \<and> tables t = sample_db"
proof -
  let ?s = "(quiet_world sample_db)\<lparr>faults := [True]\<rparr>"
  have "wp (audit_createOrThrow (audit_input ADMIN_ACTION_EXECUTED ''System'' SUCCESS))
      (\<lambda>_ _. False) (\<lambda>e _. e = DbUnavailable) ?s"
    by (simp add: audit_createOrThrow_def audit_repo_create_def prog wp_any db_any_def)
  from wp_throws[OF this] obtain t where
    t: "audit_createOrThrow (audit_input ADMIN_ACTION_EXECUTED ''System'' SUCCESS) ?s = (Inl DbUnavailable, t)"
    by metis
  from audit_createOrThrow_strict[OF t] have "tables t = sample_db" by simp
  with t show ?thesis by (intro exI conjI)
qed

end
