(* ===== verification/Config.thy ===== *)
theory Config
  imports Repository
begin

text \<open>
  Configuration: \<open>ConfigService\<close> as a map from variable names, \<open>src/config\<close> (JWT secret, CSRF
  cookie, rate limits) and the start-up check of \<open>env-validation.service.ts\<close>.
\<close>

type_synonym config = "string \<Rightarrow> string option"

text \<open>\<open>config.get(key, default)\<close> and \<open>config.getOrThrow(key)\<close>.\<close>

definition cfg_get :: "config \<Rightarrow> string \<Rightarrow> string \<Rightarrow> string" where
  "cfg_get cfg k d = get_or (cfg k) d"

definition cfg_getOrThrow :: "config \<Rightarrow> string \<Rightarrow> ('z, string) act" where
  "cfg_getOrThrow cfg k = (case cfg k of None \<Rightarrow> throw PlainError | Some v \<Rightarrow> ret v)"

lemma wp_cfg_getOrThrow [prog]:
  "wp (cfg_getOrThrow cfg k) Q E s = (case cfg k of None \<Rightarrow> E PlainError s | Some v \<Rightarrow> Q v s)"
  by (simp add: cfg_getOrThrow_def wp_throw wp_ret split: option.split)

subsection \<open>The JWT secret\<close>

definition getJwtSecret :: "config \<Rightarrow> exn + string" where
  "getJwtSecret cfg =
     (case cfg ''JWT_SECRET'' of
        None \<Rightarrow> Inl PlainError
      | Some secret \<Rightarrow>
          if secret = [] then Inl PlainError
          else if length secret < 32 then Inl PlainError
          else Inr secret)"

lemma getJwtSecret_length: "getJwtSecret cfg = Inr k \<Longrightarrow> 32 \<le> length k \<and> cfg ''JWT_SECRET'' = Some k"
  by (auto simp: getJwtSecret_def split: option.splits if_splits)

subsection \<open>The CSRF cookie\<close>

record CookieOptions =
  ck_httpOnly :: bool
  ck_secure :: bool
  ck_sameSite :: string
  ck_path :: string
  ck_maxAge :: int

definition getCsrfCookieOptions :: "config \<Rightarrow> CookieOptions" where
  "getCsrfCookieOptions env =
     (let isProduction = (env ''NODE_ENV'' = Some ''production'') in
      \<lparr> ck_httpOnly = True, ck_secure = isProduction,
        ck_sameSite = get_or (env ''CSRF_COOKIE_SAME_SITE'') (if isProduction then ''none'' else ''lax''),
        ck_path = ''/'', ck_maxAge = 24 * 60 * 60 * 1000 \<rparr>)"

subsection \<open>Rate limits\<close>

text \<open>\<open>parseInt(s, 10)\<close>: white space, a sign, the leading digits; no digit is NaN (\<open>None\<close>).\<close>

definition parseInt :: "string \<Rightarrow> int option" where
  "parseInt s =
     (let t = dropWhile js_space s;
          neg = (t \<noteq> [] \<and> hd t = CHR ''-'');
          u = (if t \<noteq> [] \<and> (hd t = CHR ''-'' \<or> hd t = CHR ''+'') then tl t else t);
          ds = takeWhile is_digit u
      in if ds = [] then None
         else Some (if neg then - int (digits_val ds) else int (digits_val ds)))"

definition limit_var :: "config \<Rightarrow> string \<Rightarrow> string \<Rightarrow> int option" where
  "limit_var env k d = parseInt (get_or (orElse (env k) (Some d)) d)"

record rate_limit =
  rl_limit :: "int option"
  rl_ttl :: "int option"

datatype limited_route = AuthRoute | RegistrationRoute | AliasRoute | KycStartRoute | KycWebhookRoute

primrec rateLimitConfig :: "config \<Rightarrow> limited_route \<Rightarrow> rate_limit" where
  "rateLimitConfig env AuthRoute =
     \<lparr> rl_limit = limit_var env ''RATE_LIMIT_AUTH_MAX'' ''5'',
       rl_ttl = limit_var env ''RATE_LIMIT_AUTH_TTL_MS'' ''60000'' \<rparr>"
| "rateLimitConfig env RegistrationRoute =
     \<lparr> rl_limit = limit_var env ''RATE_LIMIT_REGISTRATION_MAX'' ''10'',
       rl_ttl = limit_var env ''RATE_LIMIT_REGISTRATION_TTL_MS'' ''60000'' \<rparr>"
| "rateLimitConfig env AliasRoute =
     \<lparr> rl_limit = limit_var env ''RATE_LIMIT_ALIAS_VALIDATION_MAX'' ''30'',
       rl_ttl = limit_var env ''RATE_LIMIT_ALIAS_VALIDATION_TTL_MS'' ''60000'' \<rparr>"
| "rateLimitConfig env KycStartRoute =
     \<lparr> rl_limit = limit_var env ''RATE_LIMIT_KYC_START_MAX'' ''5'',
       rl_ttl = limit_var env ''RATE_LIMIT_KYC_START_TTL_MS'' ''60000'' \<rparr>"
| "rateLimitConfig env KycWebhookRoute =
     \<lparr> rl_limit = limit_var env ''RATE_LIMIT_KYC_WEBHOOK_MAX'' ''20'',
       rl_ttl = limit_var env ''RATE_LIMIT_KYC_WEBHOOK_TTL_MS'' ''60000'' \<rparr>"

lemma parseInt_show_nat [simp]: "parseInt (show_nat n) = Some (int n)"
proof -
  have d: "\<forall>c\<in>set (show_nat n). is_digit c" using all_digits_show_nat[of n] by (simp add: all_digits_def list_all_iff)
  have h: "is_digit (hd (show_nat n))" using d by simp
  then have "hd (show_nat n) \<noteq> CHR ''-''" "hd (show_nat n) \<noteq> CHR ''+''" "\<not> js_space (hd (show_nat n))"
    by (auto simp: is_digit_def code_of_def)
  moreover have "dropWhile js_space (show_nat n) = show_nat n"
    using h by (cases "show_nat n") auto
  moreover have "takeWhile is_digit (show_nat n) = show_nat n" using d by (simp add: takeWhile_eq_all_conv)
  ultimately show ?thesis by (simp add: parseInt_def Let_def takeWhile_eq_all_conv[THEN iffD2])
qed

subsection \<open>Critical environment variables\<close>

definition CRITICAL_ENV_VARS :: "string list" where
  "CRITICAL_ENV_VARS =
     [''DATABASE_URL'', ''JWT_SECRET'', ''STELLAR_HORIZON_URL'', ''STELLAR_NETWORK'',
      ''STELLAR_SIGNER_SECRET'', ''TRUSTLESS_WORK_API_URL'', ''TRUSTLESS_WORK_API_KEY'',
      ''TRUSTLESS_WORK_USDC_ISSUER'', ''DIDIT_API_KEY'', ''DIDIT_WEBHOOK_SECRET'',
      ''DIDIT_API_URL'', ''DIDIT_WORKFLOW_ID'', ''KYC_CALLBACK_URL'']"

definition missingKeys :: "config \<Rightarrow> string list \<Rightarrow> string list" where
  "missingKeys cfg ks = filter (\<lambda>k. case cfg k of None \<Rightarrow> True | Some v \<Rightarrow> trim v = []) ks"

definition validateCriticalEnvs :: "config \<Rightarrow> string list \<Rightarrow> exn + unit" where
  "validateCriticalEnvs cfg ks = (if missingKeys cfg ks \<noteq> [] then Inl PlainError else Inr ())"

definition env_onModuleInit :: "config \<Rightarrow> exn + unit" where
  "env_onModuleInit env =
     (if env ''NODE_ENV'' = Some ''test'' \<and> \<not> truthy (env ''ENFORCE_ENV_VALIDATION'') then Inr ()
      else validateCriticalEnvs env CRITICAL_ENV_VARS)"

lemma validateCriticalEnvs_ok:
  "validateCriticalEnvs cfg ks = Inr () \<longleftrightarrow> (\<forall>k\<in>set ks. \<exists>v. cfg k = Some v \<and> trim v \<noteq> [])"
  by (auto simp: validateCriticalEnvs_def missingKeys_def filter_empty_conv split: option.splits)

end
