(* ===== verification/FileStorage.thy ===== *)
theory FileStorage
  imports Config
begin

text \<open>
  File storage, \<open>src/modules/file-storage\<close>: the choice of the provider, the object key of an
  upload and its public URL.  Google Cloud Storage and the random bytes of a key are parameters.
\<close>

record UploadFileInput =
  up_originalname :: string
  up_mimetype :: string
  up_buffer :: "string option"
  up_size :: nat
  up_key :: "string option"

record StoredFile =
  sf_key :: string
  sf_url :: string

definition safe_char :: "char \<Rightarrow> bool" where
  "safe_char c \<longleftrightarrow> is_lower c \<or> is_digit c \<or> c = CHR ''.'' \<or> c = CHR ''-''"

text \<open>\<open>.replace(/[^a-z0-9.-]+/g, '-')\<close> and \<open>.replace(/-+/g, '-')\<close>: each run becomes one dash.\<close>

fun dashUnsafe :: "bool \<Rightarrow> string \<Rightarrow> string" where
  "dashUnsafe inRun [] = []"
| "dashUnsafe inRun (c # cs) =
     (if safe_char c then c # dashUnsafe False cs
      else if inRun then dashUnsafe True cs
      else CHR ''-'' # dashUnsafe True cs)"

fun dashRuns :: "bool \<Rightarrow> string \<Rightarrow> string" where
  "dashRuns inRun [] = []"
| "dashRuns inRun (c # cs) =
     (if c \<noteq> CHR ''-'' then c # dashRuns False cs
      else if inRun then dashRuns True cs
      else CHR ''-'' # dashRuns True cs)"

text \<open>\<open>.replace(/^-|-$/g, '')\<close>: one dash at the front and one at the end.\<close>

definition stripDash :: "string \<Rightarrow> string" where
  "stripDash s =
     (let t = (if s \<noteq> [] \<and> hd s = CHR ''-'' then tl s else s)
      in if t \<noteq> [] \<and> last t = CHR ''-'' then butlast t else t)"

definition safeName :: "string \<Rightarrow> string" where
  "safeName name = stripDash (dashRuns False (dashUnsafe False (toLower name)))"

definition nameOrUpload :: "string \<Rightarrow> string" where
  "nameOrUpload name = (if safeName name = [] then ''upload'' else safeName name)"

definition mock_uploadFile :: "int \<Rightarrow> UploadFileInput \<Rightarrow> exn + StoredFile" where
  "mock_uploadFile now file =
     (let key = get_or (up_key file)
            (''profile-images/'' @ show_int now @ ''-'' @ nameOrUpload (up_originalname file))
      in Inr \<lparr> sf_key = key, sf_url = ''https://mock-storage.ikash.local/'' @ key \<rparr>)"

text \<open>The bucket (whether a save under a key succeeds) and \<open>randomBytes(4)\<close> in hex.\<close>

record gcs_env =
  blob_save :: "string \<Rightarrow> UploadFileInput \<Rightarrow> bool"
  random_hex :: string

definition publicUrlBase :: "config \<Rightarrow> string" where
  "publicUrlBase cfg =
     (let bucket = cfg_get cfg ''GCS_BUCKET_NAME'' ''ikash-profile-images'';
          endpoint = cfg_get cfg ''STORAGE_ENDPOINT'' []
      in (if endpoint \<noteq> [] then endpoint @ ''/'' @ bucket
          else ''https://storage.googleapis.com/'' @ bucket))"

definition gcs_uploadFile :: "gcs_env \<Rightarrow> config \<Rightarrow> int \<Rightarrow> UploadFileInput \<Rightarrow> exn + StoredFile" where
  "gcs_uploadFile gcs cfg now file =
     (let key = get_or (up_key file)
            (''profile-images/'' @ show_int now @ ''-'' @ random_hex gcs @ ''-''
             @ nameOrUpload (up_originalname file))
      in if blob_save gcs key file
         then Inr \<lparr> sf_key = key, sf_url = publicUrlBase cfg @ ''/'' @ key \<rparr>
         else Inl PlainError)"

text \<open>The provider chosen by \<open>file-storage.module.ts\<close>.\<close>

definition uploadFile :: "gcs_env \<Rightarrow> config \<Rightarrow> int \<Rightarrow> UploadFileInput \<Rightarrow> exn + StoredFile" where
  "uploadFile gcs cfg now file =
     (if cfg_get cfg ''STORAGE_PROVIDER'' ''mock'' = ''gcs'' then gcs_uploadFile gcs cfg now file
      else mock_uploadFile now file)"

subsection \<open>Object keys are clean\<close>

lemma dashUnsafe_safe: "c \<in> set (dashUnsafe b s) \<Longrightarrow> safe_char c"
  by (induction b s rule: dashUnsafe.induct) (auto simp: safe_char_def split: if_splits)

lemma dashRuns_subset: "set (dashRuns b s) \<subseteq> set s"
  by (induction b s rule: dashRuns.induct) auto

lemma stripDash_subset: "set (stripDash s) \<subseteq> set s"
proof -
  have "set (butlast t) \<subseteq> set t" for t :: string by (auto dest: in_set_butlastD)
  moreover have "set (tl s) \<subseteq> set s" by (cases s) auto
  moreover have "set (butlast (tl s)) \<subseteq> set s" using calculation by blast
  ultimately show ?thesis by (simp add: stripDash_def Let_def)
qed

fun noDoubleDash :: "string \<Rightarrow> bool" where
  "noDoubleDash (a # b # s) \<longleftrightarrow> \<not> (a = CHR ''-'' \<and> b = CHR ''-'') \<and> noDoubleDash (b # s)"
| "noDoubleDash s \<longleftrightarrow> True"

lemma dashRuns_head: "b \<Longrightarrow> dashRuns b s = [] \<or> hd (dashRuns b s) \<noteq> CHR ''-''"
  by (induction b s rule: dashRuns.induct) auto

lemma noDoubleDash_Cons:
  "noDoubleDash (c # s) \<longleftrightarrow> \<not> (c = CHR ''-'' \<and> s \<noteq> [] \<and> hd s = CHR ''-'') \<and> noDoubleDash s"
  by (cases s) auto

lemma noDoubleDash_dashRuns: "noDoubleDash (dashRuns b s)"
  by (induction b s rule: dashRuns.induct)
    (use dashRuns_head in \<open>auto simp: noDoubleDash_Cons\<close>)

lemma noDoubleDash_append: "noDoubleDash (s @ t) \<Longrightarrow> noDoubleDash s"
  by (induction s) (auto simp: noDoubleDash_Cons hd_append)

lemma stripDash_ends:
  assumes "noDoubleDash s"
  shows "stripDash s \<noteq> [] \<Longrightarrow> hd (stripDash s) \<noteq> CHR ''-'' \<and> last (stripDash s) \<noteq> CHR ''-''"
    and "noDoubleDash (stripDash s)"
proof -
  define t where "t = (if s \<noteq> [] \<and> hd s = CHR ''-'' then tl s else s)"
  have t1: "noDoubleDash t" using assms by (cases s) (auto simp: t_def noDoubleDash_Cons)
  have t2: "t \<noteq> [] \<Longrightarrow> hd t \<noteq> CHR ''-''" using assms by (cases s) (auto simp: t_def noDoubleDash_Cons)
  have eq: "stripDash s = (if t \<noteq> [] \<and> last t = CHR ''-'' then butlast t else t)"
    by (simp add: stripDash_def t_def Let_def)
  have last2: "last (butlast t) \<noteq> CHR ''-''" if "butlast t \<noteq> []" "last t = CHR ''-''"
  proof -
    have "t = butlast (butlast t) @ [last (butlast t), last t]"
      using that by (metis append.assoc append_Cons append_butlast_last_id append_self_conv2 butlast.simps(1) eq_Nil_appendI)
    moreover have "noDoubleDash (u @ [a, b]) \<Longrightarrow> \<not> (a = CHR ''-'' \<and> b = CHR ''-'')" for u a b
      by (induction u) (auto simp: noDoubleDash_Cons)
    ultimately show ?thesis using t1 that(2) by metis
  qed
  show "noDoubleDash (stripDash s)"
    using t1 noDoubleDash_append[of "butlast t" "[last t]"] append_butlast_last_id[of t]
    by (auto simp: eq simp del: append_butlast_last_id)
  show "stripDash s \<noteq> [] \<Longrightarrow> hd (stripDash s) \<noteq> CHR ''-'' \<and> last (stripDash s) \<noteq> CHR ''-''"
    using t2 last2 by (auto simp: eq) (metis append_butlast_last_id hd_append2)
qed

text \<open>
  The part of a generated object key that comes from the client's file name is harmless: it is
  never empty, holds only lower-case letters, digits, dots and dashes (so no slash can leave the
  \<open>profile-images/\<close> prefix), neither starts nor ends with a dash and has no double dash.
\<close>

theorem nameOrUpload_clean:
  "nameOrUpload name \<noteq> [] \<and> list_all safe_char (nameOrUpload name) \<and> noDoubleDash (nameOrUpload name)
   \<and> hd (nameOrUpload name) \<noteq> CHR ''-'' \<and> last (nameOrUpload name) \<noteq> CHR ''-''"
proof (cases "safeName name = []")
  case True
  then show ?thesis by (simp add: nameOrUpload_def safe_char_def is_lower_def code_of_def)
next
  case False
  let ?s = "dashRuns False (dashUnsafe False (toLower name))"
  have "list_all safe_char (safeName name)"
    using stripDash_subset[of ?s] dashRuns_subset dashUnsafe_safe
    by (fastforce simp: safeName_def list_all_iff)
  then show ?thesis
    using False stripDash_ends[OF noDoubleDash_dashRuns, of False "dashUnsafe False (toLower name)"]
    by (simp add: nameOrUpload_def safeName_def)
qed

end
