(* ===== verification/Escrow.thy ===== *)
theory Escrow
  imports AuditLog TrustlessWork FileStorage
begin

text \<open>
  \<open>EscrowService\<close> of \<open>src/modules/escrow/escrow.service.ts\<close>: the status machine of an escrow, the
  deployment on chain, and every operation of the service on the escrow table.
\<close>

record services =
  sv_config :: config
  sv_tw :: tw_env
  sv_gcs :: gcs_env

subsection \<open>The status machine\<close>

primrec escrow_status_name :: "escrow_status \<Rightarrow> string" where
  "escrow_status_name ES_pending = ''pending''"
| "escrow_status_name ES_initialized = ''initialized''"
| "escrow_status_name ES_funded = ''funded''"
| "escrow_status_name ES_fiat_sent = ''fiat_sent''"
| "escrow_status_name ES_released = ''released''"
| "escrow_status_name ES_disputed = ''disputed''"
| "escrow_status_name ES_resolved = ''resolved''"

datatype EscrowAction = INITIALIZE | FUND | FIAT_SENT | RELEASE

primrec action_key :: "EscrowAction \<Rightarrow> string" where
  "action_key INITIALIZE = ''initialize''"
| "action_key FUND = ''fund''"
| "action_key FIAT_SENT = ''fiat_sent''"
| "action_key RELEASE = ''release''"

definition validTransitions :: "(string \<times> string list) list" where
  "validTransitions =
     [(''initialize'', [''pending'']), (''fund'', [''initialized'']), (''fiat_sent'', [''funded'']),
      (''release'', [''funded'', ''fiat_sent'']),
      (''ESCROW_CREATED'', [''pending'']), (''ESCROW_FUNDED'', [''initialized'']),
      (''ESCROW_RELEASED'', [''funded'', ''fiat_sent'']),
      (''ESCROW_REFUNDED'', [''funded'', ''fiat_sent'', ''disputed'']),
      (''ESCROW_CANCELLED'', [''pending'', ''initialized'']),
      (''ESCROW_DISPUTED'', [''funded'', ''fiat_sent''])]"

definition validateStatusTransition :: "string \<Rightarrow> string \<Rightarrow> exn + unit" where
  "validateStatusTransition currentStatus act =
     (case map_of validTransitions act of
        None \<Rightarrow> Inl (appExc ESCROW_INVALID_STATUS)
      | Some allowed \<Rightarrow>
          if currentStatus \<in> set allowed then Inr () else Inl (appExc ESCROW_INVALID_STATUS))"

definition isTerminalOrAlreadyProcessed :: "escrow_status \<Rightarrow> string \<Rightarrow> bool" where
  "isTerminalOrAlreadyProcessed currentStatus eventType \<longleftrightarrow>
     (eventType = ''ESCROW_CREATED'' \<and> currentStatus \<noteq> ES_pending) \<or>
     (eventType = ''ESCROW_FUNDED'' \<and>
        currentStatus \<in> {ES_funded, ES_fiat_sent, ES_released, ES_resolved}) \<or>
     (eventType = ''ESCROW_RELEASED'' \<and> currentStatus \<in> {ES_released, ES_resolved}) \<or>
     (eventType = ''ESCROW_REFUNDED'' \<and> currentStatus = ES_resolved) \<or>
     (eventType = ''ESCROW_CANCELLED'' \<and> currentStatus \<in> {ES_resolved, ES_released}) \<or>
     (eventType = ''ESCROW_DISPUTED'' \<and> currentStatus = ES_disputed)"

subsection \<open>Helpers\<close>

definition validateAssetCode :: "string option \<Rightarrow> ('z, unit) act" where
  "validateAssetCode assetCode =
     throwIf (toUpper (get_or (orElse assetCode (Some ''USDC'')) ''USDC'') \<noteq> ''USDC'')
       (appExc UNSUPPORTED_ASSET)"

definition getNetworkPassphrase :: "config \<Rightarrow> string" where
  "getNetworkPassphrase cfg =
     (if toLower (cfg_get cfg ''STELLAR_NETWORK'' ''testnet'') = ''public''
      then ''Public Global Stellar Network ; September 2015''
      else ''Test SDF Network ; September 2015'')"

definition resolveTrustline :: "config \<Rightarrow> string option \<Rightarrow> ('z, Trustline) act" where
  "resolveTrustline cfg assetCode =
     (if assetCode = None \<or> assetCode = Some ''XLM'' \<or> assetCode = Some ''native'' \<or> assetCode = Some []
      then ret \<lparr> tl_address = cfg_get cfg ''TRUSTLESS_WORK_XLM_ADDRESS''
                   ''CDLZFC3SYJYDZT7K67VZ75HPJVIEUVNIXF47ZG2FB2RMQQVU2HHGCYSC'',
                 tl_symbol = ''XLM'' \<rparr>
      else bindE (cfg_getOrThrow cfg ''TRUSTLESS_WORK_USDC_ISSUER'')
             (\<lambda>usdcIssuer. ret \<lparr> tl_address = usdcIssuer, tl_symbol = the assetCode \<rparr>))"

definition buildP2PRoles :: "config \<Rightarrow> string \<Rightarrow> string \<Rightarrow> ('z, MultiReleaseRoles) act" where
  "buildP2PRoles cfg sellerAddress buyerAddress =
     bindE (cfg_getOrThrow cfg ''IKASH_TREASURY_ADDRESS'') (\<lambda>treasury.
     bindE (cfg_getOrThrow cfg ''IKASH_SUPPORT_ADDRESS'') (\<lambda>support.
       ret \<lparr> approver = treasury, serviceProvider = buyerAddress, platformAddress = treasury,
             releaseSigner = sellerAddress, disputeResolver = support \<rparr>))"

definition escrow_getOrFail :: "string \<Rightarrow> ('z, escrow) act" where
  "escrow_getOrFail i =
     bindE (base_findById escrow_table i)
       (\<lambda>r. case r of None \<Rightarrow> throw (appExc ESCROW_NOT_FOUND) | Some e \<Rightarrow> ret e)"

definition findByOrder :: "string \<Rightarrow> ('z, escrow option) act" where
  "findByOrder orderId = findUnique escrow_table (\<lambda>e. e_orderId e = orderId)"

text \<open>A row of \<open>EscrowOnChain\<close> with the defaults of the schema.\<close>

definition new_escrow :: "string \<Rightarrow> string \<Rightarrow> escrow" where
  "new_escrow i orderId = \<lparr> e_escrowId = i, e_orderId = orderId, e_txHashLock = None,
     e_txHashRelease = None, e_amount = None, e_buyerAddress = None, e_contractId = None,
     e_escrowStatus = ES_pending, e_sellerAddress = None, e_evidenceUrl = None \<rparr>"

definition create_escrow :: "string \<Rightarrow> (escrow \<Rightarrow> escrow) \<Rightarrow> ('z, escrow) act" where
  "create_escrow orderId f = bindE newUuid (\<lambda>i. base_create escrow_table (f (new_escrow i orderId)))"

primrec decimal_of :: "js_number \<Rightarrow> amount" where
  "decimal_of (Number s) = s"

definition jopt :: "string option \<Rightarrow> json" where
  "jopt x = (case x of None \<Rightarrow> JNull | Some s \<Rightarrow> JStr s)"

subsection \<open>Deployment on chain\<close>

record deploy_dto =
  dd_sellerAddress :: string
  dd_buyerAddress :: string
  dd_amount :: js_number
  dd_assetCode :: "string option"
  dd_title :: "string option"

record OpenEscrowDto = deploy_dto +
  op_orderId :: string

definition p2p_milestone :: "js_number \<Rightarrow> string \<Rightarrow> MultiReleaseMilestonePayload" where
  "p2p_milestone amount receiver = \<lparr> ms_description = ''P2P fiat-to-crypto exchange'',
     ms_amount = amount, ms_receiver = receiver \<rparr>"

definition default_title :: "string \<Rightarrow> string" where
  "default_title orderId = ''iKash P2P Order '' @ orderId"

definition payload_description :: "string \<Rightarrow> string" where
  "payload_description orderId = ''iKash P2P escrow for order '' @ orderId"

text \<open>The payload literal that \<open>deployEscrowToChain\<close> and \<open>initialize\<close> build.\<close>

definition escrow_payload :: "config \<Rightarrow> string \<Rightarrow> string \<Rightarrow> string \<Rightarrow> string \<Rightarrow> string \<Rightarrow> js_number \<Rightarrow>
    string option \<Rightarrow> ('z, InitializeMultiReleaseEscrowPayload) act" where
  "escrow_payload cfg signer orderId title sellerAddress buyerAddress amount assetCode =
     bindE (buildP2PRoles cfg sellerAddress buyerAddress) (\<lambda>roles.
     bindE (resolveTrustline cfg assetCode) (\<lambda>trustline.
       ret \<lparr> ini_signer = signer, ini_engagementId = orderId, ini_title = title,
             ini_description = payload_description orderId, ini_roles = roles,
             ini_platformFee = Number (cfg_get cfg ''IKASH_PLATFORM_FEE'' ''1''),
             ini_milestones = [p2p_milestone amount buyerAddress],
             ini_trustline = trustline \<rparr>))"

definition deployEscrowToChain ::
    "services \<Rightarrow> string \<Rightarrow> 'd deploy_dto_scheme \<Rightarrow> ('z, string \<times> string) act" where
  "deployEscrowToChain sv orderId dto =
     andThen (validateAssetCode (dd_assetCode dto))
     (bindE (cfg_getOrThrow (sv_config sv) ''IKASH_TREASURY_ADDRESS'') (\<lambda>treasury.
      bindE (cfg_getOrThrow (sv_config sv) ''IKASH_DEPLOYER_SECRET'') (\<lambda>deployerSecret.
      bindE (escrow_payload (sv_config sv) treasury orderId
               (get_or (dd_title dto) (default_title orderId))
               (dd_sellerAddress dto) (dd_buyerAddress dto) (dd_amount dto) (dd_assetCode dto)) (\<lambda>payload.
      bindE (tw_initializeEscrow (sv_tw sv) payload) (\<lambda>unsignedTransaction.
      bindE (tw_signAndBroadcast (sv_tw sv) unsignedTransaction deployerSecret
               (getNetworkPassphrase (sv_config sv))) (\<lambda>broadcastResult.
        if sr_status broadcastResult \<noteq> ''SUCCESS'' \<or> \<not> truthy (sr_contractId broadcastResult)
        then throw (appExc ESCROW_CREATION_FAILED)
        else
          bindE (tw_fundEscrow (sv_tw sv)
            \<lparr> fe_contractId = the (sr_contractId broadcastResult), fe_signer = dd_sellerAddress dto,
              fe_amount = dd_amount dto \<rparr>) (\<lambda>unsignedFundTransaction.
          ret (the (sr_contractId broadcastResult), unsignedFundTransaction))))))))"

subsection \<open>Opening and initialising\<close>

definition has_contract :: "escrow option \<Rightarrow> bool" where
  "has_contract x = (case x of None \<Rightarrow> False | Some e \<Rightarrow> truthy (e_contractId e))"

text \<open>The records \<open>open\<close> writes once the contract is on chain.\<close>

definition open_persist ::
    "OpenEscrowDto \<Rightarrow> escrow option \<Rightarrow> string \<Rightarrow> string \<Rightarrow> ('z, string \<times> string \<times> string) act" where
  "open_persist dto existing contractId unsignedFundTransaction =
     bindE (case existing of
              None \<Rightarrow> create_escrow (op_orderId dto) (\<lambda>r. r\<lparr>
                e_buyerAddress := Some (dd_buyerAddress dto),
                e_sellerAddress := Some (dd_sellerAddress dto),
                e_amount := Some (decimal_of (dd_amount dto)), e_escrowStatus := ES_initialized\<rparr>)
            | Some e \<Rightarrow> ret e) (\<lambda>escrow.
     andThen (base_update escrow_table (e_escrowId escrow)
               (\<lambda>r. r\<lparr>e_contractId := Some contractId, e_escrowStatus := ES_initialized\<rparr>))
     (andThen (if existing = None
               then audit_create ((audit_input AA_ESCROW_CREATED ''Escrow'' SUCCESS)
                      \<lparr>ai_resourceId := Some (e_escrowId escrow),
                       ai_metadata := Some (JObj [(''orderId'', JStr (op_orderId dto)),
                                                  (''contractId'', JStr contractId)])\<rparr>)
               else ret ())
       (ret (e_escrowId escrow, contractId, unsignedFundTransaction))))"

definition escrow_open :: "services \<Rightarrow> OpenEscrowDto \<Rightarrow> ('z, string \<times> string \<times> string) act" where
  "escrow_open sv dto =
     bindE (findByOrder (op_orderId dto)) (\<lambda>existing.
     andThen (throwIf (has_contract existing) (appExc ESCROW_ALREADY_EXISTS))
     (bindE (deployEscrowToChain sv (op_orderId dto) dto) (\<lambda>(contractId, unsignedFundTransaction).
       open_persist dto existing contractId unsignedFundTransaction)))"

record InitializeEscrowDto =
  in_orderId :: string
  in_signerAddress :: string
  in_sellerAddress :: string
  in_buyerAddress :: string
  in_amount :: js_number
  in_title :: string
  in_assetCode :: "string option"

definition escrow_initialize :: "services \<Rightarrow> InitializeEscrowDto \<Rightarrow> ('z, string \<times> string) act" where
  "escrow_initialize sv dto =
     andThen (validateAssetCode (in_assetCode dto))
     (bindE (findByOrder (in_orderId dto)) (\<lambda>existing.
      andThen (throwIf (has_contract existing) (appExc ESCROW_ALREADY_EXISTS))
      (bindE (escrow_payload (sv_config sv) (in_signerAddress dto) (in_orderId dto) (in_title dto)
                (in_sellerAddress dto) (in_buyerAddress dto) (in_amount dto) (in_assetCode dto)) (\<lambda>payload.
       bindE (tw_initializeEscrow (sv_tw sv) payload) (\<lambda>unsignedTransaction.
       bindE (findByOrder (in_orderId dto)) (\<lambda>found.
       bindE (case found of
                None \<Rightarrow> create_escrow (in_orderId dto) (\<lambda>r. r\<lparr>
                  e_buyerAddress := Some (in_buyerAddress dto),
                  e_sellerAddress := Some (in_sellerAddress dto),
                  e_amount := Some (decimal_of (in_amount dto)), e_escrowStatus := ES_pending\<rparr>)
              | Some e \<Rightarrow> andThen (base_update escrow_table (e_escrowId e) (\<lambda>r. r\<lparr>
                  e_buyerAddress := Some (in_buyerAddress dto),
                  e_sellerAddress := Some (in_sellerAddress dto),
                  e_amount := Some (decimal_of (in_amount dto))\<rparr>)) (ret e)) (\<lambda>escrow.
       andThen (if found = None
                then audit_create ((audit_input AA_ESCROW_CREATED ''Escrow'' SUCCESS)
                       \<lparr>ai_resourceId := Some (e_escrowId escrow),
                        ai_metadata := Some (JObj [(''orderId'', JStr (in_orderId dto))])\<rparr>)
                else ret ())
         (ret (e_escrowId escrow, unsignedTransaction)))))))))"

subsection \<open>Funding, evidence, release\<close>

record FundEscrowDto =
  fd_escrowId :: string
  fd_signerAddress :: string
  fd_amount :: js_number

definition escrow_fund :: "services \<Rightarrow> FundEscrowDto \<Rightarrow> ('z, string \<times> string) act" where
  "escrow_fund sv dto =
     bindE (escrow_getOrFail (fd_escrowId dto)) (\<lambda>e.
     andThen (throwIf (\<not> truthy (e_contractId e)) (appExc ESCROW_NOT_INITIALIZED))
     (andThen (throwIf (e_escrowStatus e \<noteq> ES_initialized) (appExc ESCROW_INVALID_STATUS))
     (bindE (tw_fundEscrow (sv_tw sv)
       \<lparr> fe_contractId = the (e_contractId e), fe_signer = fd_signerAddress dto,
         fe_amount = fd_amount dto \<rparr>) (\<lambda>xdr.
      ret (e_escrowId e, xdr)))))"

record FiatSentDto =
  fs_evidence :: "string option"
  fs_buyerAddress :: string

definition escrow_markFiatSent :: "services \<Rightarrow> string \<Rightarrow> FiatSentDto \<Rightarrow> ('z, string \<times> string) act" where
  "escrow_markFiatSent sv i dto =
     bindE (escrow_getOrFail i) (\<lambda>e.
     andThen (throwIf (e_escrowStatus e \<notin> {ES_funded, ES_fiat_sent}) (appExc ESCROW_INVALID_STATUS))
     (bindE (tw_changeMilestoneStatus (sv_tw sv)
       \<lparr> cm_contractId = e_contractId e, cm_milestoneIndex = ''0'', cm_newStatus = ''completed'',
         cm_newEvidence = get_or (orElse (fs_evidence dto) (Some ''Fiat payment sent by buyer''))
                            ''Fiat payment sent by buyer'',
         cm_serviceProvider = fs_buyerAddress dto \<rparr>) (\<lambda>xdr.
      ret (e_escrowId e, xdr))))"

definition allowedMimes :: "string list" where
  "allowedMimes = [''image/jpeg'', ''image/png'', ''image/webp'', ''application/pdf'']"

definition evidence_key :: "escrow \<Rightarrow> int \<Rightarrow> string \<Rightarrow> string" where
  "evidence_key e now name =
     (let ext = last (split_on (CHR ''.'') name)
      in ''evidence/'' @ e_escrowId e @ ''/'' @ show_int now @ ''.''
         @ (if ext = [] then ''jpg'' else ext))"

definition escrow_uploadEvidence ::
    "services \<Rightarrow> string \<Rightarrow> UploadFileInput option \<Rightarrow> ('z, string) act" where
  "escrow_uploadEvidence sv i file =
     (case file of
        None \<Rightarrow> throw (appExc VALIDATION_ERROR)
      | Some f \<Rightarrow>
          andThen (throwIf (up_buffer f = None) (appExc VALIDATION_ERROR))
          (andThen (throwIf (up_mimetype f \<notin> set allowedMimes) (appExc VALIDATION_ERROR))
          (bindE (escrow_getOrFail i) (\<lambda>e.
           bindE (getState clock) (\<lambda>now.
           bindE (lift (uploadFile (sv_gcs sv) (sv_config sv) now
                    (f\<lparr>up_key := Some (evidence_key e now (up_originalname f))\<rparr>))) (\<lambda>stored.
           andThen (base_update escrow_table i (\<lambda>r. r\<lparr>e_evidenceUrl := Some (sf_url stored)\<rparr>))
             (ret (sf_url stored))))))))"

record ReleaseEscrowDto =
  re_escrowId :: string
  re_releaseSigner :: string

text \<open>\<open>statusRes?.[0]?.milestones?.[0]?.status\<close>.\<close>

definition milestoneState :: "EscrowIndexerEntry list \<Rightarrow> string option" where
  "milestoneState rs =
     (case rs of [] \<Rightarrow> None
      | r # _ \<Rightarrow> (case ie_milestones r of [] \<Rightarrow> None | ms # _ \<Rightarrow> ms_status ms))"

definition autoApprove :: "services \<Rightarrow> string \<Rightarrow> ('z, unit) act" where
  "autoApprove sv contractId =
     bindE (cfg_getOrThrow (sv_config sv) ''IKASH_TREASURY_ADDRESS'') (\<lambda>treasury.
     bindE (cfg_getOrThrow (sv_config sv) ''IKASH_DEPLOYER_SECRET'') (\<lambda>treasurySecret.
     bindE (tw_approveMilestone (sv_tw sv)
       \<lparr> am_contractId = contractId, am_milestoneIndex = ''0'', am_approver = treasury \<rparr>) (\<lambda>xdr.
     bindE (tw_signAndBroadcast (sv_tw sv) xdr treasurySecret (getNetworkPassphrase (sv_config sv)))
       (\<lambda>broadcastResult.
     throwIf (sr_status broadcastResult \<noteq> ''SUCCESS'') (appExc ESCROW_APPROVE_FAILED)))))"

definition escrow_release :: "services \<Rightarrow> ReleaseEscrowDto \<Rightarrow> ('z, string \<times> string) act" where
  "escrow_release sv dto =
     bindE (escrow_getOrFail (re_escrowId dto)) (\<lambda>e.
     andThen (throwIf (\<not> truthy (e_contractId e)) (appExc ESCROW_NO_CONTRACT))
     (andThen (throwIf (e_escrowStatus e \<notin> {ES_funded, ES_fiat_sent}) (appExc ESCROW_INVALID_STATUS))
     (bindE (tw_getEscrowByContractId (sv_tw sv) (the (e_contractId e)) True) (\<lambda>statusRes.
      andThen (if milestoneState statusRes = Some ''completed''
               then autoApprove sv (the (e_contractId e)) else ret ())
      (bindE (tw_releaseMilestoneFunds (sv_tw sv)
        \<lparr> rm_contractId = the (e_contractId e), rm_releaseSigner = re_releaseSigner dto,
          rm_milestoneIndex = ''0'' \<rparr>) (\<lambda>xdr.
       ret (e_escrowId e, xdr)))))))"

subsection \<open>Synchronising a broadcast transaction\<close>

record SyncEscrowDto =
  sy_escrowId :: string
  sy_signedXdr :: string
  sy_action :: EscrowAction

text \<open>The \<open>updateData\<close> of each action, as the change of the row.\<close>

primrec sync_update :: "EscrowAction \<Rightarrow> SendTransactionResponse \<Rightarrow> string \<Rightarrow> escrow \<Rightarrow> escrow" where
  "sync_update INITIALIZE res xdr r = r\<lparr>e_escrowStatus := ES_initialized,
     e_contractId := (if truthy (sr_contractId res) then sr_contractId res else e_contractId r),
     e_txHashLock := Some (take 64 xdr)\<rparr>"
| "sync_update FUND res xdr r = r\<lparr>e_escrowStatus := ES_funded\<rparr>"
| "sync_update FIAT_SENT res xdr r = r\<lparr>e_escrowStatus := ES_fiat_sent\<rparr>"
| "sync_update RELEASE res xdr r = r\<lparr>e_escrowStatus := ES_released, e_txHashRelease := Some (take 64 xdr)\<rparr>"

primrec sync_target :: "EscrowAction \<Rightarrow> escrow_status" where
  "sync_target INITIALIZE = ES_initialized"
| "sync_target FUND = ES_funded"
| "sync_target FIAT_SENT = ES_fiat_sent"
| "sync_target RELEASE = ES_released"

definition sync_audit :: "SyncEscrowDto \<Rightarrow> string option \<Rightarrow> ('z, unit) act" where
  "sync_audit dto contractId =
     (if sy_action dto = FUND then
        audit_create ((audit_input AA_ESCROW_FUNDED ''Escrow'' SUCCESS)
          \<lparr>ai_resourceId := Some (sy_escrowId dto),
           ai_metadata := Some (JObj [(''contractId'', jopt contractId)])\<rparr>)
      else if sy_action dto = RELEASE then
        audit_create ((audit_input AA_ESCROW_RELEASED ''Escrow'' SUCCESS)
          \<lparr>ai_resourceId := Some (sy_escrowId dto),
           ai_metadata := Some (JObj [(''contractId'', jopt contractId),
             (''txHashRelease'', JStr (take 64 (sy_signedXdr dto)))])\<rparr>)
      else ret ())"

text \<open>The result: id, chain status, contract and new escrow status.\<close>

definition escrow_syncTransaction ::
    "services \<Rightarrow> SyncEscrowDto \<Rightarrow> ('z, string \<times> string \<times> string option \<times> escrow_status) act" where
  "escrow_syncTransaction sv dto =
     bindE (escrow_getOrFail (sy_escrowId dto)) (\<lambda>e.
     andThen (lift (validateStatusTransition (escrow_status_name (e_escrowStatus e))
                      (action_key (sy_action dto))))
     (bindE (tw_sendTransaction (sv_tw sv) (sy_signedXdr dto)) (\<lambda>res.
      andThen (throwIf (sr_status res \<noteq> ''SUCCESS'') (appExc ESCROW_SYNC_FAILED))
      (andThen (base_update escrow_table (sy_escrowId dto)
                  (sync_update (sy_action dto) res (sy_signedXdr dto)))
      (andThen (sync_audit dto (nullish (sr_contractId res) (e_contractId e)))
        (ret (sy_escrowId dto, sr_status res, nullish (sr_contractId res) (e_contractId e),
              sync_target (sy_action dto))))))))"

subsection \<open>Status and CRUD\<close>

text \<open>\<open>Promise.allSettled\<close>: a rejected request is \<open>None\<close>.\<close>

definition settled :: "('z, 'a) act \<Rightarrow> ('z, 'a option) act" where
  "settled m = tryCatch (bindE m (\<lambda>a. ret (Some a))) (\<lambda>_. ret None)"

definition escrow_getStatus ::
    "services \<Rightarrow> string \<Rightarrow>
     ('z, escrow \<times> EscrowBalanceResponse list option \<times> EscrowIndexerEntry list option) act" where
  "escrow_getStatus sv i =
     bindE (escrow_getOrFail i) (\<lambda>e.
     if truthy (e_contractId e) then
       bindE (settled (tw_getEscrowBalance (sv_tw sv) (the (e_contractId e)))) (\<lambda>balance.
       bindE (settled (tw_getEscrowByContractId (sv_tw sv) (the (e_contractId e)) True)) (\<lambda>onChain.
       ret (e, balance, onChain)))
     else ret (e, None, None))"

record CreateEscrowDto =
  ce_orderId :: string
  ce_txHashLock :: "string option"
  ce_txHashRelease :: "string option"

definition escrow_create :: "CreateEscrowDto \<Rightarrow> ('z, escrow) act" where
  "escrow_create dto =
     bindE (findByOrder (ce_orderId dto)) (\<lambda>exists.
     andThen (throwIf (exists \<noteq> None) (appExc ESCROW_ALREADY_EXISTS))
       (create_escrow (ce_orderId dto) (\<lambda>r. r\<lparr>e_txHashLock := ce_txHashLock dto,
          e_txHashRelease := ce_txHashRelease dto\<rparr>)))"

definition find_args :: "nat option \<Rightarrow> nat option \<Rightarrow> ('r \<Rightarrow> bool) \<Rightarrow> 'r FindManyArgs" where
  "find_args sk tk p = \<lparr> fm_skip = sk, fm_take = tk, fm_where = p, fm_orderBy = (\<lambda>rs. rs),
     fm_include = False, fm_select = False \<rparr>"

record PaginationDto =
  pg_skip :: "nat option"
  pg_take :: "nat option"

definition escrow_list :: "PaginationDto \<Rightarrow> string option \<Rightarrow> ('z, escrow list) act" where
  "escrow_list p orderId =
     (if truthy orderId
      then base_findMany escrow_table (find_args (pg_skip p) (pg_take p) (\<lambda>e. Some (e_orderId e) = orderId))
      else base_findMany escrow_table (find_args (pg_skip p) (pg_take p) (\<lambda>_. True)))"

definition escrow_get :: "string \<Rightarrow> ('z, escrow) act" where
  "escrow_get i = bindE (base_findById escrow_table i)
     (\<lambda>item. case item of None \<Rightarrow> throw (appExc ESCROW_NOT_FOUND) | Some e \<Rightarrow> ret e)"

text \<open>\<open>UpdateEscrowDto\<close>: every field of \<open>CreateEscrowDto\<close> optional; an absent field is not written.\<close>

record UpdateEscrowDto =
  ue_orderId :: "string option"
  ue_txHashLock :: "string option"
  ue_txHashRelease :: "string option"

definition escrow_update :: "string \<Rightarrow> UpdateEscrowDto \<Rightarrow> ('z, escrow) act" where
  "escrow_update i dto = base_update escrow_table i (\<lambda>r. r\<lparr>
     e_orderId := get_or (ue_orderId dto) (e_orderId r),
     e_txHashLock := nullish (ue_txHashLock dto) (e_txHashLock r),
     e_txHashRelease := nullish (ue_txHashRelease dto) (e_txHashRelease r)\<rparr>)"

definition escrow_remove :: "string \<Rightarrow> ('z, escrow) act" where
  "escrow_remove i = base_delete escrow_table i"

definition onchain_update :: "escrow_status \<Rightarrow> string option \<Rightarrow> string option \<Rightarrow> escrow \<Rightarrow> escrow" where
  "onchain_update newStatus txHash eventType r = r\<lparr>e_escrowStatus := newStatus,
     e_txHashLock := (if eventType = Some ''ESCROW_FUNDED'' \<and> truthy txHash then txHash else e_txHashLock r),
     e_txHashRelease := (if (eventType = Some ''ESCROW_RELEASED'' \<or> eventType = Some ''ESCROW_REFUNDED'')
        \<and> truthy txHash then txHash else e_txHashRelease r)\<rparr>"

definition escrow_updateStatusFromOnChain ::
    "string \<Rightarrow> escrow_status \<Rightarrow> string option \<Rightarrow> string option \<Rightarrow> ('z, escrow) act" where
  "escrow_updateStatusFromOnChain i newStatus txHash eventType =
     base_update escrow_table i (onchain_update newStatus txHash eventType)"

end
