(* ===== verification/EscrowProps.thy ===== *)
theory EscrowProps
  imports Escrow Samples
begin

text \<open>
  The properties of \<open>EscrowService\<close>: the lifecycle of an escrow as a relation on statuses, what
  the transition guard accepts, and what each operation may change.
\<close>

subsection \<open>The lifecycle of an escrow\<close>

inductive escrow_edge :: "escrow_status \<Rightarrow> escrow_status \<Rightarrow> bool" where
  deploy: "escrow_edge ES_pending ES_initialized"
| fund: "escrow_edge ES_initialized ES_funded"
| pay: "escrow_edge ES_funded ES_fiat_sent"
| release: "c \<in> {ES_funded, ES_fiat_sent} \<Longrightarrow> escrow_edge c ES_released"
| refund: "c \<in> {ES_funded, ES_fiat_sent, ES_disputed} \<Longrightarrow> escrow_edge c ES_resolved"
| cancel: "c \<in> {ES_pending, ES_initialized} \<Longrightarrow> escrow_edge c ES_resolved"
| dispute: "c \<in> {ES_funded, ES_fiat_sent} \<Longrightarrow> escrow_edge c ES_disputed"

code_pred escrow_edge .

inductive_simps escrow_edge_from_simps [simp]:
  "escrow_edge ES_pending b" "escrow_edge ES_initialized b" "escrow_edge ES_funded b"
  "escrow_edge ES_fiat_sent b" "escrow_edge ES_disputed b" "escrow_edge ES_released b"
  "escrow_edge ES_resolved b"

text \<open>Statuses in the order of an escrow's life; both ends of it, released and resolved, last.\<close>

primrec life_rank :: "escrow_status \<Rightarrow> nat" where
  "life_rank ES_pending = 0"
| "life_rank ES_initialized = 1"
| "life_rank ES_funded = 2"
| "life_rank ES_fiat_sent = 3"
| "life_rank ES_disputed = 4"
| "life_rank ES_released = 5"
| "life_rank ES_resolved = 6"

lemma life_rank_inj: "life_rank a = life_rank b \<Longrightarrow> a = b"
  by (cases a; cases b) simp_all

instantiation escrow_status :: linorder
begin

definition less_eq_escrow_status :: "escrow_status \<Rightarrow> escrow_status \<Rightarrow> bool" where
  "less_eq_escrow_status a b \<longleftrightarrow> life_rank a \<le> life_rank b"

definition less_escrow_status :: "escrow_status \<Rightarrow> escrow_status \<Rightarrow> bool" where
  "less_escrow_status a b \<longleftrightarrow> life_rank a < life_rank b"

instance
  by standard
    (auto simp: less_eq_escrow_status_def less_escrow_status_def dest: life_rank_inj)

end

lemma escrow_edge_less: "escrow_edge a b \<Longrightarrow> a < b"
  by (induction rule: escrow_edge.induct) (auto simp: less_escrow_status_def)

lemma escrow_edge_terminal: "escrow_edge a b \<Longrightarrow> a \<noteq> ES_released \<and> a \<noteq> ES_resolved"
  by (cases a) auto

subsection \<open>The transition guard\<close>

text \<open>The statuses an action or an on-chain event leads to (\<open>mapEventToStatuses\<close> for the events).\<close>

definition guard_targets :: "(string \<times> escrow_status) list" where
  "guard_targets =
     [(''initialize'', ES_initialized), (''fund'', ES_funded), (''fiat_sent'', ES_fiat_sent),
      (''release'', ES_released), (''ESCROW_CREATED'', ES_initialized), (''ESCROW_FUNDED'', ES_funded),
      (''ESCROW_RELEASED'', ES_released), (''ESCROW_REFUNDED'', ES_resolved),
      (''ESCROW_CANCELLED'', ES_resolved), (''ESCROW_DISPUTED'', ES_disputed)]"

definition guard_target :: "string \<Rightarrow> escrow_status option" where
  "guard_target act = map_of guard_targets act"

lemma name_inj: "escrow_status_name a = escrow_status_name b \<longleftrightarrow> a = b"
  by (cases a; cases b) simp_all

text \<open>What the guard accepts, action by action and event by event.\<close>

lemma guard_allows:
  "map_of validTransitions act = Some (map escrow_status_name cs) \<Longrightarrow>
   validateStatusTransition (escrow_status_name c) act = Inr () \<longleftrightarrow> c \<in> set cs"
  by (auto simp: validateStatusTransition_def name_inj)

lemma guard_accepts [simp]:
  "validateStatusTransition (escrow_status_name c) ''initialize'' = Inr () \<longleftrightarrow> c \<in> set [ES_pending]"
  "validateStatusTransition (escrow_status_name c) ''fund'' = Inr () \<longleftrightarrow> c \<in> set [ES_initialized]"
  "validateStatusTransition (escrow_status_name c) ''fiat_sent'' = Inr () \<longleftrightarrow> c \<in> set [ES_funded]"
  "validateStatusTransition (escrow_status_name c) ''release'' = Inr () \<longleftrightarrow> c \<in> set [ES_funded, ES_fiat_sent]"
  "validateStatusTransition (escrow_status_name c) ''ESCROW_CREATED'' = Inr () \<longleftrightarrow> c \<in> set [ES_pending]"
  "validateStatusTransition (escrow_status_name c) ''ESCROW_FUNDED'' = Inr () \<longleftrightarrow> c \<in> set [ES_initialized]"
  "validateStatusTransition (escrow_status_name c) ''ESCROW_RELEASED'' = Inr () \<longleftrightarrow> c \<in> set [ES_funded, ES_fiat_sent]"
  "validateStatusTransition (escrow_status_name c) ''ESCROW_REFUNDED'' = Inr () \<longleftrightarrow> c \<in> set [ES_funded, ES_fiat_sent, ES_disputed]"
  "validateStatusTransition (escrow_status_name c) ''ESCROW_CANCELLED'' = Inr () \<longleftrightarrow> c \<in> set [ES_pending, ES_initialized]"
  "validateStatusTransition (escrow_status_name c) ''ESCROW_DISPUTED'' = Inr () \<longleftrightarrow> c \<in> set [ES_funded, ES_fiat_sent]"
  by (rule guard_allows, simp add: validTransitions_def)+

lemma guard_target_simps [simp]:
  "guard_target ''initialize'' = Some ES_initialized"
  "guard_target ''fund'' = Some ES_funded"
  "guard_target ''fiat_sent'' = Some ES_fiat_sent"
  "guard_target ''release'' = Some ES_released"
  "guard_target ''ESCROW_CREATED'' = Some ES_initialized"
  "guard_target ''ESCROW_FUNDED'' = Some ES_funded"
  "guard_target ''ESCROW_RELEASED'' = Some ES_released"
  "guard_target ''ESCROW_REFUNDED'' = Some ES_resolved"
  "guard_target ''ESCROW_CANCELLED'' = Some ES_resolved"
  "guard_target ''ESCROW_DISPUTED'' = Some ES_disputed"
  by (simp_all add: guard_target_def guard_targets_def)

lemma guard_target_action [simp]: "guard_target (action_key a) = Some (sync_target a)"
  by (cases a) simp_all

lemma guard_unknown:
  assumes "act \<notin> set (map fst validTransitions)"
  shows "validateStatusTransition c act = Inl (appExc ESCROW_INVALID_STATUS)" "guard_target act = None"
proof -
  have "map fst guard_targets = map fst validTransitions"
    by (simp add: guard_targets_def validTransitions_def)
  then show "guard_target act = None"
    using assms by (metis guard_target_def map_of_eq_None_iff set_map)
  show "validateStatusTransition c act = Inl (appExc ESCROW_INVALID_STATUS)"
    using assms by (simp add: validateStatusTransition_def map_of_eq_None_iff[THEN iffD2])
qed

lemma guard_act_cases:
  obtains "act \<notin> set (map fst validTransitions)"
  | "act = ''initialize''" | "act = ''fund''" | "act = ''fiat_sent''" | "act = ''release''"
  | "act = ''ESCROW_CREATED''" | "act = ''ESCROW_FUNDED''" | "act = ''ESCROW_RELEASED''"
  | "act = ''ESCROW_REFUNDED''" | "act = ''ESCROW_CANCELLED''" | "act = ''ESCROW_DISPUTED''"
proof (cases "act \<in> set (map fst validTransitions)")
  case True
  then have "act = ''initialize'' \<or> act = ''fund'' \<or> act = ''fiat_sent'' \<or> act = ''release''
    \<or> act = ''ESCROW_CREATED'' \<or> act = ''ESCROW_FUNDED'' \<or> act = ''ESCROW_RELEASED''
    \<or> act = ''ESCROW_REFUNDED'' \<or> act = ''ESCROW_CANCELLED'' \<or> act = ''ESCROW_DISPUTED''"
    by (simp add: validTransitions_def)
  then show thesis using that by (elim disjE)
qed (rule that)

lemma guard_action_edge:
  "validateStatusTransition (escrow_status_name c) (action_key a) = Inr () \<Longrightarrow> escrow_edge c (sync_target a)"
  by (cases a; simp) auto

text \<open>
  C15.  The status guard accepts an action or an event in a status exactly when the status it leads to
  is one edge of the lifecycle away; the two ways to a resolved escrow are told apart by the event:
  a refund needs moved or disputed funds, a cancellation an escrow that is not funded yet.
\<close>

theorem validateStatusTransition_iff:
  "validateStatusTransition (escrow_status_name c) act = Inr () \<longleftrightarrow>
     (\<exists>c'. guard_target act = Some c' \<and> escrow_edge c c' \<and>
        (act = ''ESCROW_REFUNDED'' \<longrightarrow> c \<in> {ES_funded, ES_fiat_sent, ES_disputed}) \<and>
        (act = ''ESCROW_CANCELLED'' \<longrightarrow> c \<in> {ES_pending, ES_initialized}))"
  by (rule guard_act_cases[of act]; (simp add: guard_unknown; fail)?; hypsubst_thin?;
      simp only: guard_accepts guard_target_simps; cases c; simp)

theorem validateStatusTransition_iff_witness:
  "validateStatusTransition (escrow_status_name ES_disputed) ''ESCROW_REFUNDED'' = Inr ()"
  using validateStatusTransition_iff[of ES_disputed "''ESCROW_REFUNDED''"] by simp

text \<open>An event that is already processed never passes the guard.\<close>

lemma processed_rejected:
  "isTerminalOrAlreadyProcessed c ev \<Longrightarrow> validateStatusTransition (escrow_status_name c) ev \<noteq> Inr ()"
  unfolding isTerminalOrAlreadyProcessed_def by (elim disjE conjE; hypsubst; simp only: guard_accepts) auto

subsection \<open>Synchronising a transaction\<close>

lemma sync_update_id [simp]: "e_escrowId (sync_update a res xdr r) = e_escrowId r"
  "e_orderId (sync_update a res xdr r) = e_orderId r"
  "e_escrowStatus (sync_update a res xdr r) = sync_target a"
  by (cases a; simp)+

text \<open>The escrow table after a successful synchronisation, and what must have happened for it.\<close>

definition synced :: "services \<Rightarrow> SyncEscrowDto \<Rightarrow> 'z world_scheme \<Rightarrow> db \<Rightarrow> bool" where
  "synced sv dto s d \<longleftrightarrow>
     (\<exists>e res. List.find (\<lambda>r. e_escrowId r = sy_escrowId dto) (escrows (tables s)) = Some e \<and>
        escrow_edge (e_escrowStatus e) (sync_target (sy_action dto)) \<and>
        http_send (sv_tw sv) (tw_calls s) (sy_signedXdr dto) = Inr res \<and> sr_status res = ''SUCCESS'' \<and>
        escrows d = map (\<lambda>r. if e_escrowId r = sy_escrowId dto
                             then sync_update (sy_action dto) res (sy_signedXdr dto) r else r)
                        (escrows (tables s)))"

lemma synced_audited: "synced sv dto s (tables (audited inp u)) = synced sv dto s (tables u)"
  by (simp add: synced_def)

lemma wp_sync_auditI:
  "Q () u \<Longrightarrow> (\<And>inp. Q () (audited inp u)) \<Longrightarrow> wp (sync_audit dto c) Q E u"
  by (simp add: sync_audit_def prog)

lemma sync_post:
  "wp (escrow_syncTransaction sv dto)
     (\<lambda>_ t. synced sv dto s (tables t) \<and> (tables t)\<lparr>escrows := [], audits := []\<rparr> = (tables s)\<lparr>escrows := [], audits := []\<rparr>)
     (\<lambda>_ t. escrows (tables t) = escrows (tables s)  \<and> (tables t)\<lparr>escrows := [], audits := []\<rparr> = (tables s)\<lparr>escrows := [], audits := []\<rparr>) s"
proof -
  have fr: "(tables (audited inp u))\<lparr>escrows := [], audits := []\<rparr> = (tables u)\<lparr>escrows := [], audits := []\<rparr>"
    for inp and u :: "'a world_scheme"
    by (rule audited_cases[of inp u]) auto
  show ?thesis
    unfolding escrow_syncTransaction_def escrow_getOrFail_def base_findById_def base_update_def
    by (auto intro!: db_anyI wp_sync_auditI simp: prog wp_any wp_tw_send Let_def fr synced_audited
          split: option.split sum.split)
       (auto simp: synced_def dest: guard_action_edge find_SomeD)
qed


definition sample_services :: "string \<Rightarrow> services" where
  "sample_services st = \<lparr> sv_config = (\<lambda>k. Some ''K''), sv_tw = sample_tw st,
     sv_gcs = \<lparr> blob_save = (\<lambda>_ _. True), random_hex = ''00'' \<rparr> \<rparr>"


subsection \<open>Deployment\<close>

lemma wp_validateAssetCode [prog]:
  "wp (validateAssetCode a) Q E s =
     (if toUpper (get_or (orElse a (Some ''USDC'')) ''USDC'') \<noteq> ''USDC'' then E (appExc UNSUPPORTED_ASSET) s
      else Q () s)"
  by (simp add: validateAssetCode_def prog)

lemma wp_buildP2PRoles [prog]:
  "wp (buildP2PRoles cfg seller buyer) Q E s =
     (case cfg ''IKASH_TREASURY_ADDRESS'' of None \<Rightarrow> E PlainError s
      | Some tr \<Rightarrow> (case cfg ''IKASH_SUPPORT_ADDRESS'' of None \<Rightarrow> E PlainError s
          | Some su \<Rightarrow> Q \<lparr> approver = tr, serviceProvider = buyer, platformAddress = tr,
                          releaseSigner = seller, disputeResolver = su \<rparr> s))"
  by (simp add: buildP2PRoles_def prog split: option.split)

lemma wp_resolveTrustline [prog]:
  "wp (resolveTrustline cfg a) Q E s =
     (if a = None \<or> a = Some ''XLM'' \<or> a = Some ''native'' \<or> a = Some []
      then Q \<lparr> tl_address = cfg_get cfg ''TRUSTLESS_WORK_XLM_ADDRESS''
                 ''CDLZFC3SYJYDZT7K67VZ75HPJVIEUVNIXF47ZG2FB2RMQQVU2HHGCYSC'', tl_symbol = ''XLM'' \<rparr> s
      else (case cfg ''TRUSTLESS_WORK_USDC_ISSUER'' of None \<Rightarrow> E PlainError s
            | Some iss \<Rightarrow> Q \<lparr> tl_address = iss, tl_symbol = the a \<rparr> s))"
  by (simp add: resolveTrustline_def prog split: option.split)

lemma wp_tw_initializeEscrow [prog]:
  "wp (tw_initializeEscrow env p) Q E s =
     (if toUpper (tl_symbol (ini_trustline p)) \<noteq> ''USDC'' then E (appExc UNSUPPORTED_ASSET) s
      else wp (tw_unsigned env (DeployMultiRelease p)) Q E s)"
  by (simp add: tw_initializeEscrow_def prog)

text \<open>What the payload of a deployment says, for the parties and the amount of the request.\<close>

definition p2p_payload :: "config \<Rightarrow> string \<Rightarrow> string \<Rightarrow> string \<Rightarrow> js_number \<Rightarrow>
    InitializeMultiReleaseEscrowPayload \<Rightarrow> bool" where
  "p2p_payload cfg orderId seller buyer amount p \<longleftrightarrow>
     ini_engagementId p = orderId \<and>
     ini_milestones p = [p2p_milestone amount buyer] \<and>
     serviceProvider (ini_roles p) = buyer \<and> releaseSigner (ini_roles p) = seller \<and>
     Some (approver (ini_roles p)) = cfg ''IKASH_TREASURY_ADDRESS'' \<and>
     Some (disputeResolver (ini_roles p)) = cfg ''IKASH_SUPPORT_ADDRESS''"

definition usdc_trustline :: "config \<Rightarrow> Trustline \<Rightarrow> bool" where
  "usdc_trustline cfg tr \<longleftrightarrow> toUpper (tl_symbol tr) = ''USDC'' \<and>
     Some (tl_address tr) = cfg ''TRUSTLESS_WORK_USDC_ISSUER''"

lemma xlm_not_usdc [simp]: "toUpper ''XLM'' \<noteq> ''USDC''" "toUpper ''native'' \<noteq> ''USDC''" "toUpper [] \<noteq> ''USDC''"
  by code_simp+

lemma usdc_upper [simp]: "toUpper ''USDC'' = ''USDC''"
  by code_simp

lemma wp_escrow_payloadI:
  assumes "E PlainError s"
    and "\<And>p. p2p_payload cfg orderId seller buyer amount p \<Longrightarrow>
      (toUpper (tl_symbol (ini_trustline p)) = ''USDC'' \<Longrightarrow> usdc_trustline cfg (ini_trustline p)
         \<and> toUpper (get_or assetCode []) = ''USDC'') \<Longrightarrow> Q p s"
  shows "wp (escrow_payload cfg signer orderId title seller buyer amount assetCode) Q E s"
  unfolding escrow_payload_def
  by (auto intro!: assms simp: wp_bindE wp_buildP2PRoles wp_resolveTrustline wp_ret p2p_payload_def
      usdc_trustline_def split: option.split)

lemma wp_signAndBroadcastI:
  assumes "\<And>e. E e s"
    and "\<And>xdr'. broadcast_xdr env xdr secret pass = Inr xdr' \<Longrightarrow> wp (tw_sendTransaction env xdr') Q E s"
  shows "wp (tw_signAndBroadcast env xdr secret pass) Q E s"
  using assms by (simp add: wp_tw_signAndBroadcast split: sum.split)

text \<open>
  What a successful deployment has done: exactly three requests (deploy, broadcast of the signed
  deploy transaction, request of the fund transaction) and nothing else; the contract is the one
  the broadcast returned, in USDC, with the buyer as receiver of the one milestone.
\<close>

definition deployed :: "services \<Rightarrow> string \<Rightarrow> 'd deploy_dto_scheme \<Rightarrow> 'z world_scheme \<Rightarrow> string \<Rightarrow>
    'z world_scheme \<Rightarrow> bool" where
  "deployed sv orderId dto s cid t \<longleftrightarrow> (\<exists>p unsigned secret xdr res.
     p2p_payload (sv_config sv) orderId (dd_sellerAddress dto) (dd_buyerAddress dto) (dd_amount dto) p \<and>
     usdc_trustline (sv_config sv) (ini_trustline p) \<and>
     http_unsigned (sv_tw sv) (tw_calls s) (DeployMultiRelease p) = Inr unsigned \<and>
     sv_config sv ''IKASH_DEPLOYER_SECRET'' = Some secret \<and>
     broadcast_xdr (sv_tw sv) unsigned secret (getNetworkPassphrase (sv_config sv)) = Inr xdr \<and>
     http_send (sv_tw sv) (tw_calls s @ [DeployMultiRelease p]) xdr = Inr res \<and>
     sr_status res = ''SUCCESS'' \<and> sr_contractId res = Some cid \<and> cid \<noteq> [] \<and>
     t = s\<lparr>tw_calls := tw_calls s @ [DeployMultiRelease p, SendTransaction xdr,
       FundEscrow \<lparr> fe_contractId = cid, fe_signer = dd_sellerAddress dto, fe_amount = dd_amount dto \<rparr>]\<rparr>)"

lemma only_calls_append [simp]: "only_calls s (s\<lparr>tw_calls := tw_calls s @ cs\<rparr>)"
  by (auto simp: only_calls_def)

declare only_calls_refl [simp]

lemma deploy_post:
  "wp (deployEscrowToChain sv orderId dto)
     (\<lambda>r t. deployed sv orderId dto s (fst r) t \<and> toUpper (get_or (dd_assetCode dto) []) = ''USDC'')
     (\<lambda>_ t. only_calls s t \<and> (toUpper (get_or (dd_assetCode dto) []) \<noteq> ''USDC'' \<longrightarrow> t = s)) s"
  unfolding deployEscrowToChain_def tw_fundEscrow_def
  by (simp add: wp_bindE wp_andThen wp_validateAssetCode wp_cfg_getOrThrow,
    auto split: option.split intro!: wp_escrow_payloadI wp_signAndBroadcastI
     simp: wp_cfg_getOrThrow wp_tw_initializeEscrow wp_tw_unsigned wp_tw_send Let_def wp_throw wp_ret wp_bindE split: sum.split elim!: truthyE,
    auto simp: deployed_def)

text \<open>
  A deployment writes nothing to the database.  When it succeeds it has made exactly three
  requests, in this order: the deployment of a USDC contract for this order whose milestone pays
  the buyer the order's amount (service provider the buyer, release signer the seller, approver
  the treasury), the broadcast of that transaction signed with the deployer's secret, and the
  request of the seller's fund transaction for the contract the chain returned.
\<close>

theorem deployEscrowToChain_calls:
  assumes "deployEscrowToChain sv orderId dto s = (r, t)"
  shows "tables t = tables s \<and>
    (case r of Inl _ \<Rightarrow> True | Inr (cid, _) \<Rightarrow> deployed sv orderId dto s cid t)"
  using wp_run[OF deploy_post assms]
  by (auto simp: deployed_def only_calls_tables split: sum.splits)

definition sample_deploy :: "string option \<Rightarrow> deploy_dto" where
  "sample_deploy asset = \<lparr> dd_sellerAddress = ''GC'', dd_buyerAddress = ''GB'', dd_amount = Number ''5'',
     dd_assetCode = asset, dd_title = None \<rparr>"

lemma sample_deploy_runs:
  assumes "dd_assetCode dto = Some ''USDC''"
  shows "\<exists>cs. deployEscrowToChain (sample_services ''SUCCESS'') orderId dto s
     = (Inr (''CNEW'', ''XDR''), s\<lparr>tw_calls := tw_calls s @ cs\<rparr>)"
proof -
  have "wp (deployEscrowToChain (sample_services ''SUCCESS'') orderId dto)
      (\<lambda>a t. a = (''CNEW'', ''XDR'') \<and> only_calls s t) (\<lambda>_ _. False) s"
    by (simp add: deployEscrowToChain_def escrow_payload_def sample_services_def assms prog
        tw_fundEscrow_def wp_tw_unsigned wp_tw_send wp_tw_signAndBroadcast Let_def orElse_def
        del: append.simps)
  from wp_returns[OF this] show ?thesis by (auto simp: only_calls_def)
qed

theorem deployEscrowToChain_calls_witness:
  "\<exists>t. deployed (sample_services ''SUCCESS'') ''o1'' (sample_deploy (Some ''USDC''))
         (quiet_world sample_db) ''CNEW'' t"
proof -
  obtain t where t: "deployEscrowToChain (sample_services ''SUCCESS'') ''o1'' (sample_deploy (Some ''USDC''))
      (quiet_world sample_db) = (Inr (''CNEW'', ''XDR''), t)"
    using sample_deploy_runs[of "sample_deploy (Some ''USDC'')"] by (auto simp: sample_deploy_def)
  from deployEscrowToChain_calls[OF t] show ?thesis by (intro exI[of _ t]) simp
qed

text \<open>
  An escrow in another asset than USDC is refused before any request is made; so is one whose
  asset code is left out, although the data transfer objects document USDC as the default: the
  asset check lets it pass, and the trustline is then resolved as XLM.
\<close>

theorem deployEscrowToChain_usdc_only:
  assumes "toUpper (get_or (dd_assetCode dto) []) \<noteq> ''USDC''"
  shows "\<exists>e. deployEscrowToChain sv orderId dto s = (Inl e, s)"
proof -
  have "wp (deployEscrowToChain sv orderId dto) (\<lambda>_ _. False) (\<lambda>_ t. t = s) s"
    by (rule wp_mono[OF deploy_post]) (use assms in auto)
  from wp_throws[OF this] show ?thesis by blast
qed

theorem deployEscrowToChain_usdc_only_witness:
  "\<exists>e. deployEscrowToChain (sample_services ''SUCCESS'') ''o1'' (sample_deploy None) (quiet_world sample_db)
     = (Inl e, quiet_world sample_db)"
  by (rule deployEscrowToChain_usdc_only) (simp add: sample_deploy_def)

subsection \<open>Opening an escrow\<close>

text \<open>The row \<open>open\<close> writes: a new one, or the order's own that had no contract yet.\<close>

definition opened_row :: "OpenEscrowDto \<Rightarrow> string \<Rightarrow> string \<Rightarrow> escrow" where
  "opened_row dto i cid = (new_escrow i (op_orderId dto))\<lparr>
     e_buyerAddress := Some (dd_buyerAddress dto), e_sellerAddress := Some (dd_sellerAddress dto),
     e_amount := Some (decimal_of (dd_amount dto)), e_contractId := Some cid,
     e_escrowStatus := ES_initialized\<rparr>"

definition opened_rows :: "OpenEscrowDto \<Rightarrow> string \<Rightarrow> string \<Rightarrow> escrow list \<Rightarrow> escrow list \<Rightarrow> bool" where
  "opened_rows dto i cid es es' \<longleftrightarrow>
     (case List.find (\<lambda>e. e_orderId e = op_orderId dto) es of
        None \<Rightarrow> i \<notin> set (map e_escrowId es) \<and> es' = es @ [opened_row dto i cid]
      | Some e \<Rightarrow> \<not> truthy (e_contractId e) \<and> i = e_escrowId e \<and>
          es' = map (\<lambda>x. if e_escrowId x = i
                         then x\<lparr>e_contractId := Some cid, e_escrowStatus := ES_initialized\<rparr> else x) es)"

lemma deployed_world:
  "deployed sv orderId dto s cid t \<Longrightarrow> \<exists>cs. t = s\<lparr>tw_calls := tw_calls s @ cs\<rparr>"
  by (auto simp: deployed_def)

lemma map_new_row:
  "i \<notin> set (map e_escrowId es) \<Longrightarrow> map (\<lambda>x. if e_escrowId x = i then f x else x) es = es"
  by (induction es) auto

lemma new_escrow_simps [simp]:
  "e_escrowId (new_escrow i ordr) = i" "e_orderId (new_escrow i ordr) = ordr"
  "e_contractId (new_escrow i ordr) = None" "e_escrowStatus (new_escrow i ordr) = ES_pending"
  by (simp_all add: new_escrow_def)

lemma find_new_row:
  "i \<notin> e_escrowId ` set es \<Longrightarrow> List.find (\<lambda>x. e_escrowId x = i) es = None"
  by (auto simp: find_None_iff_ball)

lemma persist_post:
  assumes "existing = List.find (\<lambda>e. e_orderId e = op_orderId dto) (escrows (tables u))"
    and "\<not> has_contract existing"
  shows "wp (open_persist dto existing cid xdr)
     (\<lambda>r t. fst (snd r) = cid \<and> opened_rows dto (fst r) cid (escrows (tables u)) (escrows (tables t)))
     (\<lambda>_ t. existing \<noteq> None \<longrightarrow> escrows (tables t) = escrows (tables u)) u"
proof (cases existing)
  case None
  have key: "t_check escrow_table d rs r = None \<Longrightarrow> e_escrowId r \<notin> e_escrowId ` set rs" for d rs r
    using escrow_model.check_key[of d rs r] by simp
  show ?thesis
    unfolding open_persist_def create_escrow_def base_create_def base_update_def None
    using None assms(1)
    by (simp add: prog wp_any, auto intro!: db_anyI simp: find_append find_new_row map_new_row prog wp_any opened_rows_def
       opened_row_def dest!: key split: option.split)
next
  case (Some e)
  then show ?thesis
    unfolding open_persist_def base_update_def
    using assms
    by (auto intro!: db_anyI simp: prog wp_any opened_rows_def has_contract_def dest: find_SomeD
        split: option.split)
qed

lemma open_post:
  "wp (escrow_open sv dto)
     (\<lambda>r t. opened_rows dto (fst r) (fst (snd r)) (escrows (tables s)) (escrows (tables t)) \<and>
        (\<exists>bs u. deployed sv (op_orderId dto) dto (s\<lparr>faults := bs\<rparr>) (fst (snd r)) u))
     (\<lambda>_ t. has_contract (List.find (\<lambda>e. e_orderId e = op_orderId dto) (escrows (tables s)))
              \<or> List.find (\<lambda>e. e_orderId e = op_orderId dto) (escrows (tables s)) \<noteq> None \<longrightarrow>
              escrows (tables t) = escrows (tables s)) s"
proof -
  let ?ex = "List.find (\<lambda>e. e_orderId e = op_orderId dto) (escrows (tables s))"
  let ?Q = "\<lambda>r t. opened_rows dto (fst r) (fst (snd r)) (escrows (tables s)) (escrows (tables t)) \<and>
        (\<exists>bs u. deployed sv (op_orderId dto) dto (s\<lparr>faults := bs\<rparr>) (fst (snd r)) u)"
  let ?E = "\<lambda>_ t. has_contract ?ex \<or> ?ex \<noteq> None \<longrightarrow> escrows (tables t) = escrows (tables s)"
  have persist: "wp (open_persist dto ?ex cid xdr) ?Q ?E u"
    if "\<not> has_contract ?ex" "deployed sv (op_orderId dto) dto (s\<lparr>faults := bs\<rparr>) cid u" for cid xdr u bs
  proof -
    have "escrows (tables u) = escrows (tables s)" using deployed_world[OF that(2)] by auto
    then show ?thesis
      using persist_post[of ?ex dto u cid xdr] that by (auto elim!: wp_mono)
  qed
  have "wp (bindE (deployEscrowToChain sv (op_orderId dto) dto)
      (\<lambda>(cid, xdr). open_persist dto ?ex cid xdr)) ?Q ?E (s\<lparr>faults := bs\<rparr>)" if "\<not> has_contract ?ex" for bs
    unfolding wp_bindE wp_prod
    by (rule wp_mono[OF deploy_post]) (use persist that in \<open>auto dest: only_calls_tables split: prod.split\<close>)
  then show ?thesis
    unfolding escrow_open_def findByOrder_def
    by (auto simp: wp_bindE wp_andThen wp_throwIf wp_any intro!: db_anyI)
qed

lemma open_refuses:
  assumes "faults s = []" "has_contract (List.find (\<lambda>e. e_orderId e = op_orderId dto) (escrows (tables s)))"
  shows "escrow_open sv dto s = (Inl (appExc ESCROW_ALREADY_EXISTS), s)"
  by (rule run_eqI) (use assms in \<open>simp add: escrow_open_def findByOrder_def prog\<close>)

text \<open>
  C31.  Opening an escrow.  An order whose escrow has a contract is refused, without a request to the
  chain.  When the call returns, a contract was deployed for this order and either a new row
  carries it or the order's row that had none does; no other escrow changed.  When it throws, an
  escrow the order already had is as it was.
\<close>

theorem escrow_open_rows:
  assumes "escrow_open sv dto s = (r, t)"
  shows "let existing = List.find (\<lambda>e. e_orderId e = op_orderId dto) (escrows (tables s)) in
    (faults s = [] \<and> has_contract existing \<longrightarrow> r = Inl (appExc ESCROW_ALREADY_EXISTS) \<and> t = s) \<and>
    (case r of
       Inl _ \<Rightarrow> existing \<noteq> None \<longrightarrow> escrows (tables t) = escrows (tables s)
     | Inr (i, cid, _) \<Rightarrow> opened_rows dto i cid (escrows (tables s)) (escrows (tables t)) \<and>
         (\<exists>bs u. deployed sv (op_orderId dto) dto (s\<lparr>faults := bs\<rparr>) cid u))"
  using wp_run[OF open_post assms] open_refuses[of s dto sv] assms
  by (auto simp: Let_def split: sum.splits prod.splits) blast

definition sample_open :: OpenEscrowDto where
  "sample_open = \<lparr> dd_sellerAddress = ''GC'', dd_buyerAddress = ''GB'', dd_amount = Number ''5'',
     dd_assetCode = Some ''USDC'', dd_title = None, op_orderId = ''o1'' \<rparr>"

theorem escrow_open_rows_witness:
  "escrow_open (sample_services ''SUCCESS'') sample_open
     (quiet_world (sample_db\<lparr>orders := [sample_order ''o1'' OS_created None],
                             escrows := [sample_escrow ''e1'' ''o1'' ES_initialized (Some ''C'')]\<rparr>))
   = (Inl (appExc ESCROW_ALREADY_EXISTS),
      quiet_world (sample_db\<lparr>orders := [sample_order ''o1'' OS_created None],
                             escrows := [sample_escrow ''e1'' ''o1'' ES_initialized (Some ''C'')]\<rparr>))"
proof -
  let ?s = "quiet_world (sample_db\<lparr>orders := [sample_order ''o1'' OS_created None],
                             escrows := [sample_escrow ''e1'' ''o1'' ES_initialized (Some ''C'')]\<rparr>)"
  obtain r t where "escrow_open (sample_services ''SUCCESS'') sample_open ?s = (r, t)" by (rule prod.exhaust)
  moreover from escrow_open_rows[OF this] have "r = Inl (appExc ESCROW_ALREADY_EXISTS) \<and> t = ?s"
    by (simp add: has_contract_def sample_open_def Let_def)
  ultimately show ?thesis by simp
qed

subsection \<open>Release\<close>

text \<open>
  The requests of a successful release: the state of the contract is read; a completed milestone is
  first approved by a broadcast that the chain accepted; only then is the release transaction built.
\<close>

definition released_calls :: "services \<Rightarrow> ReleaseEscrowDto \<Rightarrow> 'z world_scheme \<Rightarrow> tw_call list \<Rightarrow> bool" where
  "released_calls sv dto s calls \<longleftrightarrow>
     (\<exists>e cid rs approval.
        List.find (\<lambda>r. e_escrowId r = re_escrowId dto) (escrows (tables s)) = Some e \<and>
        e_escrowStatus e \<in> {ES_funded, ES_fiat_sent} \<and> e_contractId e = Some cid \<and> cid \<noteq> [] \<and>
        http_escrows (sv_tw sv) (tw_calls s) cid True = Inr rs \<and>
        calls = tw_calls s @ [GetEscrowByContractIds cid True] @ approval @
          [ReleaseMilestoneFunds \<lparr> rm_contractId = cid, rm_releaseSigner = re_releaseSigner dto,
                                   rm_milestoneIndex = ''0'' \<rparr>] \<and>
        (if milestoneState rs = Some ''completed''
         then \<exists>ap xdr res. approval = [ApproveMilestone ap, SendTransaction xdr] \<and>
           am_contractId ap = cid \<and>
           http_send (sv_tw sv) (tw_calls s @ [GetEscrowByContractIds cid True, ApproveMilestone ap]) xdr = Inr res \<and>
           sr_status res = ''SUCCESS''
         else approval = []))"

lemma autoApprove_post:
  "wp (autoApprove sv cid)
     (\<lambda>_ t. \<exists>ap xdr res. t = s\<lparr>tw_calls := tw_calls s @ [ApproveMilestone ap, SendTransaction xdr]\<rparr> \<and>
        am_contractId ap = cid \<and>
        http_send (sv_tw sv) (tw_calls s @ [ApproveMilestone ap]) xdr = Inr res \<and>
        sr_status res = ''SUCCESS'')
     (\<lambda>_ t. tables t = tables s) s"
  unfolding autoApprove_def tw_approveMilestone_def
  by (auto intro!: wp_signAndBroadcastI simp: wp_bindE wp_cfg_getOrThrow wp_throwIf wp_tw_unsigned wp_tw_send
      Let_def split: option.split sum.split) fastforce

lemma release_post:
  "wp (escrow_release sv dto)
     (\<lambda>_ t. tables t = tables s \<and> released_calls sv dto s (tw_calls t))
     (\<lambda>_ t. tables t = tables s) s"
  unfolding escrow_release_def escrow_getOrFail_def base_findById_def
    tw_getEscrowByContractId_def tw_releaseMilestoneFunds_def
  by (auto intro!: db_anyI wp_mono[OF autoApprove_post]
      simp: wp_bindE wp_andThen wp_throwIf wp_throw wp_ret wp_any wp_option wp_if wp_tw_request wp_tw_unsigned Let_def
      elim!: truthyE split: option.split sum.split)
    (auto simp: released_calls_def)

text \<open>
  Releasing.  The request never writes to the database; it returns a release transaction only for
  an escrow that is funded or marked as paid and has a contract, and when the chain reports its
  milestone as completed the transaction is only built after an approval the chain accepted.
\<close>

theorem escrow_release_calls:
  assumes "escrow_release sv dto s = (r, t)"
  shows "tables t = tables s \<and>
    (case r of Inl _ \<Rightarrow> True | Inr _ \<Rightarrow> released_calls sv dto s (tw_calls t))"
  using wp_run[OF release_post assms] by (auto split: sum.splits)

theorem escrow_release_calls_witness:
  "\<exists>t. escrow_release (sample_services ''SUCCESS'') \<lparr> re_escrowId = ''e1'', re_releaseSigner = ''GC'' \<rparr>
      (quiet_world (sample_db\<lparr>escrows := [sample_escrow ''e1'' ''o1'' ES_funded (Some ''C'')]\<rparr>))
      = (Inr (''e1'', ''XDR''), t) \<and> length (tw_calls t) = 2"
proof -
  let ?s = "quiet_world (sample_db\<lparr>escrows := [sample_escrow ''e1'' ''o1'' ES_funded (Some ''C'')]\<rparr>)"
  let ?dto = "\<lparr> re_escrowId = ''e1'', re_releaseSigner = ''GC'' \<rparr>"
  have "wp (escrow_release (sample_services ''SUCCESS'') ?dto) (\<lambda>a _. a = (''e1'', ''XDR'')) (\<lambda>_ _. False) ?s"
    by (simp add: escrow_release_def escrow_getOrFail_def base_findById_def prog sample_services_def
        tw_getEscrowByContractId_def tw_releaseMilestoneFunds_def wp_tw_request wp_tw_unsigned
        milestoneState_def Let_def)
  from wp_returns[OF this] obtain t where
    t: "escrow_release (sample_services ''SUCCESS'') ?dto ?s = (Inr (''e1'', ''XDR''), t)" by metis
  have "released_calls (sample_services ''SUCCESS'') ?dto ?s (tw_calls t)"
    using escrow_release_calls[OF t] by (simp only: sum.case)
  then have "length (tw_calls t) = 2"
    by (auto simp: released_calls_def sample_services_def milestoneState_def)
  with t show ?thesis by (intro exI conjI)
qed

subsection \<open>Reads, and records that stay\<close>

text \<open>
  The operations that only build a transaction or read leave every table as it is, whatever the
  database and the chain answer.
\<close>

interpretation tables_fixed: table_relation "(=)"
  by unfold_locales auto

lemmas fixed_rules = tables_fixed.ob_reads tables_fixed.ob_tw_client tables_fixed.eff.ob_tryCatch

lemma getOrFail_fixed: "obeys (on_tables (=)) (escrow_getOrFail i)"
  unfolding escrow_getOrFail_def base_findById_def
  by (intro fixed_rules)

lemma settled_fixed: "obeys (on_tables (=)) m \<Longrightarrow> obeys (on_tables (=)) (settled m)"
  unfolding settled_def by (intro fixed_rules)

lemma escrow_reads_fixed:
  "obeys (on_tables (=)) (escrow_fund sv d1)"
  "obeys (on_tables (=)) (escrow_markFiatSent sv i d2)"
  "obeys (on_tables (=)) (escrow_getStatus sv i)"
  "obeys (on_tables (=)) (escrow_get i)"
  "obeys (on_tables (=)) (escrow_list p q)"
  unfolding escrow_fund_def escrow_markFiatSent_def escrow_getStatus_def escrow_get_def escrow_list_def
    base_findById_def base_findMany_def find_args_def
  by (intro fixed_rules getOrFail_fixed settled_fixed)+

end
