(* ===== verification/Orders.thy ===== *)
theory Orders
  imports Escrow "HOL-Library.List_Lexorder" "HOL-Library.Char_ord"
begin

text \<open>
  Orders: \<open>OrderRepository\<close>, \<open>OrderService\<close>, \<open>OrderCron\<close> and the checks of \<open>OrderController\<close>
  (\<open>src/modules/order\<close>).  An order and its escrow are created in one transaction, after the escrow
  contract is on chain; an order is cancelled by a party, patched, deleted, or expired by the job.
\<close>

subsection \<open>Data\<close>

text \<open>The text of an \<open>expiresAt\<close> field: empty, an instant, or not a date.\<close>

datatype date_input = EmptyText | ValidDate int | InvalidDate

record CreateOrderDto =
  co_offerId :: string
  co_buyerId :: string
  co_sellerId :: string
  co_assetAmount :: string
  co_fiatAmount :: string
  co_orderStatus :: "order_status option"
  co_expiresAt :: "date_input option"
  co_sellerAddress :: string
  co_buyerAddress :: string
  co_assetCode :: string
  co_title :: "string option"

text \<open>\<open>PartialType(CreateOrderDto)\<close>; the last four fields are no columns of an order.\<close>

record UpdateOrderDto =
  uo_offerId :: "string option"
  uo_buyerId :: "string option"
  uo_sellerId :: "string option"
  uo_assetAmount :: "string option"
  uo_fiatAmount :: "string option"
  uo_orderStatus :: "order_status option"
  uo_expiresAt :: "date_input option"
  uo_sellerAddress :: "string option"
  uo_buyerAddress :: "string option"
  uo_assetCode :: "string option"
  uo_title :: "string option"

record order_escrow_data =
  oe_contractId :: string
  oe_sellerAddress :: string
  oe_buyerAddress :: string
  oe_amount :: string

record order_create_data =
  oc_orderId :: "string option"
  oc_offerId :: string
  oc_buyerId :: string
  oc_sellerId :: string
  oc_assetAmount :: string
  oc_fiatAmount :: string
  oc_orderStatus :: "order_status option"
  oc_expiresAt :: "date_input option"
  oc_escrow :: "order_escrow_data option"

text \<open>\<open>ORDER_PARTY_SELECT\<close> and the row with its relations, \<open>ORDER_DETAIL_INCLUDE\<close>.\<close>

record order_party =
  op_userId :: string
  op_publicKey :: string
  op_alias :: "string option"
  op_username :: "string option"
  op_profileImageUrl :: "string option"

definition party_of :: "user \<Rightarrow> order_party" where
  "party_of u = \<lparr> op_userId = u_userId u, op_publicKey = u_publicKey u, op_alias = u_alias u,
     op_username = u_username u, op_profileImageUrl = u_profileImageUrl u \<rparr>"

record order_view =
  ov_order :: order
  ov_offer :: "offer option"
  ov_escrow :: "escrow option"
  ov_buyer :: "order_party option"
  ov_seller :: "order_party option"

definition order_party :: "db \<Rightarrow> string \<Rightarrow> order_party option" where
  "order_party d i = map_option party_of (List.find (\<lambda>u. u_userId u = i) (users d))"

definition view_of :: "db \<Rightarrow> order \<Rightarrow> order_view" where
  "view_of d r = \<lparr> ov_order = r,
     ov_offer = List.find (\<lambda>f. f_offerId f = o_offerId r) (offers d),
     ov_escrow = List.find (\<lambda>e. e_orderId e = o_orderId r) (escrows d),
     ov_buyer = order_party d (o_buyerId r), ov_seller = order_party d (o_sellerId r) \<rparr>"

subsection \<open>The repository\<close>

definition order_row :: "string \<Rightarrow> order_create_data \<Rightarrow> int option \<Rightarrow> order" where
  "order_row i data expires = \<lparr> o_orderId = i, o_offerId = oc_offerId data, o_buyerId = oc_buyerId data,
     o_sellerId = oc_sellerId data, o_assetAmount = oc_assetAmount data,
     o_fiatAmount = oc_fiatAmount data, o_orderStatus = get_or (oc_orderStatus data) OS_created,
     o_expiresAt = expires \<rparr>"

text \<open>The instant written for a date of the input; \<open>new Date\<close> of a text that is no date is refused.\<close>

definition writeDate :: "date_input option \<Rightarrow> ('z, int option) act" where
  "writeDate x = (case x of
       None \<Rightarrow> ret None | Some EmptyText \<Rightarrow> ret None
     | Some (ValidDate n) \<Rightarrow> ret (Some n) | Some InvalidDate \<Rightarrow> throw QueryInvalid)"

definition order_tx :: "order_create_data \<Rightarrow> ('z, order \<times> string option) act" where
  "order_tx data =
     bindE (writeDate (oc_expiresAt data)) (\<lambda>expires.
     bindE (if truthy (oc_orderId data) then ret (the (oc_orderId data)) else newUuid) (\<lambda>i.
     bindE (createRow order_table (order_row i data expires)) (\<lambda>order.
     bindE (case oc_escrow data of
              None \<Rightarrow> ret None
            | Some x \<Rightarrow> bindE (create_escrow (o_orderId order) (\<lambda>r. r\<lparr>
                e_contractId := Some (oe_contractId x), e_sellerAddress := Some (oe_sellerAddress x),
                e_buyerAddress := Some (oe_buyerAddress x), e_amount := Some (oe_amount x),
                e_escrowStatus := ES_initialized\<rparr>)) (\<lambda>e. ret (Some (e_escrowId e)))) (\<lambda>escrowId.
     andThen (updateUnique offer_table (\<lambda>f. f_offerId f = oc_offerId data) (\<lambda>f. f\<lparr>f_executed := True\<rparr>))
       (ret (order, escrowId))))))"

definition order_repo_create :: "order_create_data \<Rightarrow> ('z, order \<times> string option) act" where
  "order_repo_create data = transaction (order_tx data)"

definition order_findById :: "string \<Rightarrow> ('z, order_view option) act" where
  "order_findById i = db_call (getState (\<lambda>s.
     map_option (view_of (tables s)) (List.find (\<lambda>r. o_orderId r = i) (orders (tables s)))))"

text \<open>\<open>orderBy: { orderId: 'desc' }\<close>.\<close>

definition order_search :: "(order \<Rightarrow> bool) \<Rightarrow> nat option \<Rightarrow> nat option \<Rightarrow> ('z, order_view list) act" where
  "order_search p sk tk = db_call (getState (\<lambda>s.
     map (view_of (tables s))
       (page sk tk 20 (rev (sort_key o_orderId (filter p (orders (tables s))))))))"

record UserStats =
  st_totalOrders :: nat
  st_completedOrders :: nat

text \<open>\<open>groupBy\<close>: each status that occurs among the user's orders, with its count.\<close>

definition countsByStatus :: "string \<Rightarrow> order list \<Rightarrow> (order_status \<times> nat) list" where
  "countsByStatus userId rs =
     (let mine = filter (\<lambda>r. o_buyerId r = userId \<or> o_sellerId r = userId) rs
      in map (\<lambda>st. (st, length (filter (\<lambda>r. o_orderStatus r = st) mine)))
           (remdups (map o_orderStatus mine)))"

definition addStatusCount :: "UserStats \<Rightarrow> order_status \<times> nat \<Rightarrow> UserStats" where
  "addStatusCount stats row =
     stats\<lparr>st_totalOrders := st_totalOrders stats + snd row,
           st_completedOrders := (if fst row = OS_released then st_completedOrders stats + snd row
                                  else st_completedOrders stats)\<rparr>"

definition order_getUserStats :: "string \<Rightarrow> ('z, UserStats) act" where
  "order_getUserStats userId = db_call (getState (\<lambda>s.
     foldl addStatusCount \<lparr> st_totalOrders = 0, st_completedOrders = 0 \<rparr>
       (countsByStatus userId (orders (tables s)))))"

subsection \<open>The service\<close>

text \<open>The response of a creation: the order, its escrow's id, the contract and the fund transaction.\<close>

definition order_created_input :: "CreateOrderDto \<Rightarrow> string \<Rightarrow> CreateAuditLogInput" where
  "order_created_input dto orderId = (audit_input ORDER_CREATED ''Order'' SUCCESS)
     \<lparr>ai_userId := Some (co_buyerId dto), ai_resourceId := Some orderId,
      ai_metadata := Some (JObj [(''offerId'', JStr (co_offerId dto)), (''sellerId'', JStr (co_sellerId dto))])\<rparr>"

definition order_title :: "string \<Rightarrow> string" where
  "order_title orderId = ''Order '' @ orderId"

definition order_deploy_dto :: "CreateOrderDto \<Rightarrow> string \<Rightarrow> deploy_dto" where
  "order_deploy_dto dto orderId = \<lparr> dd_sellerAddress = co_sellerAddress dto,
     dd_buyerAddress = co_buyerAddress dto, dd_amount = Number (co_assetAmount dto),
     dd_assetCode = Some (co_assetCode dto),
     dd_title = Some (get_or (co_title dto) (order_title orderId)) \<rparr>"

definition order_data :: "CreateOrderDto \<Rightarrow> string \<Rightarrow> string \<Rightarrow> order_create_data" where
  "order_data dto orderId contractId = \<lparr> oc_orderId = Some orderId, oc_offerId = co_offerId dto,
     oc_buyerId = co_buyerId dto, oc_sellerId = co_sellerId dto, oc_assetAmount = co_assetAmount dto,
     oc_fiatAmount = co_fiatAmount dto, oc_orderStatus = co_orderStatus dto,
     oc_expiresAt = co_expiresAt dto,
     oc_escrow = Some \<lparr> oe_contractId = contractId, oe_sellerAddress = co_sellerAddress dto,
       oe_buyerAddress = co_buyerAddress dto, oe_amount = co_assetAmount dto \<rparr> \<rparr>"

definition order_create ::
    "services \<Rightarrow> CreateOrderDto \<Rightarrow> ('z, order \<times> string option \<times> string \<times> string) act" where
  "order_create sv dto =
     bindE newUuid (\<lambda>orderId.
     bindE (deployEscrowToChain sv orderId (order_deploy_dto dto orderId))
       (\<lambda>(contractId, unsignedFundTransaction).
     bindE (order_repo_create (order_data dto orderId contractId)) (\<lambda>(order, escrowId).
     andThen (audit_create (order_created_input dto orderId))
       (ret (order, escrowId, contractId, unsignedFundTransaction)))))"

record OrderFilter =
  q_offerId :: "string option"
  q_buyerId :: "string option"
  q_sellerId :: "string option"
  q_userId :: "string option"
  q_status :: "order_status option"

definition order_matches :: "OrderFilter \<Rightarrow> order \<Rightarrow> bool" where
  "order_matches q r \<longleftrightarrow>
     (truthy (q_offerId q) \<longrightarrow> q_offerId q = Some (o_offerId r)) \<and>
     (truthy (q_buyerId q) \<longrightarrow> q_buyerId q = Some (o_buyerId r)) \<and>
     (truthy (q_sellerId q) \<longrightarrow> q_sellerId q = Some (o_sellerId r)) \<and>
     (truthy (q_userId q) \<longrightarrow> q_userId q = Some (o_buyerId r) \<or> q_userId q = Some (o_sellerId r)) \<and>
     (q_status q \<noteq> None \<longrightarrow> q_status q = Some (o_orderStatus r))"

definition order_list :: "PaginationDto \<Rightarrow> OrderFilter \<Rightarrow> ('z, order_view list) act" where
  "order_list p q = order_search (order_matches q) (pg_skip p) (pg_take p)"

definition order_get :: "string \<Rightarrow> ('z, order_view) act" where
  "order_get i = bindE (order_findById i)
     (\<lambda>item. case item of None \<Rightarrow> throw (appExc ORDER_NOT_FOUND) | Some v \<Rightarrow> ret v)"

text \<open>
  The columns an \<open>UpdateOrderDto\<close> writes.  Its other fields are unknown to the model, and Prisma
  refuses a call with an unknown field; an empty \<open>expiresAt\<close> is passed on as it is and refused too.
\<close>

definition unknown_columns :: "UpdateOrderDto \<Rightarrow> bool" where
  "unknown_columns dto \<longleftrightarrow> uo_sellerAddress dto \<noteq> None \<or> uo_buyerAddress dto \<noteq> None \<or>
     uo_assetCode dto \<noteq> None \<or> uo_title dto \<noteq> None"

definition order_patch :: "UpdateOrderDto \<Rightarrow> order \<Rightarrow> order" where
  "order_patch dto r = r\<lparr>o_offerId := get_or (uo_offerId dto) (o_offerId r),
     o_buyerId := get_or (uo_buyerId dto) (o_buyerId r),
     o_sellerId := get_or (uo_sellerId dto) (o_sellerId r),
     o_assetAmount := get_or (uo_assetAmount dto) (o_assetAmount r),
     o_fiatAmount := get_or (uo_fiatAmount dto) (o_fiatAmount r),
     o_orderStatus := get_or (uo_orderStatus dto) (o_orderStatus r),
     o_expiresAt := (case uo_expiresAt dto of Some (ValidDate n) \<Rightarrow> Some n | _ \<Rightarrow> o_expiresAt r)\<rparr>"

definition order_audit :: "AuditAction \<Rightarrow> order \<Rightarrow> string \<Rightarrow> json option \<Rightarrow> CreateAuditLogInput" where
  "order_audit act r i meta = (audit_input act ''Order'' SUCCESS)
     \<lparr>ai_userId := Some (o_buyerId r), ai_resourceId := Some i, ai_metadata := meta\<rparr>"

definition order_update :: "string \<Rightarrow> UpdateOrderDto \<Rightarrow> ('z, order) act" where
  "order_update i dto =
     andThen (throwIf (unknown_columns dto \<or> uo_expiresAt dto \<in> {Some EmptyText, Some InvalidDate}) QueryInvalid)
     (bindE (base_update order_table i (order_patch dto)) (\<lambda>updated.
      andThen (if uo_orderStatus dto = Some OS_cancelled
               then audit_create (order_audit ORDER_CANCELLED updated i None)
               else if uo_orderStatus dto = Some OS_expired
               then audit_create (order_audit ORDER_EXPIRED updated i None)
               else ret ())
        (ret updated)))"

definition order_remove :: "string \<Rightarrow> ('z, order) act" where
  "order_remove i =
     bindE (base_delete order_table i) (\<lambda>removed.
     andThen (audit_create (order_audit ORDER_CANCELLED removed i
                (Some (JObj [(''reason'', JStr ''deleted'')]))))
       (ret removed))"

definition terminalOrderStatuses :: "order_status list" where
  "terminalOrderStatuses = [OS_released, OS_cancelled, OS_expired, OS_disputed]"

definition blockedEscrowStatuses :: "escrow_status list" where
  "blockedEscrowStatuses = [ES_funded, ES_fiat_sent, ES_released, ES_disputed, ES_resolved]"

definition order_cancel :: "string \<Rightarrow> string \<Rightarrow> ('z, order) act" where
  "order_cancel i userId =
     bindE (order_findById i) (\<lambda>found. case found of
       None \<Rightarrow> throw (appExc ORDER_NOT_FOUND)
     | Some v \<Rightarrow>
         andThen (throwIf (o_buyerId (ov_order v) \<noteq> userId \<and> o_sellerId (ov_order v) \<noteq> userId)
                    (appExc UNAUTHORIZED_ACTION))
         (andThen (throwIf (o_orderStatus (ov_order v) \<in> set terminalOrderStatuses)
                    (appExc ORDER_CANCELLATION_NOT_ALLOWED))
         (andThen (throwIf (case ov_escrow v of None \<Rightarrow> False
                              | Some e \<Rightarrow> e_escrowStatus e \<in> set blockedEscrowStatuses)
                    (appExc ORDER_CANCELLATION_NOT_ALLOWED))
           (base_update order_table i (\<lambda>r. r\<lparr>o_orderStatus := OS_cancelled\<rparr>)))))"

definition order_updateStatusFromOnChain :: "string \<Rightarrow> order_status \<Rightarrow> ('z, order) act" where
  "order_updateStatusFromOnChain i newStatus =
     base_update order_table i (\<lambda>r. r\<lparr>o_orderStatus := newStatus\<rparr>)"

subsection \<open>Expiry\<close>

definition protectedEscrowStatuses :: "escrow_status list" where
  "protectedEscrowStatuses = [ES_fiat_sent, ES_released, ES_disputed, ES_resolved]"

definition expired_candidate :: "int \<Rightarrow> order \<Rightarrow> bool" where
  "expired_candidate now r \<longleftrightarrow> (case o_expiresAt r of None \<Rightarrow> False | Some e \<Rightarrow> e < now) \<and>
     o_orderStatus r \<in> {OS_created, OS_locked}"

definition expiry_target :: "order_status \<Rightarrow> order_status" where
  "expiry_target oldStatus = (if oldStatus = OS_locked then OS_cancelled else OS_expired)"

text \<open>The balance request: its answer is only logged, a failure is caught.\<close>

definition checkBalance :: "services \<Rightarrow> escrow \<Rightarrow> ('z, unit) act" where
  "checkBalance sv e =
     (if truthy (e_contractId e)
      then tryCatch (andThen (tw_getEscrowBalance (sv_tw sv) (the (e_contractId e))) (ret ())) (\<lambda>_. ret ())
      else ret ())"

definition processExpiredOrder :: "services \<Rightarrow> order_view \<Rightarrow> ('z, unit) act" where
  "processExpiredOrder sv v =
     (let write = andThen (updateUnique order_table (\<lambda>r. o_orderId r = o_orderId (ov_order v))
                    (\<lambda>r. r\<lparr>o_orderStatus := expiry_target (o_orderStatus (ov_order v))\<rparr>)) (ret ())
      in case ov_escrow v of
           None \<Rightarrow> write
         | Some e \<Rightarrow> if e_escrowStatus e \<in> set protectedEscrowStatuses then ret ()
                     else andThen (checkBalance sv e) write)"

definition expireOrders :: "services \<Rightarrow> ('z, unit) act" where
  "expireOrders sv =
     bindE (getState clock) (\<lambda>now.
     bindE (db_call (getState (\<lambda>s. map (view_of (tables s)) (filter (expired_candidate now) (orders (tables s))))))
       (\<lambda>expiredOrders.
     forEach expiredOrders (\<lambda>v. tryCatch (processExpiredOrder sv v) (\<lambda>_. ret ()))))"

text \<open>\<open>OrderCron.expireOrders\<close>: every minute, and never failing.\<close>

definition cron_expireOrders :: "services \<Rightarrow> ('z, unit) act" where
  "cron_expireOrders sv = tryCatch (expireOrders sv) (\<lambda>_. ret ())"

subsection \<open>The controller\<close>

definition ctrl_order_create ::
    "services \<Rightarrow> CreateOrderDto \<Rightarrow> string \<Rightarrow> ('z, order \<times> string option \<times> string \<times> string) act" where
  "ctrl_order_create sv dto userId =
     andThen (throwIf (co_buyerId dto \<noteq> userId \<and> co_sellerId dto \<noteq> userId) (appExc UNAUTHORIZED_ACTION))
       (order_create sv dto)"

end
