(* ===== verification/OrderProps.thy ===== *)
theory OrderProps
  imports Orders EscrowProps
begin

text \<open>
  The properties of the order service: creation is atomic and follows the deployment, cancellation
  obeys its rules, the expiry job is a function of the tables and the clock, statistics count what
  they say, and what the unrestricted update and deletion allow.
\<close>

subsection \<open>Creation\<close>

definition order_escrow_row :: "string \<Rightarrow> CreateOrderDto \<Rightarrow> string \<Rightarrow> string \<Rightarrow> escrow" where
  "order_escrow_row i dto orderId cid = (new_escrow i orderId)\<lparr>e_contractId := Some cid,
     e_sellerAddress := Some (co_sellerAddress dto), e_buyerAddress := Some (co_buyerAddress dto),
     e_amount := Some (co_assetAmount dto), e_escrowStatus := ES_initialized\<rparr>"

text \<open>The three writes of a creation: the order, its escrow, the offer marked as executed.\<close>

definition order_created :: "CreateOrderDto \<Rightarrow> string \<Rightarrow> string \<Rightarrow> string \<Rightarrow> order \<Rightarrow> db \<Rightarrow> db" where
  "order_created dto orderId eid cid row d = d\<lparr>
     orders := orders d @ [row],
     escrows := escrows d @ [order_escrow_row eid dto orderId cid],
     offers := map (\<lambda>f. if f_offerId f = co_offerId dto then f\<lparr>f_executed := True\<rparr> else f) (offers d)\<rparr>"

lemma wp_writeDate:
  "wp (writeDate x) Q E s =
     (case x of None \<Rightarrow> Q None s | Some EmptyText \<Rightarrow> Q None s | Some (ValidDate n) \<Rightarrow> Q (Some n) s
      | Some InvalidDate \<Rightarrow> E QueryInvalid s)"
  by (simp add: writeDate_def prog split: option.split date_input.split)

lemma order_tx_post:
  assumes "orderId \<noteq> []"
  shows "wp (order_tx (order_data dto orderId cid))
     (\<lambda>(row, e) t. \<exists>eid expires. e = Some eid \<and> row = order_row orderId (order_data dto orderId cid) expires \<and>
        tables t = order_created dto orderId eid cid row (tables s) \<and> uuid_source t = uuid_source s)
     (\<lambda>_ _. True) s"
  unfolding order_tx_def create_escrow_def base_create_def
  by (simp add: prog wp_any wp_writeDate order_data_def assms split: option.split date_input.split,
    auto intro!: db_anyI exI dest!: find_SomeD split: option.split
      simp: prog wp_any order_created_def order_row_def order_escrow_row_def assms)

lemma order_repo_create_post:
  assumes "orderId \<noteq> []"
  shows "wp (order_repo_create (order_data dto orderId cid))
     (\<lambda>(row, e) t. \<exists>eid expires. e = Some eid \<and> row = order_row orderId (order_data dto orderId cid) expires \<and>
        tables t = order_created dto orderId eid cid row (tables s))
     (\<lambda>_ t. tables t = tables s) s"
  unfolding order_repo_create_def wp_transaction
  by (rule wp_mono[OF order_tx_post[OF assms]]) (auto simp: wp_db_call_any wp_ret intro!: db_anyI)

text \<open>
  C2.  Creating an order is all or nothing.  Whatever database or chain request fails, an exception
  leaves every table as it was; a result means that a contract for exactly this order and its
  amount was deployed first, and that the order, its escrow with that contract (initialized), and
  the mark on the offer were written, and nothing else but the audit log.
\<close>

theorem order_create_atomic:
  assumes "order_create sv dto s = (r, t)" and "uuid_source s (uuid_next s) \<noteq> []"
  shows "case r of
      Inl _ \<Rightarrow> tables t = tables s
    | Inr (row, e, cid, _) \<Rightarrow> let orderId = uuid_source s (uuid_next s) in
        \<exists>eid expires u. e = Some eid \<and> row = order_row orderId (order_data dto orderId cid) expires \<and>
          same_but_audits (order_created dto orderId eid cid row (tables s)) (tables t) \<and>
          deployed sv orderId (order_deploy_dto dto orderId) (s\<lparr>uuid_next := Suc (uuid_next s)\<rparr>) cid u"
proof -
  let ?i = "uuid_source s (uuid_next s)"
  let ?s = "s\<lparr>uuid_next := Suc (uuid_next s)\<rparr>"
  let ?Q = "\<lambda>(row, e, cid, _) t. \<exists>eid expires u. e = Some eid \<and>
      row = order_row ?i (order_data dto ?i cid) expires \<and>
      same_but_audits (order_created dto ?i eid cid row (tables s)) (tables t) \<and>
      deployed sv ?i (order_deploy_dto dto ?i) ?s cid u"
  have persist: "wp (bindE (order_repo_create (order_data dto ?i cid)) (\<lambda>(row, e).
        andThen (audit_create (order_created_input dto ?i)) (ret (row, e, cid, xdr))))
      ?Q (\<lambda>_ t. tables t = tables s) u" if dep: "deployed sv ?i (order_deploy_dto dto ?i) ?s cid u" for cid xdr u
  proof -
    have u: "tables u = tables s" using deployed_world[OF dep] by auto
    show ?thesis
      unfolding wp_bindE
      by (rule wp_mono[OF order_repo_create_post[OF assms(2)]]) (use u dep in \<open>auto simp: prog\<close>)
  qed
  have "wp (order_create sv dto) ?Q (\<lambda>_ t. tables t = tables s) s"
    unfolding order_create_def wp_bindE wp_newUuid
    by (rule wp_mono[OF deploy_post]) (use persist in \<open>auto simp: only_calls_tables prog dest: only_calls_tables\<close>)
  from wp_run[OF this assms(1)] show ?thesis by (auto simp: Let_def split: sum.splits)
qed

definition sample_create :: CreateOrderDto where
  "sample_create = \<lparr> co_offerId = ''f1'', co_buyerId = ''b'', co_sellerId = ''c'',
     co_assetAmount = ''5'', co_fiatAmount = ''5'', co_orderStatus = None, co_expiresAt = None,
     co_sellerAddress = ''GC'', co_buyerAddress = ''GB'', co_assetCode = ''USDC'', co_title = None \<rparr>"

lemma sample_create_simps [simp]:
  "co_offerId sample_create = ''f1''" "co_buyerId sample_create = ''b''"
  "co_sellerId sample_create = ''c''" "co_expiresAt sample_create = None"
  "co_orderStatus sample_create = None" "co_assetCode sample_create = ''USDC''"
  by (simp_all add: sample_create_def)

theorem order_create_atomic_witness:
  "\<exists>t. snd (order_create (sample_services ''SUCCESS'') sample_create (quiet_world sample_db)) = t \<and>
     map o_orderId (orders (tables t)) = [''u''] \<and> map f_executed (offers (tables t)) = [True] \<and>
     map e_contractId (escrows (tables t)) = [Some ''CNEW'']"
proof -
  let ?sv = "sample_services ''SUCCESS''" and ?s = "quiet_world sample_db"
  obtain cs where dep: "deployEscrowToChain ?sv ''u'' (order_deploy_dto sample_create ''u'') (?s\<lparr>uuid_next := Suc 0\<rparr>)
      = (Inr (''CNEW'', ''XDR''), ?s\<lparr>uuid_next := Suc 0, tw_calls := cs\<rparr>)"
    using sample_deploy_runs[of "order_deploy_dto sample_create ''u''" "''u''" "?s\<lparr>uuid_next := Suc 0\<rparr>"]
    by (auto simp: order_deploy_dto_def)
  have deploy: "wp (deployEscrowToChain ?sv ''u'' (order_deploy_dto sample_create ''u'')) Q E (?s\<lparr>uuid_next := Suc 0\<rparr>)
      = Q (''CNEW'', ''XDR'') (?s\<lparr>uuid_next := Suc 0, tw_calls := cs\<rparr>)" for Q E
    by (simp add: wp_def dep)
  have "wp (order_create ?sv sample_create) (\<lambda>_ _. True) (\<lambda>_ _. False) ?s"
    by (simp add: order_create_def order_repo_create_def wp_transaction order_tx_def create_escrow_def
        base_create_def wp_writeDate prog deploy order_data_def order_row_def order_table_def escrow_table_def
        offer_table_def clash_def wp_db_call)
  from wp_returns[OF this] obtain a t where t: "order_create ?sv sample_create ?s = (Inr a, t)" by metis
  obtain row e cid xdr where a: "a = (row, e, cid, xdr)" by (cases a)
  obtain eid expires where row: "row = order_row ''u'' (order_data sample_create ''u'' cid) expires"
    and same: "same_but_audits (order_created sample_create ''u'' eid cid row sample_db) (tables t)"
    and cid: "cid = ''CNEW''"
    using order_create_atomic[OF t] by (auto simp: a Let_def deployed_def sample_services_def)
  show ?thesis
    using same_but_audits_eqs[OF same] row cid
    by (auto simp: t order_created_def order_row_def order_data_def order_escrow_row_def)
qed

subsection \<open>Cancellation\<close>

definition cancellable :: "db \<Rightarrow> string \<Rightarrow> order \<Rightarrow> bool" where
  "cancellable d userId r \<longleftrightarrow> (o_buyerId r = userId \<or> o_sellerId r = userId) \<and>
     o_orderStatus r \<in> {OS_created, OS_locked} \<and>
     (case List.find (\<lambda>e. e_orderId e = o_orderId r) (escrows d) of
        None \<Rightarrow> True | Some e \<Rightarrow> e_escrowStatus e \<in> {ES_pending, ES_initialized})"

definition set_status :: "string \<Rightarrow> order_status \<Rightarrow> db \<Rightarrow> db" where
  "set_status i st d = d\<lparr>orders := map (\<lambda>x. if o_orderId x = i then x\<lparr>o_orderStatus := st\<rparr> else x) (orders d)\<rparr>"

lemma terminal_iff: "st \<in> set terminalOrderStatuses \<longleftrightarrow> st \<notin> {OS_created, OS_locked}"
  by (cases st) (simp_all add: terminalOrderStatuses_def)

lemma blocked_iff: "es \<in> set blockedEscrowStatuses \<longleftrightarrow> es \<notin> {ES_pending, ES_initialized}"
  by (cases es) (simp_all add: blockedEscrowStatuses_def)

lemma wp_order_findById:
  "wp (order_findById i) Q E s = db_any s E (\<lambda>s. Q (map_option (view_of (tables s))
     (List.find (\<lambda>r. o_orderId r = i) (orders (tables s)))) s)"
  by (simp add: order_findById_def wp_db_call_any wp_getState)

lemma order_cancel_post:
  "wp (order_cancel i userId)
     (\<lambda>row t. \<exists>r. List.find (\<lambda>r. o_orderId r = i) (orders (tables s)) = Some r \<and>
        cancellable (tables s) userId r \<and> row = r\<lparr>o_orderStatus := OS_cancelled\<rparr> \<and>
        tables t = set_status i OS_cancelled (tables s))
     (\<lambda>_ t. tables t = tables s) s"
proof (cases "List.find (\<lambda>r. o_orderId r = i) (orders (tables s))")
  case None
  then show ?thesis
    by (auto intro!: db_anyI simp: order_cancel_def wp_bindE wp_throw wp_order_findById)
next
  case (Some q)
  then have i: "o_orderId q = i" by (auto dest: find_SomeD)
  have upd: "wp (updateUnique order_table (\<lambda>r. o_orderId r = i) (\<lambda>r. r\<lparr>o_orderStatus := OS_cancelled\<rparr>))
      (\<lambda>row t. row = q\<lparr>o_orderStatus := OS_cancelled\<rparr> \<and> tables t = set_status i OS_cancelled (tables s))
      (\<lambda>_ t. tables t = tables s) u" if "tables u = tables s" for u :: "'a world_scheme"
    by (auto intro!: db_anyI simp: wp_any that Some i set_status_def split: option.split)
  show ?thesis
    unfolding order_cancel_def base_update_def wp_bindE wp_order_findById
    by (rule db_anyI) (auto simp: wp_andThen wp_throwIf view_of_def terminal_iff blocked_iff
        cancellable_def Some intro: wp_mono[OF upd] split: option.split_asm)
qed

text \<open>The references of an order, without which no statement can write it.\<close>

definition order_fk :: "db \<Rightarrow> order \<Rightarrow> bool" where
  "order_fk d r \<longleftrightarrow> o_offerId r \<in> set (map f_offerId (offers d)) \<and>
     o_buyerId r \<in> set (map u_userId (users d)) \<and> o_sellerId r \<in> set (map u_userId (users d))"

definition orders_wf :: "db \<Rightarrow> bool" where
  "orders_wf d \<longleftrightarrow> distinct (map o_orderId (orders d)) \<and> list_all (order_fk d) (orders d)"

lemma order_check_status:
  assumes "order_fk d x"
  shows "t_check order_table d (filter (\<lambda>y. o_orderId y \<noteq> o_orderId x) xs) (x\<lparr>o_orderStatus := st\<rparr>) = None"
  using assms by (auto simp: order_table_def order_fk_def)

lemma order_cancel_working:
  assumes "faults s = []" "orders_wf (tables s)"
  shows "wp (order_cancel i userId)
     (\<lambda>row _. \<exists>q. List.find (\<lambda>q. o_orderId q = i) (orders (tables s)) = Some q \<and>
        cancellable (tables s) userId q \<and> row = q\<lparr>o_orderStatus := OS_cancelled\<rparr>)
     (\<lambda>x _. case List.find (\<lambda>q. o_orderId q = i) (orders (tables s)) of
        None \<Rightarrow> x = appExc ORDER_NOT_FOUND
      | Some q \<Rightarrow> \<not> cancellable (tables s) userId q \<and>
          x = appExc (if o_buyerId q = userId \<or> o_sellerId q = userId then ORDER_CANCELLATION_NOT_ALLOWED
                      else UNAUTHORIZED_ACTION)) s"
proof (cases "List.find (\<lambda>q. o_orderId q = i) (orders (tables s))")
  case None
  then show ?thesis by (simp add: order_cancel_def prog wp_order_findById db_any_def assms(1))
next
  case (Some q)
  then have q: "o_orderId q = i" "order_fk (tables s) q"
    using assms(2) by (auto simp: orders_wf_def list_all_iff dest: find_SomeD)
  note ok = order_check_status[OF q(2), unfolded q(1)]
  show ?thesis
    unfolding order_cancel_def base_update_def
    by (auto simp: prog wp_order_findById db_any_def assms(1) Some q(1) ok view_of_def terminal_iff blocked_iff
        cancellable_def split: option.split)
qed

text \<open>
  C17.  Cancellation.  On a working connection it succeeds exactly when the caller is a party of the
  order, the order is created or locked, and its escrow, if it has one, is pending or initialized; the
  error says whether the order is missing, the caller no party, or the state too late.  On success,
  whatever the connection, exactly that order's status has changed and nothing else has been written,
  no audit record either; on an exception no table has changed.
\<close>

theorem order_cancel_rules:
  assumes "order_cancel i userId s = (r, t)"
  shows "(case r of
      Inl _ \<Rightarrow> tables t = tables s
    | Inr row \<Rightarrow> \<exists>q. List.find (\<lambda>q. o_orderId q = i) (orders (tables s)) = Some q \<and>
        cancellable (tables s) userId q \<and> row = q\<lparr>o_orderStatus := OS_cancelled\<rparr> \<and>
        tables t = set_status i OS_cancelled (tables s) \<and> audits (tables t) = audits (tables s)) \<and>
    (faults s = [] \<and> orders_wf (tables s) \<longrightarrow>
      r = (case List.find (\<lambda>q. o_orderId q = i) (orders (tables s)) of
          None \<Rightarrow> Inl (appExc ORDER_NOT_FOUND)
        | Some q \<Rightarrow>
            if cancellable (tables s) userId q then Inr (q\<lparr>o_orderStatus := OS_cancelled\<rparr>)
            else Inl (appExc (if o_buyerId q = userId \<or> o_sellerId q = userId then ORDER_CANCELLATION_NOT_ALLOWED
                              else UNAUTHORIZED_ACTION))))"
  using wp_run[OF order_cancel_post assms] wp_run[OF order_cancel_working assms]
  by (auto simp: set_status_def split: sum.splits option.splits)

text \<open>The database of the cancellation witnesses: one order, its escrow in the given status.\<close>

definition one_order :: "order_status \<Rightarrow> escrow_status \<Rightarrow> db" where
  "one_order st es = sample_db\<lparr>orders := [sample_order ''o1'' st (Some 500)],
                               escrows := [sample_escrow ''e1'' ''o1'' es (Some ''C'')]\<rparr>"

lemma one_order_simps [simp]:
  "orders (one_order st es) = [sample_order ''o1'' st (Some 500)]"
  "escrows (one_order st es) = [sample_escrow ''e1'' ''o1'' es (Some ''C'')]"
  "users (one_order st es) = users sample_db" "offers (one_order st es) = offers sample_db"
  "audits (one_order st es) = []" "chats (one_order st es) = []"
  by (simp_all add: one_order_def)

theorem order_cancel_rules_witness:
  "fst (order_cancel ''o1'' ''b'' (quiet_world (one_order OS_created ES_initialized))) =
     Inr (sample_order ''o1'' OS_cancelled (Some 500)) \<and>
   fst (order_cancel ''o1'' ''b'' (quiet_world (one_order OS_locked ES_funded))) =
     Inl (appExc ORDER_CANCELLATION_NOT_ALLOWED) \<and>
   fst (order_cancel ''o1'' ''x'' (quiet_world (one_order OS_locked ES_funded))) = Inl (appExc UNAUTHORIZED_ACTION)"
proof -
  have wf: "orders_wf (one_order st es)" for st es by (simp add: orders_wf_def order_fk_def)
  have r: "order_cancel ''o1'' u (quiet_world (one_order st es)) =
      (fst (order_cancel ''o1'' u (quiet_world (one_order st es))), snd (order_cancel ''o1'' u (quiet_world (one_order st es))))"
    for u st es by simp
  show ?thesis
    using order_cancel_rules[OF r[of "''b''" OS_created ES_initialized]] order_cancel_rules[OF r[of "''b''" OS_locked ES_funded]]
      order_cancel_rules[OF r[of "''x''" OS_locked ES_funded]]
    by (simp add: wf cancellable_def) (simp add: sample_order_def)
qed

subsection \<open>Expiry\<close>

text \<open>An order of the batch is protected when its escrow is past the seller's funding.\<close>

definition protected_order :: "db \<Rightarrow> order \<Rightarrow> bool" where
  "protected_order d r \<longleftrightarrow> (case List.find (\<lambda>e. e_orderId e = o_orderId r) (escrows d) of
     None \<Rightarrow> False | Some e \<Rightarrow> e_escrowStatus e \<in> {ES_fiat_sent, ES_released, ES_disputed, ES_resolved})"

definition expire_step :: "db \<Rightarrow> order list \<Rightarrow> order \<Rightarrow> order list" where
  "expire_step d0 xs r = (if protected_order d0 r then xs
     else map (\<lambda>x. if o_orderId x = o_orderId r
                   then x\<lparr>o_orderStatus := expiry_target (o_orderStatus r)\<rparr> else x) xs)"

lemma wp_checkBalanceI:
  assumes "\<And>cs. Q () (s\<lparr>tw_calls := cs\<rparr>)"
  shows "wp (checkBalance sv e) Q E s"
proof -
  have "Q () s" using assms[of "tw_calls s"] by (cases s) simp
  then show ?thesis using assms
    by (simp add: checkBalance_def prog tw_getEscrowBalance_def wp_tw_request Let_def split: sum.split)
qed

lemma protected_list: "e \<in> set protectedEscrowStatuses \<longleftrightarrow> e \<in> {ES_fiat_sent, ES_released, ES_disputed, ES_resolved}"
  by (auto simp: protectedEscrowStatuses_def)

lemma expire_one:
  assumes "faults s = []" "list_all (order_fk (tables s)) (orders (tables s))"
    and "o_orderId r \<in> set (map o_orderId (orders (tables s)))"
  shows "wp (tryCatch (processExpiredOrder sv (view_of d0 r)) (\<lambda>_. ret ()))
    (\<lambda>_ t. tables t = (tables s)\<lparr>orders := expire_step d0 (orders (tables s)) r\<rparr> \<and> faults t = [])
    (\<lambda>_ _. False) s"
proof -
  obtain x where x: "List.find (\<lambda>q. o_orderId q = o_orderId r) (orders (tables s)) = Some x"
    using assms(3) by (cases "List.find (\<lambda>q. o_orderId q = o_orderId r) (orders (tables s))")
      (auto simp: find_None_iff_ball)
  then have fk: "order_fk (tables s) x" "o_orderId x = o_orderId r"
    using assms(2) by (auto simp: list_all_iff dest: find_SomeD)
  have id: "tables s = (tables s)\<lparr>orders := orders (tables s)\<rparr>" by simp
  show ?thesis
    unfolding processExpiredOrder_def
    by (auto simp: prog assms(1) x fk order_check_status[OF fk(1), unfolded fk(2)] expire_step_def protected_order_def view_of_def
        protected_list Let_def intro!: wp_checkBalanceI split: option.split)
qed

lemma expire_step_ids: "map o_orderId (expire_step d0 xs r) = map o_orderId xs"
  by (simp add: expire_step_def)

lemma expire_step_idset: "o_orderId ` set (expire_step d0 xs r) = o_orderId ` set xs"
  by (metis expire_step_ids set_map)

lemma expire_step_fk: "list_all (order_fk d) xs \<Longrightarrow> list_all (order_fk d) (expire_step d0 xs r)"
  by (auto simp: expire_step_def list_all_iff order_fk_def)

lemma order_fk_orders [simp]: "order_fk (d\<lparr>orders := os\<rparr>) r = order_fk d r"
  by (simp add: order_fk_def)

lemma expire_loop:
  fixes s :: "'z world_scheme"
  assumes "faults s = []" "list_all (order_fk (tables s)) (orders (tables s))"
    and "set (map o_orderId rs) \<subseteq> set (map o_orderId (orders (tables s)))"
  shows "wp (forEach (map (view_of d0) rs) (\<lambda>v. tryCatch (processExpiredOrder sv v) (\<lambda>_. ret ())))
    (\<lambda>_ t. tables t = (tables s)\<lparr>orders := foldl (expire_step d0) (orders (tables s)) rs\<rparr>)
    (\<lambda>_ _. False) s"
  using assms
proof (induction rs arbitrary: s)
  case Nil
  then show ?case by (simp add: prog)
next
  case (Cons r rs)
  have step: "wp (forEach (map (view_of d0) rs) (\<lambda>v. tryCatch (processExpiredOrder sv v) (\<lambda>_. ret ())))
      (\<lambda>_ u. tables u = (tables s)\<lparr>orders := foldl (expire_step d0) (orders (tables s)) (r # rs)\<rparr>)
      (\<lambda>_ _. False) t"
    if "tables t = (tables s)\<lparr>orders := expire_step d0 (orders (tables s)) r\<rparr> \<and> faults t = []" for t :: "'z world_scheme"
    by (rule wp_mono[OF Cons.IH])
      (use that Cons.prems(2,3) in \<open>auto simp: expire_step_fk expire_step_idset\<close>)
  show ?case
    unfolding list.map forEach.simps wp_andThen
    by (rule wp_mono[OF expire_one]) (use step Cons.prems in auto)
qed

text \<open>The whole batch as a map over the order table.\<close>

definition expired_order :: "db \<Rightarrow> int \<Rightarrow> order \<Rightarrow> order" where
  "expired_order d now r =
     (if protected_order d r \<or> o_expiresAt r = None \<or> now \<le> the (o_expiresAt r) then r
      else if o_orderStatus r = OS_created then r\<lparr>o_orderStatus := OS_expired\<rparr>
      else if o_orderStatus r = OS_locked then r\<lparr>o_orderStatus := OS_cancelled\<rparr>
      else r)"

lemma expired_order_code: "expired_order d now r = (if expired_candidate now r \<and> \<not> protected_order d r
     then r\<lparr>o_orderStatus := expiry_target (o_orderStatus r)\<rparr> else r)"
  by (auto simp: expired_order_def expired_candidate_def expiry_target_def split: option.split)

lemma foldl_expire_step:
  assumes "distinct (map o_orderId rs)"
  shows "foldl (expire_step d0) xs rs =
    map (\<lambda>x. case List.find (\<lambda>r. o_orderId r = o_orderId x) rs of
               None \<Rightarrow> x
             | Some r \<Rightarrow> if protected_order d0 r then x
                         else x\<lparr>o_orderStatus := expiry_target (o_orderStatus r)\<rparr>) xs"
  using assms
proof (induction rs arbitrary: xs)
  case (Cons r rs)
  have none: "List.find (\<lambda>q. o_orderId q = o_orderId r) rs = None"
    using Cons.prems by (auto simp: find_None_iff_ball rev_image_eqI)
  show ?case
    using Cons none
    by (auto simp: expire_step_def split: option.split)
qed simp

lemma find_filter_self:
  assumes "distinct (map o_orderId xs)" "x \<in> set xs"
  shows "List.find (\<lambda>r. o_orderId r = o_orderId x) (filter p xs) = (if p x then Some x else None)"
proof (cases "p x")
  case True
  then show ?thesis
    using find_unique[of o_orderId "filter p xs" x] assms by (simp add: distinct_map_filter)
next
  case False
  have "o_orderId y = o_orderId x \<Longrightarrow> y \<in> set xs \<Longrightarrow> y = x" for y
    using assms by (metis distinct_map inj_onD)
  with False show ?thesis by (auto simp: find_None_iff_ball)
qed

lemma foldl_expire_filter:
  assumes "distinct (map o_orderId (orders d))"
  shows "foldl (expire_step d) (orders d) (filter (expired_candidate now) (orders d))
    = map (expired_order d now) (orders d)"
  using assms
  by (simp add: foldl_expire_step distinct_map_filter find_filter_self expired_order_code)

lemma expireOrders_run:
  assumes "faults s = []" "orders_wf (tables s)"
  shows "wp (expireOrders sv)
    (\<lambda>_ t. tables t = (tables s)\<lparr>orders := map (expired_order (tables s) (clock s)) (orders (tables s))\<rparr>)
    (\<lambda>_ _. False) s"
proof -
  have wf: "distinct (map o_orderId (orders (tables s)))" "list_all (order_fk (tables s)) (orders (tables s))"
    using assms(2) by (auto simp: orders_wf_def)
  have "wp (forEach (map (view_of (tables s)) (filter (expired_candidate (clock s)) (orders (tables s))))
      (\<lambda>v. tryCatch (processExpiredOrder sv v) (\<lambda>_. ret ())))
    (\<lambda>_ t. tables t = (tables s)\<lparr>orders := map (expired_order (tables s) (clock s)) (orders (tables s))\<rparr>)
    (\<lambda>_ _. False) s"
    unfolding foldl_expire_filter[OF wf(1), symmetric]
    by (rule expire_loop[OF assms(1) wf(2)]) auto
  then show ?thesis
    by (simp add: expireOrders_def wp_bindE wp_getState wp_db_call assms(1))
qed

text \<open>
  C18.  One run of the expiry job, with a working connection and a well-formed order table: every order
  that is created or locked and past its expiry becomes expired or cancelled, unless its escrow is
  marked as paid, released, disputed or resolved; every other order and table is untouched, no
  audit record is written, and the answers of the chain play no part.
\<close>

theorem cron_expireOrders_table:
  assumes "faults s = []" "orders_wf (tables s)"
  shows "\<exists>t. cron_expireOrders sv s = (Inr (), t) \<and>
    tables t = (tables s)\<lparr>orders := map (expired_order (tables s) (clock s)) (orders (tables s))\<rparr>"
proof -
  have "wp (cron_expireOrders sv)
      (\<lambda>_ t. tables t = (tables s)\<lparr>orders := map (expired_order (tables s) (clock s)) (orders (tables s))\<rparr>)
      (\<lambda>_ _. False) s"
    unfolding cron_expireOrders_def wp_tryCatch
    by (rule wp_mono[OF expireOrders_run[OF assms]]) auto
  from wp_returns[OF this] show ?thesis by auto
qed

theorem cron_expireOrders_table_witness:
  "\<exists>t. cron_expireOrders (sample_services ''SUCCESS'') (quiet_world (one_order OS_locked ES_funded)) = (Inr (), t)
     \<and> map o_orderStatus (orders (tables t)) = [OS_cancelled] \<and> audits (tables t) = []"
proof -
  have "orders_wf (tables (quiet_world (one_order OS_locked ES_funded)))"
    by (simp add: orders_wf_def order_fk_def)
  from cron_expireOrders_table[OF _ this, of "sample_services ''SUCCESS''"] obtain t where
    t: "cron_expireOrders (sample_services ''SUCCESS'') (quiet_world (one_order OS_locked ES_funded)) = (Inr (), t)"
      "tables t = (one_order OS_locked ES_funded)\<lparr>orders :=
         map (expired_order (one_order OS_locked ES_funded) 1000) (orders (one_order OS_locked ES_funded))\<rparr>"
    by auto
  then show ?thesis
    by (intro exI[of _ t]) (simp add: expired_order_def protected_order_def)
qed

subsection \<open>Statistics\<close>

lemma foldl_addStatusCount:
  "foldl addStatusCount st rows = st\<lparr>st_totalOrders := st_totalOrders st + sum_list (map snd rows),
     st_completedOrders := st_completedOrders st + sum_list (map snd (filter (\<lambda>r. fst r = OS_released) rows))\<rparr>"
  by (induction rows arbitrary: st) (auto simp: addStatusCount_def)

lemma sum_counts:
  assumes "distinct ks"
  shows "sum_list (map (\<lambda>k. length (filter (\<lambda>x. f x = k) xs)) ks) = length (filter (\<lambda>x. f x \<in> set ks) xs)"
  using assms
proof (induction ks)
  case (Cons k ks)
  have "length (filter (\<lambda>x. f x = k \<or> f x \<in> set ks) xs)
      = length (filter (\<lambda>x. f x = k) xs) + length (filter (\<lambda>x. f x \<in> set ks) xs)"
    using Cons.prems by (induction xs) auto
  then show ?case using Cons by simp
qed simp

lemma filter_key_map: "filter (\<lambda>r. fst r = k) (map (\<lambda>x. (x, g x)) ks) = map (\<lambda>x. (x, g x)) (filter (\<lambda>x. x = k) ks)"
  by (induction ks) auto

definition trades_of :: "string \<Rightarrow> db \<Rightarrow> order list" where
  "trades_of userId d = filter (\<lambda>r. o_buyerId r = userId \<or> o_sellerId r = userId) (orders d)"

lemma countsByStatus_eq:
  "countsByStatus userId (orders d) =
     map (\<lambda>st. (st, length (filter (\<lambda>r. o_orderStatus r = st) (trades_of userId d))))
       (remdups (map o_orderStatus (trades_of userId d)))"
  by (simp add: countsByStatus_def trades_of_def Let_def)

text \<open>
  The statistics of a user, summed from the counts per status the database groups, are the number
  of the orders in which the user is buyer or seller, and of those that are released.
\<close>

theorem order_getUserStats_counts:
  assumes "faults s = []"
  shows "order_getUserStats userId s =
    (Inr \<lparr> st_totalOrders = length (trades_of userId (tables s)),
           st_completedOrders = length (filter (\<lambda>r. o_orderStatus r = OS_released) (trades_of userId (tables s))) \<rparr>, s)"
proof -
  let ?ts = "trades_of userId (tables s)"
  let ?ks = "remdups (map o_orderStatus ?ts)"
  have total: "sum_list (map snd (countsByStatus userId (orders (tables s)))) = length ?ts"
    using sum_counts[of ?ks o_orderStatus ?ts] by (simp add: countsByStatus_eq comp_def)
  have "sum_list (map snd (filter (\<lambda>r. fst r = OS_released) (countsByStatus userId (orders (tables s)))))
      = length (filter (\<lambda>r. o_orderStatus r \<in> set (filter (\<lambda>k. k = OS_released) ?ks)) ?ts)"
    using sum_counts[of "filter (\<lambda>k. k = OS_released) ?ks" o_orderStatus ?ts]
    by (simp only: countsByStatus_eq filter_key_map map_map comp_def snd_conv distinct_filter distinct_remdups)
  also have "\<dots> = length (filter (\<lambda>r. o_orderStatus r = OS_released) ?ts)"
    by (rule arg_cong[of _ _ length], rule filter_cong) auto
  finally show ?thesis
    by (intro run_eqI) (simp add: order_getUserStats_def wp_db_call assms prog foldl_addStatusCount total)
qed

theorem order_getUserStats_counts_witness:
  "fst (order_getUserStats ''b'' (quiet_world (one_order OS_released ES_released)))
     = Inr \<lparr> st_totalOrders = 1, st_completedOrders = 1 \<rparr>"
  using order_getUserStats_counts[of "quiet_world (one_order OS_released ES_released)" "''b''"]
  by (simp add: trades_of_def)

subsection \<open>What update and deletion allow\<close>

definition status_only :: "order_status \<Rightarrow> UpdateOrderDto" where
  "status_only st = \<lparr> uo_offerId = None, uo_buyerId = None, uo_sellerId = None, uo_assetAmount = None,
     uo_fiatAmount = None, uo_orderStatus = Some st, uo_expiresAt = None, uo_sellerAddress = None,
     uo_buyerAddress = None, uo_assetCode = None, uo_title = None \<rparr>"

lemma order_patch_status: "order_patch (status_only st) r = r\<lparr>o_orderStatus := st\<rparr>"
  by (simp add: order_patch_def status_only_def)

text \<open>
  The general update is not bound by the rules of cancellation: in every status of the order and of
  its escrow, a request that only carries a new status sets it, whatever the two statuses are.
\<close>

theorem order_update_any_status:
  assumes "faults s = []" "List.find (\<lambda>r. o_orderId r = i) (orders (tables s)) = Some q"
    and "order_fk (tables s) q"
  shows "\<exists>t. order_update i (status_only st) s = (Inr (q\<lparr>o_orderStatus := st\<rparr>), t) \<and>
    orders (tables t) = orders (set_status i st (tables s)) \<and> escrows (tables t) = escrows (tables s)"
proof -
  have i: "o_orderId q = i" using assms(2) by (auto dest: find_SomeD)
  have "wp (order_update i (status_only st))
      (\<lambda>row t. row = q\<lparr>o_orderStatus := st\<rparr> \<and> orders (tables t) = orders (set_status i st (tables s)) \<and>
         escrows (tables t) = escrows (tables s)) (\<lambda>_ _. False) s"
    unfolding order_update_def base_update_def order_patch_status[abs_def]
    by (simp add: prog assms order_check_status[OF assms(3), unfolded i] i unknown_columns_def set_status_def
        order_patch_status[abs_def]) (simp add: status_only_def)
  from wp_returns[OF this] show ?thesis by blast
qed

theorem order_update_any_status_witness:
  "fst (order_cancel ''o1'' ''b'' (quiet_world (one_order OS_locked ES_fiat_sent)))
     = Inl (appExc ORDER_CANCELLATION_NOT_ALLOWED) \<and>
   (\<exists>t. order_update ''o1'' (status_only OS_cancelled) (quiet_world (one_order OS_locked ES_fiat_sent))
     = (Inr (sample_order ''o1'' OS_cancelled (Some 500)), t))"
proof
  let ?s = "quiet_world (one_order OS_locked ES_fiat_sent)"
  have "wp (order_cancel ''o1'' ''b'') (\<lambda>_ _. False) (\<lambda>e _. e = appExc ORDER_CANCELLATION_NOT_ALLOWED) ?s"
    by (simp add: order_cancel_def wp_order_findById db_any_def prog view_of_def terminal_iff blocked_iff)
  from wp_throws[OF this] show "fst (order_cancel ''o1'' ''b'' ?s) = Inl (appExc ORDER_CANCELLATION_NOT_ALLOWED)"
    by auto
  show "\<exists>t. order_update ''o1'' (status_only OS_cancelled) ?s = (Inr (sample_order ''o1'' OS_cancelled (Some 500)), t)"
    using order_update_any_status[of ?s "''o1''" "sample_order ''o1'' OS_locked (Some 500)" OS_cancelled]
    by (auto simp: order_fk_def sample_order_def)
qed

text \<open>
  Deleting an order deletes its escrow record and its chat with it, in whatever status the escrow
  is, and leaves every other order, escrow and message; a failed call deletes nothing.
\<close>

theorem order_remove_cascades:
  assumes "order_remove i s = (r, t)"
  shows "case r of
      Inl _ \<Rightarrow> tables t = tables s
    | Inr row \<Rightarrow> List.find (\<lambda>q. o_orderId q = i) (orders (tables s)) = Some row \<and>
        orders (tables t) = filter (\<lambda>x. o_orderId x \<noteq> i) (orders (tables s)) \<and>
        escrows (tables t) = filter (\<lambda>x. e_orderId x \<noteq> i) (escrows (tables s)) \<and>
        chats (tables t) = filter (\<lambda>x. c_orderId x \<noteq> i) (chats (tables s)) \<and>
        users (tables t) = users (tables s) \<and> offers (tables t) = offers (tables s)"
proof -
  have drop: "t_drop order_table d q = Inr (d\<lparr>orders := filter (\<lambda>x. o_orderId x \<noteq> o_orderId q) (orders d),
      escrows := filter (\<lambda>x. e_orderId x \<noteq> o_orderId q) (escrows d),
      chats := filter (\<lambda>x. c_orderId x \<noteq> o_orderId q) (chats d)\<rparr>)" for d q
    by (simp add: order_table_def)
  have "wp (order_remove i)
     (\<lambda>row t. List.find (\<lambda>q. o_orderId q = i) (orders (tables s)) = Some row \<and>
        orders (tables t) = filter (\<lambda>x. o_orderId x \<noteq> i) (orders (tables s)) \<and>
        escrows (tables t) = filter (\<lambda>x. e_orderId x \<noteq> i) (escrows (tables s)) \<and>
        chats (tables t) = filter (\<lambda>x. c_orderId x \<noteq> i) (chats (tables s)) \<and>
        users (tables t) = users (tables s) \<and> offers (tables t) = offers (tables s))
     (\<lambda>_ t. tables t = tables s) s"
    unfolding order_remove_def base_delete_def
    by (cases "List.find (\<lambda>q. o_orderId q = i) (orders (tables s))")
      (auto intro!: db_anyI simp: prog wp_any drop dest: find_SomeD)
  from wp_run[OF this assms] show ?thesis by (auto split: sum.splits)
qed

theorem order_remove_cascades_witness:
  "\<exists>t. snd (order_remove ''o1'' (quiet_world (one_order OS_locked ES_funded))) = t
     \<and> escrows (tables t) = []"
proof -
  let ?s = "quiet_world (one_order OS_locked ES_funded)"
  have "wp (order_remove ''o1'') (\<lambda>_ _. True) (\<lambda>_ _. False) ?s"
    by (simp add: order_remove_def base_delete_def prog order_table_def)
  from wp_returns[OF this] obtain a t where t: "order_remove ''o1'' ?s = (Inr a, t)" by metis
  from order_remove_cascades[OF t] show ?thesis by (simp add: t)
qed

end
