(* ===== verification/StellarEvents.thy ===== *)
theory StellarEvents
  imports Errors
begin

text \<open>
  \<open>StellarEventParserService\<close> of \<open>src/modules/stellar/stellar-event-parser.service.ts\<close>: a raw
  Soroban event (any JSON) becomes a normalised escrow event or nothing.  Numbers are integers;
  \<open>NaN\<close> is \<open>None\<close>, and a text denotes a number when it is a sign and decimal digits.
\<close>

subsection \<open>JavaScript values\<close>

fun jtruthy :: "json option \<Rightarrow> bool" where
  "jtruthy None = False"
| "jtruthy (Some JNull) = False"
| "jtruthy (Some (JBool b)) = b"
| "jtruthy (Some (JNum n)) = (n \<noteq> 0)"
| "jtruthy (Some (JStr s)) = (s \<noteq> [])"
| "jtruthy (Some (JArr xs)) = True"
| "jtruthy (Some (JObj kvs)) = True"

text \<open>\<open>a || b\<close>.\<close>

definition jor :: "json option \<Rightarrow> json option \<Rightarrow> json option" where
  "jor a b = (if jtruthy a then a else b)"

definition text_number :: "string \<Rightarrow> int option" where
  "text_number s =
     (let t = trim s;
          u = (if t \<noteq> [] \<and> (hd t = CHR ''-'' \<or> hd t = CHR ''+'') then tl t else t)
      in if t = [] then Some 0
         else if u = [] \<or> \<not> all_digits u then None
         else Some (if hd t = CHR ''-'' then - int (digits_val u) else int (digits_val u)))"

text \<open>\<open>Number(x)\<close> and \<open>String(x)\<close>.\<close>

fun js_Number :: "json option \<Rightarrow> int option" where
  "js_Number None = None"
| "js_Number (Some JNull) = Some 0"
| "js_Number (Some (JBool b)) = Some (if b then 1 else 0)"
| "js_Number (Some (JNum n)) = Some n"
| "js_Number (Some (JStr s)) = text_number s"
| "js_Number (Some (JArr xs)) = text_number (elem_text (JArr xs))"
| "js_Number (Some (JObj kvs)) = None"

fun js_String :: "json option \<Rightarrow> string" where
  "js_String None = ''undefined''"
| "js_String (Some JNull) = ''null''"
| "js_String (Some j) = elem_text j"

definition show_number :: "int option \<Rightarrow> string" where
  "show_number n = (case n of None \<Rightarrow> ''NaN'' | Some i \<Rightarrow> show_int i)"

text \<open>\<open>JSON.stringify\<close>.\<close>

definition json_char :: "char \<Rightarrow> string" where
  "json_char c = (if c = CHR 0x22 then [CHR 0x5C, CHR 0x22]
     else if c = CHR 0x5C then [CHR 0x5C, CHR 0x5C]
     else if c = CHR 0x0A then [CHR 0x5C, CHR ''n'']
     else if c = CHR 0x0D then [CHR 0x5C, CHR ''r'']
     else if c = CHR 0x09 then [CHR 0x5C, CHR ''t''] else [c])"

definition json_string :: "string \<Rightarrow> string" where
  "json_string s = [CHR 0x22] @ concat (map json_char s) @ [CHR 0x22]"

fun stringify :: "json \<Rightarrow> string" where
  "stringify JNull = ''null''"
| "stringify (JBool b) = (if b then ''true'' else ''false'')"
| "stringify (JNum n) = show_int n"
| "stringify (JStr s) = json_string s"
| "stringify (JArr xs) = ''['' @ join '','' (map stringify xs) @ '']''"
| "stringify (JObj kvs) = ''{'' @ join '','' (map (\<lambda>(k, v). json_string k @ '':'' @ stringify v) kvs) @ ''}''"

subsection \<open>Events\<close>

datatype (plugins only: code size) OnChainEscrowEventType =
    ESCROW_CREATED | ESCROW_FUNDED | ESCROW_RELEASED | ESCROW_REFUNDED | ESCROW_CANCELLED | ESCROW_DISPUTED

primrec event_name :: "OnChainEscrowEventType \<Rightarrow> string" where
  "event_name ESCROW_CREATED = ''ESCROW_CREATED''"
| "event_name ESCROW_FUNDED = ''ESCROW_FUNDED''"
| "event_name ESCROW_RELEASED = ''ESCROW_RELEASED''"
| "event_name ESCROW_REFUNDED = ''ESCROW_REFUNDED''"
| "event_name ESCROW_CANCELLED = ''ESCROW_CANCELLED''"
| "event_name ESCROW_DISPUTED = ''ESCROW_DISPUTED''"

text \<open>\<open>OnChainEscrowEvent\<close>; the timestamp is \<open>None\<close> when the time of parsing is used.\<close>

record OnChainEscrowEvent =
  ev_eventId :: string
  ev_eventType :: OnChainEscrowEventType
  ev_contractId :: string
  ev_txHash :: string
  ev_ledgerSequence :: "int option"
  ev_eventIndex :: "int option"
  ev_engagementId :: "string option"
  ev_orderId :: "string option"
  ev_amount :: "string option"
  ev_timestamp :: "json option"
  ev_payload :: json

fun is_text_or_number :: "json option \<Rightarrow> bool" where
  "is_text_or_number (Some (JStr s)) = True"
| "is_text_or_number (Some (JNum n)) = True"
| "is_text_or_number _ = False"

definition stringifyTopic :: "json \<Rightarrow> string" where
  "stringifyTopic t =
     (case t of
        JStr s \<Rightarrow> s
      | JNum n \<Rightarrow> show_int n
      | JBool b \<Rightarrow> (if b then ''true'' else ''false'')
      | JNull \<Rightarrow> []
      | _ \<Rightarrow> if is_text_or_number (jfield t ''_value'') then js_String (jfield t ''_value'')
             else if is_text_or_number (jfield t ''value'') then js_String (jfield t ''value'')
             else stringify t)"

fun text_of :: "json option \<Rightarrow> string option" where
  "text_of (Some (JStr s)) = Some s"
| "text_of _ = None"

definition has_word :: "string \<Rightarrow> string list \<Rightarrow> bool" where
  "has_word cand ws \<longleftrightarrow> (\<exists>w \<in> set ws. js_includes w cand)"

text \<open>\<open>candidateStr\<close>: the direct type and the topics, in upper case.\<close>

definition event_text :: "json option \<Rightarrow> string list \<Rightarrow> string" where
  "event_text directType topics =
     toUpper (join '' '' ((case text_of directType of None \<Rightarrow> [] | Some s \<Rightarrow> [s]) @ topics))"

definition resolveEventType :: "json option \<Rightarrow> string list \<Rightarrow> OnChainEscrowEventType option" where
  "resolveEventType directType topics =
     (let cand = event_text directType topics
      in if has_word cand [''ESCROW_CREATED'', ''INITIALIZE'', ''CREATED''] then Some ESCROW_CREATED
         else if has_word cand [''ESCROW_REFUNDED'', ''REFUND''] then Some ESCROW_REFUNDED
         else if has_word cand [''ESCROW_FUNDED'', ''FUND''] then Some ESCROW_FUNDED
         else if has_word cand [''ESCROW_RELEASED'', ''RELEASE''] then Some ESCROW_RELEASED
         else if has_word cand [''ESCROW_CANCELLED'', ''CANCEL''] then Some ESCROW_CANCELLED
         else if has_word cand [''ESCROW_DISPUTED'', ''DISPUTE''] then Some ESCROW_DISPUTED
         else None)"

definition is_uuid_text :: "string \<Rightarrow> bool" where
  "is_uuid_text t \<longleftrightarrow> length t = 36 \<and> list_all (\<lambda>c. is_hex c \<or> c = CHR ''-'') t"

definition first_text :: "json option list \<Rightarrow> string option" where
  "first_text xs = (case List.find (\<lambda>x. text_of x \<noteq> None) xs of None \<Rightarrow> None | Some x \<Rightarrow> text_of x)"

fun is_object :: "json option \<Rightarrow> bool" where
  "is_object (Some (JObj kvs)) = True"
| "is_object (Some (JArr xs)) = True"
| "is_object _ = False"

definition vfield :: "json option \<Rightarrow> string \<Rightarrow> json option" where
  "vfield v k = (case v of None \<Rightarrow> None | Some j \<Rightarrow> jfield j k)"

definition extractEngagementId :: "json \<Rightarrow> string list \<Rightarrow> string option" where
  "extractEngagementId ev topics =
     (let v = jfield ev ''value''
      in case first_text ([jfield ev ''engagementId'', jfield ev ''orderId''] @
              (if is_object v then [vfield v ''engagementId'', vfield v ''orderId'', vfield v ''engagement_id'']
               else [])) of
           Some s \<Rightarrow> Some s
         | None \<Rightarrow> List.find (\<lambda>t. starts_with ''order_'' t \<or> starts_with ''eng_'' t \<or> is_uuid_text t) topics)"

definition extractAmount :: "json \<Rightarrow> string option" where
  "extractAmount ev =
     (case text_of (jfield ev ''amount'') of
        Some s \<Rightarrow> Some s
      | None \<Rightarrow>
          let v = jfield ev ''value''
          in if is_object v \<and> is_text_or_number (vfield v ''amount'')
             then Some (js_String (vfield v ''amount'')) else None)"

fun array_of :: "json option \<Rightarrow> json list option" where
  "array_of (Some (JArr xs)) = Some xs"
| "array_of _ = None"

definition rawTopics :: "json \<Rightarrow> json list" where
  "rawTopics ev = (case array_of (jfield ev ''topic'') of Some xs \<Rightarrow> xs
     | None \<Rightarrow> (case array_of (jfield ev ''topics'') of Some xs \<Rightarrow> xs | None \<Rightarrow> []))"

definition parseEvent :: "json option \<Rightarrow> OnChainEscrowEvent option" where
  "parseEvent raw =
     (if \<not> is_object raw then None
      else
        let ev = the raw;
            contractId = jor (jfield ev ''contractId'') (jfield ev ''contract_id'');
            txHash = js_String (jor (jfield ev ''txHash'') (jor (jfield ev ''tx_hash'')
                       (jor (jfield ev ''transactionHash'') (Some (JStr [])))));
            ledgerSequence = js_Number (jor (jfield ev ''ledger'') (jor (jfield ev ''ledgerSequence'') (Some (JNum 0))));
            eventIndex = js_Number (jor (jfield ev ''eventIndex'') (jor (jfield ev ''index'') (Some (JNum 0))));
            topics = map stringifyTopic (rawTopics ev);
            directType = jor (jfield ev ''eventType'') (jor (jfield ev ''event_type'') (jfield ev ''type''))
        in case text_of contractId of
             None \<Rightarrow> None
           | Some cid \<Rightarrow>
               if cid = [] then None
               else (case resolveEventType directType topics of
                  None \<Rightarrow> None
                | Some ty \<Rightarrow> Some
                   \<lparr> ev_eventId = (case text_of (jfield ev ''id'') of Some s \<Rightarrow> s
                        | None \<Rightarrow> txHash @ '':'' @ show_number ledgerSequence @ '':'' @ show_number eventIndex),
                     ev_eventType = ty, ev_contractId = cid, ev_txHash = txHash,
                     ev_ledgerSequence = ledgerSequence, ev_eventIndex = eventIndex,
                     ev_engagementId = extractEngagementId ev topics, ev_orderId = None,
                     ev_amount = extractAmount ev,
                     ev_timestamp = (if jtruthy (jfield ev ''ledgerClosedAt'')
                                     then jfield ev ''ledgerClosedAt'' else None),
                     ev_payload = (if is_object (jfield ev ''value'') then the (jfield ev ''value'')
                        else JObj (case jfield ev ''value'' of None \<Rightarrow> [] | Some x \<Rightarrow> [(''value'', x)])) \<rparr>))"

subsection \<open>What the parser accepts\<close>

lemma includes_shorter: "js_includes (a @ p @ b) s \<Longrightarrow> js_includes p s"
  unfolding js_includes_iff by (metis append.assoc)

lemma has_word_funded: "has_word s [''ESCROW_FUNDED'', ''FUND''] \<longleftrightarrow> js_includes ''FUND'' s"
  using includes_shorter[of "''ESCROW_''" "''FUND''" "''ED''" s] by (auto simp: has_word_def)

text \<open>
  An event whose type is one of the six names, in any case, is read as that event.
\<close>

theorem resolveEventType_names:
  "resolveEventType (Some (JStr (event_name ty))) [] = Some ty \<and>
   resolveEventType (Some (JStr (toLower (event_name ty)))) [] = Some ty \<and>
   resolveEventType None [event_name ty] = Some ty"
  by (induction ty) code_simp+

text \<open>
  The words are tried in a fixed order, and funding before release: an event whose texts contain
  \<open>FUND\<close> (and no word of creation or refund) is read as a funding, also when it announces a release
  of the funds, such as the chain's \<open>release_milestone_funds\<close>.
\<close>

theorem resolveEventType_fund_first:
  assumes "js_includes ''FUND'' (event_text d ts)"
    and "\<not> has_word (event_text d ts) [''ESCROW_CREATED'', ''INITIALIZE'', ''CREATED'', ''ESCROW_REFUNDED'', ''REFUND'']"
  shows "resolveEventType d ts = Some ESCROW_FUNDED"
  using assms has_word_funded[of "event_text d ts"] by (simp add: resolveEventType_def Let_def has_word_def)

theorem resolveEventType_fund_first_witness:
  "resolveEventType (Some (JStr ''contract'')) [''release_milestone_funds''] = Some ESCROW_FUNDED"
  by (rule resolveEventType_fund_first) code_simp+

lemma parseEvent_contract:
  "parseEvent raw = Some ev \<Longrightarrow> ev_contractId ev \<noteq> [] \<and> is_object raw \<and>
     (\<exists>j. raw = Some j \<and> text_of (jor (jfield j ''contractId'') (jfield j ''contract_id'')) = Some (ev_contractId ev))"
  by (cases raw) (auto simp: parseEvent_def Let_def split: if_splits option.splits)

end
