(* ===== verification/PaymentValidators.thy ===== *)
theory PaymentValidators
  imports Errors Decimal
begin

text \<open>
  \<open>PaymentMethodValidatorService\<close> of
  \<open>src/modules/payment-methods/payment-method-validator.service.ts\<close>: the account formats (phones, IBAN,
  CPF, Pix, bank accounts) and the table of rules with its most-specific-first lookup.
\<close>

subsection \<open>Shared primitives\<close>

text \<open>\<open>EMAIL_PATTERN\<close>: a local part, and a domain with an inner dot.\<close>

definition plain_char :: "char \<Rightarrow> bool" where
  "plain_char c \<longleftrightarrow> \<not> js_space c \<and> c \<noteq> CHR ''@''"

definition email_pattern :: "string \<Rightarrow> bool" where
  "email_pattern s =
     (case split_on (CHR ''@'') s of
        [a, d] \<Rightarrow> a \<noteq> [] \<and> list_all plain_char a \<and> list_all plain_char d \<and> CHR ''.'' \<in> set (butlast (tl d))
      | _ \<Rightarrow> False)"

definition isValidEmail :: "string \<Rightarrow> bool" where
  "isValidEmail v = email_pattern (trim v)"

definition UUID_PATTERN :: "string \<Rightarrow> bool" where
  "UUID_PATTERN s =
     (case split_on (CHR ''-'') s of
        [a, b, c, d, e] \<Rightarrow> map length [a, b, c, d, e] = [8, 4, 4, 4, 12] \<and> list_all (list_all is_hex) [a, b, c, d, e]
      | _ \<Rightarrow> False)"

definition dropPrefix :: "string \<Rightarrow> string \<Rightarrow> string" where
  "dropPrefix p s = (if starts_with p s then drop (length p) s else s)"

definition isValidCostaRicanPhone :: "string \<Rightarrow> bool" where
  "isValidCostaRicanPhone value =
     (let digits = stripNonDigits value;
          normalized = (if starts_with ''00506'' digits then drop 5 digits else dropPrefix ''506'' digits)
      in length normalized = 8 \<and> all_digits normalized \<and> hd normalized \<in> {CHR ''6'', CHR ''7'', CHR ''8''})"

definition venezuelanPrefixes :: "string list" where
  "venezuelanPrefixes = [''0412'', ''0414'', ''0416'', ''0424'', ''0426'']"

definition isValidVenezuelanPhone :: "string \<Rightarrow> bool" where
  "isValidVenezuelanPhone value =
     (let digits = stripNonDigits value;
          normalized = (if starts_with ''58'' digits then CHR ''0'' # drop 2 digits else digits)
      in take 4 normalized \<in> set venezuelanPrefixes \<and> length normalized = 11 \<and> all_digits normalized)"

subsection \<open>IBAN\<close>

definition IBAN_LENGTHS :: "(string \<times> nat) list" where
  "IBAN_LENGTHS = [(''AD'', 24), (''AE'', 23), (''AL'', 28), (''AT'', 20), (''AZ'', 28), (''BA'', 20),
    (''BE'', 16), (''BG'', 22), (''BH'', 22), (''BR'', 29), (''BY'', 28), (''CH'', 21), (''CR'', 22),
    (''CY'', 28), (''CZ'', 24), (''DE'', 22), (''DK'', 18), (''DO'', 28), (''EE'', 20), (''ES'', 24),
    (''FI'', 18), (''FO'', 18), (''FR'', 27), (''GB'', 22), (''GE'', 22), (''GI'', 23), (''GL'', 18),
    (''GR'', 27), (''GT'', 28), (''HR'', 21), (''HU'', 28), (''IE'', 22), (''IL'', 23), (''IQ'', 23),
    (''IS'', 26), (''IT'', 27), (''JO'', 30), (''KW'', 30), (''KZ'', 20), (''LB'', 28), (''LI'', 21),
    (''LT'', 20), (''LU'', 20), (''LV'', 21), (''MC'', 27), (''MD'', 24), (''ME'', 22), (''MK'', 19),
    (''MR'', 27), (''MT'', 31), (''MU'', 30), (''NL'', 18), (''NO'', 15), (''PK'', 24), (''PL'', 28),
    (''PS'', 29), (''PT'', 25), (''QA'', 29), (''RO'', 24), (''RS'', 22), (''SA'', 24), (''SC'', 31),
    (''SE'', 24), (''SI'', 19), (''SK'', 24), (''SM'', 27), (''ST'', 25), (''SV'', 28), (''TL'', 23),
    (''TN'', 24), (''TR'', 26), (''UA'', 29), (''VA'', 22), (''VG'', 24), (''XK'', 20)]"

text \<open>\<open>Number(remainder + value.slice(i, i + 7)) % 97\<close>: the remainder's decimal text is prepended.\<close>

fun mod97_loop :: "nat \<Rightarrow> string \<Rightarrow> nat" where
  "mod97_loop r [] = r"
| "mod97_loop r (c # cs) = mod97_loop (digits_val (show_nat r @ take 7 (c # cs)) mod 97) (drop 7 (c # cs))"

definition mod97 :: "string \<Rightarrow> nat" where
  "mod97 value = mod97_loop 0 value"

definition iban_digits :: "char \<Rightarrow> string" where
  "iban_digits c = (if is_digit c then [c] else show_nat (code_of c - 55))"

definition iban_shape :: "string \<Rightarrow> bool" where
  "iban_shape s \<longleftrightarrow> list_all is_upper (take 2 s) \<and> all_digits (take 2 (drop 2 s)) \<and>
     list_all (\<lambda>c. is_upper c \<or> is_digit c) (drop 4 s) \<and> 5 \<le> length s \<and> length s \<le> 34"

definition isValidIban :: "string \<Rightarrow> bool" where
  "isValidIban value =
     (let iban = toUpper (stripSpaces value)
      in iban_shape iban \<and>
         (case map_of IBAN_LENGTHS (take 2 iban) of None \<Rightarrow> True | Some n \<Rightarrow> length iban = n) \<and>
         15 \<le> length iban \<and> length iban \<le> 34 \<and>
         mod97 (concat (map iban_digits (drop 4 iban @ take 4 iban))) = 1)"

subsection \<open>CPF and Pix\<close>

definition cpf_sum :: "nat \<Rightarrow> string \<Rightarrow> nat" where
  "cpf_sum n digits = (\<Sum>i < n. digit_val (digits ! i) * (n + 1 - i))"

definition cpf_check :: "nat \<Rightarrow> string \<Rightarrow> nat" where
  "cpf_check n digits = (let c = (cpf_sum n digits * 10) mod 11 in if c = 10 then 0 else c)"

definition isValidCpf :: "string \<Rightarrow> bool" where
  "isValidCpf value =
     (let digits = stripNonDigits value
      in length digits = 11 \<and> digits \<noteq> replicate 11 (hd digits) \<and>
         cpf_check 9 digits = digit_val (digits ! 9) \<and> cpf_check 10 digits = digit_val (digits ! 10))"

definition isValidBrazilianPhone :: "string \<Rightarrow> bool" where
  "isValidBrazilianPhone value =
     (let digits = stripNonDigits value;
          normalized = (if starts_with ''55'' digits \<and> 2 < length digits \<and> digits ! 2 \<noteq> CHR ''0''
                        then drop 2 digits else digits)
      in length normalized = 11 \<and> all_digits normalized \<and> normalized ! 0 \<noteq> CHR ''0'' \<and> normalized ! 2 = CHR ''9'')"

definition isValidPixKey :: "string \<Rightarrow> bool" where
  "isValidPixKey value \<longleftrightarrow> isValidCpf value \<or> isValidEmail value \<or> isValidBrazilianPhone value \<or>
     UUID_PATTERN (trim value)"

subsection \<open>Bank accounts\<close>

definition account_char :: "char \<Rightarrow> bool" where
  "account_char c \<longleftrightarrow> is_alnum c \<or> js_space c \<or> c \<in> {CHR ''-'', CHR ''/'', CHR ''.'', CHR ''_''}"

definition isValidBankAccount :: "string \<Rightarrow> bool" where
  "isValidBankAccount value =
     (let t = trim value
      in 4 \<le> length t \<and> length t \<le> 34 \<and> is_alnum (hd t) \<and> is_alnum (last t) \<and>
         list_all account_char t \<and> list_ex is_digit t)"

definition skipSeparator :: "string \<Rightarrow> string" where
  "skipSeparator s = (if s \<noteq> [] \<and> (hd s = CHR ''-'' \<or> hd s = CHR '' '') then tl s else s)"

definition digit_block :: "nat \<Rightarrow> string \<Rightarrow> bool" where
  "digit_block n s \<longleftrightarrow> length s = n \<and> all_digits s"

text \<open>\<open>/^\d{3}[- ]?\d{6}[- ]?\d{3}$/\<close>.\<close>

definition cr_national :: "string \<Rightarrow> bool" where
  "cr_national s =
     (let r = skipSeparator (drop 3 s)
      in digit_block 3 (take 3 s) \<and> digit_block 6 (take 6 r) \<and> digit_block 3 (skipSeparator (drop 6 r)))"

definition isValidCostaRicanBankAccount :: "string \<Rightarrow> bool" where
  "isValidCostaRicanBankAccount value =
     (let t = trim value
      in cr_national t \<or> (all_digits t \<and> 10 \<le> length t \<and> length t \<le> 17))"

definition isValidBacCredomaticAccount :: "string \<Rightarrow> bool" where
  "isValidBacCredomaticAccount value = digit_block 10 (stripNonDigits value)"

definition defaultValidator :: "string \<Rightarrow> bool" where
  "defaultValidator v \<longleftrightarrow> trim v \<noteq> []"

subsection \<open>The table of rules\<close>

type_synonym rules = "string \<Rightarrow> (string \<Rightarrow> bool) option"

record provider_info =
  pi_type :: "string option"
  pi_countryCode :: "string option"
  pi_code :: "string option"

definition GLOBAL_COUNTRY :: string where
  "GLOBAL_COUNTRY = ''GLOBAL''"

definition normalizeType :: "string \<Rightarrow> string" where
  "normalizeType t = toUpper (trim t)"

definition normalizeCountryCode :: "string option \<Rightarrow> string" where
  "normalizeCountryCode c = (let n = toUpper (trim (get_or c [])) in if n = [] then GLOBAL_COUNTRY else n)"

definition normalizeCode :: "string option \<Rightarrow> string option" where
  "normalizeCode c = (let n = toUpper (trim (get_or c [])) in if n = [] then None else Some n)"

definition toMapKey :: "string \<Rightarrow> string \<Rightarrow> string option \<Rightarrow> string" where
  "toMapKey ty country code =
     normalizeType ty @ CHR '':'' # normalizeCountryCode (Some country) @
     (case code of None \<Rightarrow> [] | Some c \<Rightarrow> CHR '':'' # c)"

definition registerValidator ::
    "string \<Rightarrow> string \<Rightarrow> string option \<Rightarrow> (string \<Rightarrow> bool) \<Rightarrow> rules \<Rightarrow> rules" where
  "registerValidator ty country code f rs = rs(toMapKey ty country (normalizeCode code) \<mapsto> f)"

text \<open>The rules the constructor registers, in its order.\<close>

definition initialRules :: rules where
  "initialRules =
     registerValidator ''BANK'' ''CR'' (Some ''BAC_CR'') isValidBacCredomaticAccount
     (registerValidator ''BANK'' ''CR'' None isValidCostaRicanBankAccount
     (registerValidator ''BANK'' ''PA'' None (\<lambda>v. isValidIban v \<or> isValidBankAccount v)
     (registerValidator ''BANK'' [] None isValidBankAccount
     (registerValidator ''PLATFORM'' ''BR'' None isValidPixKey
     (registerValidator ''PLATFORM'' [] None isValidEmail
     (registerValidator ''MOBILE'' ''VE'' None isValidVenezuelanPhone
     (registerValidator ''MOBILE'' ''CR'' None isValidCostaRicanPhone Map.empty)))))))"

definition resolveValidator :: "rules \<Rightarrow> provider_info \<Rightarrow> (string \<Rightarrow> bool) option" where
  "resolveValidator rs p =
     (let ty = map_option trim (pi_type p)
      in if \<not> truthy ty then None
         else
           let country = normalizeCountryCode (pi_countryCode p); code = normalizeCode (pi_code p);
               exact = (case code of None \<Rightarrow> None | Some c \<Rightarrow> rs (toMapKey (the ty) country (Some c)))
           in case exact of Some f \<Rightarrow> Some f
              | None \<Rightarrow> (case rs (toMapKey (the ty) country None) of Some f \<Rightarrow> Some f
                 | None \<Rightarrow> rs (toMapKey (the ty) GLOBAL_COUNTRY None)))"

definition isValid :: "rules \<Rightarrow> provider_info \<Rightarrow> string \<Rightarrow> bool" where
  "isValid rs p account = get_or (resolveValidator rs p) defaultValidator account"

definition validate :: "rules \<Rightarrow> provider_info \<Rightarrow> string \<Rightarrow> exn + bool" where
  "validate rs p account =
     (if \<not> isValid rs p account then Inl (appExc INVALID_ACCOUNT_IDENTIFIER) else Inr True)"

end
