(* ===== verification/Listener.thy ===== *)
theory Listener
  imports Orders StellarEvents PaymentValidators
begin

text \<open>
  \<open>StellarListenerService\<close> of \<open>src/modules/stellar/stellar-listener.service.ts\<close>: the polling of chain
  events and their idempotent synchronisation to escrows and orders.  Its memory (last ledger,
  processed events, whether it listens) extends the world; the Soroban RPC server is a parameter.
\<close>

subsection \<open>State\<close>

record listener = world +
  lastProcessedLedger :: "int option"
  processedEventIds :: "string set"
  isListening :: bool

text \<open>The answer of \<open>getEvents\<close>: the body of the response, or a failed request (\<open>None\<close>).\<close>

record listener_env =
  le_config :: config
  le_rpc :: "string list \<Rightarrow> int option \<Rightarrow> json option"

type_synonym ('z, 'a) lact = "('z listener_scheme, 'a) prog"

text \<open>\<open>a > b\<close> on numbers that may be \<open>NaN\<close>.\<close>

definition num_gt :: "int option \<Rightarrow> int option \<Rightarrow> bool" where
  "num_gt a b = (case (a, b) of (Some x, Some y) \<Rightarrow> x > y | _ \<Rightarrow> False)"

definition num_truthy :: "int option \<Rightarrow> bool" where
  "num_truthy a = (case a of None \<Rightarrow> False | Some x \<Rightarrow> x \<noteq> 0)"

subsection \<open>Synchronising one event\<close>

primrec mapEventToStatuses :: "OnChainEscrowEventType \<Rightarrow> escrow_status \<times> order_status" where
  "mapEventToStatuses ESCROW_CREATED = (ES_initialized, OS_created)"
| "mapEventToStatuses ESCROW_FUNDED = (ES_funded, OS_locked)"
| "mapEventToStatuses ESCROW_RELEASED = (ES_released, OS_released)"
| "mapEventToStatuses ESCROW_REFUNDED = (ES_resolved, OS_cancelled)"
| "mapEventToStatuses ESCROW_CANCELLED = (ES_resolved, OS_cancelled)"
| "mapEventToStatuses ESCROW_DISPUTED = (ES_disputed, OS_disputed)"

primrec mapEventToAuditAction :: "OnChainEscrowEventType \<Rightarrow> AuditAction" where
  "mapEventToAuditAction ESCROW_CREATED = AA_ESCROW_CREATED"
| "mapEventToAuditAction ESCROW_FUNDED = AA_ESCROW_FUNDED"
| "mapEventToAuditAction ESCROW_RELEASED = AA_ESCROW_RELEASED"
| "mapEventToAuditAction ESCROW_REFUNDED = AA_ESCROW_REFUNDED"
| "mapEventToAuditAction ESCROW_CANCELLED = AA_ESCROW_CANCELLED"
| "mapEventToAuditAction ESCROW_DISPUTED = AA_ESCROW_DISPUTED"

definition event_key :: "OnChainEscrowEvent \<Rightarrow> string" where
  "event_key ev = ev_eventId ev @ CHR '':'' # event_name (ev_eventType ev)"

text \<open>
  A text as a value of a uuid column: lower case, with its four hyphens.  A text that is no uuid
  (\<open>None\<close>) is refused by the database client.
\<close>

definition uuid_column :: "string \<Rightarrow> string option" where
  "uuid_column s =
     (if UUID_PATTERN s then Some (toLower s)
      else if length s = 32 \<and> list_all is_hex s
      then Some (join ''-'' (map toLower [take 8 s, take 4 (drop 8 s), take 4 (drop 12 s), take 4 (drop 16 s), drop 20 s]))
      else None)"

definition findFirstByOrder :: "string \<Rightarrow> ('z, escrow option) act" where
  "findFirstByOrder orderId = (case uuid_column orderId of
       None \<Rightarrow> throw QueryInvalid
     | Some i \<Rightarrow> findUnique escrow_table (\<lambda>e. e_orderId e = i))"

definition findEscrowRecord :: "OnChainEscrowEvent \<Rightarrow> ('z, escrow option) act" where
  "findEscrowRecord ev =
     bindE (if ev_contractId ev \<noteq> []
            then findUnique escrow_table (\<lambda>e. e_contractId e = Some (ev_contractId ev))
            else ret None) (\<lambda>m. case m of
       Some e \<Rightarrow> ret (Some e)
     | None \<Rightarrow>
         let orderId = orElse (ev_engagementId ev) (ev_orderId ev)
         in if truthy orderId then findFirstByOrder (the orderId) else ret None)"

definition event_update :: "OnChainEscrowEvent \<Rightarrow> escrow \<Rightarrow> escrow" where
  "event_update ev r = r\<lparr>e_escrowStatus := fst (mapEventToStatuses (ev_eventType ev)),
     e_txHashLock := (if ev_eventType ev = ESCROW_FUNDED \<and> ev_txHash ev \<noteq> [] then Some (ev_txHash ev)
                      else e_txHashLock r),
     e_txHashRelease := (if ev_eventType ev \<in> {ESCROW_RELEASED, ESCROW_REFUNDED} \<and> ev_txHash ev \<noteq> []
                         then Some (ev_txHash ev) else e_txHashRelease r)\<rparr>"

definition num_json :: "int option \<Rightarrow> json" where
  "num_json n = (case n of None \<Rightarrow> JNull | Some i \<Rightarrow> JNum i)"

definition event_audit :: "OnChainEscrowEvent \<Rightarrow> escrow \<Rightarrow> CreateAuditLogInput" where
  "event_audit ev e = (audit_input (mapEventToAuditAction (ev_eventType ev)) ''Escrow'' SUCCESS)
     \<lparr>ai_resourceId := Some (e_escrowId e),
      ai_metadata := Some (JObj [(''contractId'', JStr (ev_contractId ev)),
        (''orderId'', JStr (e_orderId e)), (''txHash'', JStr (ev_txHash ev)),
        (''ledgerSequence'', num_json (ev_ledgerSequence ev)), (''eventIndex'', num_json (ev_eventIndex ev)),
        (''eventType'', JStr (event_name (ev_eventType ev)))])\<rparr>"

text \<open>The transaction: escrow, order, audit record.\<close>

definition event_tx :: "OnChainEscrowEvent \<Rightarrow> escrow \<Rightarrow> ('z, unit) act" where
  "event_tx ev e =
     andThen (updateUnique escrow_table (\<lambda>r. e_escrowId r = e_escrowId e) (event_update ev))
     (andThen (updateUnique order_table (\<lambda>r. o_orderId r = e_orderId e)
                (\<lambda>r. r\<lparr>o_orderStatus := snd (mapEventToStatuses (ev_eventType ev))\<rparr>))
     (andThen (audit_repo_create (event_audit ev e)) (ret ())))"

definition rememberEvent :: "string \<Rightarrow> ('z, unit) lact" where
  "rememberEvent k = modify (\<lambda>s. s\<lparr>processedEventIds := insert k (processedEventIds s)\<rparr>)"

definition processEvent :: "OnChainEscrowEvent \<Rightarrow> ('z, bool) lact" where
  "processEvent ev =
     bindE (getState processedEventIds) (\<lambda>seen.
     if event_key ev \<in> seen then ret False
     else bindE (findEscrowRecord ev) (\<lambda>found. case found of
       None \<Rightarrow> ret False
     | Some e \<Rightarrow>
         if isTerminalOrAlreadyProcessed (e_escrowStatus e) (event_name (ev_eventType ev))
         then andThen (rememberEvent (event_key ev)) (ret False)
         else
           andThen (lift (validateStatusTransition (escrow_status_name (e_escrowStatus e))
                            (event_name (ev_eventType ev))))
           (andThen (transaction (event_tx ev e))
           (andThen (rememberEvent (event_key ev)) (ret True)))))"

subsection \<open>Polling\<close>

definition getTargetContractIds :: "listener_env \<Rightarrow> ('z, string list) act" where
  "getTargetContractIds env =
     (let configured = (case le_config env ''TRUSTLESS_WORK_CONTRACT_ID'' of
                          Some c \<Rightarrow> if c \<noteq> [] then [c] else [] | None \<Rightarrow> [])
      in tryCatch
           (bindE (findMany escrow_table
                     (\<lambda>e. e_contractId e \<noteq> None \<and> e_escrowStatus e \<notin> {ES_released, ES_resolved}))
             (\<lambda>es. ret (fold List.insert (filter (\<lambda>c. c \<noteq> []) (map (\<lambda>e. the (e_contractId e)) es)) configured)))
           (\<lambda>_. ret configured))"

text \<open>What the loop over the events iterates: an array, the characters of a text, else a \<open>TypeError\<close>.\<close>

fun iterated :: "json option \<Rightarrow> json list option" where
  "iterated (Some (JArr xs)) = Some xs"
| "iterated (Some (JStr s)) = Some (map (\<lambda>c. JStr [c]) s)"
| "iterated _ = None"

definition queryEventsFromRpc :: "listener_env \<Rightarrow> string list \<Rightarrow> ('z, json option \<times> int option) lact" where
  "queryEventsFromRpc env contractIds =
     bindE (getState lastProcessedLedger) (\<lambda>last.
       ret (case le_rpc env contractIds (if num_gt last (Some 0) then last else None) of
              None \<Rightarrow> (Some (JArr []), None)
            | Some body \<Rightarrow>
                if jtruthy (jfield body ''error'') then (Some (JArr []), None)
                else let res = jfield body ''result''
                     in (jor (vfield res ''events'') (Some (JArr [])),
                         (if jtruthy (vfield res ''latestLedger'') then js_Number (vfield res ''latestLedger'')
                          else None))))"

definition advanceTo :: "int option \<Rightarrow> ('z, unit) lact" where
  "advanceTo n = modify (\<lambda>s. if num_truthy n \<and> num_gt n (lastProcessedLedger s)
                              then s\<lparr>lastProcessedLedger := n\<rparr> else s)"

text \<open>One event of the batch, inside the \<open>try\<close> of the loop: whether it was handled.\<close>

definition processRaw :: "json \<Rightarrow> ('z, bool) lact" where
  "processRaw raw = tryCatch
     (case parseEvent (Some raw) of
        None \<Rightarrow> ret False
      | Some ev \<Rightarrow>
          bindE (processEvent ev) (\<lambda>handled. andThen (advanceTo (ev_ledgerSequence ev)) (ret handled)))
     (\<lambda>_. ret False)"

primrec processBatch :: "json list \<Rightarrow> nat \<Rightarrow> ('z, nat) lact" where
  "processBatch [] n = ret n"
| "processBatch (raw # rest) n =
     bindE (processRaw raw) (\<lambda>handled. processBatch rest (if handled then n + 1 else n))"

definition fetchAndProcessNewEvents :: "listener_env \<Rightarrow> ('z, nat) lact" where
  "fetchAndProcessNewEvents env =
     bindE (getTargetContractIds env) (\<lambda>targets.
     if targets = [] then ret 0
     else bindE (queryEventsFromRpc env targets) (\<lambda>(rawEvents, latestLedger).
       case iterated rawEvents of
         None \<Rightarrow> throw PlainError
       | Some raws \<Rightarrow>
           bindE (processBatch raws 0) (\<lambda>processedCount.
           andThen (advanceTo latestLedger) (ret processedCount))))"

text \<open>One cycle of the loop; an error is logged, and the next cycle is scheduled in any case.\<close>

definition pollEventsWithRecovery :: "listener_env \<Rightarrow> ('z, unit) lact" where
  "pollEventsWithRecovery env =
     bindE (getState isListening) (\<lambda>on.
     if \<not> on then ret ()
     else tryCatch (andThen (fetchAndProcessNewEvents env) (ret ())) (\<lambda>_. ret ()))"

definition startListening :: "('z, unit) lact" where
  "startListening = modify (\<lambda>s. s\<lparr>isListening := True\<rparr>)"

definition stopListening :: "('z, unit) lact" where
  "stopListening = modify (\<lambda>s. s\<lparr>isListening := False\<rparr>)"

definition escrow_actions :: "string list" where
  "escrow_actions = map action_name [AA_ESCROW_CREATED, AA_ESCROW_FUNDED, AA_ESCROW_RELEASED,
     AA_ESCROW_REFUNDED, AA_ESCROW_CANCELLED, AA_ESCROW_DISPUTED]"

definition loadLastProcessedLedger :: "('z, unit) lact" where
  "loadLastProcessedLedger = tryCatch
     (bindE (findMany audit_table (\<lambda>a. a_action a \<in> set escrow_actions)) (\<lambda>rows.
        case newestFirst rows of
          [] \<Rightarrow> ret ()
        | latest # _ \<Rightarrow>
            (let v = vfield (a_metadata latest) ''ledgerSequence''
             in if is_object (a_metadata latest) \<and> is_text_or_number v
                then modify (\<lambda>s. s\<lparr>lastProcessedLedger := js_Number v\<rparr>) else ret ())))
     (\<lambda>_. ret ())"

definition listener_onModuleInit :: "('z, unit) lact" where
  "listener_onModuleInit = andThen loadLastProcessedLedger startListening"

end
