(* ===== verification/ListenerProps.thy ===== *)
theory ListenerProps
  imports Listener OrderProps
begin

text \<open>
  The properties of the listener: an event is synchronised atomically, only along the lifecycle,
  and once, also across restarts; a poll only ever moves escrows forward; and the ledger it
  resumes from advances whether or not the events before it could be stored.
\<close>

subsection \<open>One event\<close>

text \<open>The escrow an event is about: by contract, else by order.\<close>

definition event_escrow :: "db \<Rightarrow> OnChainEscrowEvent \<Rightarrow> escrow option" where
  "event_escrow d ev =
     (case (if ev_contractId ev \<noteq> [] then List.find (\<lambda>e. e_contractId e = Some (ev_contractId ev)) (escrows d)
            else None) of
        Some e \<Rightarrow> Some e
      | None \<Rightarrow> (let orderId = orElse (ev_engagementId ev) (ev_orderId ev)
                 in if truthy orderId
                    then (case uuid_column (the orderId) of
                        None \<Rightarrow> None | Some i \<Rightarrow> List.find (\<lambda>e. e_orderId e = i) (escrows d))
                    else None))"

lemma wp_findEscrowRecordI:
  assumes "\<And>x bs. x \<in> {DbUnavailable, QueryInvalid} \<Longrightarrow> E x (s\<lparr>faults := bs\<rparr>)"
    and "\<And>bs. Q (event_escrow (tables s) ev) (s\<lparr>faults := bs\<rparr>)"
  shows "wp (findEscrowRecord ev) Q E s"
proof -
  have "Q (event_escrow (tables s) ev) s" using assms(2)[of "faults s"] by (cases s) simp
  moreover have "E QueryInvalid s" using assms(1)[of QueryInvalid "faults s"] by (cases s) simp
  ultimately show ?thesis
    using assms unfolding findEscrowRecord_def findFirstByOrder_def event_escrow_def
    by (auto simp: wp_bindE wp_any wp_if wp_ret wp_throw Let_def intro!: db_anyI split: option.splits)
qed

definition event_applied :: "OnChainEscrowEvent \<Rightarrow> escrow \<Rightarrow> audit_log \<Rightarrow> db \<Rightarrow> db" where
  "event_applied ev e row d = d\<lparr>
     escrows := map (\<lambda>r. if e_escrowId r = e_escrowId e then event_update ev r else r) (escrows d),
     orders := map (\<lambda>r. if o_orderId r = e_orderId e
                        then r\<lparr>o_orderStatus := snd (mapEventToStatuses (ev_eventType ev))\<rparr> else r) (orders d),
     audits := audits d @ [row]\<rparr>"

lemma event_tx_post:
  "wp (event_tx ev e)
     (\<lambda>_ t. \<exists>row. a_action row = action_name (mapEventToAuditAction (ev_eventType ev)) \<and>
        a_resourceId row = Some (e_escrowId e) \<and> tables t = event_applied ev e row (tables s))
     (\<lambda>_ _. True) s"
  unfolding event_tx_def audit_repo_create_def
  by (auto intro!: db_anyI exI dest!: find_SomeD split: option.split
      simp: prog wp_any event_applied_def audit_row_def event_audit_def audit_input_def)

lemma wp_event_transaction:
  "wp (transaction (event_tx ev e))
     (\<lambda>_ t. \<exists>row. a_action row = action_name (mapEventToAuditAction (ev_eventType ev)) \<and>
        a_resourceId row = Some (e_escrowId e) \<and> tables t = event_applied ev e row (tables s))
     (\<lambda>_ t. tables t = tables s) s"
  unfolding wp_transaction
  by (rule wp_mono[OF event_tx_post]) (auto simp: wp_db_call_any wp_ret intro!: db_anyI)

lemma wp_rememberEvent [prog]:
  "wp (rememberEvent k) Q E s = Q () (s\<lparr>processedEventIds := insert k (processedEventIds s)\<rparr>)"
  by (simp add: rememberEvent_def wp_modify)

text \<open>What handling an event means.\<close>

definition event_handled :: "OnChainEscrowEvent \<Rightarrow> db \<Rightarrow> db \<Rightarrow> bool" where
  "event_handled ev d d' \<longleftrightarrow> (\<exists>e row. event_escrow d ev = Some e \<and>
     escrow_edge (e_escrowStatus e) (fst (mapEventToStatuses (ev_eventType ev))) \<and>
     a_action row = action_name (mapEventToAuditAction (ev_eventType ev)) \<and>
     a_resourceId row = Some (e_escrowId e) \<and> d' = event_applied ev e row d)"

lemma event_guard_edge:
  assumes "validateStatusTransition (escrow_status_name c) (event_name ty) = Inr ()"
  shows "escrow_edge c (fst (mapEventToStatuses ty))"
  using assms by (cases ty; simp) auto

definition event_result :: "OnChainEscrowEvent \<Rightarrow> db \<Rightarrow> bool \<Rightarrow> 'z listener_scheme \<Rightarrow> bool" where
  "event_result ev d handled t \<longleftrightarrow>
     (if handled then event_handled ev d (tables t) \<and> event_key ev \<in> processedEventIds t else tables t = d)"

lemma processEvent_post:
  "wp (processEvent ev) (event_result ev (tables s)) (\<lambda>_ t. tables t = tables s) s"
proof -
  have tx: "wp (transaction (event_tx ev e))
     (\<lambda>_. wp (andThen (rememberEvent (event_key ev)) (ret True)) (event_result ev (tables s)) (\<lambda>_ t. tables t = tables s))
     (\<lambda>_ t. tables t = tables s) u"
    if "tables u = tables s" "event_escrow (tables s) ev = Some e"
      "validateStatusTransition (escrow_status_name (e_escrowStatus e)) (event_name (ev_eventType ev)) = Inr ()"
    for e and u :: "'a listener_scheme"
    by (rule wp_mono[OF wp_event_transaction])
      (use that in \<open>auto simp: prog event_result_def event_handled_def dest: event_guard_edge\<close>)
  have skip: "tables u = tables s \<Longrightarrow> event_result ev (tables s) False u" for u :: "'a listener_scheme"
    by (simp add: event_result_def)
  show ?thesis
    unfolding processEvent_def
    by (auto simp: wp_bindE wp_getState wp_if wp_ret wp_andThen wp_option wp_lift wp_rememberEvent
        intro!: wp_findEscrowRecordI tx skip split: option.split sum.split)
qed


text \<open>The world of the witnesses: one locked-in order, whose escrow the event funds.\<close>

definition sample_listener :: "db \<Rightarrow> bool list \<Rightarrow> listener" where
  "sample_listener d fs = \<lparr> tables = d, faults = fs, clock = 1000, uuid_source = (\<lambda>n. CHR ''u'' # replicate n (CHR ''-'')),
     uuid_next = 0, tw_calls = [], lastProcessedLedger = Some 100, processedEventIds = {}, isListening = True \<rparr>"

lemma sample_listener_simps [simp]:
  "tables (sample_listener d fs) = d" "faults (sample_listener d fs) = fs" "clock (sample_listener d fs) = 1000"
  "uuid_next (sample_listener d fs) = 0" "uuid_source (sample_listener d fs) n = CHR ''u'' # replicate n (CHR ''-'')"
  "lastProcessedLedger (sample_listener d fs) = Some 100" "processedEventIds (sample_listener d fs) = {}"
  "isListening (sample_listener d fs)"
  by (simp_all add: sample_listener_def)

definition sample_event :: OnChainEscrowEvent where
  "sample_event = \<lparr> ev_eventId = ''i'', ev_eventType = ESCROW_FUNDED, ev_contractId = ''C'', ev_txHash = ''T'',
     ev_ledgerSequence = Some 110, ev_eventIndex = Some 0, ev_engagementId = None, ev_orderId = None,
     ev_amount = None, ev_timestamp = None, ev_payload = JObj [] \<rparr>"

lemma sample_event_simps [simp]:
  "ev_eventType sample_event = ESCROW_FUNDED" "ev_contractId sample_event = ''C''" "ev_txHash sample_event = ''T''"
  "ev_ledgerSequence sample_event = Some 110"
  by (simp_all add: sample_event_def)

lemma sample_processable:
  "\<not> isTerminalOrAlreadyProcessed ES_initialized (event_name ESCROW_FUNDED)"
  "validateStatusTransition (escrow_status_name ES_initialized) (event_name ESCROW_FUNDED) = Inr ()"
  by code_simp+

lemma sample_processed:
  "\<exists>t. processEvent sample_event (sample_listener (one_order OS_created ES_initialized) []) = (Inr True, t)"
proof -
  have "wp (processEvent sample_event) (\<lambda>h _. h = True) (\<lambda>_ _. False)
      (sample_listener (one_order OS_created ES_initialized) [])"
    unfolding processEvent_def sample_event_simps
    by (simp add: prog wp_option findEscrowRecord_def sample_processable sample_processable[simplified] wp_transaction wp_db_call event_tx_def
        audit_repo_create_def event_update_def escrow_table_def order_table_def audit_table_def clash_def
        audit_row_def event_audit_def audit_input_def)
  from wp_returns[OF this] show ?thesis by metis
qed

lemma sample_event_escrow:
  "event_escrow (one_order OS_created ES_initialized) sample_event = Some (sample_escrow ''e1'' ''o1'' ES_initialized (Some ''C''))"
  by (simp add: event_escrow_def)


text \<open>An event handled once is reflected by the escrow it named.\<close>

lemma event_update_simps [simp]:
  "e_escrowId (event_update ev r) = e_escrowId r" "e_orderId (event_update ev r) = e_orderId r"
  "e_contractId (event_update ev r) = e_contractId r"
  "e_escrowStatus (event_update ev r) = fst (mapEventToStatuses (ev_eventType ev))"
  by (simp_all add: event_update_def)

lemma find_map_any:
  assumes "\<And>x. p (f x) = p x"
  shows "List.find p (map f xs) = map_option f (List.find p xs)"
  using assms by (induction xs) auto

lemma event_escrow_applied:
  assumes "event_escrow d ev = Some e"
  shows "event_escrow (event_applied ev e row d) ev = Some (event_update ev e)"
proof -
  let ?f = "\<lambda>r. if e_escrowId r = e_escrowId e then event_update ev r else r"
  have "List.find (\<lambda>x. e_contractId x = c) (map ?f xs) = map_option ?f (List.find (\<lambda>x. e_contractId x = c) xs)"
    "List.find (\<lambda>x. e_orderId x = i) (map ?f xs) = map_option ?f (List.find (\<lambda>x. e_orderId x = i) xs)"
    for c i xs
    by (rule find_map_any; simp)+
  note lookups = this
  show ?thesis
  proof (cases "List.find (\<lambda>x. e_contractId x = Some (ev_contractId ev)) (escrows d)")
    case None
    with assms show ?thesis
      by (auto simp: event_escrow_def event_applied_def Let_def lookups split: if_splits option.splits)
  next
    case (Some a)
    with assms show ?thesis
      by (auto simp add: event_escrow_def event_applied_def Let_def lookups split: if_splits option.splits)
  qed
qed

lemma target_processed: "isTerminalOrAlreadyProcessed (fst (mapEventToStatuses ty)) (event_name ty)"
  by (induction ty) code_simp+

text \<open>Before the escrows change, a replay is skipped, on a working connection and with any memory.\<close>

lemma processEvent_again:
  assumes "processEvent ev s = (Inr True, t)" and "escrows (tables u) = escrows (tables t)" "faults u = []"
  shows "fst (processEvent ev u) = Inr False"
proof -
  have "event_handled ev (tables s) (tables t)"
    using wp_value[OF processEvent_post assms(1)] by (simp add: event_result_def)
  then obtain e where "event_escrow (tables t) ev = Some (event_update ev e)"
    by (auto simp: event_handled_def event_escrow_applied)
  then have e: "event_escrow (tables u) ev = Some (event_update ev e)"
    by (simp only: event_escrow_def assms(2))
  then have found: "wp (findEscrowRecord ev) Q E u = Q (event_escrow (tables u) ev) u" for Q E
    using assms(3) by (auto simp: findEscrowRecord_def findFirstByOrder_def event_escrow_def prog Let_def split: option.splits if_splits)
  have "wp (processEvent ev) (\<lambda>h _. h = False) (\<lambda>_ _. False) u"
    unfolding processEvent_def
    by (simp add: wp_bindE wp_getState wp_if wp_ret found e wp_option wp_andThen wp_rememberEvent target_processed)
  from wp_returns[OF this] show ?thesis by auto
qed

subsection \<open>A poll moves escrows forward\<close>

text \<open>The same escrows for the same orders and contracts, none with an earlier status.\<close>

definition later_escrow :: "escrow \<Rightarrow> escrow \<Rightarrow> bool" where
  "later_escrow a b \<longleftrightarrow> e_escrowId b = e_escrowId a \<and> e_orderId b = e_orderId a \<and>
     e_contractId b = e_contractId a \<and> e_escrowStatus a \<le> e_escrowStatus b"

definition escrows_forward :: "db \<Rightarrow> db \<Rightarrow> bool" where
  "escrows_forward d d' \<longleftrightarrow> (distinct (map e_escrowId (escrows d)) \<longrightarrow>
     list_all2 later_escrow (escrows d) (escrows d'))"

lemma later_escrow_refl: "later_escrow a a"
  by (simp add: later_escrow_def)

lemma later_escrow_trans: "later_escrow a b \<Longrightarrow> later_escrow b c \<Longrightarrow> later_escrow a c"
  by (auto simp: later_escrow_def)

lemma later_escrow_ids: "list_all2 later_escrow xs ys \<Longrightarrow> map e_escrowId ys = map e_escrowId xs"
  by (induction rule: list_all2_induct) (auto simp: later_escrow_def)

interpretation fwd: table_relation escrows_forward
proof unfold_locales
  show "escrows_forward d d" for d
    by (simp add: escrows_forward_def list.rel_refl later_escrow_refl)
  show "escrows_forward d d' \<Longrightarrow> escrows_forward d' d'' \<Longrightarrow> escrows_forward d d''" for d d' d''
    unfolding escrows_forward_def
  proof
    assume d: "distinct (map e_escrowId (escrows d)) \<longrightarrow> list_all2 later_escrow (escrows d) (escrows d')"
      and d': "distinct (map e_escrowId (escrows d')) \<longrightarrow> list_all2 later_escrow (escrows d') (escrows d'')"
      and keys: "distinct (map e_escrowId (escrows d))"
    from d keys have one: "list_all2 later_escrow (escrows d) (escrows d')" by simp
    with d' keys have two: "list_all2 later_escrow (escrows d') (escrows d'')"
      by (simp only: later_escrow_ids)
    show "list_all2 later_escrow (escrows d) (escrows d'')"
      by (rule list_all2_trans[OF later_escrow_trans one two])
  qed
qed

lemma event_escrow_mem: "event_escrow d ev = Some e \<Longrightarrow> e \<in> set (escrows d)"
  by (auto simp: event_escrow_def Let_def split: option.split_asm if_split_asm dest: find_SomeD)

lemma event_handled_forward:
  assumes "event_handled ev d d'"
  shows "escrows_forward d d'"
  unfolding escrows_forward_def
proof
  assume keys: "distinct (map e_escrowId (escrows d))"
  from assms obtain e row where e: "event_escrow d ev = Some e"
    "escrow_edge (e_escrowStatus e) (fst (mapEventToStatuses (ev_eventType ev)))"
    "d' = event_applied ev e row d"
    by (auto simp: event_handled_def)
  have "later_escrow r (if e_escrowId r = e_escrowId e then event_update ev r else r)"
    if "r \<in> set (escrows d)" for r
  proof (cases "e_escrowId r = e_escrowId e")
    case True
    then have "r = e"
      using that keys event_escrow_mem[OF e(1)] by (simp add: distinct_map inj_on_def)
    then show ?thesis using escrow_edge_less[OF e(2)] by (simp add: later_escrow_def)
  qed (simp add: later_escrow_refl)
  then show "list_all2 later_escrow (escrows d) (escrows d')"
    by (simp add: e(3) event_applied_def list.rel_map list.rel_refl_strong)
qed

lemma processEvent_forward: "obeys (on_tables escrows_forward) (processEvent ev)"
proof (rule obeysI)
  fix s :: "'a listener_scheme"
  show "wp (processEvent ev) (\<lambda>_. on_tables escrows_forward s) (\<lambda>_. on_tables escrows_forward s) s"
    by (rule wp_mono[OF processEvent_post])
      (auto simp: on_tables_def event_result_def fwd.same event_handled_forward split: if_splits)
qed

lemma advanceTo_forward: "obeys (on_tables escrows_forward) (advanceTo n)"
  unfolding advanceTo_def by (rule fwd.ob_world) simp

lemma processBatch_forward: "obeys (on_tables escrows_forward) (processBatch raws n)"
  by (induction raws arbitrary: n)
    (auto simp: processRaw_def intro!: fwd.eff.ob_rules processEvent_forward advanceTo_forward split: option.split)

lemma fetch_forward: "obeys (on_tables escrows_forward) (fetchAndProcessNewEvents env)"
  unfolding fetchAndProcessNewEvents_def getTargetContractIds_def queryEventsFromRpc_def Let_def
  by (intro fwd.eff.ob_rules fwd.ob_findMany processBatch_forward advanceTo_forward fwd.eff.ob_option)

lemma poll_forward: "obeys (on_tables escrows_forward) (pollEventsWithRecovery env)"
  unfolding pollEventsWithRecovery_def by (intro fwd.eff.ob_rules fetch_forward)

text \<open>
  C5.  A poll only moves escrows forward: whatever the RPC server answers, in whatever order and
  however often it repeats its events, and whatever fails, the escrow table afterwards has the same
  escrows for the same orders and contracts, and none of them has an earlier status than before.
\<close>

theorem poll_moves_forward:
  assumes "distinct (map e_escrowId (escrows (tables s)))"
  shows "list_all2 later_escrow (escrows (tables s))
     (escrows (tables (snd (pollEventsWithRecovery env s))))"
  using obeysD[OF poll_forward[of env], of s] assms by (simp add: on_tables_def escrows_forward_def)

text \<open>The server of the witnesses answers with one funding event and a later latest ledger.\<close>

definition sample_raw :: json where
  "sample_raw = JObj [(''id'', JStr ''i''), (''contractId'', JStr ''C''), (''txHash'', JStr ''T''),
     (''ledger'', JNum 110), (''type'', JStr ''ESCROW_FUNDED'')]"

definition sample_body :: json where
  "sample_body = JObj [(''result'', JObj [(''latestLedger'', JNum 120), (''events'', JArr [sample_raw])])]"

definition sample_env :: listener_env where
  "sample_env = \<lparr> le_config = [''TRUSTLESS_WORK_CONTRACT_ID'' \<mapsto> ''C''], le_rpc = (\<lambda>_ _. Some sample_body) \<rparr>"

theorem poll_moves_forward_witness:
  "list_all2 later_escrow (escrows (one_order OS_created ES_initialized))
     (escrows (tables (snd (pollEventsWithRecovery sample_env (sample_listener (one_order OS_created ES_initialized) [])))))"
  using poll_moves_forward[of "sample_listener (one_order OS_created ES_initialized) []" sample_env] by simp

subsection \<open>A handled event is never handled again\<close>

text \<open>
  The later runs of the listener: polls in any number, of servers with any answers, each from a listener
  with any memory, clock and failures, so restarts included.
\<close>

inductive listener_runs :: "db \<Rightarrow> db \<Rightarrow> bool" where
  idle: "listener_runs d d"
| polls: "listener_runs d (tables (s :: listener)) \<Longrightarrow> listener_runs d (tables (snd (pollEventsWithRecovery env s)))"

lemma listener_runs_forward: "listener_runs d d' \<Longrightarrow> escrows_forward d d'"
proof (induction rule: listener_runs.induct)
  case (polls d s env)
  then show ?case using obeysD[OF poll_forward[of env], of s] by (auto simp: on_tables_def intro: fwd.comp)
qed (simp add: fwd.same)

text \<open>The escrow an event names is the same one later, with a status that is not earlier.\<close>

lemma event_escrow_later:
  assumes "list_all2 later_escrow (escrows d) (escrows d')" "event_escrow d ev = Some e"
  shows "\<exists>e'. event_escrow d' ev = Some e' \<and> e_escrowStatus e \<le> e_escrowStatus e'"
proof -
  have find: "rel_option later_escrow (List.find p xs) (List.find p ys)"
    if "list_all2 later_escrow xs ys" "\<And>a b. later_escrow a b \<Longrightarrow> p a = p b" for p xs ys
    using that by (induction rule: list_all2_induct) auto
  have "rel_option later_escrow (event_escrow d ev) (event_escrow d' ev)"
    using find[OF assms(1), of "\<lambda>e. e_contractId e = Some (ev_contractId ev)"] find[OF assms(1), of "\<lambda>e. e_orderId e = i" for i]
    unfolding event_escrow_def by (auto simp: later_escrow_def Let_def split: option.splits elim: option.rel_cases)
  then show ?thesis using assms(2) by (auto simp: option_rel_Some1 later_escrow_def)
qed

text \<open>
  C16.  Synchronisation is idempotent, and not only by the memory of the process.  An event that has been
  handled is never handled again and writes nothing when it comes again, after any later run of the
  listener: polls with whatever answers and failures, restarts, an empty memory.  It is skipped without
  reading a table when the memory holds it, and skipped as reflected when the escrows have not changed
  since; otherwise the guard may also refuse it with an exception (a funding replayed to a
  restarted listener after a dispute), which the poll catches.
\<close>

theorem processEvent_idempotent:
  fixes u :: listener
  assumes "processEvent ev s = (Inr True, t)" "distinct (map e_escrowId (escrows (tables s)))"
    and "listener_runs (tables t) (tables u)" "processEvent ev u = (r, v)"
  shows "r \<noteq> Inr True \<and> tables v = tables u \<and>
    (event_key ev \<in> processedEventIds u \<longrightarrow> r = Inr False \<and> v = u) \<and>
    (faults u = [] \<and> escrows (tables u) = escrows (tables t) \<longrightarrow> r = Inr False)"
proof -
  have "event_handled ev (tables s) (tables t)"
    using wp_value[OF processEvent_post assms(1)] by (simp add: event_result_def)
  then obtain e row where e0: "event_escrow (tables s) ev = Some e" and e2: "tables t = event_applied ev e row (tables s)"
    by (auto simp: event_handled_def)
  have e: "event_escrow (tables t) ev = Some (event_update ev e)"
    using e0 e2 event_escrow_applied by simp
  have ids: "map e_escrowId (escrows (tables t)) = map e_escrowId (escrows (tables s))"
    by (simp add: e2 event_applied_def o_def if_distrib)
  have "list_all2 later_escrow (escrows (tables t)) (escrows (tables u))"
    using listener_runs_forward[OF assms(3)] assms(2) by (simp add: escrows_forward_def ids)
  from event_escrow_later[OF this e] have "\<not> event_handled ev (tables u) d" for d
    by (auto simp: event_handled_def dest: escrow_edge_less)
  moreover have "case r of Inl _ \<Rightarrow> tables v = tables u
      | Inr h \<Rightarrow> if h then event_handled ev (tables u) (tables v) else tables v = tables u"
    using wp_run[OF processEvent_post assms(4)] by (auto simp: event_result_def split: sum.splits)
  ultimately have "r \<noteq> Inr True \<and> tables v = tables u" by (auto split: sum.splits if_splits)
  moreover have "r = Inr False \<and> v = u" if "event_key ev \<in> processedEventIds u"
    using assms(4) that by (auto simp: processEvent_def run_defs)
  moreover have "r = Inr False" if "faults u = []" "escrows (tables u) = escrows (tables t)"
    using processEvent_again[OF assms(1) that(2,1)] assms(4) by simp
  ultimately show ?thesis by blast
qed

theorem processEvent_idempotent_witness:
  "\<exists>t. processEvent sample_event (sample_listener (one_order OS_created ES_initialized) []) = (Inr True, t) \<and>
     (let u = snd (pollEventsWithRecovery sample_env (sample_listener (tables t) [True, False]))
      in tables (snd (processEvent sample_event u)) = tables u \<and>
         fst (processEvent sample_event (sample_listener (tables t) [])) = Inr False)"
proof -
  obtain t where t: "processEvent sample_event (sample_listener (one_order OS_created ES_initialized) []) = (Inr True, t)"
    using sample_processed by metis
  have ids: "distinct (map e_escrowId (escrows (tables (sample_listener (one_order OS_created ES_initialized) []))))" by simp
  let ?u = "snd (pollEventsWithRecovery sample_env (sample_listener (tables t) [True, False]))"
  have "listener_runs (tables t) (tables ?u)"
    using listener_runs.polls[of "tables t" "sample_listener (tables t) [True, False]"] listener_runs.idle[of "tables t"] by simp
  from processEvent_idempotent[OF t ids this surjective_pairing]
    processEvent_idempotent[OF t ids _ surjective_pairing, of "sample_listener (tables t) []"] listener_runs.idle[of "tables t"]
  show ?thesis using t by (auto simp: Let_def)
qed

subsection \<open>The ledger a restart resumes from\<close>

text \<open>The memory of the last ledger over a database operation and over an event.\<close>

definition keeps_ledger :: "'z listener_scheme \<Rightarrow> 'z listener_scheme \<Rightarrow> bool" where
  "keeps_ledger s t \<longleftrightarrow> lastProcessedLedger t = lastProcessedLedger s"

interpretation kl: effect keeps_ledger
  by unfold_locales (auto simp: keeps_ledger_def)

lemma putRows_ledger [simp]: "lastProcessedLedger (putRows T xs s) = lastProcessedLedger s"
  by (simp add: putRows_def)

lemma wp_obeys: "obeys R m \<Longrightarrow> wp m (\<lambda>_ t. R s t) (\<lambda>_ t. R s t) s"
  by (simp add: wp_snd obeys_def)

lemma processEvent_ledger: "obeys keeps_ledger (processEvent ev)"
proof -
  have tx: "obeys keeps_ledger (event_tx ev e)" for e
    by (rule obeysI, unfold event_tx_def audit_repo_create_def)
      (auto intro!: db_anyI split: option.split simp: prog wp_any keeps_ledger_def)
  have "obeys keeps_ledger (transaction (event_tx ev e))" for e
    by (rule obeysI, unfold wp_transaction, rule wp_mono[OF wp_obeys[OF tx]])
      (auto simp: wp_db_call_any wp_ret keeps_ledger_def intro!: db_anyI)
  moreover have "obeys keeps_ledger (findEscrowRecord ev)"
    by (rule obeysI, rule wp_findEscrowRecordI) (simp_all add: keeps_ledger_def)
  moreover have "obeys keeps_ledger (rememberEvent k)" for k
    by (simp add: obeys_def rememberEvent_def modify_def keeps_ledger_def)
  ultimately show ?thesis
    unfolding processEvent_def by (intro kl.ob_rules)
qed

text \<open>The ledger never moves back.\<close>

definition ledger_up :: "'z listener_scheme \<Rightarrow> 'z listener_scheme \<Rightarrow> bool" where
  "ledger_up s t \<longleftrightarrow> lastProcessedLedger t = lastProcessedLedger s \<or>
     num_gt (lastProcessedLedger t) (lastProcessedLedger s)"

interpretation up: effect ledger_up
  by unfold_locales (auto simp: ledger_up_def num_gt_def split: option.splits)

lemma keeps_ledger_up: "obeys keeps_ledger m \<Longrightarrow> obeys ledger_up m"
  by (auto simp: obeys_def keeps_ledger_def ledger_up_def)

lemma advanceTo_up: "obeys ledger_up (advanceTo n)"
  by (simp add: obeys_def advanceTo_def modify_def ledger_up_def)

lemma processRaw_up: "obeys ledger_up (processRaw raw)"
  unfolding processRaw_def
  by (intro up.ob_rules keeps_ledger_up[OF processEvent_ledger] advanceTo_up)

lemma processBatch_up: "obeys ledger_up (processBatch raws n)"
  by (induction raws arbitrary: n) (auto intro!: up.ob_ret up.ob_bindE processRaw_up)

lemma processBatch_returns: "\<exists>k t. processBatch raws n s = (Inr k, t)"
proof (induction raws arbitrary: n s)
  case (Cons raw raws)
  have "\<exists>h t. processRaw raw s = (Inr h, t)"
    by (auto simp: processRaw_def tryCatch_def ret_def split: prod.split sum.split)
  with Cons show ?case by (auto simp: bindE_def split: prod.split)
qed (simp add: ret_def)

lemma set_fold_insert: "set (fold List.insert xs ys) = set xs \<union> set ys"
  by (induction xs arbitrary: ys) auto

lemma wp_getTargets:
  assumes "le_config env ''TRUSTLESS_WORK_CONTRACT_ID'' = Some c" "c \<noteq> []"
  shows "wp (getTargetContractIds env) (\<lambda>cs t. cs \<noteq> [] \<and> keeps_ledger s t) (\<lambda>_ _. False) s"
proof -
  have "fold List.insert xs [c] \<noteq> []" for xs
    using set_fold_insert[of xs "[c]"] by auto
  then show ?thesis
    using assms by (auto simp: getTargetContractIds_def Let_def prog wp_any keeps_ledger_def intro!: db_anyI)
qed

text \<open>
  C33.  A poll whose response carries a latest ledger always ends with a resume point at or past that
  ledger, whatever became of the events in it.  An event that could not be stored (the database
  failed, the transition was refused) is therefore skipped: the next request starts behind it.
\<close>

theorem poll_skips_failed_events:
  assumes "le_config env ''TRUSTLESS_WORK_CONTRACT_ID'' = Some c" "c \<noteq> []"
    and "\<And>cs st. le_rpc env cs st = Some body" "\<not> jtruthy (jfield body ''error'')"
    and "vfield (jfield body ''result'') ''latestLedger'' = Some (JNum l)" "l > 0"
    and "vfield (jfield body ''result'') ''events'' = Some (JArr raws)"
    and "lastProcessedLedger s = Some k"
  shows "\<exists>n m t. fetchAndProcessNewEvents env s = (Inr n, t) \<and> lastProcessedLedger t = Some m \<and> m \<ge> l \<and> m \<ge> k"
proof -
  let ?P = "\<lambda>t. \<exists>m. lastProcessedLedger t = Some m \<and> m \<ge> l \<and> m \<ge> k"
  have batch: "wp (bindE (processBatch raws 0) (\<lambda>n. andThen (advanceTo (Some l)) (ret n)))
      (\<lambda>_ t. ?P t) (\<lambda>_ _. False) u" if su: "keeps_ledger s u" for u :: "'a listener_scheme"
  proof -
    obtain n v where v: "processBatch raws 0 u = (Inr n, v)" using processBatch_returns by metis
    with obeysD[OF processBatch_up[of raws 0], of u] obtain m where "lastProcessedLedger v = Some m" "m \<ge> k"
      using su assms(8) by (auto simp: ledger_up_def keeps_ledger_def num_gt_def split: option.split_asm)
    then show ?thesis
      using v assms(6) by (auto simp: wp_def bindE_def andThen_def advanceTo_def modify_def ret_def num_gt_def num_truthy_def)
  qed
  have "wp (fetchAndProcessNewEvents env) (\<lambda>_ t. ?P t) (\<lambda>_ _. False) s"
    unfolding fetchAndProcessNewEvents_def wp_bindE
    by (rule wp_mono[OF wp_getTargets[OF assms(1,2)]])
      (use assms(3-7) batch in \<open>auto simp: queryEventsFromRpc_def jor_def prog\<close>)
  from wp_returns[OF this] show ?thesis by metis
qed

lemma sample_parsed:
  "\<exists>ev. parseEvent (Some sample_raw) = Some ev \<and> ev_contractId ev = ''C'' \<and> ev_eventType ev = ESCROW_FUNDED"
proof -
  have "map_option (\<lambda>ev. (ev_contractId ev, ev_eventType ev)) (parseEvent (Some sample_raw)) = Some (''C'', ESCROW_FUNDED)"
    by code_simp
  then show ?thesis by (auto simp: map_option_eq_Some)
qed

text \<open>The connection fails at the first write of the event.\<close>

lemma sample_lost:
  "\<exists>t. fetchAndProcessNewEvents sample_env
       (sample_listener (one_order OS_created ES_initialized) [False, False, True]) = (Inr 0, t) \<and>
     map e_escrowStatus (escrows (tables t)) = [ES_initialized]"
proof -
  obtain ev where ev: "parseEvent (Some sample_raw) = Some ev" "ev_contractId ev = ''C''" "ev_eventType ev = ESCROW_FUNDED"
    using sample_parsed by metis
  have body: "jtruthy (jfield sample_body ''error'') = False"
    "vfield (jfield sample_body ''result'') ''events'' = Some (JArr [sample_raw])"
    "vfield (jfield sample_body ''result'') ''latestLedger'' = Some (JNum 120)"
    by (simp_all add: sample_body_def vfield_def)
  have "wp (fetchAndProcessNewEvents sample_env)
      (\<lambda>n t. n = 0 \<and> map e_escrowStatus (escrows (tables t)) = [ES_initialized]) (\<lambda>_ _. False)
      (sample_listener (one_order OS_created ES_initialized) [False, False, True])"
    by (simp add: fetchAndProcessNewEvents_def getTargetContractIds_def queryEventsFromRpc_def Let_def jor_def wp_any db_any_def
        sample_env_def body processRaw_def processEvent_def findEscrowRecord_def ev sample_processable sample_processable[simplified]
        wp_bindE wp_andThen wp_ret wp_tryCatch wp_getState wp_option wp_lift wp_transaction wp_db_call
        event_tx_def advanceTo_def wp_modify num_truthy_def num_gt_def wp_if)
  from wp_returns[OF this] show ?thesis by auto
qed

theorem poll_skips_failed_events_witness:
  "\<exists>t m. fetchAndProcessNewEvents sample_env
       (sample_listener (one_order OS_created ES_initialized) [False, False, True]) = (Inr 0, t) \<and>
     map e_escrowStatus (escrows (tables t)) = [ES_initialized] \<and>
     lastProcessedLedger t = Some m \<and> m \<ge> 120"
proof -
  let ?s = "sample_listener (one_order OS_created ES_initialized) [False, False, True]"
  obtain n m t where "fetchAndProcessNewEvents sample_env ?s = (Inr n, t)" "lastProcessedLedger t = Some m" "m \<ge> 120"
    using poll_skips_failed_events[of sample_env "''C''" sample_body 120 "[sample_raw]" ?s 100]
    by (auto simp: sample_env_def sample_body_def vfield_def)
  with sample_lost show ?thesis by auto
qed

end
