(* ===== verification/RateLimit.thy ===== *)
theory RateLimit
  imports Errors
begin

text \<open>
  \<open>AuthRateLimitGuard\<close> of \<open>src/modules/auth/auth-rate-limit.guard.ts\<close>: the fixed-window limiter of
  the authentication routes.  Its map of windows is the state; times are milliseconds.
\<close>

record rate_window =
  rw_count :: nat
  rw_start :: int

type_synonym windows = "string \<Rightarrow> rate_window option"

definition WINDOW_MS :: int where
  "WINDOW_MS = 60000"

definition MAX_ATTEMPTS :: nat where
  "MAX_ATTEMPTS = 10"

definition rate_key :: "string \<Rightarrow> string option \<Rightarrow> string" where
  "rate_key path ip = path @ '':'' @ get_or ip ''unknown''"

definition pruneExpired :: "int \<Rightarrow> windows \<Rightarrow> windows" where
  "pruneExpired now ws = (\<lambda>k. case ws k of None \<Rightarrow> None
     | Some w \<Rightarrow> if now - rw_start w \<ge> WINDOW_MS then None else Some w)"

definition rate_canActivate :: "string \<Rightarrow> int \<Rightarrow> windows \<Rightarrow> (exn + bool) \<times> windows" where
  "rate_canActivate key now ws =
     (let fresh = (Inr True, (pruneExpired now ws)(key \<mapsto> \<lparr> rw_count = 1, rw_start = now \<rparr>))
      in case ws key of
           None \<Rightarrow> fresh
         | Some w \<Rightarrow>
             if now - rw_start w \<ge> WINDOW_MS then fresh
             else
               let w' = w\<lparr>rw_count := rw_count w + 1\<rparr>; ws' = ws(key \<mapsto> w')
               in if rw_count w' > MAX_ATTEMPTS then (Inl (appExc TOO_MANY_REQUESTS), ws')
                  else (Inr True, ws'))"

definition rate_reset :: "windows \<Rightarrow> windows" where
  "rate_reset ws = Map.empty"

text \<open>The requests the guard lets through, of a sequence of requests (time and key).\<close>

fun rate_accepts :: "(int \<times> string) list \<Rightarrow> windows \<Rightarrow> (int \<times> string) list" where
  "rate_accepts [] ws = []"
| "rate_accepts ((t, k) # rs) ws =
     (case rate_canActivate k t ws of
        (Inr _, ws') \<Rightarrow> (t, k) # rate_accepts rs ws'
      | (Inl _, ws') \<Rightarrow> rate_accepts rs ws')"

subsection \<open>How many requests pass\<close>

definition passed :: "string \<Rightarrow> int \<Rightarrow> (int \<times> string) list \<Rightarrow> nat" where
  "passed key a rs = length (filter (\<lambda>(t, k). k = key \<and> a \<le> t \<and> t < a + WINDOW_MS) rs)"

lemma passed_simps [simp]:
  "passed key a [] = 0"
  "passed key a ((t, k) # rs) = (if k = key \<and> a \<le> t \<and> t < a + WINDOW_MS then 1 else 0) + passed key a rs"
  by (simp_all add: passed_def)

lemma accepts_step:
  "rate_accepts ((t, k) # rs) ws =
     (case fst (rate_canActivate k t ws) of Inr _ \<Rightarrow> [(t, k)] | Inl _ \<Rightarrow> []) @
     rate_accepts rs (snd (rate_canActivate k t ws))"
  by (auto split: prod.split sum.split)

lemma accepts_subset: "set (rate_accepts rs ws) \<subseteq> set rs"
proof (induction rs arbitrary: ws)
  case (Cons r rs)
  obtain t k where r: "r = (t, k)" by (cases r)
  show ?case
    using Cons[of "snd (rate_canActivate k t ws)"]
    by (auto simp: r accepts_step simp del: rate_accepts.simps split: sum.split_asm)
qed simp

lemma passed_none:
  assumes "\<And>t k. (t, k) \<in> set rs \<Longrightarrow> a + WINDOW_MS \<le> t"
  shows "passed key a (rate_accepts rs ws) = 0"
  using assms accepts_subset[of rs ws] by (fastforce simp: passed_def filter_empty_conv)

text \<open>One request: of another key, starting a window, within the window.\<close>

lemma step_other:
  "k \<noteq> key \<Longrightarrow> snd (rate_canActivate k t ws) key = ws key \<or> snd (rate_canActivate k t ws) key = None"
  by (auto simp: rate_canActivate_def Let_def pruneExpired_def split: option.split)

lemma step_other_live:
  "k \<noteq> key \<Longrightarrow> ws key = Some w \<Longrightarrow> t - rw_start w < WINDOW_MS \<Longrightarrow>
   snd (rate_canActivate k t ws) key = Some w"
  by (auto simp: rate_canActivate_def Let_def pruneExpired_def split: option.split)

lemma step_live:
  assumes "ws key = Some w" "t - rw_start w < WINDOW_MS"
  shows "snd (rate_canActivate key t ws) key = Some (w\<lparr>rw_count := rw_count w + 1\<rparr>)"
    "fst (rate_canActivate key t ws) = (if rw_count w < MAX_ATTEMPTS then Inr True else Inl (appExc TOO_MANY_REQUESTS))"
  using assms by (auto simp: rate_canActivate_def Let_def)

lemma step_fresh:
  assumes "ws key = None \<or> (\<exists>w. ws key = Some w \<and> WINDOW_MS \<le> t - rw_start w)"
  shows "snd (rate_canActivate key t ws) key = Some \<lparr> rw_count = 1, rw_start = t \<rparr>"
    "fst (rate_canActivate key t ws) = Inr True"
  using assms by (auto simp: rate_canActivate_def Let_def)

lemma passed_append [simp]: "passed key a (xs @ ys) = passed key a xs + passed key a ys"
  by (simp add: passed_def)

text \<open>Once the window of the key started inside the interval, no other starts inside it.\<close>

lemma passed_inside:
  assumes "sorted (map fst rs)" "ws key = Some w" "a \<le> rw_start w"
  shows "passed key a (rate_accepts rs ws) \<le> MAX_ATTEMPTS - rw_count w"
  using assms
proof (induction rs arbitrary: ws w)
  case (Cons r rs)
  obtain t k where r: "r = (t, k)" by (cases r)
  show ?case
  proof (cases "a + WINDOW_MS \<le> t")
    case True
    then have "passed key a (rate_accepts (r # rs) ws) = 0"
      using Cons.prems(1) by (intro passed_none) (auto simp: r)
    then show ?thesis by simp
  next
    case False
    then have live: "t - rw_start w < WINDOW_MS" using Cons.prems(3) by simp
    show ?thesis
    proof (cases "k = key")
      case True
      have "passed key a (rate_accepts rs (snd (rate_canActivate key t ws))) \<le> MAX_ATTEMPTS - (rw_count w + 1)"
        using Cons.IH[of "snd (rate_canActivate key t ws)" "w\<lparr>rw_count := rw_count w + 1\<rparr>"]
          step_live(1)[of ws key w t] Cons.prems live by simp
      then show ?thesis
        using True step_live[of ws key w t] Cons.prems(2) live by (auto simp: r accepts_step simp del: rate_accepts.simps)
    next
      case False
      then show ?thesis
        using Cons.IH[of "snd (rate_canActivate k t ws)" w] step_other_live[of k key ws w t] Cons.prems live
        by (auto simp: r accepts_step simp del: rate_accepts.simps split: sum.split)
    qed
  qed
qed simp

definition remaining :: "rate_window option \<Rightarrow> nat" where
  "remaining x = (case x of None \<Rightarrow> 0 | Some w \<Rightarrow> MAX_ATTEMPTS - rw_count w)"

lemma remaining_le [simp]: "remaining x \<le> MAX_ATTEMPTS"
  by (simp add: remaining_def split: option.split)

lemma passed_from:
  assumes "sorted (map fst rs)" "\<forall>r \<in> set rs. a \<le> fst r"
  shows "passed key a (rate_accepts rs ws) \<le> MAX_ATTEMPTS + remaining (ws key)"
  using assms
proof (induction rs arbitrary: ws)
  case (Cons r rs)
  obtain t k where r: "r = (t, k)" by (cases r)
  let ?ws = "snd (rate_canActivate k t ws)"
  have IH: "passed key a (rate_accepts rs ?ws) \<le> MAX_ATTEMPTS + remaining (?ws key)"
    using Cons by simp
  consider (other) "k \<noteq> key"
    | (fresh) "k = key" "ws key = None \<or> (\<exists>w. ws key = Some w \<and> WINDOW_MS \<le> t - rw_start w)"
    | (live) w where "k = key" "ws key = Some w" "t - rw_start w < WINDOW_MS"
    by (cases "ws key") force+
  then show ?case
  proof cases
    case other
    have "remaining (?ws key) \<le> remaining (ws key)"
      using step_other[OF other, of t ws] by (auto simp: remaining_def)
    with IH other show ?thesis
      by (auto simp: r accepts_step simp del: rate_accepts.simps split: sum.split)
  next
    case fresh
    have "passed key a (rate_accepts rs (snd (rate_canActivate key t ws))) \<le> MAX_ATTEMPTS - 1"
      using passed_inside[of rs "snd (rate_canActivate key t ws)" key "\<lparr> rw_count = 1, rw_start = t \<rparr>" a]
        step_fresh(1)[of ws key t] fresh(2) Cons.prems by (simp add: r)
    then show ?thesis
      using fresh step_fresh(2)[of ws key t]
      by (simp add: r accepts_step MAX_ATTEMPTS_def del: rate_accepts.simps)
  next
    case live
    then show ?thesis
      using IH step_live[of ws key w t]
      by (auto simp: r accepts_step remaining_def simp del: rate_accepts.simps)
  qed
qed simp

lemma passed_sorted:
  assumes "sorted (map fst rs)"
  shows "passed key a (rate_accepts rs ws) \<le> 2 * MAX_ATTEMPTS"
  using assms
proof (induction rs arbitrary: ws)
  case (Cons r rs)
  obtain t k where r: "r = (t, k)" by (cases r)
  show ?case
  proof (cases "a \<le> t")
    case True
    then have "passed key a (rate_accepts (r # rs) ws) \<le> MAX_ATTEMPTS + remaining (ws key)"
      using Cons.prems by (intro passed_from) (auto simp: r)
    also have "\<dots> \<le> 2 * MAX_ATTEMPTS" using remaining_le[of "ws key"] by simp
    finally show ?thesis .
  next
    case False
    then show ?thesis
      using Cons by (auto simp: r accepts_step simp del: rate_accepts.simps split: sum.split)
  qed
qed simp

text \<open>
  C30.  The rate limit.  A request of a route and address that have no window open, or one of a minute
  ago or more, opens a window; within a minute of it at most ten requests of that route and address
  are let through, itself included.  As the windows are fixed, an interval of a minute that spans two of
  them may see more, but never more than twenty, whatever the guard has seen before.  Requests of
  others do not matter, and pruning the map of windows never resets a live one.
\<close>

theorem rate_limit_bound:
  assumes "sorted (map fst ((first, key) # rs))"
  shows "((case ws key of None \<Rightarrow> True | Some w \<Rightarrow> 60000 \<le> first - rw_start w) \<longrightarrow>
      length (filter (\<lambda>(t, k). k = key \<and> first \<le> t \<and> t < first + 60000) (rate_accepts ((first, key) # rs) ws)) \<le> 10) \<and>
    length (filter (\<lambda>(t, k). k = key \<and> a \<le> t \<and> t < a + 60000) (rate_accepts ((first, key) # rs) ws)) \<le> 20"
proof -
  have "passed key first (rate_accepts ((first, key) # rs) ws) \<le> MAX_ATTEMPTS"
    if fresh: "ws key = None \<or> (\<exists>w. ws key = Some w \<and> WINDOW_MS \<le> first - rw_start w)"
  proof -
    have "passed key first (rate_accepts rs (snd (rate_canActivate key first ws))) \<le> MAX_ATTEMPTS - 1"
      using passed_inside[of rs "snd (rate_canActivate key first ws)" key "\<lparr> rw_count = 1, rw_start = first \<rparr>" first]
        step_fresh(1)[of ws key first, OF fresh] assms by simp
    then show ?thesis
      using step_fresh(2)[of ws key first, OF fresh] by (simp add: accepts_step MAX_ATTEMPTS_def WINDOW_MS_def del: rate_accepts.simps)
  qed
  then have "passed key first (rate_accepts ((first, key) # rs) ws) \<le> 10"
    if "case ws key of None \<Rightarrow> True | Some w \<Rightarrow> 60000 \<le> first - rw_start w"
    using that by (simp add: MAX_ATTEMPTS_def WINDOW_MS_def del: rate_accepts.simps split: option.splits)
  moreover have "passed key a (rate_accepts ((first, key) # rs) ws) \<le> 20"
    using passed_sorted[OF assms, of key a ws] by (simp add: MAX_ATTEMPTS_def del: rate_accepts.simps)
  ultimately show ?thesis by (simp add: passed_def WINDOW_MS_def del: rate_accepts.simps)
qed

theorem rate_limit_bound_witness:
  "length (filter (\<lambda>(t, k). k = ''/auth/login:1'' \<and> 5 \<le> t \<and> t < 5 + 60000)
     (rate_accepts ((5, ''/auth/login:1'') # replicate 30 (5, ''/auth/login:1'')) Map.empty)) \<le> 10 \<and>
   length (filter (\<lambda>(t, k). k = ''/auth/login:1'' \<and> 0 \<le> t \<and> t < 0 + 60000)
     (rate_accepts ((5, ''/auth/login:1'') # replicate 30 (5, ''/auth/login:1'')) Map.empty)) \<le> 20"
  using rate_limit_bound[where first = 5 and key = "''/auth/login:1''" and rs = "replicate 30 (5, ''/auth/login:1'')" and ws = Map.empty and a = 0]
  by (simp del: rate_accepts.simps)

end
