(* ===== verification/Numbers.thy ===== *)
theory Numbers
  imports Decimal Complex_Main "HOL-Library.Log_Nat"
begin

text \<open>
  \<open>Number(s)\<close> on a text: \<open>decimal_number\<close> is the exact value of a decimal literal (optional sign, digits
  with an optional fraction, optional exponent), \<open>radix_number\<close> that of a literal with a base prefix, and
  \<open>js_Number_of\<close> the double that JavaScript makes of either.  Surrounding spaces are ignored and the empty
  text is zero.  \<open>None\<close> stands for a result that is not finite (\<open>NaN\<close>, \<open>Infinity\<close>).
\<close>

subsection \<open>Literals\<close>

definition unsigned_part :: "string \<Rightarrow> string" where
  "unsigned_part t = (if t \<noteq> [] \<and> (hd t = CHR ''-'' \<or> hd t = CHR ''+'') then tl t else t)"

definition negative_text :: "string \<Rightarrow> bool" where
  "negative_text t \<longleftrightarrow> t \<noteq> [] \<and> hd t = CHR ''-''"

definition mantissa :: "string \<Rightarrow> rat option" where
  "mantissa t =
     (let v = (case split_on (CHR ''.'') (unsigned_part t) of
          [a] \<Rightarrow> if a \<noteq> [] \<and> all_digits a then Some (rat_of_nat (digits_val a)) else None
        | [a, b] \<Rightarrow> if a @ b \<noteq> [] \<and> all_digits (a @ b)
                    then Some (rat_of_nat (digits_val (a @ b)) / 10 ^ length b) else None
        | _ \<Rightarrow> None)
      in if negative_text t then map_option uminus v else v)"

definition exponent :: "string \<Rightarrow> rat option" where
  "exponent e =
     (let u = unsigned_part e
      in if u = [] \<or> \<not> all_digits u then None
         else Some (if negative_text e then 1 / 10 ^ digits_val u else 10 ^ digits_val u))"

definition decimal_number :: "string \<Rightarrow> rat option" where
  "decimal_number s =
     (let t = trim s
      in if t = [] then Some 0
         else case split_on (CHR ''e'') (toLower t) of
           [m] \<Rightarrow> mantissa m
         | [m, e] \<Rightarrow> (case (mantissa m, exponent e) of (Some x, Some y) \<Rightarrow> Some (x * y) | _ \<Rightarrow> None)
         | _ \<Rightarrow> None)"

text \<open>\<open>0x\<close>, \<open>0o\<close> and \<open>0b\<close>, in either case of the letter, without a sign.\<close>

definition radix_of :: "char \<Rightarrow> nat option" where
  "radix_of c = map_of [(CHR ''x'', 16), (CHR ''o'', 8), (CHR ''b'', 2)] c"

definition radix_digit :: "char \<Rightarrow> nat" where
  "radix_digit c = (if is_digit c then code_of c - 48 else code_of (lower_char c) - 87)"

definition radix_number :: "string \<Rightarrow> rat option" where
  "radix_number t =
     (case t of z # c # ds \<Rightarrow>
        (case radix_of (lower_char c) of
           Some r \<Rightarrow> if z = CHR ''0'' \<and> ds \<noteq> [] \<and> list_all (\<lambda>d. is_hex d \<and> radix_digit d < r) ds
                      then Some (of_nat (foldl (\<lambda>n d. n * r + radix_digit d) 0 ds)) else None
         | None \<Rightarrow> None)
      | _ \<Rightarrow> None)"

subsection \<open>Doubles\<close>

text \<open>
  The nearest double, ties to even: 53 bits, fewer below \<open>2\<^sup>-\<^sup>1\<^sup>0\<^sup>2\<^sup>2\<close>.  There is no largest one here; what
  is finite is decided by \<open>finite_double\<close>.
\<close>

definition half_even :: "rat \<Rightarrow> int" where
  "half_even x = (let n = \<lfloor>x\<rfloor>; r = x - of_int n
     in if r < 1 / 2 \<or> r = 1 / 2 \<and> even n then n else n + 1)"

definition power2 :: "int \<Rightarrow> rat" where
  "power2 e = (if 0 \<le> e then 2 ^ nat e else 1 / 2 ^ nat (- e))"

definition to_double :: "rat \<Rightarrow> rat" where
  "to_double x = (if x = 0 then 0
     else let (p, q) = quotient_of x;
              e = bitlen \<bar>p\<bar> - bitlen q - 53;
              e' = max (if \<bar>x\<bar> / power2 e < 2 ^ 53 then e else e + 1) (- 1074)
          in of_int (half_even (x / power2 e')) * power2 e')"

definition finite_double :: "rat \<Rightarrow> rat option" where
  "finite_double x = (if \<bar>to_double x\<bar> < 2 ^ 1024 then Some (to_double x) else None)"

definition js_Number_of :: "string \<Rightarrow> rat option" where
  "js_Number_of s =
     (case (case radix_number (trim s) of Some n \<Rightarrow> Some n | None \<Rightarrow> decimal_number s) of
        None \<Rightarrow> None
      | Some x \<Rightarrow> finite_double x)"

text \<open>\<open>Math.round\<close>: of the two nearest integers, the larger.\<close>

definition math_round :: "rat \<Rightarrow> int" where
  "math_round x = \<lfloor>x + 1 / 2\<rfloor>"

subsection \<open>Digits\<close>

lemma unsigned_part_digits:
  assumes "all_digits a"
  shows "unsigned_part a = a" "\<not> negative_text a"
proof -
  have "\<not> is_digit (CHR ''-'')" "\<not> is_digit (CHR ''+'')" by code_simp+
  then show "unsigned_part a = a" "\<not> negative_text a"
    using assms by (cases a; auto simp: unsigned_part_def negative_text_def)+
qed

lemma digits_no_dot: "all_digits a \<Longrightarrow> CHR ''.'' \<notin> set a"
proof -
  have "\<not> is_digit (CHR ''.'')" by code_simp
  then show "all_digits a \<Longrightarrow> CHR ''.'' \<notin> set a"
    by (auto simp: all_digits_def list_all_iff)
qed

lemma mantissa_digits: "a \<noteq> [] \<Longrightarrow> all_digits a \<Longrightarrow> mantissa a = Some (rat_of_nat (digits_val a))"
  by (simp add: mantissa_def unsigned_part_digits digits_no_dot split_on_none)

end
