(* ===== verification/Auth.thy ===== *)
theory Auth
  imports AuditLog TrustlessWork Config RateLimit Numbers
begin

text \<open>
  Wallet authentication: \<open>AuthService\<close> of \<open>src/modules/auth/auth.service.ts\<close> (challenge, login,
  final token, purging), its hourly job, and the JWT strategy.  Ed25519, SHA-256, the random bytes
  of a challenge and the signing of a JWT are parameters.
\<close>

subsection \<open>Bytes of a text\<close>

definition utf8_char :: "char \<Rightarrow> byte list" where
  "utf8_char c = (if code_of c < 128 then [of_nat (code_of c)]
     else [of_nat (192 + code_of c div 64), of_nat (128 + code_of c mod 64)])"

definition utf8 :: "string \<Rightarrow> byte list" where
  "utf8 s = concat (map utf8_char s)"

text \<open>\<open>BASE64_REGEX\<close>, and \<open>Buffer.from(s, 'base64')\<close> on a text it accepts.\<close>

definition sextet :: "char \<Rightarrow> nat option" where
  "sextet c = (if is_upper c then Some (code_of c - 65)
     else if is_lower c then Some (code_of c - 71)
     else if is_digit c then Some (code_of c + 4)
     else if c = CHR ''+'' then Some 62 else if c = CHR ''/'' then Some 63 else None)"

definition b64 :: "char \<Rightarrow> bool" where
  "b64 c \<longleftrightarrow> sextet c \<noteq> None"

definition padding :: char where
  "padding = CHR ''=''"

fun is_base64 :: "string \<Rightarrow> bool" where
  "is_base64 [] = True"
| "is_base64 [a, b, c, d] =
     (b64 a \<and> b64 b \<and> (b64 c \<and> (b64 d \<or> d = padding) \<or> c = padding \<and> d = padding))"
| "is_base64 (a # b # c # d # rest) = (b64 a \<and> b64 b \<and> b64 c \<and> b64 d \<and> is_base64 rest)"
| "is_base64 _ = False"

definition sx :: "char \<Rightarrow> nat" where
  "sx c = get_or (sextet c) 0"

fun base64_bytes :: "string \<Rightarrow> byte list" where
  "base64_bytes (a # b # c # d # rest) =
     of_nat (4 * sx a + sx b div 16) #
       (if c = padding then []
        else of_nat (16 * (sx b mod 16) + sx c div 4) #
          (if d = padding then [] else [of_nat (64 * (sx c mod 4) + sx d)])) @ base64_bytes rest"
| "base64_bytes _ = []"

definition ED25519_SIGNATURE_LENGTH :: nat where
  "ED25519_SIGNATURE_LENGTH = 64"

definition decodeSignature :: "string \<Rightarrow> exn + byte list" where
  "decodeSignature signature =
     (if \<not> is_base64 signature then Inl (appExc INVALID_SIGNATURE)
      else let decoded = base64_bytes signature
           in if length decoded \<noteq> ED25519_SIGNATURE_LENGTH then Inl (appExc INVALID_SIGNATURE)
              else Inr decoded)"

subsection \<open>The service\<close>

record auth_env =
  au_config :: config
  isValidEd25519PublicKey :: "string \<Rightarrow> bool"
  ed_verify :: "string \<Rightarrow> byte list \<Rightarrow> byte list \<Rightarrow> bool option"
  sha256 :: "byte list \<Rightarrow> byte list"
  random_hex :: "nat \<Rightarrow> string"
  jwt_sign :: "json \<Rightarrow> string"

record RequestContext =
  rc_ipAddress :: "string option"
  rc_userAgent :: "string option"
  rc_correlationId :: "string option"

record LoginDto =
  lg_publicKey :: string
  lg_challenge :: string
  lg_signature :: string

definition assertValidPublicKey :: "auth_env \<Rightarrow> string \<Rightarrow> ('z, unit) act" where
  "assertValidPublicKey env pk = throwIf (\<not> isValidEd25519PublicKey env pk) (appExc INVALID_WALLET)"

definition getChallengeExpirationSeconds :: "auth_env \<Rightarrow> int" where
  "getChallengeExpirationSeconds env =
     (case au_config env ''AUTH_CHALLENGE_EXPIRATION_SECONDS'' of
        None \<Rightarrow> 300
      | Some raw \<Rightarrow> (case js_Number_of raw of
          None \<Rightarrow> 300
        | Some parsed \<Rightarrow> if parsed \<le> 0 then 300 else floor parsed))"

text \<open>\<open>randomBytes(32).toString('hex')\<close>: the next value of the random source.\<close>

definition randomHex :: "auth_env \<Rightarrow> ('z, string) act" where
  "randomHex env = bindE (getState uuid_next)
     (\<lambda>n. andThen (modify (\<lambda>s. s\<lparr>uuid_next := Suc n\<rparr>)) (ret (random_hex env n)))"

definition createChallenge :: "auth_env \<Rightarrow> string \<Rightarrow> ('z, string \<times> int) act" where
  "createChallenge env pk =
     andThen (assertValidPublicKey env pk)
     (bindE (randomHex env) (\<lambda>challenge. bindE (getState clock) (\<lambda>now.
        let expiresAt = now + getChallengeExpirationSeconds env * 1000
        in andThen (deleteMany challenge_table (\<lambda>c. ac_expiresAt c < now))
          (bindE newUuid (\<lambda>i.
            andThen (upsertUnique challenge_table (\<lambda>c. ac_publicKey c = pk)
                \<lparr> ac_challengeId = i, ac_publicKey = pk, ac_challenge = challenge,
                  ac_expiresAt = expiresAt, ac_usedAt = None, ac_createdAt = now \<rparr>
                (\<lambda>c. c\<lparr>ac_challenge := challenge, ac_expiresAt := expiresAt, ac_usedAt := None,
                       ac_createdAt := now\<rparr>))
              (ret (challenge, expiresAt)))))))"

definition login_audit :: "AuditAction \<Rightarrow> AuditResult \<Rightarrow> string \<Rightarrow> RequestContext \<Rightarrow> json option \<Rightarrow> CreateAuditLogInput" where
  "login_audit act res pk ctx meta = (audit_input act ''User'' res)
     \<lparr>ai_resourceId := Some pk, ai_ipAddress := rc_ipAddress ctx, ai_userAgent := rc_userAgent ctx,
      ai_correlationId := rc_correlationId ctx, ai_metadata := meta\<rparr>"

definition recordLoginFailure :: "string \<Rightarrow> RequestContext \<Rightarrow> string \<Rightarrow> ('z, unit) act" where
  "recordLoginFailure pk ctx reason =
     audit_create (login_audit USER_LOGIN_FAILURE FAILURE pk ctx (Some (JObj [(''reason'', JStr reason)])))"

text \<open>Signature over the SEP-53 hash of the challenge, or over the challenge itself; a throw is a no.\<close>

definition SEP_53_PREFIX :: "byte list" where
  "SEP_53_PREFIX = utf8 (''Stellar Signed Message:'' @ [CHR 0x0A])"

definition isValidSignature :: "auth_env \<Rightarrow> string \<Rightarrow> string \<Rightarrow> byte list \<Rightarrow> bool" where
  "isValidSignature env pk challenge sig =
     (case ed_verify env pk (sha256 env (SEP_53_PREFIX @ utf8 challenge)) sig of
        None \<Rightarrow> False
      | Some True \<Rightarrow> True
      | Some False \<Rightarrow> ed_verify env pk (utf8 challenge) sig = Some True)"

definition usable_challenge :: "string \<Rightarrow> string \<Rightarrow> int \<Rightarrow> auth_challenge \<Rightarrow> bool" where
  "usable_challenge pk challenge now c \<longleftrightarrow> ac_publicKey c = pk \<and> ac_challenge c = challenge \<and>
     ac_usedAt c = None \<and> ac_expiresAt c > now"

text \<open>The checks of \<open>login\<close>, up to the signature.\<close>

definition login_verify :: "auth_env \<Rightarrow> LoginDto \<Rightarrow> RequestContext \<Rightarrow> ('z, unit) act" where
  "login_verify env dto ctx =
     andThen (assertValidPublicKey env (lg_publicKey dto))
     (bindE (findUnique challenge_table (\<lambda>c. ac_publicKey c = lg_publicKey dto)) (\<lambda>stored.
      bindE (getState clock) (\<lambda>now.
      if (case stored of None \<Rightarrow> True
          | Some c \<Rightarrow> ac_usedAt c \<noteq> None \<or> ac_expiresAt c \<le> now \<or> ac_challenge c \<noteq> lg_challenge dto)
      then andThen (recordLoginFailure (lg_publicKey dto) ctx ''invalid_or_expired_challenge'')
             (throw (appExc INVALID_CHALLENGE))
      else bindE (lift (decodeSignature (lg_signature dto))) (\<lambda>sig.
        if \<not> isValidSignature env (lg_publicKey dto) (lg_challenge dto) sig
        then andThen (recordLoginFailure (lg_publicKey dto) ctx ''invalid_signature'')
               (throw (appExc INVALID_SIGNATURE))
        else ret ()))))"

definition new_user :: "string \<Rightarrow> string \<Rightarrow> int \<Rightarrow> user" where
  "new_user i pk now = \<lparr> u_userId = i, u_publicKey = pk, u_alias = None, u_username = None,
     u_kycStatus = KS_pending, u_role = Role_user, u_kycUpdatedAt = None, u_totalVolume = ''0'',
     u_createdAt = now, u_currentNonce = None, u_email = None, u_profileImageUrl = None,
     u_notificationsEnabled = True, u_pendingAccountInfo = True, u_preferredCurrency = None,
     u_bio = None, u_securityUpdates = True, u_deletedAt = None \<rparr>"

definition login_payload :: "string \<Rightarrow> string \<Rightarrow> json" where
  "login_payload userId pk = JObj [(''sub'', JStr userId), (''publicKey'', JStr pk)]"

text \<open>The rest of \<open>login\<close>: the challenge is consumed by one conditional update.\<close>

definition login_consume :: "auth_env \<Rightarrow> LoginDto \<Rightarrow> RequestContext \<Rightarrow> ('z, string \<times> user) act" where
  "login_consume env dto ctx =
     bindE (getState clock) (\<lambda>now.
     bindE (updateMany challenge_table (usable_challenge (lg_publicKey dto) (lg_challenge dto) now)
              (\<lambda>c. c\<lparr>ac_usedAt := Some now\<rparr>)) (\<lambda>count.
     if count = 0
     then andThen (recordLoginFailure (lg_publicKey dto) ctx ''challenge_race_condition'')
            (throw (appExc INVALID_CHALLENGE))
     else bindE newUuid (\<lambda>i.
       bindE (upsertUnique user_table (\<lambda>u. u_publicKey u = lg_publicKey dto)
                (new_user i (lg_publicKey dto) now) id) (\<lambda>u.
       andThen (audit_create (login_audit USER_LOGIN_SUCCESS SUCCESS (lg_publicKey dto) ctx None))
         (ret (jwt_sign env (login_payload (u_userId u) (lg_publicKey dto)), u))))))"

definition login :: "auth_env \<Rightarrow> LoginDto \<Rightarrow> RequestContext \<Rightarrow> ('z, string \<times> user) act" where
  "login env dto ctx = andThen (login_verify env dto ctx) (login_consume env dto ctx)"

definition finalizeSetup :: "auth_env \<Rightarrow> string \<Rightarrow> string \<Rightarrow> string" where
  "finalizeSetup env userId pk = jwt_sign env
     (JObj [(''sub'', JStr userId), (''publicKey'', JStr pk), (''setupComplete'', JBool True)])"

definition purgeExpiredChallenges :: "int \<Rightarrow> ('z, nat) act" where
  "purgeExpiredChallenges retentionHours =
     bindE (getState clock) (\<lambda>now.
       let usedThreshold = now - retentionHours * 60 * 60 * 1000
       in deleteMany challenge_table (\<lambda>c. ac_expiresAt c < now \<or>
            (case ac_usedAt c of None \<Rightarrow> False | Some u \<Rightarrow> u < usedThreshold)))"

definition cleanupExpiredChallenges :: "('z, unit) act" where
  "cleanupExpiredChallenges = tryCatch (andThen (purgeExpiredChallenges 24) (ret ())) (\<lambda>_. ret ())"

text \<open>\<open>JwtStrategy.validate\<close>: a token whose subject is a wallet address is resolved to its user.\<close>

definition jwt_validate :: "string \<Rightarrow> string \<Rightarrow> ('z, string \<times> string) act" where
  "jwt_validate sub pk =
     (if starts_with ''G'' sub \<and> length sub = 56
      then bindE (findUnique user_table (\<lambda>u. u_publicKey u = sub)) (\<lambda>m. case m of
             Some u \<Rightarrow> ret (u_userId u, pk)
           | None \<Rightarrow> throw (appExc USER_NOT_FOUND))
      else ret (sub, pk))"

end
