(* ===== verification/Guards.thy ===== *)
theory Guards
  imports Auth StellarEvents
begin

text \<open>
  The guards in front of the controllers: CSRF (\<open>src/common/guards/csrf.guard.ts\<close>, with the token
  endpoint of \<open>auth.controller.ts\<close>), JWT, roles, KYC and resource ownership.  A request is a record of
  what they read; the passport check of a bearer token is a parameter.
\<close>

record http_request =
  rq_method :: "string option"
  rq_header :: "string \<Rightarrow> string option"
  rq_body :: "json option"
  rq_params :: "string \<Rightarrow> string option"

text \<open>\<open>request.user\<close> as the JWT guard leaves it.\<close>

record jwt_user =
  ju_userId :: "string option"
  ju_publicKey :: "string option"

subsection \<open>Cookies\<close>

definition hex_val :: "char \<Rightarrow> nat" where
  "hex_val c = (if is_digit c then code_of c - 48 else if is_upper c then code_of c - 55 else code_of c - 87)"

definition escaped :: "char \<Rightarrow> char \<Rightarrow> nat" where
  "escaped a b = 16 * hex_val a + hex_val b"

text \<open>
  \<open>decodeURIComponent\<close>, \<open>None\<close> being a \<open>URIError\<close>.  Texts are over the first 256 code points, so an
  escape of any other character counts as malformed here.
\<close>

fun decodeURIComponent :: "string \<Rightarrow> string option" where
  "decodeURIComponent [] = Some []"
| "decodeURIComponent (c # cs) =
     (if c \<noteq> CHR ''%'' then map_option (Cons c) (decodeURIComponent cs)
      else case cs of
        a # b # rest \<Rightarrow>
          if \<not> is_hex a \<or> \<not> is_hex b then None
          else if escaped a b < 128 then map_option (Cons (char_of (escaped a b))) (decodeURIComponent rest)
          else (case rest of
            p # x # y # rest' \<Rightarrow>
              if escaped a b \<in> {194, 195} \<and> p = CHR ''%'' \<and> is_hex x \<and> is_hex y \<and>
                 128 \<le> escaped x y \<and> escaped x y < 192
              then map_option (Cons (char_of ((escaped a b - 192) * 64 + (escaped x y - 128)))) (decodeURIComponent rest')
              else None
          | _ \<Rightarrow> None)
      | _ \<Rightarrow> None)"

definition addCookie :: "(string \<Rightarrow> string option) \<Rightarrow> string \<Rightarrow> (string \<Rightarrow> string option)" where
  "addCookie cookies pair =
     (let k = takeWhile (\<lambda>c. c \<noteq> CHR ''='') pair; v = trim (tl (dropWhile (\<lambda>c. c \<noteq> CHR ''='') pair))
      in if CHR ''='' \<in> set pair \<and> k \<noteq> []
         then cookies(trim k \<mapsto> get_or (decodeURIComponent v) v) else cookies)"

definition parseCookies :: "string option \<Rightarrow> (string \<Rightarrow> string option)" where
  "parseCookies header =
     (if \<not> truthy header then Map.empty
      else foldl addCookie Map.empty (split_on (CHR '';'') (the header)))"

subsection \<open>CSRF\<close>

definition CSRF_COOKIE_NAME :: string where
  "CSRF_COOKIE_NAME = ''_csrf''"

definition CSRF_HEADER_NAME :: string where
  "CSRF_HEADER_NAME = ''x-csrf-token''"

definition body_field :: "json option \<Rightarrow> string \<Rightarrow> json option" where
  "body_field b k = (case b of None \<Rightarrow> None | Some j \<Rightarrow> jfield j k)"

definition submittedToken :: "http_request \<Rightarrow> string option" where
  "submittedToken req = map_option trim (text_of
     (jor (map_option JStr (rq_header req CSRF_HEADER_NAME))
     (jor (map_option JStr (rq_header req ''x-xsrf-token''))
     (jor (body_field (rq_body req) ''_csrf'') (body_field (rq_body req) ''csrfToken'')))))"

definition cookieToken :: "http_request \<Rightarrow> string option" where
  "cookieToken req = map_option trim (parseCookies (rq_header req ''cookie'') CSRF_COOKIE_NAME)"

definition safeMethods :: "string list" where
  "safeMethods = [''GET'', ''HEAD'', ''OPTIONS'']"

definition csrf_canActivate :: "bool \<Rightarrow> http_request \<Rightarrow> exn + bool" where
  "csrf_canActivate exempt req =
     (if \<not> truthy (rq_method req) then Inr True
      else if toUpper (the (rq_method req)) \<in> set safeMethods then Inr True
      else if exempt then Inr True
      else
        let cookie = cookieToken req; submitted = submittedToken req
        in if \<not> truthy cookie \<or> \<not> truthy submitted then Inl (AppException CSRF_TOKEN_MISSING 403)
           else if utf8 (the cookie) \<noteq> utf8 (the submitted) then Inl (AppException CSRF_TOKEN_INVALID 403)
           else Inr True)"

text \<open>\<open>GET /auth/csrf\<close>: the cookie's token when it is one, else a new one; \<open>/^[a-f0-9]{64}$/i\<close>.\<close>

definition valid_token :: "string \<Rightarrow> bool" where
  "valid_token t \<longleftrightarrow> length t = 64 \<and> list_all is_hex t"

definition getCsrfToken :: "auth_env \<Rightarrow> http_request \<Rightarrow> ('z, string) act" where
  "getCsrfToken env req =
     (case parseCookies (rq_header req ''cookie'') CSRF_COOKIE_NAME of
        Some existing \<Rightarrow> if valid_token (trim existing) then ret (trim existing) else randomHex env
      | None \<Rightarrow> randomHex env)"

subsection \<open>Authentication, roles, KYC\<close>

text \<open>\<open>JwtAuthGuard\<close>: with the mock switch on, every request is the user of its \<open>id\<close> parameter.\<close>

definition jwt_canActivate ::
    "config \<Rightarrow> (http_request \<Rightarrow> ('z, jwt_user) act) \<Rightarrow> http_request \<Rightarrow> ('z, jwt_user) act" where
  "jwt_canActivate cfg passport req =
     (if cfg ''MOCK_PROFILE_UPLOAD'' = Some ''true''
      then ret \<lparr> ju_userId = nullish (rq_params req ''id'') (Some ''mock-user''),
                 ju_publicKey = Some ''mock-public-key'' \<rparr>
      else passport req)"

definition PRIVILEGED_ROLES :: "app_role list" where
  "PRIVILEGED_ROLES = [Role_admin, Role_support]"

definition roles_canActivate :: "app_role list option \<Rightarrow> jwt_user option \<Rightarrow> ('z, bool) act" where
  "roles_canActivate required u =
     (case required of None \<Rightarrow> ret True
      | Some roles \<Rightarrow>
          let userId = (case u of None \<Rightarrow> None | Some x \<Rightarrow> ju_userId x)
          in if \<not> truthy userId then throw (AppException UNAUTHORIZED_ACTION 401)
             else bindE (findUnique user_table (\<lambda>x. Some (u_userId x) = userId)) (\<lambda>requester.
               case requester of
                 Some x \<Rightarrow> if u_role x \<in> set roles then ret True else throw (appExc UNAUTHORIZED_ACTION)
               | None \<Rightarrow> throw (appExc UNAUTHORIZED_ACTION)))"

definition kyc_canActivate :: "jwt_user option \<Rightarrow> ('z, bool) act" where
  "kyc_canActivate u =
     (let pk = (case u of None \<Rightarrow> None | Some x \<Rightarrow> ju_publicKey x)
      in if \<not> truthy pk then throw (appExc UNAUTHORIZED_ACTION)
         else bindE (findUnique user_table (\<lambda>x. Some (u_publicKey x) = pk)) (\<lambda>m. case m of
           Some x \<Rightarrow> if u_kycStatus x = KS_approved then ret True else throw (appExc KYC_REQUIRED)
         | None \<Rightarrow> throw (appExc KYC_REQUIRED)))"

subsection \<open>Resource ownership\<close>

datatype ResourceType = RT_ORDER | RT_ESCROW | RT_CHAT_MESSAGE | RT_PAYMENT_METHOD

primrec NOT_FOUND_ERROR_BY_TYPE :: "ResourceType \<Rightarrow> error_code" where
  "NOT_FOUND_ERROR_BY_TYPE RT_ORDER = ORDER_NOT_FOUND"
| "NOT_FOUND_ERROR_BY_TYPE RT_ESCROW = ESCROW_NOT_FOUND"
| "NOT_FOUND_ERROR_BY_TYPE RT_CHAT_MESSAGE = CHAT_MESSAGE_NOT_FOUND"
| "NOT_FOUND_ERROR_BY_TYPE RT_PAYMENT_METHOD = PAYMENT_METHOD_NOT_FOUND"

text \<open>The parties of an order; the relation of an escrow or a message always finds its order.\<close>

definition party_ids :: "db \<Rightarrow> string \<Rightarrow> string list" where
  "party_ids d i = (case List.find (\<lambda>x. o_orderId x = i) (orders d) of
     None \<Rightarrow> [] | Some x \<Rightarrow> [o_buyerId x, o_sellerId x])"

primrec owner_ids :: "ResourceType \<Rightarrow> string \<Rightarrow> db \<Rightarrow> string list option" where
  "owner_ids RT_ORDER i d =
     map_option (\<lambda>x. [o_buyerId x, o_sellerId x]) (List.find (\<lambda>x. o_orderId x = i) (orders d))"
| "owner_ids RT_ESCROW i d =
     map_option (\<lambda>e. party_ids d (e_orderId e)) (List.find (\<lambda>e. e_escrowId e = i) (escrows d))"
| "owner_ids RT_CHAT_MESSAGE i d =
     map_option (\<lambda>c. c_senderId c # party_ids d (c_orderId c)) (List.find (\<lambda>c. c_messageId c = i) (chats d))"
| "owner_ids RT_PAYMENT_METHOD i d =
     map_option (\<lambda>m. [m_userId m]) (List.find (\<lambda>m. m_paymentId m = i) (pmethods d))"

definition resolveOwnerIds :: "ResourceType \<Rightarrow> string \<Rightarrow> ('z, string list option) act" where
  "resolveOwnerIds ty i = db_call (getState (\<lambda>s. owner_ids ty i (tables s)))"

definition owner_canActivate ::
    "(ResourceType \<times> string) option \<Rightarrow> jwt_user option \<Rightarrow> (string \<Rightarrow> string option) \<Rightarrow> ('z, bool) act" where
  "owner_canActivate meta u params =
     (case meta of None \<Rightarrow> ret True
      | Some (ty, paramKey) \<Rightarrow>
          let userId = (case u of None \<Rightarrow> None | Some x \<Rightarrow> ju_userId x)
          in if \<not> truthy userId then throw (appExc UNAUTHORIZED_ACTION)
             else if \<not> truthy (params paramKey) then throw (appExc VALIDATION_ERROR)
             else bindE (findUnique user_table (\<lambda>x. Some (u_userId x) = userId)) (\<lambda>requester.
               if (case requester of None \<Rightarrow> False | Some x \<Rightarrow> u_role x \<in> set PRIVILEGED_ROLES) then ret True
               else bindE (resolveOwnerIds ty (the (params paramKey))) (\<lambda>ownerIds. case ownerIds of
                 None \<Rightarrow> throw (appExc (NOT_FOUND_ERROR_BY_TYPE ty))
               | Some ids \<Rightarrow> if the userId \<in> set ids then ret True else throw (appExc UNAUTHORIZED_ACTION))))"

end
