(* ===== verification/AuthProps.thy ===== *)
theory AuthProps
  imports Auth Samples
begin

text \<open>
  The properties of wallet authentication: a token is only given for a signed, live challenge of the
  same wallet, each challenge logs in at most once, and a new challenge replaces the old one.
\<close>

subsection \<open>Signatures\<close>

lemma base64_length: "is_base64 s \<Longrightarrow> \<exists>k. length s = 4 * k \<and> length (base64_bytes s) \<le> 3 * k \<and>
    3 * k \<le> length (base64_bytes s) + 2"
proof (induction s rule: is_base64.induct)
  case (2 a b c d)
  show ?case by (rule exI[of _ 1]) simp
next
  case (3 a b c d e rest)
  have ne: "c \<noteq> padding" "d \<noteq> padding"
    using "3.prems" by (auto simp: b64_def padding_def sextet_def is_upper_def is_lower_def is_digit_def code_of_def)
  from 3 obtain k where "length (e # rest) = 4 * k" "length (base64_bytes (e # rest)) \<le> 3 * k"
    "3 * k \<le> length (base64_bytes (e # rest)) + 2" by auto
  then show ?case using ne by (intro exI[of _ "Suc k"]) simp
qed auto

text \<open>
  A decoded signature always has the 64 bytes of Ed25519, and comes from exactly 88 characters.
\<close>

theorem decodeSignature_length:
  assumes "decodeSignature s = Inr sig"
  shows "length sig = 64 \<and> length s = 88"
proof -
  from assms have "is_base64 s" "length (base64_bytes s) = 64" "sig = base64_bytes s"
    by (auto simp: decodeSignature_def Let_def ED25519_SIGNATURE_LENGTH_def split: if_splits)
  with base64_length[of s] show ?thesis by fastforce
qed

definition sample_signature :: string where
  "sample_signature = replicate 86 (CHR ''A'') @ ''==''"

lemma sample_signature_decoded: "decodeSignature sample_signature = Inr (replicate 64 0)"
  by code_simp

theorem decodeSignature_length_witness:
  "\<exists>sig. decodeSignature sample_signature = Inr sig \<and> length sig = 64 \<and> length sample_signature = 88"
  using decodeSignature_length[OF sample_signature_decoded] sample_signature_decoded by metis


subsection \<open>Login\<close>

definition login_ok :: "auth_env \<Rightarrow> LoginDto \<Rightarrow> db \<Rightarrow> int \<Rightarrow> bool" where
  "login_ok env dto d now \<longleftrightarrow>
     (\<exists>c \<in> set (challenges d). ac_publicKey c = lg_publicKey dto \<and> ac_challenge c = lg_challenge dto \<and>
        ac_usedAt c = None \<and> now < ac_expiresAt c) \<and>
     (\<exists>sig. decodeSignature (lg_signature dto) = Inr sig \<and>
        (ed_verify env (lg_publicKey dto) (sha256 env (SEP_53_PREFIX @ utf8 (lg_challenge dto))) sig = Some True \<or>
         ed_verify env (lg_publicKey dto) (utf8 (lg_challenge dto)) sig = Some True))"

definition consumed :: "LoginDto \<Rightarrow> int \<Rightarrow> auth_challenge \<Rightarrow> auth_challenge" where
  "consumed dto now c = (if usable_challenge (lg_publicKey dto) (lg_challenge dto) now c
     then c\<lparr>ac_usedAt := Some now\<rparr> else c)"

definition logged_in :: "LoginDto \<Rightarrow> int \<Rightarrow> user \<Rightarrow> db \<Rightarrow> db" where
  "logged_in dto now u d = d\<lparr>challenges := map (consumed dto now) (challenges d),
     users := (if u \<in> set (users d) then users d else users d @ [u])\<rparr>"

lemma login_verify_post:
  "wp (login_verify env dto ctx)
     (\<lambda>_ t. login_ok env dto (tables s) (clock s) \<and> tables t = tables s \<and> clock t = clock s)
     (\<lambda>_ t. same_but_audits (tables s) (tables t)) s"
proof -
  have live: "login_ok env dto (tables s) (clock s)"
    if "List.find (\<lambda>c. ac_publicKey c = lg_publicKey dto) (challenges (tables s)) = Some c"
      "ac_usedAt c = None" "\<not> ac_expiresAt c \<le> clock s" "ac_challenge c = lg_challenge dto"
      "decodeSignature (lg_signature dto) = Inr sig"
      "isValidSignature env (lg_publicKey dto) (lg_challenge dto) sig" for c sig
    using that find_SomeD[OF that(1)] that(6)[unfolded isValidSignature_def]
    by (auto simp: login_ok_def split: option.splits bool.splits)
  show ?thesis
    unfolding login_verify_def assertValidPublicKey_def recordLoginFailure_def
    by (auto simp: prog wp_any intro!: db_anyI dest: live split: option.split sum.split)
qed

lemma new_user_key [simp]: "u_publicKey (new_user i pk now) = pk" "u_userId (new_user i pk now) = i"
  by (simp_all add: new_user_def)

lemma map_if_id [simp]: "map (\<lambda>x. if p x then id x else x) xs = xs"
  by (induction xs) auto

lemma login_consume_post:
  "wp (login_consume env dto ctx)
     (\<lambda>(tok, u) t. tok = jwt_sign env (login_payload (u_userId u) (lg_publicKey dto)) \<and>
        u_publicKey u = lg_publicKey dto \<and> clock t = clock s \<and>
        same_but_audits (logged_in dto (clock s) u (tables s)) (tables t))
     (\<lambda>_ t. users (tables t) = users (tables s)) s"
proof -
  have mark: "(\<lambda>c. if usable_challenge (lg_publicKey dto) (lg_challenge dto) now c then c\<lparr>ac_usedAt := Some now\<rparr> else c)
      = consumed dto now" for now
    by (simp add: fun_eq_iff consumed_def)
  have new: "new_user i (lg_publicKey dto) now \<notin> set (users d)"
    if "List.find (\<lambda>u. u_publicKey u = lg_publicKey dto) (users d) = None" for i now d
    using that by (auto simp: find_None_iff_ball new_user_def)
  show ?thesis
    unfolding login_consume_def recordLoginFailure_def
    by (auto simp: prog wp_any mark logged_in_def new dest!: find_SomeD intro!: db_anyI split: option.split)
qed

text \<open>
  C13.  Login proves ownership.  A token is issued only if the wallet's stored challenge is the one of
  the request, unused and not expired, and the 64 bytes of the signature verify under the wallet's
  key over it; the token names the user of that wallet (created if there was none), and what is
  written is that the challenge is used, that user, and the audit record.  In every other case
  no user is created or changed.
\<close>

theorem login_proves_ownership:
  assumes "login env dto ctx s = (r, t)"
  shows "case r of
      Inl _ \<Rightarrow> users (tables t) = users (tables s)
    | Inr (tok, u) \<Rightarrow> login_ok env dto (tables s) (clock s) \<and> u_publicKey u = lg_publicKey dto \<and>
        tok = jwt_sign env (login_payload (u_userId u) (lg_publicKey dto)) \<and>
        same_but_audits (logged_in dto (clock s) u (tables s)) (tables t)"
proof -
  have "wp (login env dto ctx)
     (\<lambda>(tok, u) t. login_ok env dto (tables s) (clock s) \<and> u_publicKey u = lg_publicKey dto \<and>
        tok = jwt_sign env (login_payload (u_userId u) (lg_publicKey dto)) \<and>
        same_but_audits (logged_in dto (clock s) u (tables s)) (tables t))
     (\<lambda>_ t. users (tables t) = users (tables s)) s"
    unfolding login_def wp_andThen
    by (rule wp_mono[OF login_verify_post])
      (auto simp: same_but_audits_eqs intro!: wp_mono[OF login_consume_post])
  from wp_run[OF this assms] show ?thesis by (auto split: sum.splits)
qed

text \<open>
  A challenge logs in at most once.  After a login has consumed it, any other login with the same
  challenge fails with \<open>INVALID_CHALLENGE\<close> and creates no user, as long as no new challenge is
  issued: one that starts later, and also one whose checks had already passed when the first
  login consumed the challenge.
\<close>

theorem login_single_use:
  assumes "login_consume env dto ctx s = (Inr a, t)"
    and "challenges (tables u) = challenges (tables t)" "clock s \<le> clock u" "faults u = []"
    and "isValidEd25519PublicKey env (lg_publicKey dto)"
  shows "\<exists>v w. login_consume env dto ctx' u = (Inl (appExc INVALID_CHALLENGE), v) \<and> users (tables v) = users (tables u) \<and>
    login env dto ctx' u = (Inl (appExc INVALID_CHALLENGE), w) \<and> users (tables w) = users (tables u)"
proof -
  let ?p = "usable_challenge (lg_publicKey dto) (lg_challenge dto) (clock u)"
  have "challenges (tables t) = map (consumed dto (clock s)) (challenges (tables s))"
    using wp_value[OF login_consume_post assms(1)]
    by (auto simp: logged_in_def dest: same_but_audits_eqs)
  then have none: "filter ?p (challenges (tables u)) = []"
    using assms(2,3) by (auto simp: filter_empty_conv consumed_def usable_challenge_def)
  have "wp (login_consume env dto ctx') (\<lambda>_ _. False)
      (\<lambda>e v. e = appExc INVALID_CHALLENGE \<and> users (tables v) = users (tables u)) u"
    unfolding login_consume_def recordLoginFailure_def using none assms(4) by (simp add: prog)
  moreover have "wp (login env dto ctx') (\<lambda>_ _. False)
      (\<lambda>e v. e = appExc INVALID_CHALLENGE \<and> users (tables v) = users (tables u)) u"
  proof -
    have "ac_usedAt c \<noteq> None \<or> ac_expiresAt c \<le> clock u \<or> ac_challenge c \<noteq> lg_challenge dto"
      if "List.find (\<lambda>c. ac_publicKey c = lg_publicKey dto) (challenges (tables u)) = Some c" for c
      using find_SomeD[OF that] none by (auto simp: filter_empty_conv usable_challenge_def)
    then show ?thesis
      unfolding login_def login_verify_def assertValidPublicKey_def recordLoginFailure_def
      using assms(4,5) by (auto simp: prog split: option.split)
  qed
  ultimately show ?thesis by (auto dest!: wp_throws)
qed

text \<open>The world of the witnesses: user \<open>b\<close> has asked for a challenge and signs it.\<close>

definition sample_auth :: auth_env where
  "sample_auth = \<lparr> au_config = Map.empty, isValidEd25519PublicKey = (\<lambda>k. k = ''GB''),
     ed_verify = (\<lambda>k m sig. Some (k = ''GB'' \<and> m = utf8 ''ch'')), sha256 = (\<lambda>b. []),
     random_hex = (\<lambda>_. ''ch''), jwt_sign = (\<lambda>_. ''JWT'') \<rparr>"

definition sample_challenge :: auth_challenge where
  "sample_challenge = \<lparr> ac_challengeId = ''c1'', ac_publicKey = ''GB'', ac_challenge = ''ch'',
     ac_expiresAt = 2000, ac_usedAt = None, ac_createdAt = 0 \<rparr>"

definition sample_login :: LoginDto where
  "sample_login = \<lparr> lg_publicKey = ''GB'', lg_challenge = ''ch'', lg_signature = sample_signature \<rparr>"

definition sample_ctx :: RequestContext where
  "sample_ctx = \<lparr> rc_ipAddress = Some ''10.0.0.1'', rc_userAgent = None, rc_correlationId = None \<rparr>"

definition login_db :: db where
  "login_db = sample_db\<lparr>challenges := [sample_challenge]\<rparr>"

lemma login_db_simps [simp]:
  "challenges login_db = [sample_challenge]" "users login_db = [sample_user ''b'' ''GB'', sample_user ''c'' ''GC'']"
  "audits login_db = []" "waitlist login_db = []" "pmethods login_db = []" "chats login_db = []"
  by (simp_all add: login_db_def)

lemma sample_login_simps [simp]:
  "lg_publicKey sample_login = ''GB''" "lg_challenge sample_login = ''ch''" "lg_signature sample_login = sample_signature"
  "ac_publicKey sample_challenge = ''GB''" "ac_challenge sample_challenge = ''ch''"
  "ac_usedAt sample_challenge = None" "ac_expiresAt sample_challenge = 2000"
  "isValidEd25519PublicKey sample_auth k \<longleftrightarrow> k = ''GB''" "jwt_sign sample_auth j = ''JWT''"
  by (simp_all add: sample_login_def sample_challenge_def sample_auth_def)

lemma sample_login_valid: "isValidSignature sample_auth ''GB'' ''ch'' sig"
proof -
  have "utf8 ''ch'' \<noteq> []" by code_simp
  then show ?thesis by (simp add: isValidSignature_def sample_auth_def)
qed

lemma sample_login_runs:
  "\<exists>t u. login_consume sample_auth sample_login sample_ctx (quiet_world login_db) = (Inr (''JWT'', u), t)"
  "\<exists>t u. login sample_auth sample_login sample_ctx (quiet_world login_db) = (Inr (''JWT'', u), t)"
proof -
  have consume: "wp (login_consume sample_auth sample_login sample_ctx) (\<lambda>a _. \<exists>u. a = (''JWT'', u)) (\<lambda>_ _. False)
      (quiet_world login_db)"
    by (simp add: login_consume_def prog usable_challenge_def user_table_def clash_def challenge_table_def)
  from wp_returns[OF consume]
  show "\<exists>t u. login_consume sample_auth sample_login sample_ctx (quiet_world login_db) = (Inr (''JWT'', u), t)" by auto
  have "wp (login sample_auth sample_login sample_ctx) (\<lambda>a _. \<exists>u. a = (''JWT'', u)) (\<lambda>_ _. False)
      (quiet_world login_db)"
    unfolding login_def wp_andThen
    by (simp add: consume login_verify_def prog assertValidPublicKey_def sample_signature_decoded sample_login_valid)
  from wp_returns[OF this]
  show "\<exists>t u. login sample_auth sample_login sample_ctx (quiet_world login_db) = (Inr (''JWT'', u), t)" by auto
qed

theorem login_proves_ownership_witness:
  "\<exists>t u. login sample_auth sample_login sample_ctx (quiet_world login_db) = (Inr (''JWT'', u), t) \<and>
     u_publicKey u = ''GB'' \<and> map ac_usedAt (challenges (tables t)) = [Some 1000]"
proof -
  obtain t u where t: "login sample_auth sample_login sample_ctx (quiet_world login_db) = (Inr (''JWT'', u), t)"
    using sample_login_runs(2) by metis
  from login_proves_ownership[OF t] show ?thesis
    by (auto simp: t same_but_audits_eqs logged_in_def consumed_def usable_challenge_def)
qed

theorem login_single_use_witness:
  "\<exists>u t w. login_consume sample_auth sample_login sample_ctx (quiet_world login_db) = (Inr (''JWT'', u), t) \<and>
     login sample_auth sample_login sample_ctx (quiet_world (tables t)) = (Inl (appExc INVALID_CHALLENGE), w)"
proof -
  obtain t u where t: "login_consume sample_auth sample_login sample_ctx (quiet_world login_db) = (Inr (''JWT'', u), t)"
    using sample_login_runs(1) by metis
  obtain w where "login sample_auth sample_login sample_ctx (quiet_world (tables t)) = (Inl (appExc INVALID_CHALLENGE), w)"
    using login_single_use[OF t, of "quiet_world (tables t)" sample_ctx] by auto
  with t show ?thesis by metis
qed

subsection \<open>Challenges\<close>

text \<open>Updating the one row of a key \<open>v\<close> of a second unique column.\<close>

lemma replace_row:
  assumes "distinct (map k xs)" "distinct (map q xs)" "x \<in> set xs" "q x = v" "q (f x) = v"
  shows "filter (\<lambda>c. q c = v) (map (\<lambda>c. if k c = k x then f c else c) xs) = [f x]"
    "filter (\<lambda>c. q c \<noteq> v) (map (\<lambda>c. if k c = k x then f c else c) xs) = filter (\<lambda>c. q c \<noteq> v) xs"
proof -
  obtain as bs where xs: "xs = as @ x # bs" using assms(3) by (auto simp: in_set_conv_decomp)
  have other: "k c \<noteq> k x" "q c \<noteq> v" if "c \<in> set as \<union> set bs" for c
    using that assms(1,2,4) by (simp_all add: xs) (metis imageI)+
  have "map (\<lambda>c. if k c = k x then f c else c) xs = as @ f x # bs"
    using other(1) by (simp add: xs map_idI)
  moreover have "filter (\<lambda>c. q c = v) as = []" "filter (\<lambda>c. q c = v) bs = []"
    using other(2) by (auto simp: filter_empty_conv)
  ultimately show "filter (\<lambda>c. q c = v) (map (\<lambda>c. if k c = k x then f c else c) xs) = [f x]"
    "filter (\<lambda>c. q c \<noteq> v) (map (\<lambda>c. if k c = k x then f c else c) xs) = filter (\<lambda>c. q c \<noteq> v) xs"
    using assms(4,5) by (simp_all add: xs)
qed

definition challenges_wf :: "db \<Rightarrow> bool" where
  "challenges_wf d \<longleftrightarrow> distinct (map ac_challengeId (challenges d)) \<and> distinct (map ac_publicKey (challenges d))"

definition replaced :: "string \<Rightarrow> string \<Rightarrow> int \<Rightarrow> int \<Rightarrow> auth_challenge list \<Rightarrow> auth_challenge list \<Rightarrow> bool" where
  "replaced pk challenge expiresAt now xs ys \<longleftrightarrow>
     (\<exists>c. filter (\<lambda>c. ac_publicKey c = pk) ys = [c] \<and> ac_challenge c = challenge \<and>
          ac_expiresAt c = expiresAt \<and> ac_usedAt c = None) \<and>
     filter (\<lambda>c. ac_publicKey c \<noteq> pk) ys = filter (\<lambda>c. ac_publicKey c \<noteq> pk \<and> ac_expiresAt c \<ge> now) xs"

lemma unexpired_others:
  "filter (\<lambda>c. ac_publicKey c \<noteq> pk) (filter (\<lambda>c. \<not> ac_expiresAt c < now) xs) =
   filter (\<lambda>c. ac_publicKey c \<noteq> pk \<and> ac_expiresAt c \<ge> now) xs"
  by (simp add: not_less conj_commute)

lemma replaced_create:
  assumes "List.find (\<lambda>c. ac_publicKey c = pk) (filter (\<lambda>c. \<not> ac_expiresAt c < now) xs) = None"
    and "ac_publicKey new = pk" "ac_challenge new = ch" "ac_expiresAt new = e" "ac_usedAt new = None"
  shows "replaced pk ch e now xs (filter (\<lambda>c. \<not> ac_expiresAt c < now) xs @ [new])"
proof -
  have "filter (\<lambda>c. ac_publicKey c = pk) (filter (\<lambda>c. \<not> ac_expiresAt c < now) xs) = []"
    using assms(1) by (auto simp: find_None_iff_ball filter_empty_conv)
  then show ?thesis
    using assms(2-) unexpired_others[of pk now xs] by (simp add: replaced_def del: filter_filter)
qed

lemma replaced_update:
  assumes "distinct (map ac_challengeId xs)" "distinct (map ac_publicKey xs)"
    and "List.find (\<lambda>c. ac_publicKey c = pk) (filter (\<lambda>c. \<not> ac_expiresAt c < now) xs) = Some x"
    and "\<And>c. ac_publicKey (f c) = ac_publicKey c" "\<And>c. ac_challenge (f c) = ch"
      "\<And>c. ac_expiresAt (f c) = e" "\<And>c. ac_usedAt (f c) = None"
  shows "replaced pk ch e now xs
     (map (\<lambda>c. if ac_challengeId c = ac_challengeId x then f c else c) (filter (\<lambda>c. \<not> ac_expiresAt c < now) xs))"
proof -
  let ?ys = "filter (\<lambda>c. \<not> ac_expiresAt c < now) xs"
  have "distinct (map ac_challengeId ?ys)" "distinct (map ac_publicKey ?ys)"
    by (simp_all add: assms(1,2) distinct_map_filter)
  from replace_row[OF this, of x pk f] show ?thesis
    using find_SomeD[OF assms(3)] assms(4-) unexpired_others[of pk now xs]
    by (simp add: replaced_def del: filter_filter)
qed

text \<open>
  A new challenge replaces the old one.  After \<open>createChallenge\<close> returns, the wallet has exactly
  one challenge, the returned one, unused and with the returned expiry; the challenges of other
  wallets are kept unless they had expired.  An exception removes at most expired challenges.
\<close>

theorem createChallenge_replaces:
  assumes "createChallenge env pk s = (r, t)" and "challenges_wf (tables s)"
  shows "case r of
      Inl _ \<Rightarrow> filter (\<lambda>c. ac_expiresAt c \<ge> clock s) (challenges (tables t)) =
               filter (\<lambda>c. ac_expiresAt c \<ge> clock s) (challenges (tables s))
    | Inr (challenge, expiresAt) \<Rightarrow> expiresAt = clock s + getChallengeExpirationSeconds env * 1000 \<and>
        replaced pk challenge expiresAt (clock s) (challenges (tables s)) (challenges (tables t))"
proof -
  have keys: "distinct (map ac_challengeId (challenges (tables s)))" "distinct (map ac_publicKey (challenges (tables s)))"
    using assms(2) by (simp_all add: challenges_wf_def)
  have live: "(\<lambda>c. \<not> ac_expiresAt c < clock s \<and> clock s \<le> ac_expiresAt c) = (\<lambda>c. clock s \<le> ac_expiresAt c)"
    by auto
  have "wp (createChallenge env pk)
     (\<lambda>(ch, e) t. e = clock s + getChallengeExpirationSeconds env * 1000 \<and>
        replaced pk ch e (clock s) (challenges (tables s)) (challenges (tables t)))
     (\<lambda>_ t. filter (\<lambda>c. ac_expiresAt c \<ge> clock s) (challenges (tables t)) =
            filter (\<lambda>c. ac_expiresAt c \<ge> clock s) (challenges (tables s))) s"
    unfolding createChallenge_def assertValidPublicKey_def randomHex_def
    by (auto simp: prog wp_any live Let_def intro!: db_anyI replaced_create replaced_update[OF keys] split: option.split)
  from wp_run[OF this assms(1)] show ?thesis by (auto split: sum.splits)
qed

theorem createChallenge_replaces_witness:
  "\<exists>t. createChallenge sample_auth ''GB'' (quiet_world login_db) = (Inr (''ch'', 301000), t) \<and>
     replaced ''GB'' ''ch'' 301000 1000 (challenges login_db) (challenges (tables t))"
proof -
  have "wp (createChallenge sample_auth ''GB'') (\<lambda>(ch, _) _. ch = ''ch'') (\<lambda>_ _. False) (quiet_world login_db)"
    unfolding createChallenge_def assertValidPublicKey_def randomHex_def
    by (simp add: prog Let_def challenge_table_def) (simp add: sample_auth_def)
  from wp_returns[OF this] obtain e t where t: "createChallenge sample_auth ''GB'' (quiet_world login_db) = (Inr (''ch'', e), t)"
    by auto
  have "getChallengeExpirationSeconds sample_auth = 300"
    by (simp add: getChallengeExpirationSeconds_def sample_auth_def)
  with createChallenge_replaces[OF t] t show ?thesis by (auto simp: challenges_wf_def)
qed

end
