(* ===== verification/GuardProps.thy ===== *)
theory GuardProps
  imports Guards AuthProps
begin

text \<open>
  The properties of the guards: the CSRF guard compares the two tokens and accepts the token it
  issued; the ownership guard lets only owners and privileged users through.
\<close>

subsection \<open>CSRF\<close>

lemma code_of_less: "code_of c < 256"
  by (simp add: code_of_def)

lemma utf8_char_cases:
  obtains (ascii) "code_of c < 128" "utf8_char c = [of_nat (code_of c)]"
  | (two) "128 \<le> code_of c" "utf8_char c = [of_nat (192 + code_of c div 64), of_nat (128 + code_of c mod 64)]"
  by (cases "code_of c < 128") (auto simp: utf8_char_def simp del: of_nat_add)

lemma byte_eq: "m < 256 \<Longrightarrow> n < 256 \<Longrightarrow> (of_nat m :: byte) = of_nat n \<longleftrightarrow> m = n"
  by (simp add: word_of_nat_eq_iff take_bit_eq_mod)

lemma code_of_inj: "code_of a = code_of b \<Longrightarrow> a = b"
  by (simp add: code_of_def)

lemma div_mod_unique: "(m::nat) div k = n div k \<Longrightarrow> m mod k = n mod k \<Longrightarrow> m = n"
  by (metis div_mult_mod_eq)

lemma utf8_inj: "utf8 s = utf8 t \<longleftrightarrow> s = t"
proof
  show "utf8 s = utf8 t \<Longrightarrow> s = t"
  proof (induction s arbitrary: t)
    case Nil
    then show ?case by (cases t) (auto simp: utf8_def utf8_char_def split: if_splits)
  next
    case (Cons a s)
    then obtain b t' where t: "t = b # t'"
      by (cases t) (auto simp: utf8_def utf8_char_def split: if_splits)
    have less: "code_of a < 256" "code_of b < 256" by (simp_all add: code_of_less)
    have "utf8_char a = utf8_char b \<and> utf8 s = utf8 t'"
      using Cons.prems less
      by (cases rule: utf8_char_cases[of a]; cases rule: utf8_char_cases[of b])
        (auto simp: t utf8_def byte_eq simp del: of_nat_add)
    moreover have "a = b" if "utf8_char a = utf8_char b"
    proof (rule code_of_inj)
      show "code_of a = code_of b"
        using that less
        by (cases rule: utf8_char_cases[of a]; cases rule: utf8_char_cases[of b])
          (auto simp: byte_eq simp del: of_nat_add intro: div_mod_unique)
    qed
    ultimately show ?case using Cons.IH t by auto
  qed
qed simp

text \<open>
  C28.  The CSRF guard lets a request through in exactly three cases: its method, in any case of letters,
  is GET, HEAD or OPTIONS (or there is none); the handler is exempt; or the token of the cookie and
  the submitted token (header or body), without surrounding spaces, are the same non-empty text.
  Any other request is refused with status 403.
\<close>

theorem csrf_guard_iff:
  "(csrf_canActivate exempt req = Inr True \<longleftrightarrow>
     (rq_method req = None \<or> rq_method req = Some [] \<or>
        (\<exists>m. rq_method req = Some m \<and> toUpper m \<in> {''GET'', ''HEAD'', ''OPTIONS''})) \<or>
     exempt \<or>
     (\<exists>t. t \<noteq> [] \<and> cookieToken req = Some t \<and> submittedToken req = Some t)) \<and>
   (csrf_canActivate exempt req = Inr True \<or> (\<exists>code. csrf_canActivate exempt req = Inl (AppException code 403)))"
  by (cases "rq_method req"; cases "cookieToken req"; cases "submittedToken req")
    (auto simp: csrf_canActivate_def safeMethods_def Let_def utf8_inj)

definition sample_request :: "string \<Rightarrow> (string \<Rightarrow> string option) \<Rightarrow> http_request" where
  "sample_request m h = \<lparr> rq_method = Some m, rq_header = h, rq_body = None, rq_params = [''id'' \<mapsto> ''o1''] \<rparr>"

theorem csrf_guard_iff_witness:
  "csrf_canActivate False (sample_request ''post'' [''cookie'' \<mapsto> ''a=1; _csrf=t0k'', ''x-csrf-token'' \<mapsto> ''t0k'']) = Inr True \<and>
   csrf_canActivate False (sample_request ''post'' [''cookie'' \<mapsto> ''a=1; _csrf=t0k'', ''x-csrf-token'' \<mapsto> ''other'']) \<noteq> Inr True"
proof -
  let ?good = "sample_request ''post'' [''cookie'' \<mapsto> ''a=1; _csrf=t0k'', ''x-csrf-token'' \<mapsto> ''t0k'']"
  let ?bad = "sample_request ''post'' [''cookie'' \<mapsto> ''a=1; _csrf=t0k'', ''x-csrf-token'' \<mapsto> ''other'']"
  have post: "toUpper ''post'' \<notin> {''GET'', ''HEAD'', ''OPTIONS''}" by code_simp
  have m: "rq_method (sample_request ''post'' h) = Some ''post''" for h by (simp add: sample_request_def)
  have "cookieToken ?good = Some ''t0k''" "submittedToken ?good = Some ''t0k''" "cookieToken ?bad = Some ''t0k''" "submittedToken ?bad = Some ''other''"
    by code_simp+
  then show ?thesis
    using csrf_guard_iff[of False ?good] csrf_guard_iff[of False ?bad] post m by auto
qed

lemma decode_plain: "\<forall>c\<in>set s. c \<noteq> CHR ''%'' \<Longrightarrow> decodeURIComponent s = Some s"
  by (induction s) auto

lemma addCookie_csrf:
  assumes "valid_token t" "sp = [] \<or> sp = [CHR '' '']"
  shows "addCookie m (sp @ CSRF_COOKIE_NAME @ CHR ''='' # t) CSRF_COOKIE_NAME = Some t"
proof -
  have hex: "c \<noteq> CHR ''%'' \<and> \<not> js_space c" if "c \<in> set t" for c
    using that assms(1) by (auto simp: valid_token_def list_all_iff is_hex_def js_space_def is_digit_def code_of_def)
  then have t: "trim t = t" "decodeURIComponent t = Some t"
    by (auto intro: trim_no_space decode_plain)
  have k: "trim (sp @ CSRF_COOKIE_NAME) = CSRF_COOKIE_NAME" using assms(2) by (elim disjE) (hypsubst, code_simp)+
  have n: "CHR ''='' \<notin> set (sp @ CSRF_COOKIE_NAME)" using assms(2) by (auto simp: CSRF_COOKIE_NAME_def)
  have "takeWhile (\<lambda>c. c \<noteq> CHR ''='') ((sp @ CSRF_COOKIE_NAME) @ CHR ''='' # t) = sp @ CSRF_COOKIE_NAME"
    "dropWhile (\<lambda>c. c \<noteq> CHR ''='') ((sp @ CSRF_COOKIE_NAME) @ CHR ''='' # t) = CHR ''='' # t"
    using n by (auto simp: takeWhile_append dropWhile_append)
  then show ?thesis using t k by (auto simp: addCookie_def CSRF_COOKIE_NAME_def)
qed

text \<open>
  C29.  The token round trip.  A browser that stores the issued token (64 hex digits) in its cookie,
  alone or after other cookies, and sends it back in the header, passes the guard with any
  method and any body; the endpoint then hands out the same token again.
\<close>

theorem csrf_roundtrip:
  assumes "valid_token t" "rq_header req CSRF_HEADER_NAME = Some t"
    and "rq_header req ''cookie'' = Some (CSRF_COOKIE_NAME @ CHR ''='' # t) \<or>
      (\<exists>others. rq_header req ''cookie'' = Some (others @ CHR '';'' # CHR '' '' # CSRF_COOKIE_NAME @ CHR ''='' # t))"
  shows "csrf_canActivate exempt req = Inr True \<and> getCsrfToken env req s = (Inr t, s)"
proof -
  have hex: "\<not> js_space c \<and> c \<noteq> CHR '';''" if "c \<in> set t" for c
    using that assms(1) by (auto simp: valid_token_def list_all_iff is_hex_def js_space_def is_digit_def code_of_def)
  then have trim: "trim t = t" by (auto intro: trim_no_space)
  have t: "t \<noteq> []" using assms(1) by (auto simp: valid_token_def)
  have one: "split_on (CHR '';'') (sp @ CSRF_COOKIE_NAME @ CHR ''='' # t) = [sp @ CSRF_COOKIE_NAME @ CHR ''='' # t]"
    if "sp = [] \<or> sp = [CHR '' '']" for sp
    using that hex by (intro split_on_none) (auto simp: CSRF_COOKIE_NAME_def)
  have "parseCookies (rq_header req ''cookie'') CSRF_COOKIE_NAME = Some t"
    using assms(3)
  proof (elim disjE exE)
    assume "rq_header req ''cookie'' = Some (CSRF_COOKIE_NAME @ CHR ''='' # t)"
    then show ?thesis
      using one[of "[]"] addCookie_csrf[OF assms(1), of "[]"] by (simp add: parseCookies_def)
  next
    fix others
    assume "rq_header req ''cookie'' = Some (others @ CHR '';'' # CHR '' '' # CSRF_COOKIE_NAME @ CHR ''='' # t)"
    then show ?thesis
      using one[of "[CHR '' '']"] addCookie_csrf[OF assms(1), of "[CHR '' '']"]
      by (simp add: parseCookies_def split_on_last)
  qed
  moreover have "submittedToken req = Some t"
    using assms(2) t trim by (simp add: submittedToken_def jor_def)
  ultimately show ?thesis
    using t trim assms(1) by (simp add: csrf_canActivate_def cookieToken_def Let_def getCsrfToken_def ret_def)
qed


definition sample_token :: string where
  "sample_token = replicate 64 (CHR ''a'')"

theorem csrf_roundtrip_witness:
  "csrf_canActivate False (sample_request ''POST''
     [''cookie'' \<mapsto> ''x=1'' @ CHR '';'' # CHR '' '' # CSRF_COOKIE_NAME @ CHR ''='' # sample_token,
      CSRF_HEADER_NAME \<mapsto> sample_token]) = Inr True"
proof -
  let ?req = "sample_request ''POST'' [''cookie'' \<mapsto> ''x=1'' @ CHR '';'' # CHR '' '' # CSRF_COOKIE_NAME @ CHR ''='' # sample_token,
      CSRF_HEADER_NAME \<mapsto> sample_token]"
  have token: "valid_token sample_token" by code_simp
  have header: "rq_header ?req CSRF_HEADER_NAME = Some sample_token" by (simp add: sample_request_def)
  have cookie: "rq_header ?req ''cookie'' = Some (''x=1'' @ CHR '';'' # CHR '' '' # CSRF_COOKIE_NAME @ CHR ''='' # sample_token)"
    by (simp add: sample_request_def CSRF_HEADER_NAME_def)
  show ?thesis
    using csrf_roundtrip[OF token header] cookie by metis
qed

subsection \<open>Ownership\<close>

text \<open>Who owns a resource, by the tables: the parties of an order, and so on.\<close>

inductive resource_owner :: "db \<Rightarrow> ResourceType \<Rightarrow> string \<Rightarrow> string \<Rightarrow> bool" for d where
  buyer: "List.find (\<lambda>x. o_orderId x = i) (orders d) = Some x \<Longrightarrow> resource_owner d RT_ORDER i (o_buyerId x)"
| seller: "List.find (\<lambda>x. o_orderId x = i) (orders d) = Some x \<Longrightarrow> resource_owner d RT_ORDER i (o_sellerId x)"
| escrow: "List.find (\<lambda>e. e_escrowId e = i) (escrows d) = Some e \<Longrightarrow>
    resource_owner d RT_ORDER (e_orderId e) uid \<Longrightarrow> resource_owner d RT_ESCROW i uid"
| sender: "List.find (\<lambda>c. c_messageId c = i) (chats d) = Some c \<Longrightarrow> resource_owner d RT_CHAT_MESSAGE i (c_senderId c)"
| message: "List.find (\<lambda>c. c_messageId c = i) (chats d) = Some c \<Longrightarrow>
    resource_owner d RT_ORDER (c_orderId c) uid \<Longrightarrow> resource_owner d RT_CHAT_MESSAGE i uid"
| payment: "List.find (\<lambda>m. m_paymentId m = i) (pmethods d) = Some m \<Longrightarrow>
    resource_owner d RT_PAYMENT_METHOD i (m_userId m)"

inductive_simps resource_owner_simps:
  "resource_owner d RT_ORDER i uid" "resource_owner d RT_ESCROW i uid"
  "resource_owner d RT_CHAT_MESSAGE i uid" "resource_owner d RT_PAYMENT_METHOD i uid"

text \<open>Whom the guard is to let through: an owner, or an admin or support account.\<close>

definition owner_allowed :: "db \<Rightarrow> ResourceType \<Rightarrow> string \<Rightarrow> jwt_user \<Rightarrow> (string \<Rightarrow> string option) \<Rightarrow> bool" where
  "owner_allowed d ty k u params \<longleftrightarrow> (\<exists>uid i. ju_userId u = Some uid \<and> uid \<noteq> [] \<and> params k = Some i \<and> i \<noteq> [] \<and>
     (resource_owner d ty i uid \<or>
      (\<exists>x. List.find (\<lambda>x. u_userId x = uid) (users d) = Some x \<and> (u_role x = Role_admin \<or> u_role x = Role_support))))"

lemma resource_owner_iff: "resource_owner d ty i uid \<longleftrightarrow> (\<exists>ids. owner_ids ty i d = Some ids \<and> uid \<in> set ids)"
proof (cases ty)
  case RT_ORDER
  then show ?thesis
    by (cases "List.find (\<lambda>x. o_orderId x = i) (orders d)") (auto simp: resource_owner_simps)
next
  case RT_ESCROW
  then show ?thesis
    by (cases "List.find (\<lambda>e. e_escrowId e = i) (escrows d)") (auto simp: resource_owner_simps party_ids_def split: option.split)
next
  case RT_CHAT_MESSAGE
  then show ?thesis
    by (cases "List.find (\<lambda>c. c_messageId c = i) (chats d)") (auto simp: resource_owner_simps party_ids_def split: option.split)
next
  case RT_PAYMENT_METHOD
  then show ?thesis
    by (cases "List.find (\<lambda>m. m_paymentId m = i) (pmethods d)") (auto simp: resource_owner_simps)
qed

lemma wp_resolveOwnerIds:
  "wp (resolveOwnerIds ty i) Q E s = db_any s E (\<lambda>s. Q (owner_ids ty i (tables s)) s)"
  by (simp add: resolveOwnerIds_def wp_db_call_any wp_getState)

lemma owner_guard_sound:
  "wp (owner_canActivate (Some (ty, k)) (Some u) params)
     (\<lambda>b t. b \<and> owner_allowed (tables s) ty k u params \<and> tables t = tables s) (\<lambda>_ t. tables t = tables s) s"
  unfolding owner_canActivate_def
  by (auto simp: prog wp_any wp_resolveOwnerIds Let_def owner_allowed_def resource_owner_iff PRIVILEGED_ROLES_def
      intro!: db_anyI elim!: truthyE split: option.split)

lemma owner_guard_complete:
  assumes "owner_allowed (tables s) ty k u params" "faults s = []"
  shows "wp (owner_canActivate (Some (ty, k)) (Some u) params) (\<lambda>b t. b \<and> t = s) (\<lambda>_ _. False) s"
  using assms unfolding owner_canActivate_def
  by (auto simp: prog resolveOwnerIds_def wp_db_call Let_def owner_allowed_def resource_owner_iff PRIVILEGED_ROLES_def split: option.split)

text \<open>
  C27.  The ownership guard.  It lets a request through only if the user of the token is privileged
  (admin or support) or one of the owners of the resource named by the route: the two parties of
  the order, of the escrow's order or of the message's order, the sender, or the owner of the
  payment method.  On a working connection it lets every such request through.  It writes nothing.
\<close>

theorem owner_guard_iff:
  assumes "owner_canActivate (Some (ty, k)) (Some u) params s = (r, t)"
  shows "tables t = tables s \<and> (r = Inr True \<longrightarrow> owner_allowed (tables s) ty k u params) \<and> r \<noteq> Inr False \<and>
    (faults s = [] \<and> owner_allowed (tables s) ty k u params \<longrightarrow> r = Inr True)"
  using wp_run[OF owner_guard_sound assms] wp_returns[OF owner_guard_complete[of s ty k u params]] assms
  by (auto split: sum.splits)

theorem owner_guard_iff_witness:
  "fst (owner_canActivate (Some (RT_ORDER, ''id'')) (Some \<lparr> ju_userId = Some ''b'', ju_publicKey = None \<rparr>)
     [''id'' \<mapsto> ''o1''] (quiet_world (sample_db\<lparr>orders := [sample_order ''o1'' OS_created None]\<rparr>))) = Inr True"
proof -
  let ?s = "quiet_world (sample_db\<lparr>orders := [sample_order ''o1'' OS_created None]\<rparr>)"
  let ?u = "\<lparr> ju_userId = Some ''b'', ju_publicKey = None \<rparr>"
  have "owner_allowed (tables ?s) RT_ORDER ''id'' ?u [''id'' \<mapsto> ''o1'']"
    by (simp add: owner_allowed_def resource_owner_simps)
  then show ?thesis
    using owner_guard_iff[of RT_ORDER "''id''" ?u "[''id'' \<mapsto> ''o1'']" ?s] by (metis prod.collapse quiet_world_simps(2))
qed

end
