(* ===== verification/ValidatorProps.thy ===== *)
theory ValidatorProps
  imports PaymentValidators
begin

text \<open>
  The properties of the payment formats: the chunked remainder is the remainder, an IBAN with one
  wrong digit never passes, the rule table means what its comments say, and which Brazilian
  numbers it loses.
\<close>

subsection \<open>The remainder in chunks\<close>

lemma mod97_loop_correct:
  "all_digits s \<Longrightarrow> r < 97 \<Longrightarrow> mod97_loop r s = (r * 10 ^ length s + digits_val s) mod 97"
proof (induction r s rule: mod97_loop.induct)
  case (2 r c cs)
  let ?s = "c # cs" and ?a = "take 7 (c # cs)" and ?b = "drop 7 (c # cs)"
  have ab: "?s = ?a @ ?b" by simp
  have digits: "all_digits ?a" "all_digits ?b" using "2.prems" by (metis ab all_digits_simps(3))+
  let ?r = "digits_val (show_nat r @ ?a) mod 97"
  have r: "?r = (r * 10 ^ length ?a + digits_val ?a) mod 97" by (simp only: digits_val_append digits_val_show_nat)
  have "mod97_loop r ?s = (?r * 10 ^ length ?b + digits_val ?b) mod 97"
    using "2.IH"[OF digits(2)] by (simp del: take_Suc_Cons drop_Suc_Cons)
  also have "\<dots> = ((r * 10 ^ length ?a + digits_val ?a) * 10 ^ length ?b + digits_val ?b) mod 97"
    unfolding r by (metis mod_add_left_eq mod_mult_left_eq)
  also have "(r * 10 ^ length ?a + digits_val ?a) * 10 ^ length ?b + digits_val ?b
      = r * 10 ^ length ?s + digits_val (?a @ ?b)"
    by (subst (3) ab) (simp only: digits_val_append length_append power_add distrib_right mult.assoc add.assoc)
  finally show ?case by (simp only: ab[symmetric])
qed simp

lemma mod97_digits: "all_digits v \<Longrightarrow> mod97 v = digits_val v mod 97"
  by (simp add: mod97_def mod97_loop_correct)

text \<open>
  The check-digit routine works on chunks of seven digits, prepending the remainder so far as
  text; on any string of digits, of any length, it computes the number modulo 97.
\<close>

theorem mod97_correct:
  assumes "all_digits v"
  shows "mod97 v = digits_val v mod 97"
  using assms by (rule mod97_digits)

theorem mod97_correct_witness:
  "mod97 ''3214282912345698765432161182'' = digits_val ''3214282912345698765432161182'' mod 97"
  by (rule mod97_correct) code_simp

subsection \<open>IBAN\<close>

lemma all_digits_iban: "list_all (\<lambda>c. is_upper c \<or> is_digit c) s \<Longrightarrow> all_digits (concat (map iban_digits s))"
  by (induction s) (auto simp: iban_digits_def)

lemma iban_shape_digits: "iban_shape s \<Longrightarrow> list_all (\<lambda>c. is_upper c \<or> is_digit c) (drop 4 s @ take 4 s)"
proof -
  assume a: "iban_shape s"
  have "take 4 s = take 2 s @ take 2 (drop 2 s)" by (metis add_2_eq_Suc' numeral_Bit0 one_add_one take_add add.commute numeral_2_eq_2)
  with a show ?thesis by (auto simp: iban_shape_def all_digits_def list_all_iff)
qed

lemma iban_mod:
  "isValidIban v \<Longrightarrow> (let s = toUpper (stripSpaces v) in
     all_digits (concat (map iban_digits (drop 4 s @ take 4 s))) \<and>
     digits_val (concat (map iban_digits (drop 4 s @ take 4 s))) mod 97 = 1)"
  using all_digits_iban[OF iban_shape_digits, of "toUpper (stripSpaces v)"]
  by (simp only: isValidIban_def Let_def mod97_digits)


lemma same_remainder:
  assumes "x < 10" "y < 10" "x \<noteq> (y::nat)"
    and "(a * 10 ^ (1 + n) + x * 10 ^ n + b) mod 97 = (a * 10 ^ (1 + n) + y * 10 ^ n + b) mod (97::nat)"
  shows False
proof -
  have "(int a * 10 ^ (1 + n) + int x * 10 ^ n + int b) mod 97 = (int a * 10 ^ (1 + n) + int y * 10 ^ n + int b) mod 97"
    using arg_cong[OF assms(4), of int] by (simp add: zmod_int)
  then have "97 dvd (int x * 10 ^ n - int y * 10 ^ n)"
    by (simp add: mod_eq_dvd_iff algebra_simps)
  then have "97 dvd (int x - int y) * 10 ^ n" by (simp add: left_diff_distrib)
  moreover have "coprime (97::int) (10 ^ n)"
  proof -
    have "coprime (97::int) 10" by code_simp
    then show ?thesis by simp
  qed
  ultimately have "97 dvd (int x - int y)" by (simp add: coprime_dvd_mult_left_iff)
  then obtain k where "int x - int y = 97 * k" by (elim dvdE)
  with assms(1-3) show False by presburger
qed

lemma numeric_split:
  assumes "is_digit c"
  shows "digits_val (concat (map iban_digits (A @ c # B))) =
    digits_val (concat (map iban_digits A)) * 10 ^ (1 + length (concat (map iban_digits B))) +
    digit_val c * 10 ^ length (concat (map iban_digits B)) + digits_val (concat (map iban_digits B))"
  using assms by (simp add: iban_digits_def digits_val_append digits_val_Cons algebra_simps)

lemma upper_digit: "is_digit c \<Longrightarrow> upper_char c = c"
  by (auto simp: upper_char_def is_lower_def is_digit_def)

text \<open>
  C34.  One wrong digit is always found.  If a text is accepted as an IBAN, then no text that differs
  from it in a single digit is, wherever the digit stands: in the check digits or in the account,
  with or without spaces and in either case.
\<close>

theorem iban_detects_wrong_digit:
  assumes "isValidIban (p @ c # q)" "is_digit c" "is_digit c'" "c \<noteq> c'"
  shows "\<not> isValidIban (p @ c' # q)"
proof
  assume wrong: "isValidIban (p @ c' # q)"
  let ?P = "toUpper (stripSpaces p)" and ?Q = "toUpper (stripSpaces q)"
  have norm: "toUpper (stripSpaces (p @ x # q)) = ?P @ x # ?Q" if "is_digit x" for x
    using that by (simp add: toUpper_def stripSpaces_def upper_digit)
  obtain A B where AB: "\<And>x. drop 4 (?P @ x # ?Q) @ take 4 (?P @ x # ?Q) = A @ x # B"
  proof (cases "length ?P < 4")
    case True
    have "drop 4 (?P @ x # ?Q) @ take 4 (?P @ x # ?Q) = (drop (3 - length ?P) ?Q @ ?P) @ x # take (3 - length ?P) ?Q" for x
      using True by (simp add: drop_Cons' take_Cons')
    then show ?thesis by (rule that)
  next
    case False
    have "drop 4 (?P @ x # ?Q) @ take 4 (?P @ x # ?Q) = drop 4 ?P @ x # (?Q @ take 4 ?P)" for x
      using False by simp
    then show ?thesis by (rule that)
  qed
  have "digits_val (concat (map iban_digits (A @ c # B))) mod 97 = 1"
    using iban_mod[OF assms(1), unfolded Let_def norm[OF assms(2)] AB] by (rule conjunct2)
  moreover have "digits_val (concat (map iban_digits (A @ c' # B))) mod 97 = 1"
    using iban_mod[OF wrong, unfolded Let_def norm[OF assms(3)] AB] by (rule conjunct2)
  ultimately have "digits_val (concat (map iban_digits (A @ c # B))) mod 97 =
      digits_val (concat (map iban_digits (A @ c' # B))) mod 97" by (rule trans[OF _ sym])
  note same = this[unfolded numeric_split[OF assms(2)] numeric_split[OF assms(3)]]
  have "digit_val c \<noteq> digit_val c'"
    using assms(2-4) digit_char_digit_val by metis
  from same_remainder[OF digit_val_less[OF assms(2)] digit_val_less[OF assms(3)] this same]
  show False .
qed

definition sample_iban :: string where
  "sample_iban = ''GB82 WEST 1234 5698 7654 3''"

lemma sample_iban_valid: "isValidIban (sample_iban @ CHR ''2'' # [])"
proof -
  have iban: "toUpper (stripSpaces (sample_iban @ CHR ''2'' # [])) = ''GB82WEST12345698765432''" by code_simp
  have shape: "iban_shape ''GB82WEST12345698765432''" by code_simp
  have known: "map_of IBAN_LENGTHS (take 2 ''GB82WEST12345698765432'') = Some 22" by code_simp
  have numeric: "concat (map iban_digits (drop 4 ''GB82WEST12345698765432'' @ take 4 ''GB82WEST12345698765432''))
      = ''3214282912345698765432161182''" by code_simp
  have "all_digits ''3214282912345698765432161182''" by code_simp
  then have "mod97 ''3214282912345698765432161182'' = 1"
    by (simp add: mod97_digits) (simp add: digits_val_def digit_val_def code_of_def)
  then show ?thesis
    unfolding isValidIban_def Let_def iban known numeric using shape by simp
qed

theorem iban_detects_wrong_digit_witness:
  "isValidIban (sample_iban @ CHR ''2'' # []) \<and> \<not> isValidIban (sample_iban @ CHR ''7'' # [])"
proof -
  have good: "isValidIban (sample_iban @ CHR ''2'' # [])" by (rule sample_iban_valid)
  have "is_digit (CHR ''2'')" "is_digit (CHR ''7'')" "CHR ''2'' \<noteq> CHR ''7''" by code_simp+
  from iban_detects_wrong_digit[OF good this] good show ?thesis by (rule conjI[rotated])
qed

subsection \<open>The rules\<close>

text \<open>What the table of rules says, without the table.\<close>

definition rule_of :: "string \<Rightarrow> string \<Rightarrow> string option \<Rightarrow> string \<Rightarrow> bool" where
  "rule_of ty country code =
     (if ty = ''BANK'' then
        (if country = ''CR'' then (if code = Some ''BAC_CR'' then isValidBacCredomaticAccount else isValidCostaRicanBankAccount)
         else if country = ''PA'' then (\<lambda>v. isValidIban v \<or> isValidBankAccount v)
         else isValidBankAccount)
      else if ty = ''PLATFORM'' then (if country = ''BR'' then isValidPixKey else isValidEmail)
      else if ty = ''MOBILE'' then
        (if country = ''CR'' then isValidCostaRicanPhone
         else if country = ''VE'' then isValidVenezuelanPhone else defaultValidator)
      else defaultValidator)"

definition rule_key :: "string \<Rightarrow> string \<Rightarrow> string option \<Rightarrow> string" where
  "rule_key ty country code = ty @ CHR '':'' # country @ (case code of None \<Rightarrow> [] | Some c \<Rightarrow> CHR '':'' # c)"

lemma colon_split: "CHR '':'' \<notin> set a \<Longrightarrow> CHR '':'' \<notin> set b \<Longrightarrow> a @ CHR '':'' # x = b @ CHR '':'' # y \<longleftrightarrow> a = b \<and> x = y"
proof (induction a arbitrary: b)
  case Nil
  then show ?case by (cases b) auto
next
  case (Cons c a)
  then show ?case by (cases b) auto
qed

lemma colon_rest: "CHR '':'' \<notin> set a \<Longrightarrow> CHR '':'' \<notin> set b \<Longrightarrow>
    a @ (case x of None \<Rightarrow> [] | Some c \<Rightarrow> CHR '':'' # c) = b @ (case y of None \<Rightarrow> [] | Some c \<Rightarrow> CHR '':'' # c) \<longleftrightarrow> a = b \<and> x = y"
  by (cases x; cases y) (auto simp: colon_split)

lemma rule_key_eq:
  assumes "CHR '':'' \<notin> set ty" "CHR '':'' \<notin> set ty'" "CHR '':'' \<notin> set country" "CHR '':'' \<notin> set country'"
  shows "rule_key ty country code = rule_key ty' country' code' \<longleftrightarrow> ty = ty' \<and> country = country' \<and> code = code'"
  using assms by (auto simp: rule_key_def colon_split colon_rest)


lemma initialRules_keys:
  "initialRules = [rule_key ''MOBILE'' ''CR'' None \<mapsto> isValidCostaRicanPhone,
     rule_key ''MOBILE'' ''VE'' None \<mapsto> isValidVenezuelanPhone,
     rule_key ''PLATFORM'' ''GLOBAL'' None \<mapsto> isValidEmail,
     rule_key ''PLATFORM'' ''BR'' None \<mapsto> isValidPixKey,
     rule_key ''BANK'' ''GLOBAL'' None \<mapsto> isValidBankAccount,
     rule_key ''BANK'' ''PA'' None \<mapsto> (\<lambda>v. isValidIban v \<or> isValidBankAccount v),
     rule_key ''BANK'' ''CR'' None \<mapsto> isValidCostaRicanBankAccount,
     rule_key ''BANK'' ''CR'' (Some ''BAC_CR'') \<mapsto> isValidBacCredomaticAccount]"
proof -
  have k: "toMapKey t c k = rule_key (normalizeType t) (normalizeCountryCode (Some c)) k" for t c k
    by (simp add: toMapKey_def rule_key_def)
  have n: "normalizeType ''MOBILE'' = ''MOBILE''" "normalizeType ''PLATFORM'' = ''PLATFORM''"
    "normalizeType ''BANK'' = ''BANK''" "normalizeCountryCode (Some ''CR'') = ''CR''"
    "normalizeCountryCode (Some ''VE'') = ''VE''" "normalizeCountryCode (Some ''BR'') = ''BR''"
    "normalizeCountryCode (Some ''PA'') = ''PA''" "normalizeCountryCode (Some []) = ''GLOBAL''"
    "normalizeCode None = None" "normalizeCode (Some ''BAC_CR'') = Some ''BAC_CR''"
    by code_simp+
  show ?thesis by (simp only: initialRules_def registerValidator_def k n)
qed

text \<open>The kinds of a provider, as the lookup sees them.\<close>

lemma initialRules_at:
  assumes "CHR '':'' \<notin> set ty" "CHR '':'' \<notin> set country"
  shows "initialRules (rule_key ty country code) =
    (if ty = ''BANK'' \<and> country = ''CR'' \<and> code = Some ''BAC_CR'' then Some isValidBacCredomaticAccount
     else if ty = ''BANK'' \<and> country = ''CR'' \<and> code = None then Some isValidCostaRicanBankAccount
     else if ty = ''BANK'' \<and> country = ''PA'' \<and> code = None then Some (\<lambda>v. isValidIban v \<or> isValidBankAccount v)
     else if ty = ''BANK'' \<and> country = ''GLOBAL'' \<and> code = None then Some isValidBankAccount
     else if ty = ''PLATFORM'' \<and> country = ''BR'' \<and> code = None then Some isValidPixKey
     else if ty = ''PLATFORM'' \<and> country = ''GLOBAL'' \<and> code = None then Some isValidEmail
     else if ty = ''MOBILE'' \<and> country = ''VE'' \<and> code = None then Some isValidVenezuelanPhone
     else if ty = ''MOBILE'' \<and> country = ''CR'' \<and> code = None then Some isValidCostaRicanPhone
     else None)"
proof -
  have key: "rule_key ty country code = rule_key t c k \<longleftrightarrow> ty = t \<and> country = c \<and> code = k"
    if "CHR '':'' \<notin> set t" "CHR '':'' \<notin> set c" for t c k
    by (rule rule_key_eq[OF assms(1) that(1) assms(2) that(2)])
  have plain: "CHR '':'' \<notin> set ''BANK''" "CHR '':'' \<notin> set ''PLATFORM''" "CHR '':'' \<notin> set ''MOBILE''"
    "CHR '':'' \<notin> set ''CR''" "CHR '':'' \<notin> set ''PA''" "CHR '':'' \<notin> set ''GLOBAL''" "CHR '':'' \<notin> set ''BR''"
    "CHR '':'' \<notin> set ''VE''" by simp_all
  show ?thesis
    unfolding initialRules_keys fun_upd_apply
    by (simp only: key[OF plain(1) plain(4)] key[OF plain(1) plain(5)] key[OF plain(1) plain(6)]
        key[OF plain(2) plain(6)] key[OF plain(2) plain(7)] key[OF plain(3) plain(4)] key[OF plain(3) plain(8)])
qed


lemma upper_char_simps [simp]: "js_space (upper_char c) = js_space c" "upper_char (upper_char c) = upper_char c"
  "upper_char c = CHR '':'' \<longleftrightarrow> c = CHR '':''"
proof -
  have u: "code_of (upper_char c) = (if is_lower c then code_of c - 32 else code_of c)"
    using nat_of_char_less_256[of c] by (simp add: upper_char_def code_of_def less_imp_diff_less)
  then show "js_space (upper_char c) = js_space c" by (auto simp: js_space_def is_lower_def split: if_splits)
  have "\<not> is_lower (upper_char c)" using u by (auto simp: is_lower_def split: if_splits)
  then show "upper_char (upper_char c) = upper_char c" by (simp add: upper_char_def[of "upper_char c"])
  show "upper_char c = CHR '':'' \<longleftrightarrow> c = CHR '':''"
  proof
    assume a: "upper_char c = CHR '':''"
    have "code_of (CHR '':'') = 58" by code_simp
    with a u have "\<not> is_lower c" by (auto simp: is_lower_def split: if_splits)
    with a show "c = CHR '':''" by (simp add: upper_char_def)
  next
    have "\<not> is_lower (CHR '':'')" by code_simp
    then show "c = CHR '':'' \<Longrightarrow> upper_char c = CHR '':''" by (simp add: upper_char_def)
  qed
qed

lemma trim_toUpper: "trim (toUpper s) = toUpper (trim s)"
  by (simp add: trim_def toUpper_def dropWhile_map comp_def rev_map)

lemma toUpper_idem: "toUpper (toUpper s) = toUpper s"
  by (simp add: toUpper_def)

lemma toUpper_Nil [simp]: "toUpper s = [] \<longleftrightarrow> s = []"
  by (simp add: toUpper_def)

lemma set_trim: "set (trim s) \<subseteq> set s"
  by (auto simp: trim_def dest!: set_dropWhileD)

lemma colon_toUpper_trim: "CHR '':'' \<notin> set s \<Longrightarrow> CHR '':'' \<notin> set (toUpper (trim s))"
  using set_trim[of s] by (auto simp: toUpper_def eq_commute[of "CHR '':''"])

lemma country_idem: "normalizeCountryCode (Some (normalizeCountryCode c)) = normalizeCountryCode c"
proof -
  have "toUpper (trim GLOBAL_COUNTRY) = GLOBAL_COUNTRY" by code_simp
  then show ?thesis
    by (simp add: normalizeCountryCode_def Let_def trim_toUpper toUpper_idem trim_idem)
qed

text \<open>
  C35.  The rules of the engine.  For a provider with a type, an identifier is valid exactly when it
  satisfies the rule its type, country and code call for: the code decides only between the two
  Costa Rican bank formats, a country without a rule of its own uses the rule of the type, a type
  without rules accepts any non-blank text; case and surrounding spaces do not matter.
\<close>

theorem engine_rules:
  assumes "pi_type p = Some t" "trim t \<noteq> []" "CHR '':'' \<notin> set t" "CHR '':'' \<notin> set (get_or (pi_countryCode p) [])"
  shows "isValid initialRules p account =
    rule_of (toUpper (trim t)) (normalizeCountryCode (pi_countryCode p)) (normalizeCode (pi_code p)) account"
proof -
  let ?T = "toUpper (trim t)" and ?C = "normalizeCountryCode (pi_countryCode p)"
  have global: "CHR '':'' \<notin> set GLOBAL_COUNTRY" "normalizeCountryCode (Some GLOBAL_COUNTRY) = GLOBAL_COUNTRY" by code_simp+
  have plain: "CHR '':'' \<notin> set ?T" "CHR '':'' \<notin> set ?C"
    using assms(3,4) global by (auto simp: colon_toUpper_trim normalizeCountryCode_def Let_def)
  have key: "toMapKey (trim t) c k = rule_key ?T (normalizeCountryCode (Some c)) k" for c k
    by (simp add: toMapKey_def rule_key_def normalizeType_def trim_idem)
  have "resolveValidator initialRules p =
      (case (case normalizeCode (pi_code p) of None \<Rightarrow> None | Some c \<Rightarrow> initialRules (rule_key ?T ?C (Some c))) of
         Some f \<Rightarrow> Some f
       | None \<Rightarrow> (case initialRules (rule_key ?T ?C None) of Some f \<Rightarrow> Some f
          | None \<Rightarrow> initialRules (rule_key ?T GLOBAL_COUNTRY None)))"
    using assms(1,2) by (simp add: resolveValidator_def Let_def key country_idem global cong: option.case_cong)
  then show ?thesis
    unfolding isValid_def initialRules_at[OF plain] initialRules_at[OF plain(1) global(1)]
    by (cases "normalizeCode (pi_code p)") (simp_all add: rule_of_def GLOBAL_COUNTRY_def split: if_splits)
qed


definition sample_provider :: provider_info where
  "sample_provider = \<lparr> pi_type = Some '' bank'', pi_countryCode = Some ''cr '', pi_code = None \<rparr>"

theorem engine_rules_witness:
  "isValid initialRules sample_provider ''123-456789-012'' = isValidCostaRicanBankAccount ''123-456789-012''"
proof -
  have provider: "pi_type sample_provider = Some '' bank''" "trim '' bank'' \<noteq> []" "CHR '':'' \<notin> set '' bank''"
    "CHR '':'' \<notin> set (get_or (pi_countryCode sample_provider) [])" by code_simp+
  have "toUpper (trim '' bank'') = ''BANK''" "normalizeCountryCode (pi_countryCode sample_provider) = ''CR''"
    "normalizeCode (pi_code sample_provider) = None" by code_simp+
  then show ?thesis using engine_rules[OF provider] by (simp add: rule_of_def)
qed

subsection \<open>Brazilian numbers\<close>

text \<open>
  Mobile numbers of the area code 55 are lost.  A national mobile number (area code, 9, eight
  digits) is accepted exactly when its area code is not 55; with the country code in front it is
  accepted in every area code.  The prefix 55 is taken for the country code either way.
\<close>

theorem brazilian_area_code_55:
  assumes "is_digit a" "is_digit b" "a \<noteq> CHR ''0''" "digit_block 8 s"
  shows "(isValidBrazilianPhone (a # b # CHR ''9'' # s) \<longleftrightarrow> \<not> (a = CHR ''5'' \<and> b = CHR ''5'')) \<and>
    isValidBrazilianPhone (CHR ''5'' # CHR ''5'' # a # b # CHR ''9'' # s)"
proof -
  have d: "is_digit (CHR ''9'')" "is_digit (CHR ''5'')" "CHR ''9'' \<noteq> CHR ''0''" by code_simp+
  have digits: "stripNonDigits (a # b # CHR ''9'' # s) = a # b # CHR ''9'' # s"
    "stripNonDigits (CHR ''5'' # CHR ''5'' # a # b # CHR ''9'' # s) = CHR ''5'' # CHR ''5'' # a # b # CHR ''9'' # s"
    using assms d by (simp_all add: stripNonDigits_def digit_block_def all_digits_def filter_id_conv list_all_iff)
  have "isValidBrazilianPhone (a # b # CHR ''9'' # s) \<longleftrightarrow> \<not> (a = CHR ''5'' \<and> b = CHR ''5'')"
    using assms d by (auto simp: isValidBrazilianPhone_def digits Let_def starts_with_def digit_block_def)
  moreover have "isValidBrazilianPhone (CHR ''5'' # CHR ''5'' # a # b # CHR ''9'' # s)"
    using assms d by (simp add: isValidBrazilianPhone_def digits Let_def starts_with_def digit_block_def)
  ultimately show ?thesis by blast
qed

theorem brazilian_area_code_55_witness:
  "isValidBrazilianPhone ''11987654321'' \<and> \<not> isValidBrazilianPhone ''55987654321''"
proof -
  have d: "is_digit (CHR ''1'')" "is_digit (CHR ''5'')" "CHR ''1'' \<noteq> CHR ''0''" "CHR ''5'' \<noteq> CHR ''0''"
    "digit_block 8 ''87654321''" by code_simp+
  show ?thesis
    using brazilian_area_code_55[OF d(1) d(1) d(3) d(5)] brazilian_area_code_55[OF d(2) d(2) d(4) d(5)] by simp
qed

end
