(* ===== verification/PaymentMethods.thy ===== *)
theory PaymentMethods
  imports AuditLog PaymentValidators
begin

text \<open>
  Payment methods: \<open>PaymentMethodsService\<close> and its repository
  (\<open>src/modules/payment-methods\<close>), and the catalogue of \<open>PaymentProvidersController\<close>.  The
  invariant \<open>methods_valid\<close> says that every stored method satisfies the rule of its provider.
\<close>

subsection \<open>Data\<close>

record CreatePaymentMethodDto =
  cm_userId :: string
  cm_providerId :: string
  cm_accountIdentifier :: string
  cm_identificationNumber :: "string option"
  cm_beneficiaryName :: "string option"
  cm_description :: "string option"

text \<open>
  In an update every field may be absent (\<open>None\<close>) or null (\<open>Some None\<close>); \<open>userId\<close> is accepted and
  not used.
\<close>

record UpdatePaymentMethodDto =
  um_userId :: "string option option"
  um_providerId :: "string option option"
  um_accountIdentifier :: "string option option"
  um_identificationNumber :: "string option option"
  um_beneficiaryName :: "string option option"
  um_description :: "string option option"

text \<open>\<open>dto.field ?? existing.field\<close>.\<close>

definition given :: "'a option option \<Rightarrow> 'a \<Rightarrow> 'a" where
  "given x d = (case x of Some (Some a) \<Rightarrow> a | _ \<Rightarrow> d)"

primrec type_name :: "payment_provider_type \<Rightarrow> string" where
  "type_name PT_MOBILE = ''MOBILE''"
| "type_name PT_PLATFORM = ''PLATFORM''"
| "type_name PT_BANK = ''BANK''"

subsection \<open>The provider, as the validation engine sees it\<close>

text \<open>
  \<open>provider.metadata?.code\<close>: the metadata is any JSON value.  A code that is neither null nor a
  text has no \<open>trim\<close>, so that the engine throws a \<open>TypeError\<close>.
\<close>

definition metadata_code :: "json option \<Rightarrow> exn + string option" where
  "metadata_code meta =
     (case (case meta of None \<Rightarrow> None | Some j \<Rightarrow> jfield j ''code'') of
        None \<Rightarrow> Inr None
      | Some JNull \<Rightarrow> Inr None
      | Some (JStr s) \<Rightarrow> Inr (Some s)
      | Some _ \<Rightarrow> Inl PlainError)"

definition info_of :: "payment_provider \<Rightarrow> string option \<Rightarrow> provider_info" where
  "info_of p code = \<lparr> pi_type = Some (type_name (pp_type p)), pi_countryCode = pp_country_code p, pi_code = code \<rparr>"

definition validateFor :: "rules \<Rightarrow> payment_provider \<Rightarrow> string \<Rightarrow> exn + bool" where
  "validateFor rs p account =
     (case metadata_code (pp_metadata p) of Inl e \<Rightarrow> Inl e | Inr code \<Rightarrow> validate rs (info_of p code) account)"

subsection \<open>The service\<close>

definition method_row :: "CreatePaymentMethodDto \<Rightarrow> payment_provider \<Rightarrow> string \<Rightarrow> int \<Rightarrow> payment_method" where
  "method_row dto p i now = \<lparr> m_paymentId = i, m_userId = cm_userId dto, m_providerId = cm_providerId dto,
     m_type = pp_type p, m_accountIdentifier = cm_accountIdentifier dto,
     m_beneficiaryName = cm_beneficiaryName dto, m_identificationNumber = cm_identificationNumber dto,
     m_description = cm_description dto, m_isActive = True, m_createdAt = now, m_updatedAt = now \<rparr>"

definition method_audit :: "AuditAction \<Rightarrow> string \<Rightarrow> string \<Rightarrow> CreateAuditLogInput" where
  "method_audit act userId i = (audit_input act ''PaymentMethod'' SUCCESS)
     \<lparr>ai_userId := Some userId, ai_resourceId := Some i\<rparr>"

definition payment_create :: "rules \<Rightarrow> CreatePaymentMethodDto \<Rightarrow> ('z, payment_method) act" where
  "payment_create rs dto =
     bindE (findUnique provider_table (\<lambda>p. pp_provider_id p = cm_providerId dto)) (\<lambda>provider. case provider of
       None \<Rightarrow> throw (appExc PAYMENT_PROVIDER_NOT_FOUND)
     | Some p \<Rightarrow>
         andThen (lift (validateFor rs p (cm_accountIdentifier dto)))
         (bindE newUuid (\<lambda>i. bindE (getState clock) (\<lambda>now.
          bindE (base_create pmethod_table (method_row dto p i now)) (\<lambda>created.
          andThen (audit_create (method_audit PAYMENT_METHOD_CREATED (cm_userId dto) (m_paymentId created)))
            (ret created))))))"

definition payment_list :: "nat option \<Rightarrow> nat option \<Rightarrow> ('z, payment_method list) act" where
  "payment_list sk tk = base_findMany pmethod_table
     \<lparr> fm_skip = sk, fm_take = tk, fm_where = (\<lambda>_. True), fm_orderBy = id, fm_include = False, fm_select = False \<rparr>"

definition payment_get :: "string \<Rightarrow> ('z, payment_method) act" where
  "payment_get i = bindE (base_findById pmethod_table i)
     (\<lambda>item. case item of None \<Rightarrow> throw (appExc PAYMENT_METHOD_NOT_FOUND) | Some m \<Rightarrow> ret m)"

definition method_patch ::
    "UpdatePaymentMethodDto \<Rightarrow> string \<Rightarrow> payment_provider \<Rightarrow> string \<Rightarrow> payment_method \<Rightarrow> payment_method" where
  "method_patch dto providerId p account m = m\<lparr>m_providerId := providerId, m_type := pp_type p,
     m_accountIdentifier := account,
     m_identificationNumber := get_or (um_identificationNumber dto) (m_identificationNumber m),
     m_beneficiaryName := get_or (um_beneficiaryName dto) (m_beneficiaryName m),
     m_description := get_or (um_description dto) (m_description m)\<rparr>"

definition payment_update :: "rules \<Rightarrow> string \<Rightarrow> UpdatePaymentMethodDto \<Rightarrow> ('z, payment_method) act" where
  "payment_update rs i dto =
     bindE (base_findById pmethod_table i) (\<lambda>existing. case existing of
       None \<Rightarrow> throw (appExc PAYMENT_METHOD_NOT_FOUND)
     | Some m \<Rightarrow>
         let providerId = given (um_providerId dto) (m_providerId m);
             account = given (um_accountIdentifier dto) (m_accountIdentifier m)
         in bindE (findUnique provider_table (\<lambda>p. pp_provider_id p = providerId)) (\<lambda>provider. case provider of
              None \<Rightarrow> throw (appExc PAYMENT_PROVIDER_NOT_FOUND)
            | Some p \<Rightarrow>
                andThen (lift (validateFor rs p account))
                (bindE (base_update pmethod_table i (method_patch dto providerId p account)) (\<lambda>updated.
                 andThen (audit_create (method_audit PAYMENT_METHOD_UPDATED (m_userId updated) i))
                   (ret updated)))))"

definition payment_remove :: "string \<Rightarrow> ('z, payment_method) act" where
  "payment_remove i =
     bindE (base_delete pmethod_table i) (\<lambda>removed.
     andThen (audit_create (method_audit PAYMENT_METHOD_DELETED (m_userId removed) i))
       (ret removed))"

subsection \<open>The invariant\<close>

definition valid_method :: "rules \<Rightarrow> payment_provider list \<Rightarrow> payment_method \<Rightarrow> bool" where
  "valid_method rs ps m \<longleftrightarrow> (\<exists>p \<in> set ps. pp_provider_id p = m_providerId m \<and>
     pp_type p = m_type m \<and> validateFor rs p (m_accountIdentifier m) = Inr True)"

definition methods_valid :: "rules \<Rightarrow> db \<Rightarrow> bool" where
  "methods_valid rs d \<longleftrightarrow> (\<forall>m \<in> set (pmethods d). valid_method rs (providers d) m)"

lemma methods_valid_cong:
  "pmethods d' = pmethods d \<Longrightarrow> providers d' = providers d \<Longrightarrow> methods_valid rs d' = methods_valid rs d"
  by (simp add: methods_valid_def)

lemma methods_valid_audited [simp]: "methods_valid rs (tables (audited inp s)) = methods_valid rs (tables s)"
  by (rule methods_valid_cong) simp_all

lemma methods_valid_put [simp]:
  "methods_valid rs (d\<lparr>pmethods := ms\<rparr>) \<longleftrightarrow> (\<forall>m \<in> set ms. valid_method rs (providers d) m)"
  by (simp add: methods_valid_def)

lemma methods_validD: "methods_valid rs d \<Longrightarrow> m \<in> set (pmethods d) \<Longrightarrow> valid_method rs (providers d) m"
  by (simp add: methods_valid_def)

lemma validateFor_True: "validateFor rs p account = Inr b \<Longrightarrow> b"
  by (auto simp: validateFor_def validate_def split: sum.splits if_splits)

lemma valid_methodI:
  assumes "List.find (\<lambda>p. pp_provider_id p = pid) ps = Some p" "validateFor rs p account = Inr b"
    and "m_providerId m = pid" "m_type m = pp_type p" "m_accountIdentifier m = account"
  shows "valid_method rs ps m"
  using find_SomeD[OF assms(1)] assms(2-) validateFor_True[OF assms(2)] by (auto simp: valid_method_def)

lemma method_fields [simp]:
  "m_providerId (method_row dto p i now) = cm_providerId dto" "m_type (method_row dto p i now) = pp_type p"
  "m_accountIdentifier (method_row dto p i now) = cm_accountIdentifier dto"
  "m_userId (method_row dto p i now) = cm_userId dto" "m_paymentId (method_row dto p i now) = i"
  "m_providerId (method_patch d pid p a m) = pid" "m_type (method_patch d pid p a m) = pp_type p"
  "m_accountIdentifier (method_patch d pid p a m) = a" "m_userId (method_patch d pid p a m) = m_userId m"
  "m_paymentId (method_patch d pid p a m) = m_paymentId m"
  by (simp_all add: method_row_def method_patch_def)

lemma valid_method_row:
  "List.find (\<lambda>p. pp_provider_id p = cm_providerId dto) ps = Some p \<Longrightarrow>
   validateFor rs p (cm_accountIdentifier dto) = Inr b \<Longrightarrow> valid_method rs ps (method_row dto p i now)"
  by (rule valid_methodI) simp_all

lemma valid_method_patch:
  "List.find (\<lambda>p. pp_provider_id p = pid) ps = Some p \<Longrightarrow> validateFor rs p a = Inr b \<Longrightarrow>
   valid_method rs ps (method_patch dto pid p a m)"
  by (rule valid_methodI) simp_all

lemma payment_create_post:
  "methods_valid rs (tables s) \<Longrightarrow>
   wp (payment_create rs dto)
     (\<lambda>m t. methods_valid rs (tables t) \<and> pmethods (tables t) = pmethods (tables s) @ [m] \<and>
        m_userId m = cm_userId dto \<and> m_accountIdentifier m = cm_accountIdentifier dto)
     (\<lambda>_ t. methods_valid rs (tables t) \<and> pmethods (tables t) = pmethods (tables s)) s"
  unfolding payment_create_def base_create_def
  by (auto simp: prog wp_any dest: methods_validD intro!: db_anyI
      intro: valid_method_row valid_method_patch split: option.split sum.split)

lemma payment_update_post:
  "methods_valid rs (tables s) \<Longrightarrow>
   wp (payment_update rs i dto)
     (\<lambda>m t. methods_valid rs (tables t) \<and> map m_paymentId (pmethods (tables t)) = map m_paymentId (pmethods (tables s)) \<and>
        map m_userId (pmethods (tables t)) = map m_userId (pmethods (tables s)) \<and> m_paymentId m = i)
     (\<lambda>_ t. methods_valid rs (tables t) \<and> pmethods (tables t) = pmethods (tables s)) s"
  unfolding payment_update_def base_update_def base_findById_def Let_def
  by (auto simp: prog wp_any dest: methods_validD find_SomeD intro!: db_anyI
      intro: valid_method_row valid_method_patch split: option.split sum.split)

lemma payment_remove_post:
  "methods_valid rs (tables s) \<Longrightarrow>
   wp (payment_remove i)
     (\<lambda>m t. methods_valid rs (tables t) \<and> m_paymentId m = i \<and>
        pmethods (tables t) = filter (\<lambda>x. m_paymentId x \<noteq> i) (pmethods (tables s)))
     (\<lambda>_ t. methods_valid rs (tables t) \<and> pmethods (tables t) = pmethods (tables s)) s"
  unfolding payment_remove_def base_delete_def
  by (auto simp: prog wp_any pmethod_table_def methods_valid_def dest: find_SomeD intro!: db_anyI
      split: option.split sum.split)

end
