(* ===== verification/Users.thy ===== *)
theory Users
  imports PaymentMethods Guards FileStorage
begin

text \<open>
  Users: \<open>UsersService\<close>, \<open>UsersRepository\<close> and the checks of \<open>UsersController\<close> (\<open>src/modules/users\<close>):
  accounts by wallet, the waitlist, profile changes and setup, the profile picture, the export
  and the erasure of personal data.
\<close>

subsection \<open>Data\<close>

primrec kyc_name :: "kyc_status \<Rightarrow> string" where
  "kyc_name KS_pending = ''pending''"
| "kyc_name KS_approved = ''approved''"
| "kyc_name KS_rejected = ''rejected''"
| "kyc_name KS_not_started = ''not_started''"
| "kyc_name KS_in_progress = ''in_progress''"
| "kyc_name KS_in_review = ''in_review''"
| "kyc_name KS_expired = ''expired''"
| "kyc_name KS_kyc_expired = ''kyc_expired''"
| "kyc_name KS_abandoned = ''abandoned''"
| "kyc_name KS_resubmitted = ''resubmitted''"

definition kyc_of :: "string \<Rightarrow> kyc_status option" where
  "kyc_of s = List.find (\<lambda>k. kyc_name k = s) [KS_pending, KS_approved, KS_rejected, KS_not_started,
     KS_in_progress, KS_in_review, KS_expired, KS_kyc_expired, KS_abandoned, KS_resubmitted]"

text \<open>A field of an update is absent (\<open>None\<close>), null (\<open>Some None\<close>) or a value.\<close>

record UpdateUserDto =
  uu_alias :: "string option option"
  uu_username :: "string option option"
  uu_email :: "string option option"
  uu_notificationsEnabled :: "bool option option"
  uu_preferredCurrency :: "string option option"
  uu_pendingAccountInfo :: "bool option option"
  uu_kycStatus :: "string option option"
  uu_bio :: "string option option"
  uu_securityUpdates :: "bool option option"

record SetupAccountDto =
  su_alias :: "string option option"
  su_username :: "string option option"
  su_email :: "string option option"
  su_notificationsEnabled :: "bool option option"
  su_preferredCurrency :: "string option option"
  su_bankName :: "string option"
  su_accountHolderName :: "string option"
  su_accountNumber :: "string option"
  su_providerId :: "string option"
  su_accountIdentifier :: "string option"
  su_identificationNumber :: "string option"
  su_beneficiaryName :: "string option"
  su_description :: "string option"

record CreateUserDto =
  cu_publicKey :: string
  cu_alias :: "string option"
  cu_username :: "string option"
  cu_kycStatus :: "string option option"
  cu_currentNonce :: "string option"

text \<open>\<open>USER_PUBLIC_SELECT\<close>.\<close>

record PublicUser =
  pu_userId :: string
  pu_publicKey :: string
  pu_alias :: "string option"
  pu_username :: "string option"
  pu_kycStatus :: kyc_status
  pu_role :: app_role
  pu_kycUpdatedAt :: "int option"
  pu_totalVolume :: amount
  pu_createdAt :: int
  pu_email :: "string option"
  pu_profileImageUrl :: "string option"
  pu_notificationsEnabled :: bool
  pu_pendingAccountInfo :: bool
  pu_preferredCurrency :: "string option"
  pu_bio :: "string option"
  pu_securityUpdates :: bool

definition public_user :: "user \<Rightarrow> PublicUser" where
  "public_user u = \<lparr> pu_userId = u_userId u, pu_publicKey = u_publicKey u, pu_alias = u_alias u,
     pu_username = u_username u, pu_kycStatus = u_kycStatus u, pu_role = u_role u,
     pu_kycUpdatedAt = u_kycUpdatedAt u, pu_totalVolume = u_totalVolume u, pu_createdAt = u_createdAt u,
     pu_email = u_email u, pu_profileImageUrl = u_profileImageUrl u,
     pu_notificationsEnabled = u_notificationsEnabled u, pu_pendingAccountInfo = u_pendingAccountInfo u,
     pu_preferredCurrency = u_preferredCurrency u, pu_bio = u_bio u, pu_securityUpdates = u_securityUpdates u \<rparr>"

text \<open>An account with its payment methods and their providers, when they were included.\<close>

record account =
  at_user :: user
  at_methods :: "(payment_method \<times> payment_provider option) list option"

definition account_of :: "db \<Rightarrow> user \<Rightarrow> account" where
  "account_of d u = \<lparr> at_user = u, at_methods = Some
     (map (\<lambda>m. (m, List.find (\<lambda>p. pp_provider_id p = m_providerId m) (providers d)))
        (filter (\<lambda>m. m_userId m = u_userId u) (pmethods d))) \<rparr>"

record user_export =
  ex_user :: user
  ex_paymentMethods :: "payment_method list"
  ex_auditLogs :: "audit_log list"
  ex_offers :: "offer list"
  ex_buyOrders :: "order list"
  ex_sellOrders :: "order list"
  ex_chatMessages :: "chat_message list"

definition export_of :: "db \<Rightarrow> user \<Rightarrow> user_export" where
  "export_of d u = \<lparr> ex_user = u,
     ex_paymentMethods = filter (\<lambda>m. m_userId m = u_userId u) (pmethods d),
     ex_auditLogs = filter (\<lambda>a. a_userId a = Some (u_userId u)) (audits d),
     ex_offers = filter (\<lambda>f. f_creatorId f = u_userId u) (offers d),
     ex_buyOrders = filter (\<lambda>x. o_buyerId x = u_userId u) (orders d),
     ex_sellOrders = filter (\<lambda>x. o_sellerId x = u_userId u) (orders d),
     ex_chatMessages = filter (\<lambda>c. c_senderId c = u_userId u) (chats d) \<rparr>"

subsection \<open>The repository\<close>

definition findByPublicKey :: "string \<Rightarrow> ('z, account option) act" where
  "findByPublicKey pk = db_call (getState (\<lambda>s.
     map_option (account_of (tables s)) (List.find (\<lambda>u. u_publicKey u = pk) (users (tables s)))))"

definition findByAlias :: "string \<Rightarrow> ('z, user option) act" where
  "findByAlias alias = findUnique user_table (\<lambda>u. u_alias u = Some alias)"

definition findOrCreateByPublicKey :: "string \<Rightarrow> ('z, account) act" where
  "findOrCreateByPublicKey pk = bindE (findByPublicKey pk) (\<lambda>existing. case existing of
       Some a \<Rightarrow> ret a
     | None \<Rightarrow> bindE newUuid (\<lambda>i. bindE (getState clock) (\<lambda>now.
         bindE (base_create user_table ((new_user i pk now)\<lparr>u_pendingAccountInfo := True\<rparr>))
           (\<lambda>u. ret \<lparr> at_user = u, at_methods = None \<rparr>))))"

definition repo_isAliasAvailable :: "string \<Rightarrow> ('z, bool) act" where
  "repo_isAliasAvailable alias =
     bindE (findUnique user_table (\<lambda>u. u_alias u = Some alias)) (\<lambda>found. ret (found = None))"

definition findExportData :: "string \<Rightarrow> ('z, user_export option) act" where
  "findExportData i = db_call (getState (\<lambda>s.
     map_option (export_of (tables s)) (List.find (\<lambda>u. u_userId u = i) (users (tables s)))))"

subsection \<open>Accounts and the waitlist\<close>

text \<open>A missing query parameter is an undefined \<open>where\<close>, which Prisma refuses.\<close>

definition getOrCreateAccount :: "string option \<Rightarrow> ('z, account) act" where
  "getOrCreateAccount pk = (case pk of None \<Rightarrow> throw QueryInvalid | Some k \<Rightarrow> findOrCreateByPublicKey k)"

definition earlyRegister :: "string option \<Rightarrow> ('z, waitlist_entry) act" where
  "earlyRegister email =
     (if \<not> truthy email then throw (appExc MISSING_EMAIL)
      else if \<not> email_pattern (the email) then throw (appExc INVALID_EMAIL)
      else bindE newUuid (\<lambda>i. bindE (getState clock) (\<lambda>now.
        upsertUnique waitlist_table (\<lambda>w. wl_email w = the email)
          \<lparr> wl_id = i, wl_email = the email, wl_createdAt = now \<rparr> id)))"

definition isAliasAvailable :: "string \<Rightarrow> ('z, bool) act" where
  "isAliasAvailable alias = repo_isAliasAvailable alias"

subsection \<open>Profile data\<close>

text \<open>What Prisma refuses: null for a column that is not nullable, a text that is no KYC status.\<close>

definition refused_data :: "UpdateUserDto \<Rightarrow> bool" where
  "refused_data dto \<longleftrightarrow> uu_notificationsEnabled dto = Some None \<or> uu_pendingAccountInfo dto = Some None \<or>
     uu_securityUpdates dto = Some None \<or>
     (case uu_kycStatus dto of None \<Rightarrow> False | Some None \<Rightarrow> True | Some (Some k) \<Rightarrow> kyc_of k = None)"

definition profile_patch :: "UpdateUserDto \<Rightarrow> int option \<Rightarrow> user \<Rightarrow> user" where
  "profile_patch dto kycUpdatedAt u = u\<lparr>u_alias := get_or (uu_alias dto) (u_alias u),
     u_username := get_or (uu_username dto) (u_username u),
     u_email := get_or (uu_email dto) (u_email u),
     u_notificationsEnabled := given (uu_notificationsEnabled dto) (u_notificationsEnabled u),
     u_preferredCurrency := get_or (uu_preferredCurrency dto) (u_preferredCurrency u),
     u_pendingAccountInfo := given (uu_pendingAccountInfo dto) (u_pendingAccountInfo u),
     u_kycStatus := (case uu_kycStatus dto of Some (Some k) \<Rightarrow> get_or (kyc_of k) (u_kycStatus u) | _ \<Rightarrow> u_kycStatus u),
     u_bio := get_or (uu_bio dto) (u_bio u),
     u_securityUpdates := given (uu_securityUpdates dto) (u_securityUpdates u),
     u_kycUpdatedAt := (case kycUpdatedAt of None \<Rightarrow> u_kycUpdatedAt u | Some t \<Rightarrow> Some t)\<rparr>"

definition user_repo_update :: "string \<Rightarrow> UpdateUserDto \<Rightarrow> int option \<Rightarrow> ('z, user) act" where
  "user_repo_update i dto kycUpdatedAt =
     andThen (throwIf (refused_data dto) QueryInvalid) (base_update user_table i (profile_patch dto kycUpdatedAt))"

text \<open>\<open>{ ...profileData, pendingAccountInfo: false }\<close>.\<close>

definition setup_data :: "SetupAccountDto \<Rightarrow> UpdateUserDto" where
  "setup_data dto = \<lparr> uu_alias = su_alias dto, uu_username = su_username dto, uu_email = su_email dto,
     uu_notificationsEnabled = su_notificationsEnabled dto, uu_preferredCurrency = su_preferredCurrency dto,
     uu_pendingAccountInfo = Some (Some False), uu_kycStatus = None, uu_bio = None, uu_securityUpdates = None \<rparr>"

subsection \<open>The service\<close>

definition setup_method :: "rules \<Rightarrow> string \<Rightarrow> SetupAccountDto \<Rightarrow> ('z, unit) act" where
  "setup_method rs userId dto =
     bindE (findUnique provider_table (\<lambda>p. Some (pp_provider_id p) = su_providerId dto)) (\<lambda>provider. case provider of
       None \<Rightarrow> throw (appExc PAYMENT_PROVIDER_NOT_FOUND)
     | Some p \<Rightarrow>
         andThen (lift (validateFor rs p (the (su_accountIdentifier dto))))
         (bindE newUuid (\<lambda>i. bindE (getState clock) (\<lambda>now.
          andThen (createRow pmethod_table (method_row
              \<lparr> cm_userId = userId, cm_providerId = the (su_providerId dto),
                cm_accountIdentifier = the (su_accountIdentifier dto),
                cm_identificationNumber = su_identificationNumber dto,
                cm_beneficiaryName = su_beneficiaryName dto, cm_description = su_description dto \<rparr> p i now))
            (ret ())))))"

definition setupAccount :: "auth_env \<Rightarrow> rules \<Rightarrow> string \<Rightarrow> SetupAccountDto \<Rightarrow> ('z, user \<times> string) act" where
  "setupAccount env rs userId dto =
     bindE (user_repo_update userId (setup_data dto) None) (\<lambda>updatedUser.
     andThen (if truthy (su_providerId dto) \<and> truthy (su_accountIdentifier dto)
              then setup_method rs userId dto else ret ())
       (ret (updatedUser, finalizeSetup env userId (u_publicKey updatedUser))))"

definition user_create :: "CreateUserDto \<Rightarrow> ('z, user) act" where
  "user_create dto = bindE (findByPublicKey (cu_publicKey dto)) (\<lambda>exists.
     if exists \<noteq> None then throw (appExc USER_ALREADY_EXISTS)
     else andThen (throwIf (case cu_kycStatus dto of None \<Rightarrow> False | Some None \<Rightarrow> True | Some (Some k) \<Rightarrow> kyc_of k = None)
                     QueryInvalid)
       (bindE newUuid (\<lambda>i. bindE (getState clock) (\<lambda>now.
        base_create user_table ((new_user i (cu_publicKey dto) now)\<lparr>u_alias := cu_alias dto,
          u_username := cu_username dto,
          u_kycStatus := (case cu_kycStatus dto of Some (Some k) \<Rightarrow> get_or (kyc_of k) KS_pending | _ \<Rightarrow> KS_pending),
          u_currentNonce := cu_currentNonce dto\<rparr>)))))"

definition user_list :: "nat option \<Rightarrow> nat option \<Rightarrow> ('z, PublicUser list) act" where
  "user_list sk tk = bindE (base_findMany user_table
     \<lparr> fm_skip = sk, fm_take = tk, fm_where = (\<lambda>_. True), fm_orderBy = sort_key (\<lambda>u. - u_createdAt u),
       fm_include = False, fm_select = True \<rparr>) (\<lambda>us. ret (map public_user us))"

definition user_get :: "string \<Rightarrow> ('z, user) act" where
  "user_get i = bindE (base_findById user_table i)
     (\<lambda>item. case item of None \<Rightarrow> throw (appExc USER_NOT_FOUND) | Some u \<Rightarrow> ret u)"

text \<open>The alias checks of an update.\<close>

definition check_alias :: "string \<Rightarrow> string \<Rightarrow> ('z, unit) act" where
  "check_alias i alias = bindE (base_findById user_table i) (\<lambda>user. case user of
       None \<Rightarrow> throw (appExc USER_NOT_FOUND)
     | Some u \<Rightarrow> if u_alias u \<noteq> Some alias
         then bindE (repo_isAliasAvailable alias) (\<lambda>free. throwIf (\<not> free) (appExc ALIAS_TAKEN))
         else ret ())"

definition user_update :: "string \<Rightarrow> UpdateUserDto \<Rightarrow> string option \<Rightarrow> ('z, user) act" where
  "user_update i dto callerUserId =
     andThen (throwIf (truthy callerUserId \<and> callerUserId \<noteq> Some i) (appExc UNAUTHORIZED_ACTION))
     (andThen (case uu_alias dto of Some (Some a) \<Rightarrow> if a \<noteq> [] then check_alias i a else ret () | _ \<Rightarrow> ret ())
     (bindE (getState clock) (\<lambda>now.
        user_repo_update i dto
          (case uu_kycStatus dto of Some (Some k) \<Rightarrow> if k \<noteq> [] then Some now else None | _ \<Rightarrow> None))))"

text \<open>The answer of an upload: the row, or with the mock switch an object built from the snapshot.\<close>

definition indexed :: "json list \<Rightarrow> string \<Rightarrow> json option" where
  "indexed xs = map_of (zip (map (\<lambda>n. show_int (int n)) [0..<length xs]) xs)"

fun spread :: "json option \<Rightarrow> string \<Rightarrow> json option" where
  "spread (Some (JObj kvs)) = map_of kvs"
| "spread (Some (JArr xs)) = indexed xs"
| "spread (Some (JStr s)) = indexed (map (\<lambda>c. JStr [c]) s)"
| "spread _ = Map.empty"

definition uploadProfilePicture ::
    "config \<Rightarrow> gcs_env \<Rightarrow> string \<Rightarrow> UploadFileInput \<Rightarrow> json option \<Rightarrow>
     ('z, user + (string \<Rightarrow> json option)) act" where
  "uploadProfilePicture cfg gcs i file snapshot =
     bindE (getState clock) (\<lambda>now.
     if cfg ''MOCK_PROFILE_UPLOAD'' = Some ''true''
     then bindE (lift (uploadFile gcs cfg now file)) (\<lambda>stored.
            ret (Inr ((spread snapshot)(''userId'' \<mapsto> JStr i, ''profileImageUrl'' \<mapsto> JStr (sf_url stored)))))
     else bindE (base_findById user_table i) (\<lambda>user. case user of
            None \<Rightarrow> throw (appExc USER_NOT_FOUND)
          | Some u \<Rightarrow> bindE (lift (uploadFile gcs cfg now file)) (\<lambda>stored.
              bindE (base_update user_table i (\<lambda>u. u\<lparr>u_profileImageUrl := Some (sf_url stored)\<rparr>))
                (\<lambda>v. ret (Inl v)))))"

definition user_audit :: "AuditAction \<Rightarrow> string \<Rightarrow> CreateAuditLogInput" where
  "user_audit act i = (audit_input act ''User'' SUCCESS)\<lparr>ai_resourceId := Some i\<rparr>"

definition exportUserData :: "string \<Rightarrow> string option \<Rightarrow> ('z, user_export \<times> waitlist_entry option) act" where
  "exportUserData i callerUserId =
     andThen (throwIf (\<not> truthy callerUserId \<or> callerUserId \<noteq> Some i) (appExc UNAUTHORIZED_ACTION))
     (bindE (findExportData i) (\<lambda>user. case user of
        None \<Rightarrow> throw (appExc USER_NOT_FOUND)
      | Some x \<Rightarrow>
          bindE (if truthy (u_email (ex_user x))
                 then findUnique waitlist_table (\<lambda>w. Some (wl_email w) = u_email (ex_user x))
                 else ret None) (\<lambda>wl.
          andThen (audit_create (user_audit USER_DATA_EXPORTED i)) (ret (x, wl)))))"

definition anonymize :: "int \<Rightarrow> user \<Rightarrow> user" where
  "anonymize now u = u\<lparr>u_email := None, u_username := None, u_alias := None, u_bio := None,
     u_profileImageUrl := None, u_currentNonce := None, u_preferredCurrency := None, u_deletedAt := Some now\<rparr>"

text \<open>\<open>deleteMany\<close> on payment methods, with the rows of the join table that name them.\<close>

definition deletePaymentMethods :: "(payment_method \<Rightarrow> bool) \<Rightarrow> ('z, nat) act" where
  "deletePaymentMethods p = db_call (\<lambda>s.
     (Inr (length (filter p (pmethods (tables s)))),
      s\<lparr>tables := (tables s)\<lparr>pmethods := filter (\<lambda>m. \<not> p m) (pmethods (tables s)),
        offer_methods := filter (\<lambda>j. snd j \<notin> m_paymentId ` set (filter p (pmethods (tables s))))
          (offer_methods (tables s))\<rparr>\<rparr>))"

definition remove_tx :: "string \<Rightarrow> ('z, user) act" where
  "remove_tx i =
     bindE (findUnique user_table (\<lambda>u. u_userId u = i)) (\<lambda>user. case user of
       None \<Rightarrow> throw (appExc USER_NOT_FOUND)
     | Some u \<Rightarrow>
         andThen (deletePaymentMethods (\<lambda>m. m_userId m = i))
         (andThen (updateMany chat_table (\<lambda>c. c_senderId c = i) (\<lambda>c. c\<lparr>c_content := ''[deleted]''\<rparr>))
         (andThen (updateMany audit_table (\<lambda>a. a_userId a = Some i) (\<lambda>a. a\<lparr>a_ipAddress := None, a_userAgent := None\<rparr>))
         (andThen (if truthy (u_email u)
                   then andThen (deleteMany waitlist_table (\<lambda>w. Some (wl_email w) = u_email u)) (ret ())
                   else ret ())
         (bindE (getState clock) (\<lambda>now.
            updateUnique user_table (\<lambda>u. u_userId u = i) (anonymize now)))))))"

definition user_remove :: "string \<Rightarrow> string option \<Rightarrow> ('z, user) act" where
  "user_remove i callerUserId =
     andThen (throwIf (\<not> truthy callerUserId \<or> callerUserId \<noteq> Some i) (appExc UNAUTHORIZED_ACTION))
     (bindE (transaction (remove_tx i)) (\<lambda>anonymized.
      andThen (audit_create (user_audit USER_DATA_DELETED i)) (ret anonymized)))"


subsection \<open>The controller\<close>

text \<open>The caller is the user the JWT guard left in the request; \<open>setup\<close> does not look at it.\<close>

definition ctrl_users_setup ::
    "auth_env \<Rightarrow> rules \<Rightarrow> jwt_user \<Rightarrow> string \<Rightarrow> SetupAccountDto \<Rightarrow> ('z, user \<times> string) act" where
  "ctrl_users_setup env rs caller i dto = setupAccount env rs i dto"

definition ctrl_users_update :: "jwt_user \<Rightarrow> string \<Rightarrow> UpdateUserDto \<Rightarrow> ('z, user) act" where
  "ctrl_users_update caller i dto = user_update i dto (ju_userId caller)"

definition ctrl_users_export :: "jwt_user \<Rightarrow> string \<Rightarrow> ('z, user_export \<times> waitlist_entry option) act" where
  "ctrl_users_export caller i = exportUserData i (ju_userId caller)"

definition ctrl_users_remove :: "jwt_user \<Rightarrow> string \<Rightarrow> ('z, user) act" where
  "ctrl_users_remove caller i = user_remove i (ju_userId caller)"

text \<open>The \<open>userSnapshot\<close> field of an upload: empty, JSON, or not JSON.\<close>

datatype snapshot_text = NoText | JsonText json | MalformedText

definition ownAccount :: "jwt_user \<Rightarrow> string \<Rightarrow> ('z, unit) act" where
  "ownAccount caller i =
     (if ju_userId caller = Some i then ret ()
      else if \<not> truthy (ju_publicKey caller) then throw (HttpException 403)
      else bindE (findByPublicKey (the (ju_publicKey caller))) (\<lambda>m.
        throwIf (case m of None \<Rightarrow> True | Some a \<Rightarrow> u_userId (at_user a) \<noteq> i) (HttpException 403)))"

definition allowedMimeTypes :: "string list" where
  "allowedMimeTypes = [''image/jpeg'', ''image/png'', ''image/webp'']"

definition ctrl_users_uploadProfilePicture ::
    "config \<Rightarrow> gcs_env \<Rightarrow> jwt_user \<Rightarrow> string \<Rightarrow> snapshot_text option \<Rightarrow> UploadFileInput option \<Rightarrow>
     ('z, user + (string \<Rightarrow> json option)) act" where
  "ctrl_users_uploadProfilePicture cfg gcs caller i userSnapshot file =
     andThen (ownAccount caller i) (case file of
       None \<Rightarrow> throw (HttpException 400)
     | Some f \<Rightarrow>
         andThen (throwIf (up_mimetype f \<notin> set allowedMimeTypes) (HttpException 400))
         (andThen (throwIf (up_size f > 5 * 1024 * 1024) (HttpException 400))
           (case userSnapshot of
              Some MalformedText \<Rightarrow> throw (HttpException 400)
            | Some (JsonText j) \<Rightarrow> uploadProfilePicture cfg gcs i f (Some j)
            | _ \<Rightarrow> uploadProfilePicture cfg gcs i f None)))"

end
