(* ===== verification/UserProps.thy ===== *)
theory UserProps
  imports Users AuthProps
begin

text \<open>
  Properties of the users module: what the erasure of an account leaves, who gets a token from
  setup, what a refused setup leaves behind, and who sets the KYC status.
\<close>

subsection \<open>Erasure\<close>

definition no_profile :: "user \<Rightarrow> bool" where
  "no_profile u \<longleftrightarrow> u_email u = None \<and> u_username u = None \<and> u_alias u = None \<and> u_bio u = None \<and>
     u_profileImageUrl u = None \<and> u_currentNonce u = None \<and> u_preferredCurrency u = None \<and> u_deletedAt u \<noteq> None"

text \<open>The personal data of user \<open>i\<close>, who had the e-mail address \<open>email\<close>, is gone from a database.\<close>

definition erased :: "string \<Rightarrow> string option \<Rightarrow> db \<Rightarrow> bool" where
  "erased i email d \<longleftrightarrow>
     (\<forall>u \<in> set (users d). u_userId u = i \<longrightarrow> no_profile u) \<and>
     (\<forall>m \<in> set (pmethods d). m_userId m \<noteq> i) \<and>
     (\<forall>c \<in> set (chats d). c_senderId c = i \<longrightarrow> c_content c = ''[deleted]'') \<and>
     (\<forall>a \<in> set (audits d). a_userId a = Some i \<longrightarrow> a_ipAddress a = None \<and> a_userAgent a = None) \<and>
     (truthy email \<longrightarrow> (\<forall>w \<in> set (waitlist d). Some (wl_email w) \<noteq> email))"

text \<open>
  What is not of user \<open>i\<close> is as it was; \<open>audits\<close> may have grown.  Of the table that links offers to
  payment methods exactly the links to the user's methods are gone, also those of other users'
  offers, since an offer may be linked to anybody's method.
\<close>

definition others_kept :: "string \<Rightarrow> string option \<Rightarrow> db \<Rightarrow> db \<Rightarrow> bool" where
  "others_kept i email d d' \<longleftrightarrow>
     orders d' = orders d \<and> escrows d' = escrows d \<and> offers d' = offers d \<and>
     providers d' = providers d \<and> challenges d' = challenges d \<and>
     map u_userId (users d') = map u_userId (users d) \<and> map u_publicKey (users d') = map u_publicKey (users d) \<and>
     filter (\<lambda>u. u_userId u \<noteq> i) (users d') = filter (\<lambda>u. u_userId u \<noteq> i) (users d) \<and>
     pmethods d' = filter (\<lambda>m. m_userId m \<noteq> i) (pmethods d) \<and>
     offer_methods d' = filter (\<lambda>(f, k). \<not> (\<exists>m \<in> set (pmethods d). m_paymentId m = k \<and> m_userId m = i)) (offer_methods d) \<and>
     filter (\<lambda>c. c_senderId c \<noteq> i) (chats d') = filter (\<lambda>c. c_senderId c \<noteq> i) (chats d) \<and>
     map c_messageId (chats d') = map c_messageId (chats d) \<and>
     (\<exists>rs. filter (\<lambda>a. a_userId a \<noteq> Some i) (audits d') = filter (\<lambda>a. a_userId a \<noteq> Some i) (audits d) @ rs) \<and>
     waitlist d' = filter (\<lambda>w. \<not> truthy email \<or> Some (wl_email w) \<noteq> email) (waitlist d)"

lemma filter_map_other:
  "(\<And>x. q (f x) = q x) \<Longrightarrow> filter (\<lambda>x. \<not> q x) (map (\<lambda>x. if q x then f x else x) xs) = filter (\<lambda>x. \<not> q x) xs"
  by (induction xs) auto

lemma map_map_other: "(\<And>x. k (f x) = k x) \<Longrightarrow> map k (map (\<lambda>x. if q x then f x else x) xs) = map k xs"
  by (induction xs) auto

lemma anonymize_fields [simp]:
  "u_userId (anonymize now u) = u_userId u" "u_publicKey (anonymize now u) = u_publicKey u" "no_profile (anonymize now u)"
  by (simp_all add: anonymize_def no_profile_def)

text \<open>The database after the transaction.\<close>

definition removed_db :: "string \<Rightarrow> int \<Rightarrow> user \<Rightarrow> db \<Rightarrow> db" where
  "removed_db i now u d = d\<lparr>
     users := map (\<lambda>x. if u_userId x = i then anonymize now x else x) (users d),
     pmethods := filter (\<lambda>m. m_userId m \<noteq> i) (pmethods d),
     offer_methods := filter (\<lambda>j. snd j \<notin> m_paymentId ` set (filter (\<lambda>m. m_userId m = i) (pmethods d))) (offer_methods d),
     chats := map (\<lambda>c. if c_senderId c = i then c\<lparr>c_content := ''[deleted]''\<rparr> else c) (chats d),
     audits := map (\<lambda>a. if a_userId a = Some i then a\<lparr>a_ipAddress := None, a_userAgent := None\<rparr> else a) (audits d),
     waitlist := filter (\<lambda>w. \<not> truthy (u_email u) \<or> Some (wl_email w) \<noteq> u_email u) (waitlist d)\<rparr>"

lemma erased_removed_db: "erased i (u_email u) (removed_db i now u d)"
  unfolding erased_def removed_db_def
  by (intro conjI) (simp_all add: ball_Un)

lemma others_kept_removed_db: "others_kept i (u_email u) d (removed_db i now u d)"
  unfolding others_kept_def removed_db_def
  by (auto simp: filter_map_other map_map_other intro: exI[of _ "[]"] intro!: filter_cong simp del: map_map)

lemma wp_deletePaymentMethods_any:
  "wp (deletePaymentMethods p) Q E s = db_any s E (\<lambda>s. Q (length (filter p (pmethods (tables s))))
     (s\<lparr>tables := (tables s)\<lparr>pmethods := filter (\<lambda>m. \<not> p m) (pmethods (tables s)),
        offer_methods := filter (\<lambda>j. snd j \<notin> m_paymentId ` set (filter p (pmethods (tables s))))
          (offer_methods (tables s))\<rparr>\<rparr>))"
  unfolding deletePaymentMethods_def wp_db_call_any db_any_def
  by (auto simp: wp_def split: list.split)

lemma find_user_key: "List.find (\<lambda>x. u_userId x = i) xs = Some u \<Longrightarrow> u_userId u = i"
  by (auto dest: find_SomeD)

lemma remove_tx_post:
  "wp (remove_tx i) (\<lambda>u t. \<exists>u0. List.find (\<lambda>x. u_userId x = i) (users (tables s)) = Some u0 \<and>
      u = anonymize (clock s) u0 \<and> tables t = removed_db i (clock s) u0 (tables s))
    (\<lambda>_ _. True) s"
  unfolding remove_tx_def
  apply (simp add: prog wp_any wp_deletePaymentMethods_any split: option.split)
  by (intro conjI impI allI db_anyI; simp?; frule find_user_key; simp add: removed_db_def)

lemma erased_audited:
  assumes "ai_userId inp = None" "erased i e (tables v)"
  shows "erased i e (tables (audited inp v))"
proof (cases rule: audited_cases[of inp v])
  case 1 then show ?thesis using assms(2) by simp
next
  case 2 then show ?thesis using assms unfolding erased_def by simp
qed

lemma others_kept_audited:
  assumes "ai_userId inp = None" "others_kept i e d (tables v)"
  shows "others_kept i e d (tables (audited inp v))"
proof (cases rule: audited_cases[of inp v])
  case 1 then show ?thesis using assms(2) by simp
next
  case 2
  obtain rs where "filter (\<lambda>a. a_userId a \<noteq> Some i) (audits (tables v)) = filter (\<lambda>a. a_userId a \<noteq> Some i) (audits d) @ rs"
    using assms(2) unfolding others_kept_def by blast
  with 2 show ?thesis using assms unfolding others_kept_def by simp
qed

text \<open>
  C24.  Erasing an account.  \<open>remove\<close> returns only for the caller's own account, and then no profile field,
  payment method, message text or waitlist entry of the user's address is left, and no IP address or
  user agent in an audit record that carries the user's identifier.  Every row of orders, escrows
  and offers stays, and of other users every account, payment method, message, waitlist entry and
  audit record; offers, also those of others, lose exactly their links to the user's payment methods.
  An exception leaves every table as it was.  Audit records without a user identifier stay as they are:
  the login records of the wallet are such records and keep its IP addresses.
\<close>

theorem user_remove_erases:
  assumes "user_remove i caller s = (r, t)"
  shows "case r of
      Inl _ \<Rightarrow> tables t = tables s
    | Inr u \<Rightarrow> caller = Some i \<and> u_userId u = i \<and> no_profile u \<and>
        (\<exists>u0 \<in> set (users (tables s)). u_userId u0 = i \<and> erased i (u_email u0) (tables t) \<and>
           others_kept i (u_email u0) (tables s) (tables t))"
proof -
  let ?E = "\<lambda>_ t. tables t = tables s"
  have tx: "wp (transaction (remove_tx i)) (\<lambda>u t. \<exists>u0. List.find (\<lambda>x. u_userId x = i) (users (tables s)) = Some u0 \<and>
      u = anonymize (clock s) u0 \<and> tables t = removed_db i (clock s) u0 (tables s)) ?E s"
    unfolding wp_transaction
    by (rule wp_mono[OF remove_tx_post]) (auto simp: wp_db_call_any wp_ret intro!: db_anyI)
  have gone: "\<exists>u \<in> set (users (tables s)). u_userId u = j \<and>
      erased j (u_email u) (tables (audited (user_audit USER_DATA_DELETED j) v)) \<and>
      others_kept j (u_email u) (tables s) (tables (audited (user_audit USER_DATA_DELETED j) v))"
    if "tables v = removed_db j now u0 (tables s)" "u0 \<in> set (users (tables s))" "u_userId u0 = j"
    for v :: "'a world_scheme" and now u0 j
    using that by (intro bexI[of _ u0] conjI erased_audited others_kept_audited)
      (simp_all add: erased_removed_db others_kept_removed_db user_audit_def audit_input_def)
  have "wp (user_remove i caller)
     (\<lambda>u t. caller = Some i \<and> u_userId u = i \<and> no_profile u \<and>
        (\<exists>u0 \<in> set (users (tables s)). u_userId u0 = i \<and> erased i (u_email u0) (tables t) \<and>
           others_kept i (u_email u0) (tables s) (tables t))) ?E s"
    unfolding user_remove_def wp_andThen wp_throwIf wp_bindE
    by (auto intro!: wp_mono[OF tx] dest!: find_SomeD intro: gone simp: wp_audit_create wp_ret)
  from wp_run[OF this assms] show ?thesis by (auto split: sum.splits)
qed

text \<open>
  The witness's account: user \<open>b\<close> with an address, a login record, and a payment method that is linked,
  with one of user \<open>c\<close>, to an offer.
\<close>

definition full_user :: user where
  "full_user = (sample_user ''b'' ''GB'')\<lparr>u_email := Some ''b@x.io'', u_alias := Some ''bee''\<rparr>"

definition login_record :: audit_log where
  "login_record = audit_row (login_audit USER_LOGIN_SUCCESS SUCCESS ''GB'' sample_ctx None) ''a1'' 0"

definition linked_method :: "string \<Rightarrow> string \<Rightarrow> payment_method" where
  "linked_method k u = \<lparr> m_paymentId = k, m_userId = u, m_providerId = ''p'', m_type = PT_MOBILE, m_accountIdentifier = ''3001234567'',
     m_beneficiaryName = None, m_identificationNumber = None, m_description = None, m_isActive = True,
     m_createdAt = 0, m_updatedAt = 0 \<rparr>"

definition account_db :: db where
  "account_db = empty_db\<lparr>users := [full_user], audits := [login_record],
     pmethods := [linked_method ''m1'' ''b'', linked_method ''m2'' ''c''], offer_methods := [(''f'', ''m1''), (''f'', ''m2'')],
     waitlist := [\<lparr>wl_id = ''w1'', wl_email = ''b@x.io'', wl_createdAt = 0\<rparr>]\<rparr>"

lemma account_db_simps [simp]:
  "users account_db = [full_user]" "audits account_db = [login_record]" "orders account_db = []"
  "escrows account_db = []" "chats account_db = []" "offers account_db = []"
  "pmethods account_db = [linked_method ''m1'' ''b'', linked_method ''m2'' ''c'']"
  "offer_methods account_db = [(''f'', ''m1''), (''f'', ''m2'')]" "providers account_db = []"
  "m_userId (linked_method k u) = u" "m_paymentId (linked_method k u) = k"
  "u_userId full_user = ''b''" "u_publicKey full_user = ''GB''" "u_email full_user = Some ''b@x.io''"
  "a_userId login_record = None" "a_ipAddress login_record = Some ''10.0.0.1''" "a_id login_record = ''a1''"
  by (simp_all add: account_db_def empty_db_def full_user_def login_record_def audit_row_def login_audit_def
      audit_input_def sample_ctx_def linked_method_def)

lemma user_remove_runs:
  "\<exists>u t. user_remove ''b'' (Some ''b'') (quiet_world account_db) = (Inr u, t)"
proof -
  have "wp (user_remove ''b'' (Some ''b'')) (\<lambda>_ _. True) (\<lambda>_ _. False) (quiet_world account_db)"
    unfolding user_remove_def remove_tx_def
    by (simp add: prog wp_transaction wp_db_call wp_deletePaymentMethods_any db_any_def user_table_def clash_def anonymize_def)
  from wp_returns[OF this] show ?thesis by auto
qed

theorem user_remove_erases_witness:
  "\<exists>u t. user_remove ''b'' (Some ''b'') (quiet_world account_db) = (Inr u, t) \<and> no_profile u \<and>
     erased ''b'' (Some ''b@x.io'') (tables t) \<and> login_record \<in> set (audits (tables t)) \<and>
     a_ipAddress login_record = Some ''10.0.0.1'' \<and> offer_methods (tables t) = [(''f'', ''m2'')]"
proof -
  obtain u t where run: "user_remove ''b'' (Some ''b'') (quiet_world account_db) = (Inr u, t)"
    using user_remove_runs by blast
  from user_remove_erases[OF run]
  have u: "no_profile u" "erased ''b'' (Some ''b@x.io'') (tables t)"
    and kept: "others_kept ''b'' (Some ''b@x.io'') account_db (tables t)" by auto
  from kept obtain rs where "filter (\<lambda>a. a_userId a \<noteq> Some ''b'') (audits (tables t)) = login_record # rs"
    unfolding others_kept_def by auto
  then have "login_record \<in> set (filter (\<lambda>a. a_userId a \<noteq> Some ''b'') (audits (tables t)))" by simp
  moreover have "offer_methods (tables t) = [(''f'', ''m2'')]" using kept by (simp add: others_kept_def)
  ultimately show ?thesis using u run by auto
qed

subsection \<open>Setup and profile changes\<close>

text \<open>The unique columns of the user table.\<close>

definition users_wf :: "db \<Rightarrow> bool" where
  "users_wf d \<longleftrightarrow> distinct (map u_userId (users d)) \<and> distinct (map u_publicKey (users d)) \<and>
     (\<forall>u \<in> set (users d). \<forall>w \<in> set (users d). u_alias u \<noteq> None \<longrightarrow> u_alias u = u_alias w \<longrightarrow> u_userId u = u_userId w)"

lemma users_wf_key: "users_wf d \<Longrightarrow> u \<in> set (users d) \<Longrightarrow> v \<in> set (users d) \<Longrightarrow> u_userId u = u_userId v \<Longrightarrow> u = v"
  by (auto simp: users_wf_def distinct_map dest: inj_onD)

lemma users_wf_pk: "users_wf d \<Longrightarrow> u \<in> set (users d) \<Longrightarrow> v \<in> set (users d) \<Longrightarrow> u_publicKey u = u_publicKey v \<Longrightarrow> u = v"
  by (auto simp: users_wf_def distinct_map dest: inj_onD)

text \<open>A change that keeps the three unique columns of a row is not refused.\<close>

lemma user_check_same:
  assumes "users_wf d" "List.find (\<lambda>u. u_userId u = i) (users d) = Some v"
    and "u_userId r = u_userId v" "u_publicKey r = u_publicKey v" "u_alias r = u_alias v"
  shows "t_check user_table d (filter (\<lambda>x. u_userId x \<noteq> u_userId v) (users d)) r = None"
proof -
  let ?rest = "filter (\<lambda>x. u_userId x \<noteq> u_userId v) (users d)"
  have v: "v \<in> set (users d)" using find_SomeD[OF assms(2)] by simp
  have "u_publicKey v \<noteq> u_publicKey x" "u_alias v \<noteq> None \<longrightarrow> u_alias x \<noteq> u_alias v"
    if "x \<in> set (users d)" "u_userId x \<noteq> u_userId v" for x
    using users_wf_pk[OF assms(1) v that(1)] that v assms(1) by (auto simp: users_wf_def)
  then have "u_publicKey r \<notin> u_publicKey ` set ?rest" "\<not> clash u_alias ?rest r"
    using assms(4,5) by (auto simp: clash_def image_iff)
  then show ?thesis using assms(3) by (auto simp: user_table_def)
qed

lemma find_map_user:
  assumes "List.find p (users d) = Some v" "\<And>x. p (if u_userId x = u_userId v then f x else x) = p x"
  shows "List.find p (map (\<lambda>x. if u_userId x = u_userId v then f x else x) (users d)) = Some (f v)"
proof -
  have "List.find p xs = Some v \<Longrightarrow> List.find p (map (\<lambda>x. if u_userId x = u_userId v then f x else x) xs) = Some (f v)" for xs
    by (induction xs) (use assms(2) in \<open>auto split: if_splits\<close>)
  then show ?thesis using assms(1) .
qed

text \<open>A constraint of these tables never fails with an exception of the service.\<close>

lemma check_not_app [simp]:
  "t_check user_table d us u \<noteq> Some (appExc c)" "t_check pmethod_table d ms m \<noteq> Some (appExc c)"
  by (simp_all add: user_table_def pmethod_table_def appExc_def)

definition set_up :: "string \<Rightarrow> db \<Rightarrow> bool" where
  "set_up i d \<longleftrightarrow> (\<exists>u \<in> set (users d). u_userId u = i \<and> \<not> u_pendingAccountInfo u)"

lemma set_up_map:
  assumes "List.find (\<lambda>u. u_userId u = i) xs = Some x" "users d = map (\<lambda>z. if u_userId z = u_userId x then f z else z) xs"
    and "u_userId (f x) = u_userId x" "\<not> u_pendingAccountInfo (f x)"
  shows "set_up i d"
  using find_SomeD[OF assms(1)] assms(2-) unfolding set_up_def by (intro bexI[of _ "f x"]) auto

lemma profile_patch_fields [simp]:
  "u_userId (profile_patch dto k u) = u_userId u" "u_publicKey (profile_patch dto k u) = u_publicKey u"
  "uu_alias dto = None \<Longrightarrow> u_alias (profile_patch dto k u) = u_alias u"
  "u_pendingAccountInfo (profile_patch (setup_data dd) k u) = False"
  by (simp_all add: profile_patch_def setup_data_def given_def)

text \<open>
  C22.  Setup hands out tokens for any account.  Whoever the caller is, \<open>POST users/:id/setup\<close>
  returns a token signed for the user \<open>id\<close> of the path and that user's wallet.
\<close>

theorem setup_token_for_any_user:
  assumes "faults s = []" "users_wf (tables s)" "List.find (\<lambda>u. u_userId u = i) (users (tables s)) = Some v"
    and "su_alias dto = None" "su_notificationsEnabled dto \<noteq> Some None" "su_providerId dto = None"
  shows "\<exists>u t. ctrl_users_setup env rs caller i dto s =
    (Inr (u, jwt_sign env (JObj [(''sub'', JStr i), (''publicKey'', JStr (u_publicKey v)), (''setupComplete'', JBool True)])), t)"
proof -
  have "\<not> refused_data (setup_data dto)" "uu_alias (setup_data dto) = None"
    using assms(4,5) by (auto simp: refused_data_def setup_data_def)
  moreover from this have "t_check user_table (tables s) (filter (\<lambda>x. u_userId x \<noteq> u_userId v) (users (tables s)))
      (profile_patch (setup_data dto) None v) = None"
    by (intro user_check_same[OF assms(2,3)]) simp_all
  ultimately have "wp (ctrl_users_setup env rs caller i dto)
     (\<lambda>(_, tok) _. tok = finalizeSetup env i (u_publicKey v)) (\<lambda>_ _. False) s"
    unfolding ctrl_users_setup_def setupAccount_def user_repo_update_def base_update_def
    using assms by (simp add: prog)
  from wp_returns[OF this] show ?thesis by (auto simp: finalizeSetup_def)
qed

text \<open>
  A refused setup is half done.  When setup fails because the payment provider is unknown or the
  account identifier invalid, the profile is already written and no longer marked as pending, and
  no payment method is stored.
\<close>

theorem setup_failure_keeps_profile:
  assumes "setupAccount env rs i dto s = (Inl e, t)"
    and "e = appExc PAYMENT_PROVIDER_NOT_FOUND \<or> e = appExc INVALID_ACCOUNT_IDENTIFIER"
  shows "set_up i (tables t) \<and> pmethods (tables t) = pmethods (tables s)"
proof -
  have "wp (setupAccount env rs i dto) (\<lambda>_ _. True)
     (\<lambda>e t. e = appExc PAYMENT_PROVIDER_NOT_FOUND \<or> e = appExc INVALID_ACCOUNT_IDENTIFIER \<longrightarrow>
        set_up i (tables t) \<and> pmethods (tables t) = pmethods (tables s)) s"
    unfolding setupAccount_def user_repo_update_def base_update_def setup_method_def
    by (auto simp: prog wp_any intro!: db_anyI intro: set_up_map split: option.split sum.split)
  from wp_exn[OF this assms(1)] show ?thesis using assms(2) by auto
qed

text \<open>
  C23.  KYC is what the user says it is.  A user who patches the own profile with \<open>kycStatus\<close>
  \<open>approved\<close> succeeds, and the KYC guard then lets the user through.
\<close>

theorem kyc_self_approval:
  assumes "faults s = []" "users_wf (tables s)" "List.find (\<lambda>u. u_userId u = i) (users (tables s)) = Some v"
    and "u_publicKey v \<noteq> []" "ju_userId caller = Some i"
    and "uu_alias dto = None" "uu_kycStatus dto = Some (Some ''approved'')" "\<not> refused_data dto"
  shows "\<exists>u t. ctrl_users_update caller i dto s = (Inr u, t) \<and>
     fst (kyc_canActivate (Some \<lparr> ju_userId = Some i, ju_publicKey = Some (u_publicKey v) \<rparr>) t) = Inr True"
proof -
  let ?k = "\<lambda>t. fst (kyc_canActivate (Some \<lparr> ju_userId = Some i, ju_publicKey = Some (u_publicKey v) \<rparr>) t) = Inr True"
  have app: "kyc_of ''approved'' = Some KS_approved" by code_simp
  have vin: "v \<in> set (users (tables s))" using find_SomeD[OF assms(3)] by simp
  obtain w where w: "List.find (\<lambda>u. u_publicKey u = u_publicKey v) (users (tables s)) = Some w"
    using vin by (cases "List.find (\<lambda>u. u_publicKey u = u_publicKey v) (users (tables s))") (auto simp: find_None_iff_ball)
  then have "w = v"
    using users_wf_pk[OF assms(2) _ vin, of w] find_SomeD[OF w] by simp
  with w have pk: "List.find (\<lambda>u. u_publicKey u = u_publicKey v) (users (tables s)) = Some v" by simp
  have approved: "u_kycStatus (profile_patch dto k v) = KS_approved" for k
    using assms(7) by (simp add: profile_patch_def app)
  have guard: "?k t" if "faults t = []"
    "List.find (\<lambda>u. u_publicKey u = u_publicKey v) (users (tables t)) = Some (profile_patch dto k v)" for t k
    using that assms(4) by (simp add: kyc_canActivate_def bindE_def findUnique_def db_call_def getState_def ret_def approved)
  have "t_check user_table (tables s) (filter (\<lambda>x. u_userId x \<noteq> u_userId v) (users (tables s))) (profile_patch dto k v) = None" for k
    by (rule user_check_same[OF assms(2,3)]) (simp_all add: assms(6))
  moreover have "List.find (\<lambda>u. u_publicKey u = u_publicKey v)
      (map (\<lambda>x. if u_userId x = u_userId v then profile_patch dto k x else x) (users (tables s))) = Some (profile_patch dto k v)" for k
    by (rule find_map_user[OF pk]) simp
  ultimately have "wp (ctrl_users_update caller i dto) (\<lambda>_ t. ?k t) (\<lambda>_ _. False) s"
    unfolding ctrl_users_update_def user_update_def user_repo_update_def base_update_def
    using assms by (simp add: prog guard)
  from wp_returns[OF this] show ?thesis by auto
qed

text \<open>The witnesses: user \<open>c\<close> sets up the account of \<open>b\<close>, and \<open>b\<close> approves the own KYC.\<close>

definition no_changes :: UpdateUserDto where
  "no_changes = \<lparr> uu_alias = None, uu_username = None, uu_email = None, uu_notificationsEnabled = None,
     uu_preferredCurrency = None, uu_pendingAccountInfo = None, uu_kycStatus = None, uu_bio = None,
     uu_securityUpdates = None \<rparr>"

definition sample_setup :: "string option \<Rightarrow> SetupAccountDto" where
  "sample_setup provider = \<lparr> su_alias = None, su_username = Some (Some ''Bee''), su_email = None,
     su_notificationsEnabled = None, su_preferredCurrency = None, su_bankName = None,
     su_accountHolderName = None, su_accountNumber = None, su_providerId = provider,
     su_accountIdentifier = Some ''x'', su_identificationNumber = None, su_beneficiaryName = None,
     su_description = None \<rparr>"

lemma sample_users_wf: "users_wf sample_db"
  by (simp add: users_wf_def)

theorem setup_token_for_any_user_witness:
  "\<exists>u t. ctrl_users_setup sample_auth initialRules \<lparr> ju_userId = Some ''c'', ju_publicKey = Some ''GC'' \<rparr> ''b''
     (sample_setup None) (quiet_world sample_db) = (Inr (u, ''JWT''), t)"
  using setup_token_for_any_user[of "quiet_world sample_db" "''b''" "sample_user ''b'' ''GB''" "sample_setup None"
      sample_auth initialRules "\<lparr> ju_userId = Some ''c'', ju_publicKey = Some ''GC'' \<rparr>"] sample_users_wf
  by (simp add: sample_setup_def)

theorem setup_failure_keeps_profile_witness:
  "\<exists>t. setupAccount sample_auth initialRules ''b'' (sample_setup (Some ''p'')) (quiet_world sample_db) =
       (Inl (appExc PAYMENT_PROVIDER_NOT_FOUND), t) \<and> set_up ''b'' (tables t)"
proof -
  have "wp (setupAccount sample_auth initialRules ''b'' (sample_setup (Some ''p''))) (\<lambda>_ _. False)
     (\<lambda>e _. e = appExc PAYMENT_PROVIDER_NOT_FOUND) (quiet_world sample_db)"
    unfolding setupAccount_def setup_method_def user_repo_update_def base_update_def
    by (simp add: prog user_table_def clash_def refused_data_def) (simp add: sample_setup_def setup_data_def profile_patch_def)
  from wp_throws[OF this] obtain t where
    run: "setupAccount sample_auth initialRules ''b'' (sample_setup (Some ''p'')) (quiet_world sample_db) =
       (Inl (appExc PAYMENT_PROVIDER_NOT_FOUND), t)" by auto
  from setup_failure_keeps_profile[OF run] run show ?thesis by auto
qed

theorem kyc_self_approval_witness:
  "\<exists>u t. ctrl_users_update \<lparr> ju_userId = Some ''b'', ju_publicKey = Some ''GB'' \<rparr> ''b''
       (no_changes\<lparr>uu_kycStatus := Some (Some ''approved'')\<rparr>) (quiet_world sample_db) = (Inr u, t) \<and>
     fst (kyc_canActivate (Some \<lparr> ju_userId = Some ''b'', ju_publicKey = Some ''GB'' \<rparr>) t) = Inr True"
proof -
  have "kyc_of ''approved'' = Some KS_approved" by code_simp
  then show ?thesis
    using kyc_self_approval[of "quiet_world sample_db" "''b''" "sample_user ''b'' ''GB''"
        "\<lparr> ju_userId = Some ''b'', ju_publicKey = Some ''GB'' \<rparr>" "no_changes\<lparr>uu_kycStatus := Some (Some ''approved'')\<rparr>"]
      sample_users_wf
    by (simp add: no_changes_def refused_data_def)
qed

end
