(* ===== verification/Offers.thy ===== *)
theory Offers
  imports PaymentMethods Guards "HOL-Library.List_Lexorder" "HOL-Library.Char_ord"
begin

text \<open>
  Offers: \<open>OfferService\<close>, \<open>OfferRepository\<close> and the checks of \<open>OfferController\<close>
  (\<open>src/modules/offer\<close>).  An offer is created with those of the requested payment methods that
  exist; the join table holds the pairs.
\<close>

subsection \<open>Data\<close>

record CreateOfferDto =
  cf_creatorId :: string
  cf_type :: offer_type
  cf_assetCode :: string
  cf_price :: amount
  cf_minAmount :: amount
  cf_maxAmount :: amount
  cf_status :: "offer_status option option"
  cf_paymentMethodIds :: "string list option"

text \<open>\<open>PartialType\<close>: every field may be absent or null; the payment methods are no column of an offer.\<close>

record UpdateOfferDto =
  uf_creatorId :: "string option option"
  uf_type :: "offer_type option option"
  uf_assetCode :: "string option option"
  uf_price :: "amount option option"
  uf_minAmount :: "amount option option"
  uf_maxAmount :: "amount option option"
  uf_status :: "offer_status option option"
  uf_paymentMethodIds :: "string list option option"

text \<open>\<open>PAYMENT_METHOD_SELECT\<close> and \<open>OFFER_DETAIL_INCLUDE\<close>.\<close>

record payment_method_view =
  mv_paymentId :: string
  mv_userId :: string
  mv_providerId :: string
  mv_type :: payment_provider_type
  mv_accountIdentifier :: string
  mv_beneficiaryName :: "string option"
  mv_description :: "string option"
  mv_isActive :: bool
  mv_provider :: "payment_provider option"

record OfferWithRelations =
  ow_offer :: offer
  ow_methods :: "payment_method_view list"

definition method_view :: "db \<Rightarrow> payment_method \<Rightarrow> payment_method_view" where
  "method_view d m = \<lparr> mv_paymentId = m_paymentId m, mv_userId = m_userId m, mv_providerId = m_providerId m,
     mv_type = m_type m, mv_accountIdentifier = m_accountIdentifier m, mv_beneficiaryName = m_beneficiaryName m,
     mv_description = m_description m, mv_isActive = m_isActive m,
     mv_provider = List.find (\<lambda>p. pp_provider_id p = m_providerId m) (providers d) \<rparr>"

definition offer_view :: "db \<Rightarrow> offer \<Rightarrow> OfferWithRelations" where
  "offer_view d f = \<lparr> ow_offer = f, ow_methods = map (method_view d)
     (filter (\<lambda>m. (f_offerId f, m_paymentId m) \<in> set (offer_methods d)) (pmethods d)) \<rparr>"

subsection \<open>The repository\<close>

definition offer_row :: "CreateOfferDto \<Rightarrow> string \<Rightarrow> offer" where
  "offer_row dto i = \<lparr> f_offerId = i, f_creatorId = cf_creatorId dto, f_type = cf_type dto,
     f_assetCode = cf_assetCode dto, f_price = cf_price dto, f_minAmount = cf_minAmount dto,
     f_maxAmount = cf_maxAmount dto, f_status = given (cf_status dto) FS_active, f_executed = False \<rparr>"

text \<open>One statement: the row and its join rows; a connected method that is not there refuses it.\<close>

definition createOffer :: "offer \<Rightarrow> string list \<Rightarrow> ('z, OfferWithRelations) act" where
  "createOffer f connect = db_call (\<lambda>s.
     case t_check offer_table (tables s) (offers (tables s)) f of
       Some e \<Rightarrow> (Inl e, s)
     | None \<Rightarrow>
         if \<not> set connect \<subseteq> set (map m_paymentId (pmethods (tables s))) then (Inl RecordNotFound, s)
         else let d = (tables s)\<lparr>offers := offers (tables s) @ [f],
                offer_methods := offer_methods (tables s) @ map (Pair (f_offerId f)) connect\<rparr>
              in (Inr (offer_view d f), s\<lparr>tables := d\<rparr>))"

definition offer_repo_create :: "CreateOfferDto \<Rightarrow> ('z, OfferWithRelations) act" where
  "offer_repo_create dto =
     bindE (if get_or (cf_paymentMethodIds dto) [] \<noteq> []
            then bindE (findMany pmethod_table (\<lambda>m. m_paymentId m \<in> set (get_or (cf_paymentMethodIds dto) [])))
                   (\<lambda>v2Methods. ret (map m_paymentId v2Methods))
            else ret []) (\<lambda>connect.
     andThen (throwIf (cf_status dto = Some None) QueryInvalid)
     (bindE newUuid (\<lambda>i. createOffer (offer_row dto i) connect)))"

definition offer_findById :: "string \<Rightarrow> ('z, OfferWithRelations option) act" where
  "offer_findById i = db_call (getState (\<lambda>s.
     map_option (offer_view (tables s)) (List.find (\<lambda>f. f_offerId f = i) (offers (tables s)))))"

text \<open>\<open>orderBy: { offerId: 'desc' }\<close>.\<close>

definition offer_search :: "(offer \<Rightarrow> bool) \<Rightarrow> nat option \<Rightarrow> nat option \<Rightarrow> ('z, OfferWithRelations list) act" where
  "offer_search p sk tk = db_call (getState (\<lambda>s.
     map (offer_view (tables s))
       (page sk tk 20 (rev (sort_key f_offerId (filter p (offers (tables s))))))))"

subsection \<open>The service\<close>

definition offer_audit :: "AuditAction \<Rightarrow> offer \<Rightarrow> string \<Rightarrow> json option \<Rightarrow> CreateAuditLogInput" where
  "offer_audit act f i meta = (audit_input act ''Offer'' SUCCESS)
     \<lparr>ai_userId := Some (f_creatorId f), ai_resourceId := Some i, ai_metadata := meta\<rparr>"

primrec offer_type_name :: "offer_type \<Rightarrow> string" where
  "offer_type_name OT_buy = ''buy''"
| "offer_type_name OT_sell = ''sell''"

definition offer_created_meta :: "offer \<Rightarrow> json" where
  "offer_created_meta f = JObj [(''type'', JStr (offer_type_name (f_type f))), (''assetCode'', JStr (f_assetCode f))]"

definition offer_create :: "CreateOfferDto \<Rightarrow> ('z, OfferWithRelations) act" where
  "offer_create dto = bindE (offer_repo_create dto) (\<lambda>created.
     andThen (audit_create (offer_audit OFFER_CREATED (ow_offer created) (f_offerId (ow_offer created))
                (Some (offer_created_meta (ow_offer created)))))
       (ret created))"

record OfferFilter =
  qf_creatorId :: "string option"
  qf_status :: "offer_status option"
  qf_type :: "offer_type option"
  qf_assetCode :: "string option"

definition offer_matches :: "OfferFilter \<Rightarrow> offer \<Rightarrow> bool" where
  "offer_matches q f \<longleftrightarrow>
     (truthy (qf_creatorId q) \<longrightarrow> qf_creatorId q = Some (f_creatorId f)) \<and>
     (qf_status q \<noteq> None \<longrightarrow> qf_status q = Some (f_status f)) \<and>
     (qf_type q \<noteq> None \<longrightarrow> qf_type q = Some (f_type f)) \<and>
     (truthy (qf_assetCode q) \<longrightarrow> qf_assetCode q = Some (f_assetCode f))"

definition offer_list :: "nat option \<Rightarrow> nat option \<Rightarrow> OfferFilter \<Rightarrow> ('z, OfferWithRelations list) act" where
  "offer_list sk tk q = offer_search (offer_matches q) sk tk"

definition offer_get :: "string \<Rightarrow> ('z, OfferWithRelations) act" where
  "offer_get i = bindE (offer_findById i)
     (\<lambda>item. case item of None \<Rightarrow> throw (appExc OFFER_NOT_FOUND) | Some v \<Rightarrow> ret v)"

text \<open>Prisma refuses a null for these columns, and the field that is no column.\<close>

definition refused_offer :: "UpdateOfferDto \<Rightarrow> bool" where
  "refused_offer dto \<longleftrightarrow> uf_creatorId dto = Some None \<or> uf_type dto = Some None \<or> uf_assetCode dto = Some None \<or>
     uf_price dto = Some None \<or> uf_minAmount dto = Some None \<or> uf_maxAmount dto = Some None \<or>
     uf_status dto = Some None \<or> uf_paymentMethodIds dto \<noteq> None"

definition offer_patch :: "UpdateOfferDto \<Rightarrow> offer \<Rightarrow> offer" where
  "offer_patch dto f = f\<lparr>f_creatorId := given (uf_creatorId dto) (f_creatorId f),
     f_type := given (uf_type dto) (f_type f), f_assetCode := given (uf_assetCode dto) (f_assetCode f),
     f_price := given (uf_price dto) (f_price f), f_minAmount := given (uf_minAmount dto) (f_minAmount f),
     f_maxAmount := given (uf_maxAmount dto) (f_maxAmount f), f_status := given (uf_status dto) (f_status f)\<rparr>"

definition offer_update :: "string \<Rightarrow> UpdateOfferDto \<Rightarrow> ('z, offer) act" where
  "offer_update i dto =
     andThen (throwIf (refused_offer dto) QueryInvalid)
     (bindE (base_update offer_table i (offer_patch dto)) (\<lambda>updated.
      andThen (audit_create (offer_audit OFFER_UPDATED updated i None)) (ret updated)))"

definition offer_remove :: "string \<Rightarrow> ('z, offer) act" where
  "offer_remove i = bindE (base_delete offer_table i) (\<lambda>removed.
     andThen (audit_create (offer_audit OFFER_CANCELLED removed i None)) (ret removed))"

subsection \<open>The controller\<close>

text \<open>Behind the JWT and KYC guards; only \<open>create\<close> looks at the caller.\<close>

definition kyc_guarded :: "jwt_user \<Rightarrow> ('z, 'a) act \<Rightarrow> ('z, 'a) act" where
  "kyc_guarded caller m = andThen (kyc_canActivate (Some caller)) m"

definition ctrl_offer_create :: "jwt_user \<Rightarrow> CreateOfferDto \<Rightarrow> ('z, OfferWithRelations) act" where
  "ctrl_offer_create caller dto = kyc_guarded caller
     (andThen (throwIf (Some (cf_creatorId dto) \<noteq> ju_userId caller) (appExc UNAUTHORIZED_ACTION)) (offer_create dto))"

definition ctrl_offer_update :: "jwt_user \<Rightarrow> string \<Rightarrow> UpdateOfferDto \<Rightarrow> ('z, offer) act" where
  "ctrl_offer_update caller i dto = kyc_guarded caller (offer_update i dto)"

definition ctrl_offer_remove :: "jwt_user \<Rightarrow> string \<Rightarrow> ('z, offer) act" where
  "ctrl_offer_remove caller i = kyc_guarded caller (offer_remove i)"

subsection \<open>Running an offer's creation\<close>

lemma wp_createOffer_any:
  "wp (createOffer f connect) Q E s = db_any s E (\<lambda>s.
     case t_check offer_table (tables s) (offers (tables s)) f of
       Some e \<Rightarrow> E e s
     | None \<Rightarrow>
         if \<not> set connect \<subseteq> set (map m_paymentId (pmethods (tables s))) then E RecordNotFound s
         else let d = (tables s)\<lparr>offers := offers (tables s) @ [f],
                offer_methods := offer_methods (tables s) @ map (Pair (f_offerId f)) connect\<rparr>
              in Q (offer_view d f) (s\<lparr>tables := d\<rparr>))"
  unfolding createOffer_def wp_db_call_any db_any_def
  by (auto simp: wp_def Let_def split: option.split list.split)

context table_relation
begin

lemma ob_createOffer:
  assumes "\<And>d. t_check offer_table d (offers d) f = None \<Longrightarrow> set connect \<subseteq> m_paymentId ` set (pmethods d) \<Longrightarrow>
    P d (d\<lparr>offers := offers d @ [f], offer_methods := offer_methods d @ map (Pair (f_offerId f)) connect\<rparr>)"
  shows "obeys (on_tables P) (createOffer f connect)"
  unfolding createOffer_def
  by (rule ob_db_call) (auto simp: obeys_def on_tables_def same Let_def intro: assms split: option.split)

end

lemma offer_row_fields [simp]:
  "f_offerId (offer_row dto i) = i" "f_creatorId (offer_row dto i) = cf_creatorId dto"
  "f_executed (offer_row dto i) = False" "f_offerId (offer_patch u f) = f_offerId f"
  by (simp_all add: offer_row_def offer_patch_def)

end
