(* ===== verification/Kyc.thy ===== *)
theory Kyc
  imports Users
begin

text \<open>
  KYC: \<open>KycService\<close> and \<open>KycController\<close> (\<open>src/modules/kyc\<close>).  The provider's webhook is checked by
  an HMAC (a parameter) over the raw body, or over three fields of the payload, and sets the
  status of the user its payload names.
\<close>

datatype (plugins only: code size) didit_answer = FetchFails | AnswerNotOk | AnswerOk "json option"

text \<open>The configuration, \<open>createHmac('sha256', secret).update(data).digest('hex')\<close>, and the session API.\<close>

record kyc_env =
  ky_config :: config
  hmac_hex :: "string \<Rightarrow> byte list \<Rightarrow> string"
  didit_session :: "string \<Rightarrow> json \<Rightarrow> didit_answer"

record VerifyWebhookSignatureOptions =
  wh_signatureV2 :: "string option"
  wh_signatureV1 :: "string option"
  wh_signatureSimple :: "string option"
  wh_timestamp :: "string option"
  wh_rawBody :: "byte list option"
  wh_payload :: "json option"

subsection \<open>The signature of a webhook\<close>

definition timingSafeEqual :: "string \<Rightarrow> string \<Rightarrow> bool" where
  "timingSafeEqual a b \<longleftrightarrow> length (utf8 a) = length (utf8 b) \<and> utf8 a = utf8 b"

text \<open>The tolerance check: a timestamp that is no number is not looked at; small ones are seconds.\<close>

definition staleTimestamp :: "int \<Rightarrow> string option \<Rightarrow> bool" where
  "staleTimestamp now ts =
     (if \<not> truthy ts then False
      else case parseInt (the ts) of
        None \<Rightarrow> False
      | Some n \<Rightarrow> \<bar>now - (if n < 100000000000 then n * 1000 else n)\<bar> > 5 * 60 * 1000)"

text \<open>\<open>(payload.key as string) || ''\<close>, in a template text.\<close>

definition payload_text :: "json option \<Rightarrow> string \<Rightarrow> string" where
  "payload_text payload k = (if jtruthy (vfield payload k) then js_String (vfield payload k) else [])"

definition simplePayload :: "json option \<Rightarrow> string" where
  "simplePayload payload = CHR '':'' # payload_text payload ''session_id'' @ CHR '':'' #
     payload_text payload ''status'' @ CHR '':'' # payload_text payload ''webhook_type''"

definition verifyWebhookSignature :: "kyc_env \<Rightarrow> int \<Rightarrow> VerifyWebhookSignatureOptions \<Rightarrow> exn + unit" where
  "verifyWebhookSignature env now opts =
     (let webhookSecret = ky_config env ''DIDIT_WEBHOOK_SECRET'';
          sigToVerify = orElse (wh_signatureV2 opts) (wh_signatureV1 opts)
      in if \<not> truthy webhookSecret then Inl (appExc KYC_WEBHOOK_SECRET_MISSING)
         else (case wh_rawBody opts of
           None \<Rightarrow> Inl (appExc KYC_WEBHOOK_MISSING_BODY)
         | Some rawBody \<Rightarrow>
             if staleTimestamp now (wh_timestamp opts) then Inl (appExc KYC_WEBHOOK_INVALID_SIGNATURE)
             else if truthy sigToVerify
             then (if timingSafeEqual (trim (the sigToVerify)) (hmac_hex env (the webhookSecret) rawBody)
                   then Inr () else Inl (appExc KYC_WEBHOOK_INVALID_SIGNATURE))
             else if truthy (wh_signatureSimple opts)
             then (if timingSafeEqual (trim (the (wh_signatureSimple opts)))
                        (hmac_hex env (the webhookSecret) (utf8 (simplePayload (wh_payload opts))))
                   then Inr () else Inl (appExc KYC_WEBHOOK_INVALID_SIGNATURE))
             else Inl (appExc KYC_WEBHOOK_INVALID_SIGNATURE)))"

subsection \<open>A session\<close>

definition session_body :: "kyc_env \<Rightarrow> string \<Rightarrow> json" where
  "session_body env userId = JObj [(''vendor_data'', JStr userId),
     (''workflow_id'', JStr (get_or (ky_config env ''DIDIT_WORKFLOW_ID'') [])),
     (''callback'', JStr (if truthy (ky_config env ''KYC_CALLBACK_URL'') then the (ky_config env ''KYC_CALLBACK_URL'')
                          else ''http://localhost:3001/dashboard''))]"

text \<open>The URL is whatever the answer holds under \<open>url\<close>; every failure is the same exception.\<close>

definition initializeSession :: "kyc_env \<Rightarrow> string \<Rightarrow> exn + json option" where
  "initializeSession env userId =
     (let api = (if truthy (ky_config env ''DIDIT_API_URL'') then the (ky_config env ''DIDIT_API_URL'')
                 else ''https://verification.didit.me/v3'')
      in if \<not> truthy (ky_config env ''DIDIT_API_KEY'') then Inl (appExc KYC_SESSION_FAILED)
         else if \<not> truthy (ky_config env ''DIDIT_WORKFLOW_ID'') then Inl (appExc KYC_SESSION_FAILED)
         else (case didit_session env (api @ ''/session/'') (session_body env userId) of
           FetchFails \<Rightarrow> Inl (appExc KYC_SESSION_FAILED)
         | AnswerNotOk \<Rightarrow> Inl (appExc KYC_SESSION_FAILED)
         | AnswerOk None \<Rightarrow> Inl (appExc KYC_SESSION_FAILED)
         | AnswerOk (Some JNull) \<Rightarrow> Inl (appExc KYC_SESSION_FAILED)
         | AnswerOk (Some data) \<Rightarrow> Inr (jfield data ''url'')))"

subsection \<open>The event of a webhook\<close>

text \<open>\<open>a ?? b\<close> on fields.\<close>

fun jnullish :: "json option list \<Rightarrow> json option" where
  "jnullish [] = None"
| "jnullish [x] = x"
| "jnullish (x # xs) = (case x of None \<Rightarrow> jnullish xs | Some JNull \<Rightarrow> jnullish xs | Some j \<Rightarrow> Some j)"

definition event_field :: "json \<Rightarrow> string \<Rightarrow> json option" where
  "event_field payload k = jnullish [jfield payload k, vfield (jfield payload ''verification_session'') k,
     vfield (jfield payload ''session'') k, vfield (jfield payload ''data'') k]"

text \<open>\<open>.replace(/ +/g, '_')\<close>.\<close>

fun underscoreSpaces :: "bool \<Rightarrow> string \<Rightarrow> string" where
  "underscoreSpaces inRun [] = []"
| "underscoreSpaces inRun (c # cs) =
     (if c \<noteq> CHR '' '' then c # underscoreSpaces False cs
      else if inRun then underscoreSpaces True cs
      else CHR ''_'' # underscoreSpaces True cs)"

definition normalizeStatus :: "string \<Rightarrow> string" where
  "normalizeStatus s = underscoreSpaces False (trim (toLower s))"

definition statusOf :: "string \<Rightarrow> kyc_status" where
  "statusOf s =
     (if s = ''approved'' then KS_approved
      else if s = ''declined'' \<or> s = ''rejected'' then KS_rejected
      else if s = ''review'' \<or> s = ''in_review'' then KS_in_review
      else if s = ''expired'' then KS_expired
      else if s = ''kyc_expired'' then KS_kyc_expired
      else if s = ''abandoned'' then KS_abandoned
      else if s = ''resubmitted'' then KS_resubmitted
      else if s = ''not_started'' then KS_not_started
      else if s = ''in_progress'' then KS_in_progress
      else KS_pending)"

text \<open>\<open>rawStatus?.toLowerCase()\<close> of a value that is no text is a \<open>TypeError\<close>.\<close>

fun statusLower :: "json option \<Rightarrow> exn + string" where
  "statusLower None = Inr []"
| "statusLower (Some JNull) = Inr []"
| "statusLower (Some (JStr s)) = Inr (normalizeStatus s)"
| "statusLower _ = Inl PlainError"

definition kyc_audit :: "string \<Rightarrow> AuditResult \<Rightarrow> json \<Rightarrow> string \<Rightarrow> kyc_status \<Rightarrow> CreateAuditLogInput" where
  "kyc_audit userId res previous key st = (audit_input KYC_STATUS_UPDATED ''User'' res)
     \<lparr>ai_userId := Some userId, ai_resourceId := Some userId,
      ai_metadata := Some (JObj [(''previousStatus'', previous), (key, JStr (kyc_name st))])\<rparr>"

definition setKycStatus :: "string \<Rightarrow> kyc_status \<Rightarrow> ('z, unit) act" where
  "setKycStatus userId st =
     bindE (findUnique user_table (\<lambda>u. u_userId u = userId)) (\<lambda>existing.
       let previous = (case existing of None \<Rightarrow> JNull | Some u \<Rightarrow> JStr (kyc_name (u_kycStatus u)))
       in tryCatch
            (bindE (getState clock) (\<lambda>now.
             bindE (updateUnique user_table (\<lambda>u. u_userId u = userId)
                      (\<lambda>u. u\<lparr>u_kycStatus := st, u_kycUpdatedAt := Some now\<rparr>)) (\<lambda>updated.
             audit_createOrThrow (kyc_audit userId SUCCESS previous ''newStatus'' (u_kycStatus updated)))))
            (\<lambda>_. audit_createOrThrow (kyc_audit userId FAILURE previous ''attemptedStatus'' st)))"

text \<open>
  \<open>uuidRegex.test(userId)\<close> reads any value as a text; an array that reads as an identifier passes it
  and is refused by Prisma.
\<close>

definition processWebhookEvent :: "json \<Rightarrow> ('z, unit) act" where
  "processWebhookEvent payload =
     (let userId = event_field payload ''vendor_data''; rawStatus = event_field payload ''status''
      in if \<not> jtruthy userId \<or> \<not> UUID_PATTERN (js_String userId) then ret ()
         else bindE (lift (statusLower rawStatus)) (\<lambda>s. case userId of
           Some (JStr i) \<Rightarrow> setKycStatus i (statusOf s)
         | _ \<Rightarrow> throw QueryInvalid))"

subsection \<open>The controller\<close>

definition ctrl_kyc_start :: "kyc_env \<Rightarrow> string option \<Rightarrow> ('z, json option) act" where
  "ctrl_kyc_start env userId =
     (if \<not> truthy userId then throw (appExc MISSING_USER_ID) else lift (initializeSession env (the userId)))"

definition ctrl_kyc_status :: "string option \<Rightarrow> ('z, kyc_status \<times> int option) act" where
  "ctrl_kyc_status userId =
     (if \<not> truthy userId then throw (appExc MISSING_USER_ID)
      else bindE (findUnique user_table (\<lambda>u. Some (u_userId u) = userId)) (\<lambda>m. case m of
        None \<Rightarrow> ret (KS_pending, None)
      | Some u \<Rightarrow> ret (u_kycStatus u, u_kycUpdatedAt u)))"

definition ctrl_kyc_webhook :: "kyc_env \<Rightarrow> VerifyWebhookSignatureOptions \<Rightarrow> ('z, unit) act" where
  "ctrl_kyc_webhook env opts =
     bindE (getState clock) (\<lambda>now.
     andThen (lift (verifyWebhookSignature env now opts))
       (processWebhookEvent (get_or (wh_payload opts) (JObj []))))"

end
