(* ===== verification/KycProps.thy ===== *)
theory KycProps
  imports Kyc UserProps GuardProps
begin

text \<open>
  Properties of the KYC webhook: which status a signed event sets, what the simple signature does
  not cover, and which failures leave no audit record.
\<close>

lemma timingSafeEqual_iff [simp]: "timingSafeEqual a b \<longleftrightarrow> a = b"
  by (auto simp: timingSafeEqual_def utf8_inj)

lemma kyc_audit_fields [simp]:
  "ai_userId (kyc_audit i res p k st) = Some i" "ai_action (kyc_audit i res p k st) = KYC_STATUS_UPDATED"
  "ai_resourceId (kyc_audit i res p k st) = Some i"
  by (simp_all add: kyc_audit_def audit_input_def)

definition with_status :: "string \<Rightarrow> kyc_status \<Rightarrow> int \<Rightarrow> user list \<Rightarrow> user list" where
  "with_status i st now us =
     map (\<lambda>u. if u_userId u = i then u\<lparr>u_kycStatus := st, u_kycUpdatedAt := Some now\<rparr> else u) us"

lemma setKycStatus_known:
  assumes "faults s = []" "users_wf (tables s)" "List.find (\<lambda>u. u_userId u = i) (users (tables s)) = Some v"
    and "uuid_source s (uuid_next s) \<notin> set (map a_id (audits (tables s)))"
  shows "wp (setKycStatus i st)
     (\<lambda>_ t. users (tables t) = with_status i st (clock s) (users (tables s)) \<and>
        (\<exists>a. audits (tables t) = audits (tables s) @ [a] \<and> a_userId a = Some i \<and> a_result a = ''SUCCESS''))
     (\<lambda>_ _. False) s"
proof -
  have key: "u_userId v = i" using find_SomeD[OF assms(3)] by simp
  have chk: "t_check user_table (tables s) (filter (\<lambda>x. u_userId x \<noteq> i) (users (tables s)))
      (v\<lparr>u_kycStatus := st, u_kycUpdatedAt := Some (clock s)\<rparr>) = None"
    using user_check_same[OF assms(2,3), of "v\<lparr>u_kycStatus := st, u_kycUpdatedAt := Some (clock s)\<rparr>"] key by simp
  have known: "i \<in> u_userId ` set (users (tables s))"
    using find_SomeD[OF assms(3)] by auto
  show ?thesis
    unfolding setKycStatus_def audit_createOrThrow_def audit_repo_create_def
    using assms(1,3,4) known
    by (auto simp: prog Let_def key chk with_status_def audit_table_def audit_row_def kyc_audit_def audit_input_def image_iff)
qed

lemma processWebhookEvent_user:
  assumes "jfield p ''vendor_data'' = Some (JStr i)" "jfield p ''status'' = Some (JStr st)" "UUID_PATTERN i"
  shows "processWebhookEvent p = bindE (ret (normalizeStatus st)) (\<lambda>s. setKycStatus i (statusOf s))"
proof -
  have "i \<noteq> []" using assms(3) by (auto simp: UUID_PATTERN_def)
  then show ?thesis
    using assms by (simp add: processWebhookEvent_def event_field_def lift_def ret_def)
qed

text \<open>
  C21.  The simple signature is good for any user.  When a webhook with only the simple signature
  was accepted once, the same signature is accepted at any later time with any other body, as
  long as session, status and type are the same and no timestamp is sent: the user it names gets
  the status, approved or not.
\<close>

theorem webhook_simple_signature_replay:
  assumes "verifyWebhookSignature env now opts = Inr ()"
    and "\<not> truthy (wh_signatureV2 opts)" "\<not> truthy (wh_signatureV1 opts)"
    and "simplePayload (Some p) = simplePayload (wh_payload opts)"
    and "jfield p ''vendor_data'' = Some (JStr i)" "jfield p ''status'' = Some (JStr st)" "UUID_PATTERN i"
    and "faults s = []" "users_wf (tables s)" "List.find (\<lambda>u. u_userId u = i) (users (tables s)) = Some v"
    and "uuid_source s (uuid_next s) \<notin> set (map a_id (audits (tables s)))"
  shows "\<exists>t. ctrl_kyc_webhook env (opts\<lparr>wh_payload := Some p, wh_rawBody := Some raw, wh_timestamp := None\<rparr>) s = (Inr (), t) \<and>
     users (tables t) = with_status i (statusOf (normalizeStatus st)) (clock s) (users (tables s))"
proof -
  let ?o = "opts\<lparr>wh_payload := Some p, wh_rawBody := Some raw, wh_timestamp := None\<rparr>"
  have ok: "verifyWebhookSignature env (clock s) ?o = Inr ()"
    using assms(1-4) by (auto simp: verifyWebhookSignature_def orElse_def Let_def staleTimestamp_def
        split: if_splits option.splits)
  have "wp (ctrl_kyc_webhook env ?o)
     (\<lambda>_ t. users (tables t) = with_status i (statusOf (normalizeStatus st)) (clock s) (users (tables s))) (\<lambda>_ _. False) s"
    unfolding ctrl_kyc_webhook_def
    by (simp add: prog ok processWebhookEvent_user[OF assms(5-7)])
      (rule wp_mono[OF setKycStatus_known[OF assms(8-11)]]; simp)
  from wp_returns[OF this] show ?thesis by auto
qed

text \<open>
  Failures of a status change are recorded wrongly or not at all.  For a user that does not exist
  the record of the failure is refused by its foreign key: the event ends in an exception and
  nothing is written.  When only the success record cannot be written, the status is changed all
  the same and the one record says \<open>FAILURE\<close>.
\<close>

theorem kyc_failure_records:
  assumes "uuid_source s (uuid_next s) \<notin> set (map a_id (audits (tables s)))"
    and "uuid_source s (Suc (uuid_next s)) \<notin> set (map a_id (audits (tables s)))" "users_wf (tables s)"
  shows "case List.find (\<lambda>u. u_userId u = i) (users (tables s)) of
      None \<Rightarrow> faults s = [] \<longrightarrow> (\<exists>t. setKycStatus i st s = (Inl ForeignKeyViolation, t) \<and> tables t = tables s)
    | Some v \<Rightarrow> faults s = [False, False, True] \<longrightarrow>
        (\<exists>t a. setKycStatus i st s = (Inr (), t) \<and> audits (tables t) = audits (tables s) @ [a] \<and>
           a_result a = ''FAILURE'' \<and> users (tables t) = with_status i st (clock s) (users (tables s)))"
proof (cases "List.find (\<lambda>u. u_userId u = i) (users (tables s))")
  case None
  then have unknown: "i \<notin> u_userId ` set (users (tables s))" by (auto simp: find_None_iff_ball)
  have "wp (setKycStatus i st) (\<lambda>_ _. False) (\<lambda>e t. e = ForeignKeyViolation \<and> tables t = tables s) s" if "faults s = []"
    unfolding setKycStatus_def audit_createOrThrow_def audit_repo_create_def
    using that None assms(1) unknown
    by (auto simp: prog Let_def audit_table_def audit_row_def kyc_audit_def audit_input_def image_iff)
  with None show ?thesis by (auto dest!: wp_throws)
next
  case (Some v)
  have key: "u_userId v = i" using find_SomeD[OF Some] by simp
  have chk: "t_check user_table (tables s) (filter (\<lambda>x. u_userId x \<noteq> i) (users (tables s)))
      (v\<lparr>u_kycStatus := st, u_kycUpdatedAt := Some (clock s)\<rparr>) = None"
    using user_check_same[OF assms(3) Some, of "v\<lparr>u_kycStatus := st, u_kycUpdatedAt := Some (clock s)\<rparr>"] key by simp
  have known: "i \<in> u_userId ` set (users (tables s))"
    using find_SomeD[OF Some] by auto
  have "wp (setKycStatus i st)
     (\<lambda>_ t. (\<exists>a. audits (tables t) = audits (tables s) @ [a] \<and> a_result a = ''FAILURE'') \<and>
        users (tables t) = with_status i st (clock s) (users (tables s))) (\<lambda>_ _. False) s"
    if "faults s = [False, False, True]"
    unfolding setKycStatus_def audit_createOrThrow_def audit_repo_create_def
    using that Some assms(1,2) known
    by (auto simp: wp_any db_any_def prog Let_def key chk with_status_def audit_table_def audit_row_def kyc_audit_def
        audit_input_def image_iff)
  with Some show ?thesis by (auto dest!: wp_returns)
qed

text \<open>The witnesses: a user with a UUID, and a webhook of another user's session.\<close>

definition kyc_user :: string where
  "kyc_user = ''aaaaaaaa-aaaa-aaaa-aaaa-aaaaaaaaaaaa''"

lemma kyc_user_uuid: "UUID_PATTERN kyc_user"
  by code_simp

definition kyc_db :: db where
  "kyc_db = empty_db\<lparr>users := [sample_user kyc_user ''GB'']\<rparr>"

lemma kyc_db_simps [simp]: "users kyc_db = [sample_user kyc_user ''GB'']" "audits kyc_db = []"
  by (simp_all add: kyc_db_def empty_db_def)

lemma kyc_db_wf: "users_wf kyc_db"
  by (simp add: users_wf_def)

definition sample_kyc :: kyc_env where
  "sample_kyc = \<lparr> ky_config = [''DIDIT_WEBHOOK_SECRET'' \<mapsto> ''s''],
     hmac_hex = (\<lambda>k d. if k = ''s'' \<and> d = utf8 '':7:Approved:x'' then ''ab'' else ''cd''), didit_session = (\<lambda>_ _. FetchFails) \<rparr>"

definition event_of :: "string \<Rightarrow> json" where
  "event_of i = JObj [(''session_id'', JStr ''7''), (''status'', JStr ''Approved''), (''webhook_type'', JStr ''x''),
     (''vendor_data'', JStr i)]"

definition sample_webhook :: VerifyWebhookSignatureOptions where
  "sample_webhook = \<lparr> wh_signatureV2 = None, wh_signatureV1 = None, wh_signatureSimple = Some ''ab'',
     wh_timestamp = Some ''0'', wh_rawBody = Some [], wh_payload = Some (event_of ''other'') \<rparr>"

lemma event_of_fields:
  "simplePayload (Some (event_of i)) = '':7:Approved:x''"
  "jfield (event_of i) ''vendor_data'' = Some (JStr i)" "jfield (event_of i) ''status'' = Some (JStr ''Approved'')"
  by (simp_all add: simplePayload_def payload_text_def vfield_def event_of_def)

lemma sample_webhook_accepted: "verifyWebhookSignature sample_kyc 0 sample_webhook = Inr ()"
proof -
  have "trim ''ab'' = ''ab''" by code_simp
  moreover have "staleTimestamp 0 (Some ''0'') = False" by code_simp
  ultimately show ?thesis
    by (simp add: verifyWebhookSignature_def sample_kyc_def sample_webhook_def orElse_def event_of_fields)
qed

theorem webhook_simple_signature_replay_witness:
  "\<exists>t. ctrl_kyc_webhook sample_kyc
      (sample_webhook\<lparr>wh_payload := Some (event_of kyc_user), wh_rawBody := Some [1], wh_timestamp := None\<rparr>)
      (quiet_world kyc_db) = (Inr (), t) \<and> map u_kycStatus (users (tables t)) = [KS_approved]"
proof -
  have st: "statusOf (normalizeStatus ''Approved'') = KS_approved" by code_simp
  have "\<exists>t. ctrl_kyc_webhook sample_kyc
      (sample_webhook\<lparr>wh_payload := Some (event_of kyc_user), wh_rawBody := Some [1], wh_timestamp := None\<rparr>)
      (quiet_world kyc_db) = (Inr (), t) \<and>
     users (tables t) = with_status kyc_user (statusOf (normalizeStatus ''Approved'')) (clock (quiet_world kyc_db)) (users (tables (quiet_world kyc_db)))"
    by (rule webhook_simple_signature_replay[OF sample_webhook_accepted])
      (simp_all add: event_of_fields sample_webhook_def kyc_user_uuid kyc_db_wf)
  then show ?thesis by (auto simp: st with_status_def)
qed

theorem kyc_failure_records_witness:
  "\<exists>t a. setKycStatus kyc_user KS_approved ((quiet_world kyc_db)\<lparr>faults := [False, False, True]\<rparr>) = (Inr (), t) \<and>
     audits (tables t) = [a] \<and> a_result a = ''FAILURE'' \<and> map u_kycStatus (users (tables t)) = [KS_approved]"
proof -
  have "\<exists>t a. setKycStatus kyc_user KS_approved ((quiet_world kyc_db)\<lparr>faults := [False, False, True]\<rparr>) = (Inr (), t) \<and>
     audits (tables t) = [a] \<and> a_result a = ''FAILURE'' \<and> users (tables t) = with_status kyc_user KS_approved 1000 (users kyc_db)"
    using kyc_failure_records[of "(quiet_world kyc_db)\<lparr>faults := [False, False, True]\<rparr>" kyc_user KS_approved]
    by (simp add: kyc_db_wf)
  then show ?thesis by (auto simp: with_status_def)
qed

end
