(* ===== verification/Stellar.thy ===== *)
theory Stellar
  imports Config Numbers StellarEvents
begin

text \<open>
  \<open>StellarService\<close> (\<open>src/modules/stellar/stellar.service.ts\<close>), the routes of its controller and
  \<open>src/lib/utils/stellar-error.util.ts\<close>.  Horizon and the Stellar SDK (keys, building, encoding
  and submitting a transaction) are parameters; what the service asks of them is explicit: a
  transaction is a \<open>tx_spec\<close> with its list of payments.
\<close>

subsection \<open>Data\<close>

datatype asset = NativeAsset | CreditAsset string string

record payment_op =
  po_destination :: string
  po_asset :: asset
  po_amount :: string

record tx_spec =
  ts_source :: string
  ts_fee :: string
  ts_passphrase :: string
  ts_operations :: "payment_op list"
  ts_memo :: "string option"
  ts_timeout :: nat

record BalanceRecord =
  bl_asset_type :: string
  bl_asset_code :: "string option"
  bl_asset_issuer :: "string option"
  bl_balance :: string
  bl_limit :: "string option"

text \<open>\<open>OperationFields\<close>: what is read of a Horizon operation record.\<close>

record OperationFields =
  of_id :: string
  of_transaction_hash :: string
  of_created_at :: string
  of_type :: string
  of_amount :: "string option"
  of_asset_type :: "string option"
  of_asset_code :: "string option"
  of_asset_issuer :: "string option"
  of_from :: "string option"
  of_to :: "string option"
  of_funder :: "string option"
  of_account :: "string option"

datatype (plugins only: code size) direction = Received | Sent

record TransactionRecord =
  tr_id :: string
  tr_transaction_hash :: string
  tr_created_at :: string
  tr_type :: string
  tr_amount :: "string option"
  tr_asset :: "string option"
  tr_asset_issuer :: "string option"
  tr_from :: "string option"
  tr_to :: "string option"
  tr_direction :: direction

record PaymentResult =
  pr_hash :: string
  pr_ledger :: int
  pr_successful :: bool

text \<open>
  The network and the SDK: accounts with their balances, payments of an account, submission (an
  error is the thrown object, as JSON), the base fee and the passphrases, secrets to public keys,
  the assets and transactions the SDK accepts, and the XDR texts it reads.
\<close>

record horizon_env =
  hz_config :: config
  hz_loadAccount :: "string \<Rightarrow> json + BalanceRecord list"
  hz_payments :: "string \<Rightarrow> rat option \<Rightarrow> json + OperationFields list"
  hz_submit :: "string \<Rightarrow> string option \<Rightarrow> json + PaymentResult"
  sdk_BASE_FEE :: string
  sdk_PUBLIC :: string
  sdk_TESTNET :: string
  sdk_publicKey :: "string \<Rightarrow> string option"
  sdk_asset_ok :: "string \<Rightarrow> string \<Rightarrow> bool"
  sdk_build :: "tx_spec \<Rightarrow> string option"
  sdk_fromXDR :: "string \<Rightarrow> string \<Rightarrow> string option"

subsection \<open>Checks\<close>

text \<open>\<open>/^\d+(\.\d{1,7})?$/\<close>, also \<open>AMOUNT_REGEX\<close> of \<open>src/lib/constants/regex.ts\<close>.\<close>

definition AMOUNT_REGEX :: "string \<Rightarrow> bool" where
  "AMOUNT_REGEX s =
     (case split_on (CHR ''.'') s of
        [a] \<Rightarrow> a \<noteq> [] \<and> all_digits a
      | [a, b] \<Rightarrow> a \<noteq> [] \<and> all_digits a \<and> all_digits b \<and> 1 \<le> length b \<and> length b \<le> 7
      | _ \<Rightarrow> False)"

text \<open>For a text of this pattern \<open>Number(amount) <= 0\<close> says that the decimal value is zero.\<close>

definition assertAmount :: "string \<Rightarrow> exn + unit" where
  "assertAmount amount =
     (if \<not> AMOUNT_REGEX amount \<or> (case decimal_number amount of None \<Rightarrow> False | Some x \<Rightarrow> x \<le> 0)
      then Inl (appExc INVALID_AMOUNT) else Inr ())"

definition assertPublicKey :: "string \<Rightarrow> exn + unit" where
  "assertPublicKey key =
     (if key = [] \<or> hd key \<noteq> CHR ''G'' \<or> length key < 50 then Inl (appExc INVALID_STELLAR_ADDRESS) else Inr ())"

definition networkPassphrase :: "horizon_env \<Rightarrow> string" where
  "networkPassphrase env =
     (if get_or (hz_config env ''STELLAR_NETWORK'') ''testnet'' = ''public'' then sdk_PUBLIC env else sdk_TESTNET env)"

text \<open>Sequencing in the sum.\<close>

definition thenE :: "exn + 'a \<Rightarrow> ('a \<Rightarrow> exn + 'b) \<Rightarrow> exn + 'b" where
  "thenE m f = (case m of Inl e \<Rightarrow> Inl e | Inr a \<Rightarrow> f a)"

lemma thenE_simps [simp]: "thenE (Inl e) f = Inl e" "thenE (Inr a) f = f a"
  by (simp_all add: thenE_def)

lemma thenE_Inr: "thenE m f = Inr b \<longleftrightarrow> (\<exists>a. m = Inr a \<and> f a = Inr b)"
  by (cases m) auto

text \<open>A throw of the SDK or of Horizon that nobody translates.\<close>

definition orThrow :: "'a option \<Rightarrow> exn + 'a" where
  "orThrow x = (case x of None \<Rightarrow> Inl PlainError | Some a \<Rightarrow> Inr a)"

definition untranslated :: "json + 'a \<Rightarrow> exn + 'a" where
  "untranslated x = (case x of Inl _ \<Rightarrow> Inl PlainError | Inr a \<Rightarrow> Inr a)"

lemma orThrow_simps [simp]: "orThrow None = Inl PlainError" "orThrow (Some a) = Inr a"
  by (simp_all add: orThrow_def)

lemma untranslated_simps [simp]: "untranslated (Inl j) = Inl PlainError" "untranslated (Inr a) = Inr a"
  by (simp_all add: untranslated_def)

subsection \<open>Reading the network\<close>

definition getAccount :: "horizon_env \<Rightarrow> string \<Rightarrow> exn + BalanceRecord list" where
  "getAccount env pk = thenE (assertPublicKey pk) (\<lambda>_. untranslated (hz_loadAccount env pk))"

definition getBalances :: "horizon_env \<Rightarrow> string \<Rightarrow> exn + BalanceRecord list" where
  "getBalances env pk = getAccount env pk"

definition clampLimit :: "rat option \<Rightarrow> rat option" where
  "clampLimit l = map_option (\<lambda>x. min (max x 1) 200) l"

definition transaction_record :: "string \<Rightarrow> OperationFields \<Rightarrow> TransactionRecord" where
  "transaction_record pk op = \<lparr> tr_id = of_id op, tr_transaction_hash = of_transaction_hash op,
     tr_created_at = of_created_at op, tr_type = of_type op, tr_amount = of_amount op,
     tr_asset = (if of_asset_type op = Some ''native'' then Some ''XLM'' else of_asset_code op),
     tr_asset_issuer = of_asset_issuer op,
     tr_from = nullish (of_from op) (of_funder op), tr_to = nullish (of_to op) (of_account op),
     tr_direction = (if of_to op = Some pk \<or> of_account op = Some pk then Received else Sent) \<rparr>"

definition getTransactions :: "horizon_env \<Rightarrow> string \<Rightarrow> rat option \<Rightarrow> exn + TransactionRecord list" where
  "getTransactions env pk limit =
     thenE (assertPublicKey pk) (\<lambda>_.
       case hz_payments env pk (clampLimit limit) of
         Inl err \<Rightarrow> if vfield (jfield err ''response'') ''status'' = Some (JNum 404)
                    then Inl (appExc STELLAR_ACCOUNT_NOT_FOUND) else Inl (appExc STELLAR_TRANSACTION_FAILED)
       | Inr ops \<Rightarrow> Inr (map (transaction_record pk) ops))"

subsection \<open>Building and submitting transactions\<close>

definition buildAsset :: "horizon_env \<Rightarrow> (string \<times> string option) option \<Rightarrow> exn + asset" where
  "buildAsset env asset =
     (case asset of
        None \<Rightarrow> Inr NativeAsset
      | Some (code, issuer) \<Rightarrow>
          if code = ''XLM'' then Inr NativeAsset
          else if \<not> truthy issuer then Inl (appExc MISSING_ASSET_ISSUER)
          else thenE (assertPublicKey (the issuer)) (\<lambda>_.
            if sdk_asset_ok env code (the issuer) then Inr (CreditAsset code (the issuer)) else Inl PlainError))"

definition getUsdcAsset :: "horizon_env \<Rightarrow> exn + asset" where
  "getUsdcAsset env =
     (let issuer = hz_config env ''TRUSTLESS_WORK_USDC_ISSUER''
      in if \<not> truthy issuer then Inl (appExc MISSING_ASSET_ISSUER)
         else thenE (assertPublicKey (the issuer)) (\<lambda>_.
           if sdk_asset_ok env ''USDC'' (the issuer) then Inr (CreditAsset ''USDC'' (the issuer)) else Inl PlainError))"

record SendPaymentDto =
  sp_destination :: string
  sp_amount :: string
  sp_memo :: "string option"
  sp_asset :: "(string \<times> string option) option"

definition sendPayment :: "horizon_env \<Rightarrow> SendPaymentDto \<Rightarrow> exn + PaymentResult" where
  "sendPayment env p =
     (let signerSecret = hz_config env ''STELLAR_SIGNER_SECRET''
      in if \<not> truthy signerSecret then Inl (appExc MISSING_SIGNER_SECRET)
         else
           thenE (assertPublicKey (sp_destination p)) (\<lambda>_.
           thenE (assertAmount (sp_amount p)) (\<lambda>_.
           thenE (orThrow (sdk_publicKey env (the signerSecret))) (\<lambda>source.
           thenE (untranslated (hz_loadAccount env source)) (\<lambda>_.
           thenE (buildAsset env (sp_asset p)) (\<lambda>asset.
           thenE (orThrow (sdk_build env \<lparr> ts_source = source, ts_fee = sdk_BASE_FEE env,
               ts_passphrase = networkPassphrase env,
               ts_operations = [\<lparr> po_destination = sp_destination p, po_asset = asset, po_amount = sp_amount p \<rparr>],
               ts_memo = (if truthy (sp_memo p) then sp_memo p else None), ts_timeout = 60 \<rparr>)) (\<lambda>tx.
           untranslated (hz_submit env tx signerSecret))))))))"

definition usdc_send_spec :: "horizon_env \<Rightarrow> string \<Rightarrow> string \<Rightarrow> string \<Rightarrow> string \<Rightarrow> string \<Rightarrow> asset \<Rightarrow> tx_spec" where
  "usdc_send_spec env source destination amount feeAddress feeAmount usdc =
     \<lparr> ts_source = source, ts_fee = sdk_BASE_FEE env, ts_passphrase = networkPassphrase env,
       ts_operations = [\<lparr> po_destination = destination, po_asset = usdc, po_amount = amount \<rparr>,
                        \<lparr> po_destination = feeAddress, po_asset = usdc, po_amount = feeAmount \<rparr>],
       ts_memo = None, ts_timeout = 180 \<rparr>"

definition buildUnsignedUsdcSend ::
    "horizon_env \<Rightarrow> string \<Rightarrow> string \<Rightarrow> string \<Rightarrow> string \<Rightarrow> string \<Rightarrow> exn + string \<times> string" where
  "buildUnsignedUsdcSend env source destination amount feeAddress feeAmount =
     thenE (assertPublicKey source) (\<lambda>_.
     thenE (assertPublicKey destination) (\<lambda>_.
     thenE (assertPublicKey feeAddress) (\<lambda>_.
     thenE (assertAmount amount) (\<lambda>_.
     thenE (assertAmount feeAmount) (\<lambda>_.
     thenE (getUsdcAsset env) (\<lambda>usdc.
     thenE (untranslated (hz_loadAccount env source)) (\<lambda>_.
     thenE (orThrow (sdk_build env (usdc_send_spec env source destination amount feeAddress feeAmount usdc))) (\<lambda>xdr.
     Inr (xdr, networkPassphrase env)))))))))"

definition submitSignedXdr :: "horizon_env \<Rightarrow> string \<Rightarrow> exn + PaymentResult" where
  "submitSignedXdr env signedXdr =
     (case sdk_fromXDR env signedXdr (networkPassphrase env) of
        None \<Rightarrow> Inl (appExc INVALID_AMOUNT)
      | Some tx \<Rightarrow> (case hz_submit env tx None of
          Inl err \<Rightarrow> Inl (appExc STELLAR_TRANSACTION_FAILED)
        | Inr r \<Rightarrow> Inr r))"

subsection \<open>Error messages\<close>

definition OPERATION_ERROR_MESSAGES :: "string \<Rightarrow> string option" where
  "OPERATION_ERROR_MESSAGES = map_of
     [(''op_no_trust'', ''The recipient or the fee collector has no USDC trustline.''),
      (''op_underfunded'', ''Insufficient funds to cover the amount and the fee.'')]"

definition TRANSACTION_ERROR_MESSAGES :: "string \<Rightarrow> string option" where
  "TRANSACTION_ERROR_MESSAGES = map_of
     [(''tx_insufficient_balance'', ''Insufficient funds to cover the amount and the fee.''),
      (''tx_bad_auth'', ''The transaction is not signed correctly.''),
      (''tx_bad_auth_extra'', ''The transaction is not signed correctly.''),
      (''tx_too_late'', ''The transaction expired. Please prepare and sign it again.''),
      (''tx_too_early'', ''The transaction expired. Please prepare and sign it again.'')]"

definition DEFAULT_ERROR_MESSAGE :: string where
  "DEFAULT_ERROR_MESSAGE = ''The transaction could not be submitted to Stellar.''"

definition extractResultCodes :: "json \<Rightarrow> json option" where
  "extractResultCodes err =
     vfield (vfield (vfield (jfield err ''response'') ''data'') ''extras'') ''result_codes''"

fun firstOperationMessage :: "json list \<Rightarrow> string option" where
  "firstOperationMessage [] = None"
| "firstOperationMessage (c # cs) =
     (case OPERATION_ERROR_MESSAGES (js_String (Some c)) of Some m \<Rightarrow> Some m | None \<Rightarrow> firstOperationMessage cs)"

definition describeHorizonError :: "json \<Rightarrow> string" where
  "describeHorizonError err =
     (let codes = extractResultCodes err; txCode = vfield codes ''transaction'';
          opCodes = (case vfield codes ''operations'' of Some (JArr cs) \<Rightarrow> cs | _ \<Rightarrow> [])
      in case firstOperationMessage opCodes of
           Some m \<Rightarrow> m
         | None \<Rightarrow>
             if jtruthy txCode
             then get_or (TRANSACTION_ERROR_MESSAGES (js_String txCode))
                    (''Stellar rejected the transaction ('' @ js_String txCode @ '').'')
             else DEFAULT_ERROR_MESSAGE)"

subsection \<open>The controller\<close>

definition limit_of :: "string option \<Rightarrow> rat option" where
  "limit_of limit = (if truthy limit then js_Number_of (the limit) else Some 10)"

definition ctrl_getTransactions :: "horizon_env \<Rightarrow> string \<Rightarrow> string option \<Rightarrow> exn + TransactionRecord list" where
  "ctrl_getTransactions env pk limit = getTransactions env pk (limit_of limit)"

text \<open>\<open>POST /stellar/pay\<close> has no guard.\<close>

definition ctrl_sendPayment :: "horizon_env \<Rightarrow> SendPaymentDto \<Rightarrow> exn + PaymentResult" where
  "ctrl_sendPayment env p = sendPayment env p"

end
