(* ===== verification/Send.thy ===== *)
theory Send
  imports Users Stellar
begin

text \<open>
  Sending USDC: \<open>SendService\<close> and the checks of \<open>SendController\<close> (\<open>src/modules/send\<close>).  An amount is a
  decimal text; it is converted to stroops (1 unit = \<open>10^7\<close>), the fee is taken in basis points, and
  an unsigned transaction of two payments is built.
\<close>

definition STROOPS_PER_UNIT :: nat where
  "STROOPS_PER_UNIT = 10000000"

record RecipientInfo =
  ri_address :: string
  ri_alias :: "string option"
  ri_exists :: bool
  ri_hasUsdcTrustline :: bool

record PreparedSend =
  ps_address :: string
  ps_alias :: "string option"
  ps_asset :: string
  ps_amount :: string
  ps_fee :: string
  ps_total :: string
  ps_unsignedXdr :: string
  ps_networkPassphrase :: string

subsection \<open>Amounts\<close>

definition toStroops :: "string \<Rightarrow> exn + nat" where
  "toStroops amount =
     (if \<not> AMOUNT_REGEX amount then Inl (appExc INVALID_AMOUNT)
      else let parts = split_on (CHR ''.'') amount;
               decPart = (case parts of _ # d # _ \<Rightarrow> d | _ \<Rightarrow> []);
               decPadded = padEnd 7 (CHR ''0'') decPart
           in Inr (digits_val (hd parts) * STROOPS_PER_UNIT + digits_val decPadded))"

text \<open>\<open>.replace(/0+$/, '')\<close>.\<close>

definition stripTrailingZeros :: "string \<Rightarrow> string" where
  "stripTrailingZeros s = rev (dropWhile (\<lambda>c. c = CHR ''0'') (rev s))"

definition fromStroops :: "nat \<Rightarrow> string" where
  "fromStroops stroops =
     (let intPart = stroops div STROOPS_PER_UNIT; decPart = stroops mod STROOPS_PER_UNIT
      in if decPart = 0 then show_nat intPart
         else show_nat intPart @ CHR ''.'' # stripTrailingZeros (padStart 7 (CHR ''0'') (show_nat decPart)))"

text \<open>
  \<open>Math.round(percent * 100)\<close>, with the product of doubles.  \<open>None\<close> is a product that overflows, of which
  no \<open>BigInt\<close> can be made.
\<close>

definition feeBps :: "config \<Rightarrow> nat option" where
  "feeBps cfg =
     (case js_Number_of (get_or (cfg ''SEND_CRYPTO_FEE_PERCENT'') ''0.3'') of
        None \<Rightarrow> Some 30
      | Some percent \<Rightarrow> if percent < 0 then Some 30
          else map_option (\<lambda>x. nat (math_round x)) (finite_double (percent * 100)))"

definition feeCollector :: "config \<Rightarrow> exn + string" where
  "feeCollector cfg =
     (let address = cfg ''IKASH_TREASURY_ADDRESS''
      in if \<not> truthy address then Inl (appExc MISSING_FEE_COLLECTOR) else Inr (the address))"

subsection \<open>The recipient\<close>

definition isStellarAddress :: "string \<Rightarrow> bool" where
  "isStellarAddress value \<longleftrightarrow> length value = 56 \<and> hd value = CHR ''G''"

definition resolve :: "string \<Rightarrow> ('z, string \<times> string option) act" where
  "resolve recipient =
     (let value = trim recipient
      in if isStellarAddress value
         then bindE (findByPublicKey value) (\<lambda>user.
                ret (value, case user of None \<Rightarrow> None | Some a \<Rightarrow> u_alias (at_user a)))
         else bindE (findByAlias value) (\<lambda>user. case user of
                None \<Rightarrow> throw (appExc INVALID_RECIPIENT)
              | Some u \<Rightarrow> ret (u_publicKey u, u_alias u)))"

definition resolveRecipient :: "horizon_env \<Rightarrow> string \<Rightarrow> ('z, RecipientInfo) act" where
  "resolveRecipient env recipient = bindE (resolve recipient) (\<lambda>(address, alias).
     ret (case getBalances env address of
            Inl _ \<Rightarrow> \<lparr> ri_address = address, ri_alias = alias, ri_exists = False, ri_hasUsdcTrustline = False \<rparr>
          | Inr bs \<Rightarrow> \<lparr> ri_address = address, ri_alias = alias, ri_exists = True,
              ri_hasUsdcTrustline = list_ex (\<lambda>b. bl_asset_code b = Some ''USDC'') bs \<rparr>))"

subsection \<open>Preparing and submitting\<close>

definition prepare_tx :: "horizon_env \<Rightarrow> string \<Rightarrow> string \<Rightarrow> string option \<Rightarrow> string \<Rightarrow> exn + PreparedSend" where
  "prepare_tx env source address alias amount =
     thenE (toStroops amount) (\<lambda>amountStroops.
     if amountStroops = 0 then Inl (appExc AMOUNT_TOO_SMALL)
     else thenE (orThrow (feeBps (hz_config env))) (\<lambda>bps.
          let feeStroops = amountStroops * bps div 10000
          in if feeStroops = 0 then Inl (appExc AMOUNT_TOO_SMALL)
             else thenE (feeCollector (hz_config env)) (\<lambda>feeAddress.
               thenE (buildUnsignedUsdcSend env source address (fromStroops amountStroops) feeAddress (fromStroops feeStroops))
                 (\<lambda>(xdr, passphrase).
                 Inr \<lparr> ps_address = address, ps_alias = alias, ps_asset = ''USDC'',
                       ps_amount = fromStroops amountStroops, ps_fee = fromStroops feeStroops,
                       ps_total = fromStroops (amountStroops + feeStroops), ps_unsignedXdr = xdr,
                       ps_networkPassphrase = passphrase \<rparr>))))"

definition prepare :: "horizon_env \<Rightarrow> string \<Rightarrow> string \<Rightarrow> string \<Rightarrow> ('z, PreparedSend) act" where
  "prepare env sourcePublicKey recipient amount = bindE (resolve recipient) (\<lambda>(address, alias).
     if address = sourcePublicKey then throw (appExc SELF_SEND)
     else lift (prepare_tx env sourcePublicKey address alias amount))"

definition submit :: "horizon_env \<Rightarrow> string \<Rightarrow> exn + PaymentResult" where
  "submit env signedXdr = submitSignedXdr env signedXdr"

definition ctrl_send_resolve :: "horizon_env \<Rightarrow> string option \<Rightarrow> ('z, RecipientInfo) act" where
  "ctrl_send_resolve env recipient =
     (if \<not> truthy recipient then throw (appExc INVALID_RECIPIENT) else resolveRecipient env (the recipient))"

subsection \<open>Stroops and decimal texts\<close>

lemma digits_val_padEnd: "length s \<le> k \<Longrightarrow> digits_val (padEnd k (CHR ''0'') s) = digits_val s * 10 ^ (k - length s)"
  by (simp add: padEnd_def digits_val_append)

lemma stripTrailingZeros_split: "\<exists>n. s = stripTrailingZeros s @ replicate n (CHR ''0'')"
proof -
  have "rev s = takeWhile (\<lambda>c. c = CHR ''0'') (rev s) @ dropWhile (\<lambda>c. c = CHR ''0'') (rev s)" by simp
  moreover have "takeWhile (\<lambda>c. c = CHR ''0'') (rev s) = replicate (length (takeWhile (\<lambda>c. c = CHR ''0'') (rev s))) (CHR ''0'')"
    by (rule replicate_length_same[symmetric]) (auto dest: set_takeWhileD)
  ultimately show ?thesis unfolding stripTrailingZeros_def by (metis rev_append rev_rev_ident rev_replicate)
qed

lemma stripTrailingZeros_padEnd:
  assumes "length s = k"
  shows "padEnd k (CHR ''0'') (stripTrailingZeros s) = s"
proof -
  obtain n where n: "s = stripTrailingZeros s @ replicate n (CHR ''0'')"
    using stripTrailingZeros_split by blast
  then have "length s = length (stripTrailingZeros s) + n" by (metis length_append length_replicate)
  then have "k - length (stripTrailingZeros s) = n" using assms by simp
  then show ?thesis using n by (simp add: padEnd_def)
qed

lemma stripTrailingZeros_nonempty: "digits_val s \<noteq> 0 \<Longrightarrow> stripTrailingZeros s \<noteq> []"
  using stripTrailingZeros_split[of s] by (metis append_Nil digits_val_replicate_zero)

end
