(* ===== verification/SendProps.thy ===== *)
theory SendProps
  imports Send AuthProps
begin

text \<open>
  Properties of sending: stroops and decimal texts are inverse to each other, a decimal text is
  converted to exactly its value, and what a prepared transaction pays to whom.
\<close>

lemma AMOUNT_REGEX_int: "a \<noteq> [] \<Longrightarrow> all_digits a \<Longrightarrow> AMOUNT_REGEX a"
  by (simp add: AMOUNT_REGEX_def split_on_none digits_no_dot)

lemma split_frac: "all_digits a \<Longrightarrow> all_digits b \<Longrightarrow> split_on (CHR ''.'') (a @ CHR ''.'' # b) = [a, b]"
  by (simp add: split_on_append split_on_none digits_no_dot)

lemma AMOUNT_REGEX_frac:
  "a \<noteq> [] \<Longrightarrow> all_digits a \<Longrightarrow> all_digits b \<Longrightarrow> 1 \<le> length b \<Longrightarrow> length b \<le> 7 \<Longrightarrow> AMOUNT_REGEX (a @ CHR ''.'' # b)"
  by (simp add: AMOUNT_REGEX_def split_frac)

lemma AMOUNT_REGEX_cases:
  assumes "AMOUNT_REGEX s"
  obtains "s \<noteq> []" "all_digits s"
  | a b where "s = a @ CHR ''.'' # b" "a \<noteq> []" "all_digits a" "all_digits b" "1 \<le> length b" "length b \<le> 7"
proof -
  have s: "s = join ''.'' (split_on (CHR ''.'') s)" by (simp add: join_split)
  from assms consider a where "split_on (CHR ''.'') s = [a]" "a \<noteq> []" "all_digits a"
    | a b where "split_on (CHR ''.'') s = [a, b]" "a \<noteq> []" "all_digits a" "all_digits b" "1 \<le> length b" "length b \<le> 7"
    by (auto simp: AMOUNT_REGEX_def split: list.splits)
  then show thesis
  proof cases
    case 1 then show thesis using s that(1) by simp
  next
    case 2 then show thesis using s that(2)[of a b] by simp
  qed
qed

lemma toStroops_int: "a \<noteq> [] \<Longrightarrow> all_digits a \<Longrightarrow> toStroops a = Inr (digits_val a * 10000000)"
proof -
  have "digits_val (padEnd 7 (CHR ''0'') []) = 0" by (simp add: padEnd_def)
  moreover assume "a \<noteq> []" "all_digits a"
  ultimately show ?thesis
    by (simp add: toStroops_def AMOUNT_REGEX_int split_on_none digits_no_dot STROOPS_PER_UNIT_def)
qed

lemma toStroops_frac:
  assumes "a \<noteq> []" "all_digits a" "all_digits b" "1 \<le> length b" "length b \<le> 7"
  shows "toStroops (a @ CHR ''.'' # b) = Inr (digits_val a * 10000000 + digits_val b * 10 ^ (7 - length b))"
  using assms by (simp add: toStroops_def AMOUNT_REGEX_frac split_frac STROOPS_PER_UNIT_def digits_val_padEnd)

lemma fromStroops_int: "n mod 10000000 = 0 \<Longrightarrow> fromStroops n = show_nat (n div 10000000)"
  by (simp add: fromStroops_def STROOPS_PER_UNIT_def)

definition frac_digits :: "nat \<Rightarrow> string" where
  "frac_digits n = stripTrailingZeros (padStart 7 (CHR ''0'') (show_nat n))"

lemma fromStroops_frac:
  "n mod 10000000 \<noteq> 0 \<Longrightarrow> fromStroops n = show_nat (n div 10000000) @ CHR ''.'' # frac_digits (n mod 10000000)"
  by (simp add: fromStroops_def STROOPS_PER_UNIT_def frac_digits_def)

lemma frac_digits:
  assumes "0 < n" "n < 10000000"
  shows "all_digits (frac_digits n)" "1 \<le> length (frac_digits n)" "length (frac_digits n) \<le> 7"
    "digits_val (frac_digits n) * 10 ^ (7 - length (frac_digits n)) = n"
proof -
  let ?p = "padStart 7 (CHR ''0'') (show_nat n)"
  have short: "length (show_nat n) \<le> 7" using assms(2) by (intro length_show_nat) simp_all
  then have len: "length ?p = 7" by (simp add: padStart_def)
  have zero: "is_digit (CHR ''0'')" by code_simp
  have digits: "all_digits ?p" by (simp add: padStart_def) (simp add: all_digits_def zero list_all_length)
  have val: "digits_val ?p = n" by (simp add: padStart_def)
  have pad: "padEnd 7 (CHR ''0'') (frac_digits n) = ?p"
    using stripTrailingZeros_padEnd[OF len] by (simp add: frac_digits_def)
  obtain k where k: "?p = frac_digits n @ replicate k (CHR ''0'')"
    using stripTrailingZeros_split[of ?p] by (auto simp: frac_digits_def)
  show "all_digits (frac_digits n)" using digits k by (metis all_digits_simps(3))
  show l7: "length (frac_digits n) \<le> 7" using k len by (metis length_append le_add1)
  show "1 \<le> length (frac_digits n)"
    using stripTrailingZeros_nonempty[of ?p] val assms(1) by (cases "frac_digits n") (auto simp: frac_digits_def)
  show "digits_val (frac_digits n) * 10 ^ (7 - length (frac_digits n)) = n"
    using digits_val_padEnd[OF l7] pad val by simp
qed

lemma toStroops_fromStroops: "toStroops (fromStroops n) = Inr n"
proof (cases "n mod 10000000 = 0")
  case True
  then show ?thesis by (simp add: fromStroops_int toStroops_int) (metis mod_0_imp_dvd dvd_div_mult_self)
next
  case False
  then have f: "0 < n mod 10000000" "n mod 10000000 < 10000000" by simp_all
  then show ?thesis
    using False frac_digits[OF f] by (simp add: fromStroops_frac toStroops_frac)
qed

subsection \<open>The value of an amount\<close>

lemma plain_digit:
  assumes "is_digit c \<or> c = CHR ''.''"
  shows "\<not> js_space c" "lower_char c = c" "c \<noteq> CHR ''e''"
proof -
  have dot: "\<not> js_space (CHR ''.'')" "lower_char (CHR ''.'') = CHR ''.''" by code_simp+
  have e: "\<not> is_digit (CHR ''e'')" by code_simp
  have "\<not> is_upper c" if "is_digit c" using that by (auto simp: is_digit_def is_upper_def)
  then have "lower_char c = c" if "is_digit c" using that by (simp add: lower_char_def)
  then show "\<not> js_space c" "lower_char c = c" "c \<noteq> CHR ''e''" using assms dot e by auto
qed

lemma decimal_number_plain:
  assumes "s \<noteq> []" "\<forall>c \<in> set s. is_digit c \<or> c = CHR ''.''"
  shows "decimal_number s = mantissa s"
proof -
  have "trim s = s" using assms(2) by (intro trim_no_space) (auto simp: plain_digit)
  moreover have "toLower s = s" using assms(2) by (simp add: toLower_def map_idI plain_digit)
  moreover have "CHR ''e'' \<notin> set s" using assms(2) plain_digit(3) by blast
  ultimately show ?thesis using assms(1) by (simp add: decimal_number_def split_on_none)
qed

lemma mantissa_frac:
  assumes "a \<noteq> []" "all_digits a" "all_digits b"
  shows "mantissa (a @ CHR ''.'' # b) = Some (rat_of_nat (digits_val (a @ b)) / 10 ^ length b)"
proof -
  have "unsigned_part (a @ CHR ''.'' # b) = a @ CHR ''.'' # b" "\<not> negative_text (a @ CHR ''.'' # b)"
    using unsigned_part_digits[OF assms(2)] assms(1) by (cases a; simp add: unsigned_part_def negative_text_def split: if_splits)+
  then show ?thesis using assms by (simp add: mantissa_def split_frac)
qed

lemma stroops_value:
  assumes "AMOUNT_REGEX s"
  shows "\<exists>n. toStroops s = Inr n \<and> decimal_number s = Some (rat_of_nat n / 10000000)"
  using assms
proof (cases rule: AMOUNT_REGEX_cases)
  case 1
  then show ?thesis
    by (simp add: toStroops_int decimal_number_plain mantissa_digits all_digits_def list_all_iff)
next
  case (2 a b)
  have "decimal_number s = Some (rat_of_nat (digits_val (a @ b)) / 10 ^ length b)"
    using 2 decimal_number_plain[of s] mantissa_frac[of a b] by (auto simp: all_digits_def list_all_iff)
  moreover have "(10::rat) ^ 7 = 10 ^ length b * 10 ^ (7 - length b)"
    using 2(6) by (simp add: power_add[symmetric])
  then have "(10000000::rat) = 10 ^ length b * 10 ^ (7 - length b)" by simp
  ultimately show ?thesis
    using 2 by (simp add: toStroops_frac digits_val_append field_simps)
qed

lemma assertAmount_iff: "assertAmount s = Inr () \<longleftrightarrow> (\<exists>n > 0. toStroops s = Inr n)"
proof (cases "AMOUNT_REGEX s")
  case True
  from stroops_value[OF True] obtain n where "toStroops s = Inr n" "decimal_number s = Some (rat_of_nat n / 10000000)"
    by blast
  then show ?thesis using True by (auto simp: assertAmount_def)
next
  case False
  then show ?thesis by (simp add: assertAmount_def toStroops_def)
qed

text \<open>
  C20.  Amounts are exact.  A text that the amount pattern accepts is converted to the stroops of exactly
  its decimal value, any other text is refused; printing stroops and converting them back gives
  the same number; and a printed amount is accepted by the payment builder if it is not zero.
\<close>

theorem stroops_roundtrip:
  "(\<forall>n. toStroops (fromStroops n) = Inr n \<and> (n > 0 \<longrightarrow> assertAmount (fromStroops n) = Inr ())) \<and>
   (case toStroops s of
      Inl e \<Rightarrow> \<not> AMOUNT_REGEX s \<and> e = appExc INVALID_AMOUNT
    | Inr n \<Rightarrow> AMOUNT_REGEX s \<and> decimal_number s = Some (rat_of_nat n / 10000000))"
proof -
  have "case toStroops s of
      Inl e \<Rightarrow> \<not> AMOUNT_REGEX s \<and> e = appExc INVALID_AMOUNT
    | Inr n \<Rightarrow> AMOUNT_REGEX s \<and> decimal_number s = Some (rat_of_nat n / 10000000)"
    using stroops_value[of s] by (cases "AMOUNT_REGEX s") (auto simp: toStroops_def)
  then show ?thesis by (simp add: toStroops_fromStroops assertAmount_iff)
qed

theorem stroops_roundtrip_witness:
  "toStroops (fromStroops 45000) = Inr 45000 \<and> assertAmount (fromStroops 45000) = Inr ()"
  using stroops_roundtrip[of "''1''"] by simp

subsection \<open>A prepared transaction\<close>

text \<open>A text of at most seven decimals that is worth \<open>n\<close> stroops.\<close>

definition worth :: "string \<Rightarrow> nat \<Rightarrow> bool" where
  "worth amount n \<longleftrightarrow> AMOUNT_REGEX amount \<and> decimal_number amount = Some (rat_of_nat n / 10000000)"

lemma toStroops_worth: "toStroops s = Inr n \<Longrightarrow> worth s n"
  using stroops_value[of s] by (cases "AMOUNT_REGEX s") (auto simp: worth_def toStroops_def)

text \<open>
  The rate in basis points: 30 when the setting is no finite number or negative, else the integer nearest
  to a hundred times the percentage, the larger of two; \<open>0.3\<close> is the percentage when none is set.
\<close>

definition fee_rate :: "config \<Rightarrow> nat \<Rightarrow> bool" where
  "fee_rate cfg bps \<longleftrightarrow>
     (case js_Number_of (case cfg ''SEND_CRYPTO_FEE_PERCENT'' of None \<Rightarrow> ''0.3'' | Some text \<Rightarrow> text) of
        None \<Rightarrow> bps = 30
      | Some percent \<Rightarrow> if percent < 0 then bps = 30
          else \<exists>x. finite_double (percent * 100) = Some x \<and> x - 1 / 2 < of_nat bps \<and> of_nat bps \<le> x + 1 / 2)"

lemma half_even_nonneg: "0 \<le> x \<Longrightarrow> 0 \<le> half_even x"
  by (auto simp: half_even_def Let_def)

lemma to_double_nonneg: "0 \<le> x \<Longrightarrow> 0 \<le> to_double x"
proof -
  have pos: "0 < power2 e" for e by (simp add: power2_def)
  assume "0 \<le> x"
  then have "0 \<le> x / power2 e" for e using pos[of e] by simp
  then have "0 \<le> of_int (half_even (x / power2 e)) * power2 e" for e
    using half_even_nonneg pos[of e] by (intro mult_nonneg_nonneg) auto
  then show ?thesis unfolding to_double_def Let_def by (simp only: split: prod.split if_split) blast
qed

lemma feeBps_rate:
  assumes "feeBps cfg = Some bps"
  shows "fee_rate cfg bps"
proof (cases "js_Number_of (get_or (cfg ''SEND_CRYPTO_FEE_PERCENT'') ''0.3'')")
  case None
  then show ?thesis using assms by (cases "cfg ''SEND_CRYPTO_FEE_PERCENT''") (simp_all add: feeBps_def fee_rate_def)
next
  case (Some p)
  show ?thesis
  proof (cases "p < 0")
    case True
    with Some show ?thesis
      using assms by (cases "cfg ''SEND_CRYPTO_FEE_PERCENT''") (simp_all add: feeBps_def fee_rate_def)
  next
    case False
    with Some assms obtain x where x: "finite_double (p * 100) = Some x" "bps = nat (math_round x)"
      by (auto simp: feeBps_def)
    then have "0 \<le> x" using False to_double_nonneg[of "p * 100"] by (auto simp: finite_double_def split: if_splits)
    then have "of_nat bps = (of_int \<lfloor>x + 1 / 2\<rfloor> :: rat)" by (simp add: x(2) math_round_def)
    moreover have "x + 1 / 2 < of_int \<lfloor>x + 1 / 2\<rfloor> + 1" "of_int \<lfloor>x + 1 / 2\<rfloor> \<le> x + 1 / 2" by linarith+
    ultimately have "x - 1 / 2 < of_nat bps" "of_nat bps \<le> x + 1 / 2" by linarith+
    with Some False x(1) show ?thesis
      by (cases "cfg ''SEND_CRYPTO_FEE_PERCENT''") (simp_all add: fee_rate_def)
  qed
qed

lemma orThrow_Inr: "orThrow x = Inr a \<longleftrightarrow> x = Some a"
  by (cases x) (simp_all add: orThrow_def)

lemma refuse_Inr: "(if b then Inl e else x) = Inr a \<longleftrightarrow> \<not> b \<and> x = Inr a"
  by simp

text \<open>The transaction of two USDC payments, to the recipient and to the treasury.\<close>

definition transfer_and_fee ::
    "horizon_env \<Rightarrow> string \<Rightarrow> string \<Rightarrow> string \<Rightarrow> string \<Rightarrow> string \<Rightarrow> string \<Rightarrow> tx_spec" where
  "transfer_and_fee env source issuer recipient amount treasury fee =
     \<lparr> ts_source = source, ts_fee = sdk_BASE_FEE env,
       ts_passphrase = (if hz_config env ''STELLAR_NETWORK'' = Some ''public'' then sdk_PUBLIC env else sdk_TESTNET env),
       ts_operations =
         [\<lparr> po_destination = recipient, po_asset = CreditAsset ''USDC'' issuer, po_amount = amount \<rparr>,
          \<lparr> po_destination = treasury, po_asset = CreditAsset ''USDC'' issuer, po_amount = fee \<rparr>],
       ts_memo = None, ts_timeout = 180 \<rparr>"

lemma networkPassphrase_iff:
  "networkPassphrase env = (if hz_config env ''STELLAR_NETWORK'' = Some ''public'' then sdk_PUBLIC env else sdk_TESTNET env)"
  by (cases "hz_config env ''STELLAR_NETWORK''") (simp_all add: networkPassphrase_def)

lemma getUsdcAsset_Inr:
  "getUsdcAsset env = Inr a \<Longrightarrow> \<exists>issuer. hz_config env ''TRUSTLESS_WORK_USDC_ISSUER'' = Some issuer \<and> a = CreditAsset ''USDC'' issuer"
  by (cases "hz_config env ''TRUSTLESS_WORK_USDC_ISSUER''") (auto simp: getUsdcAsset_def Let_def thenE_Inr split: if_splits)

lemma prepare_tx_Inr:
  assumes "prepare_tx env source address alias amount = Inr ps"
  shows "ps_address ps = address \<and> (\<exists>issuer treasury n bps fee.
    hz_config env ''TRUSTLESS_WORK_USDC_ISSUER'' = Some issuer \<and> hz_config env ''IKASH_TREASURY_ADDRESS'' = Some treasury \<and>
    fee_rate (hz_config env) bps \<and> fee = n * bps div 10000 \<and> 0 < n \<and> 0 < fee \<and>
    worth amount n \<and> worth (ps_amount ps) n \<and> worth (ps_fee ps) fee \<and> worth (ps_total ps) (n + fee) \<and>
    sdk_build env (transfer_and_fee env source issuer (ps_address ps) (ps_amount ps) treasury (ps_fee ps)) = Some (ps_unsignedXdr ps))"
proof -
  from assms obtain n bps treasury usdc where n: "toStroops amount = Inr n" "0 < n" "feeBps (hz_config env) = Some bps"
    "0 < n * bps div 10000" "feeCollector (hz_config env) = Inr treasury" "getUsdcAsset env = Inr usdc"
    "ps_address ps = address" "ps_amount ps = fromStroops n" "ps_fee ps = fromStroops (n * bps div 10000)"
    "ps_total ps = fromStroops (n + n * bps div 10000)"
    "sdk_build env (usdc_send_spec env source address (ps_amount ps) treasury (ps_fee ps) usdc) = Some (ps_unsignedXdr ps)"
  proof -
    from assms obtain n bps where n: "toStroops amount = Inr n" "n \<noteq> 0" "feeBps (hz_config env) = Some bps"
      "n * bps div 10000 \<noteq> 0"
      and rest: "thenE (feeCollector (hz_config env)) (\<lambda>feeAddress.
        thenE (buildUnsignedUsdcSend env source address (fromStroops n) feeAddress (fromStroops (n * bps div 10000)))
          (\<lambda>(xdr, passphrase). Inr \<lparr> ps_address = address, ps_alias = alias, ps_asset = ''USDC'',
             ps_amount = fromStroops n, ps_fee = fromStroops (n * bps div 10000),
             ps_total = fromStroops (n + n * bps div 10000), ps_unsignedXdr = xdr,
             ps_networkPassphrase = passphrase \<rparr>)) = Inr ps"
      unfolding prepare_tx_def Let_def thenE_Inr orThrow_Inr refuse_Inr by blast
    from rest obtain treasury xdr passphrase where t: "feeCollector (hz_config env) = Inr treasury"
      "buildUnsignedUsdcSend env source address (fromStroops n) treasury (fromStroops (n * bps div 10000)) = Inr (xdr, passphrase)"
      and ps: "ps = \<lparr> ps_address = address, ps_alias = alias, ps_asset = ''USDC'',
             ps_amount = fromStroops n, ps_fee = fromStroops (n * bps div 10000),
             ps_total = fromStroops (n + n * bps div 10000), ps_unsignedXdr = xdr,
             ps_networkPassphrase = passphrase \<rparr>"
      unfolding thenE_Inr by auto
    from t(2) obtain usdc where "getUsdcAsset env = Inr usdc"
      "sdk_build env (usdc_send_spec env source address (fromStroops n) treasury (fromStroops (n * bps div 10000)) usdc) = Some xdr"
      unfolding buildUnsignedUsdcSend_def thenE_Inr orThrow_Inr by blast
    with n t(1) show thesis by (intro that) (simp_all add: ps)
  qed
  moreover obtain issuer where "hz_config env ''TRUSTLESS_WORK_USDC_ISSUER'' = Some issuer" "usdc = CreditAsset ''USDC'' issuer"
    using getUsdcAsset_Inr[OF n(6)] by blast
  moreover have "hz_config env ''IKASH_TREASURY_ADDRESS'' = Some treasury"
    using n(5) by (cases "hz_config env ''IKASH_TREASURY_ADDRESS''") (auto simp: feeCollector_def split: if_splits)
  ultimately show ?thesis
    by (auto simp: usdc_send_spec_def networkPassphrase_iff transfer_and_fee_def toStroops_worth toStroops_fromStroops intro!: exI feeBps_rate)
qed

definition recipient_is :: "db \<Rightarrow> string \<Rightarrow> string \<Rightarrow> bool" where
  "recipient_is d recipient address \<longleftrightarrow>
     (if isStellarAddress (trim recipient) then address = trim recipient
      else \<exists>u \<in> set (users d). u_alias u = Some (trim recipient) \<and> u_publicKey u = address)"

lemma resolve_post:
  "wp (resolve recipient) (\<lambda>(address, alias) t. tables t = tables s \<and> recipient_is (tables s) recipient address) (\<lambda>_ _. True) s"
  unfolding resolve_def findByPublicKey_def findByAlias_def Let_def
  by (auto simp: prog wp_any wp_db_call_any recipient_is_def intro!: db_anyI dest!: find_SomeD split: option.split)

text \<open>
  C19.  What a prepared transfer pays.  The recipient is the address of the request or the wallet of the
  alias, and not the sender.  The transaction built, with the sender as its source, has exactly two
  payments in USDC of the configured issuer: the exact amount of the request to the recipient, and
  the fee to the treasury, which is the amount times the configured rate (a percentage rounded to
  basis points, 0.3 unless set) rounded down to stroops, and not zero.  The total shown is the exact
  sum of the two, and nothing is written.
\<close>

theorem send_prepare_pays:
  assumes "prepare env source recipient amount s = (Inr ps, t)"
  shows "tables t = tables s \<and> ps_address ps \<noteq> source \<and> recipient_is (tables s) recipient (ps_address ps) \<and>
    (\<exists>issuer treasury n bps fee.
      hz_config env ''TRUSTLESS_WORK_USDC_ISSUER'' = Some issuer \<and> hz_config env ''IKASH_TREASURY_ADDRESS'' = Some treasury \<and>
      fee_rate (hz_config env) bps \<and> fee = n * bps div 10000 \<and> 0 < n \<and> 0 < fee \<and>
      worth amount n \<and> worth (ps_amount ps) n \<and> worth (ps_fee ps) fee \<and> worth (ps_total ps) (n + fee) \<and>
      sdk_build env (transfer_and_fee env source issuer (ps_address ps) (ps_amount ps) treasury (ps_fee ps)) = Some (ps_unsignedXdr ps))"
proof -
  have "wp (prepare env source recipient amount)
     (\<lambda>ps t. tables t = tables s \<and> ps_address ps \<noteq> source \<and> recipient_is (tables s) recipient (ps_address ps) \<and>
        (\<exists>alias. prepare_tx env source (ps_address ps) alias amount = Inr ps)) (\<lambda>_ _. True) s"
    unfolding prepare_def wp_bindE
    by (rule wp_mono[OF resolve_post]) (auto simp: prog dest: prepare_tx_Inr split: sum.split)
  from wp_value[OF this assms] show ?thesis
    using prepare_tx_Inr[of env source "ps_address ps" _ amount ps] by blast
qed

definition sample_key :: "char \<Rightarrow> string" where
  "sample_key c = CHR ''G'' # replicate 55 c"

definition sample_horizon :: horizon_env where
  "sample_horizon = \<lparr> hz_config = [''TRUSTLESS_WORK_USDC_ISSUER'' \<mapsto> sample_key (CHR ''I''),
       ''IKASH_TREASURY_ADDRESS'' \<mapsto> sample_key (CHR ''T'')],
     hz_loadAccount = (\<lambda>_. Inr []), hz_payments = (\<lambda>_ _. Inr []), hz_submit = (\<lambda>_ _. Inl JNull),
     sdk_BASE_FEE = ''100'', sdk_PUBLIC = ''P'', sdk_TESTNET = ''T'', sdk_publicKey = (\<lambda>_. None),
     sdk_asset_ok = (\<lambda>_ _. True), sdk_build = (\<lambda>_. Some ''XDR''), sdk_fromXDR = (\<lambda>_ _. None) \<rparr>"

lemma sample_key_simps [simp]:
  "sample_key c \<noteq> []" "hd (sample_key c) = CHR ''G''" "length (sample_key c) = 56" "isStellarAddress (sample_key c)"
  by (simp_all add: sample_key_def isStellarAddress_def)

text \<open>The default rate in double arithmetic: \<open>0.3\<close> is slightly less, and a hundred times it rounds to 30.\<close>

lemma double_03: "to_double (3 / 10) = 5404319552844595 / 18014398509481984"
proof -
  have "quotient_of (3 / 10) = (3, 10)" "bitlen 3 = 2" "bitlen 10 = 4" by code_simp+
  moreover have "half_even (27021597764222976 / 5) = 5404319552844595"
  proof -
    have "\<lfloor>27021597764222976 / 5 :: rat\<rfloor> = 5404319552844595" by (rule floor_unique) simp_all
    then show ?thesis by (simp add: half_even_def Let_def)
  qed
  ultimately show ?thesis by (simp add: to_double_def power2_def Let_def)
qed

lemma double_30: "to_double (135107988821114875 / 4503599627370496) = 30"
proof -
  have "quotient_of (135107988821114875 / 4503599627370496) = (135107988821114875, 4503599627370496)"
    "bitlen 135107988821114875 = 57" "bitlen 4503599627370496 = 53" by code_simp+
  moreover have "half_even (135107988821114875 / 16) = 8444249301319680"
  proof -
    have "\<lfloor>135107988821114875 / 16 :: rat\<rfloor> = 8444249301319679" by (rule floor_unique) simp_all
    then show ?thesis by (simp add: half_even_def Let_def)
  qed
  ultimately show ?thesis by (simp add: to_double_def power2_def Let_def)
qed

lemma number_03: "js_Number_of ''0.3'' = Some (5404319552844595 / 18014398509481984)"
proof -
  have "radix_number (trim ''0.3'') = None" by code_simp
  moreover have "all_digits ''0''" "all_digits ''3''" "digits_val ''03'' = 3" by code_simp+
  then have "mantissa ''0.3'' = Some (3 / 10)" using mantissa_frac[of "''0''" "''3''"] by simp
  moreover have "decimal_number ''0.3'' = mantissa ''0.3''"
  proof (rule decimal_number_plain)
    show "\<forall>c \<in> set ''0.3''. is_digit c \<or> c = CHR ''.''" by code_simp
  qed simp
  ultimately show ?thesis by (simp add: js_Number_of_def finite_double_def double_03)
qed

lemma sample_default_bps: "feeBps (hz_config sample_horizon) = Some 30"
proof -
  have "hz_config sample_horizon ''SEND_CRYPTO_FEE_PERCENT'' = None" by (simp add: sample_horizon_def)
  moreover have "\<lfloor>61 / 2 :: rat\<rfloor> = 30" by (rule floor_unique) simp_all
  ultimately show ?thesis
    by (simp add: feeBps_def number_03 finite_double_def double_30 math_round_def)
qed

lemma sample_rate: "fee_rate (hz_config sample_horizon) bps \<longleftrightarrow> bps = 30"
proof -
  have "hz_config sample_horizon ''SEND_CRYPTO_FEE_PERCENT'' = None" by (simp add: sample_horizon_def)
  moreover have "30 - 1 / 2 < rat_of_nat bps \<and> rat_of_nat bps \<le> 30 + 1 / 2 \<longleftrightarrow> bps = 30"
  proof
    assume b: "30 - 1 / 2 < rat_of_nat bps \<and> rat_of_nat bps \<le> 30 + 1 / 2"
    then have "rat_of_nat 29 < rat_of_nat bps" "rat_of_nat bps < rat_of_nat 31" by simp_all
    then have "29 < bps" "bps < 31" by (simp_all only: of_nat_less_iff)
    then show "bps = 30" by simp
  qed simp
  ultimately show ?thesis by (simp add: fee_rate_def number_03 finite_double_def double_30)
qed

lemma sample_prepare:
  "\<exists>ps t. prepare sample_horizon (sample_key (CHR ''S'')) (sample_key (CHR ''R'')) ''1.5'' (quiet_world sample_db) = (Inr ps, t)"
proof -
  have digits: "all_digits ''1''" "all_digits ''5''" "digits_val ''1'' = 1" "digits_val ''5'' = 5" by code_simp+
  have n: "toStroops ''1.5'' = Inr 15000000"
    using toStroops_frac[of "''1''" "''5''"] digits by simp
  have ok: "assertAmount (fromStroops k) = Inr ()" if "0 < k" for k
    using that by (simp add: assertAmount_iff toStroops_fromStroops)
  have cfg: "hz_config sample_horizon ''TRUSTLESS_WORK_USDC_ISSUER'' = Some (sample_key (CHR ''I''))"
    "hz_config sample_horizon ''IKASH_TREASURY_ADDRESS'' = Some (sample_key (CHR ''T''))"
    by (simp_all add: sample_horizon_def)
  have other: "sample_key (CHR ''R'') \<noteq> sample_key (CHR ''S'')" by (simp add: sample_key_def)
  have spaces: "\<not> js_space (CHR ''R'')" "\<not> js_space (CHR ''G'')" by code_simp+
  have trimmed: "trim (sample_key (CHR ''R'')) = sample_key (CHR ''R'')"
    by (rule trim_no_space) (simp add: sample_key_def spaces)
  have env: "sdk_asset_ok sample_horizon c i" "hz_loadAccount sample_horizon a = Inr []"
    "sdk_build sample_horizon b = Some ''XDR''" for c i a b
    by (simp_all add: sample_horizon_def)
  have "wp (prepare sample_horizon (sample_key (CHR ''S'')) (sample_key (CHR ''R'')) ''1.5'') (\<lambda>_ _. True) (\<lambda>_ _. False)
      (quiet_world sample_db)"
    unfolding prepare_def resolve_def findByPublicKey_def Let_def
    by (simp add: prog wp_db_call trimmed other prepare_tx_def n sample_default_bps orThrow_def feeCollector_def cfg
        buildUnsignedUsdcSend_def assertPublicKey_def ok getUsdcAsset_def env)
  from wp_returns[OF this] show ?thesis by blast
qed

theorem send_prepare_pays_witness:
  "\<exists>ps t. prepare sample_horizon (sample_key (CHR ''S'')) (sample_key (CHR ''R'')) ''1.5'' (quiet_world sample_db) = (Inr ps, t) \<and>
     worth (ps_amount ps) 15000000 \<and> worth (ps_fee ps) 45000 \<and> worth (ps_total ps) 15045000"
proof -
  obtain ps t where run: "prepare sample_horizon (sample_key (CHR ''S'')) (sample_key (CHR ''R'')) ''1.5''
      (quiet_world sample_db) = (Inr ps, t)" using sample_prepare by blast
  have digits: "all_digits ''1''" "all_digits ''5''" "digits_val ''1'' = 1" "digits_val ''5'' = 5" by code_simp+
  have "worth ''1.5'' 15000000"
    using toStroops_frac[of "''1''" "''5''"] digits by (intro toStroops_worth) simp
  then have n: "worth ''1.5'' n \<Longrightarrow> n = 15000000" for n by (simp add: worth_def)
  from send_prepare_pays[OF run] show ?thesis
    using run by (auto simp: sample_rate dest!: n)
qed

end
