(* ===== verification/Chat.thy ===== *)
theory Chat
  imports Guards PaymentValidators Listener
begin

text \<open>
  Order chat: \<open>ChatMessageService\<close>, its repository, the controller and the WebSocket gateway
  (\<open>src/modules/chat-message\<close>).  The gateway's state is the set of rooms each socket has joined
  and the log of what was emitted to whom.
\<close>

subsection \<open>The service\<close>

record CreateChatMessageDto =
  cc_orderId :: string
  cc_senderId :: string
  cc_content :: string

definition chat_create :: "CreateChatMessageDto \<Rightarrow> ('z, chat_message) act" where
  "chat_create dto = bindE newUuid (\<lambda>i. bindE (getState clock) (\<lambda>now.
     base_create chat_table \<lparr> c_messageId = i, c_orderId = cc_orderId dto, c_senderId = cc_senderId dto,
       c_content = cc_content dto, c_timestamp = now \<rparr>))"

definition findOrderParticipants :: "string \<Rightarrow> ('z, (string \<times> string) option) act" where
  "findOrderParticipants orderId = bindE (findUnique order_table (\<lambda>x. o_orderId x = orderId))
     (\<lambda>m. ret (map_option (\<lambda>x. (o_buyerId x, o_sellerId x)) m))"

definition canAccessOrder :: "string \<Rightarrow> string \<Rightarrow> ('z, bool option) act" where
  "canAccessOrder orderId userId = bindE (findOrderParticipants orderId) (\<lambda>order. ret (case order of
     None \<Rightarrow> None | Some (buyerId, sellerId) \<Rightarrow> Some (buyerId = userId \<or> sellerId = userId)))"

definition chat_findByOrder :: "string \<Rightarrow> nat option \<Rightarrow> nat option \<Rightarrow> ('z, chat_message list) act" where
  "chat_findByOrder orderId sk tk = bindE (findMany chat_table (\<lambda>c. c_orderId c = orderId))
     (\<lambda>rs. ret (page sk tk 50 (sort_key c_timestamp rs)))"

definition chat_list :: "nat option \<Rightarrow> nat option \<Rightarrow> string option \<Rightarrow> ('z, chat_message list) act" where
  "chat_list sk tk orderId =
     (if truthy orderId then chat_findByOrder (the orderId) sk (Some (get_or tk 50))
      else base_findMany chat_table \<lparr> fm_skip = sk, fm_take = Some (get_or tk 50), fm_where = (\<lambda>_. True),
        fm_orderBy = sort_key (\<lambda>c. - c_timestamp c), fm_include = False, fm_select = False \<rparr>)"

definition chat_get :: "string \<Rightarrow> ('z, chat_message) act" where
  "chat_get i = bindE (base_findById chat_table i)
     (\<lambda>item. case item of None \<Rightarrow> throw (appExc CHAT_MESSAGE_NOT_FOUND) | Some c \<Rightarrow> ret c)"

definition chat_remove :: "string \<Rightarrow> ('z, chat_message) act" where
  "chat_remove i = base_delete chat_table i"

subsection \<open>The gateway: data\<close>

datatype (plugins only: code size) ChatErrorCode =
    INVALID_JWT | INVALID_ORDER_ID | UNAUTHORIZED_ORDER_ACCESS | EMPTY_MESSAGE | NOT_IN_ORDER_ROOM
  | MESSAGE_PERSISTENCE_FAILED

record ChatError =
  ce_code :: ChatErrorCode
  ce_orderId :: "json option"

text \<open>A stored message with the client's own identifier of it.\<close>

record CreatedChatMessage =
  cr_message :: chat_message
  cr_clientMessageId :: "json option"

datatype chat_event =
    MESSAGE_CREATED CreatedChatMessage
  | CHAT_ERROR ChatError
  | USER_JOINED string string
  | USER_LEFT string string

text \<open>To a socket, to a room, or to a room but for one socket.\<close>

datatype target = ToSocket string | ToRoom string | ToOthers string string

record ChatSocket =
  sk_id :: string
  sk_userId :: string
  sk_publicKey :: "string option"

text \<open>The gateway's memory, beside the chain listener's: both live in the one server process.\<close>

record chat_world = listener +
  joined :: "(string \<times> string) list"
  emitted :: "(target \<times> chat_event) list"

type_synonym ('z, 'a) cact = "('z chat_world_scheme, 'a) prog"

text \<open>\<open>ChatAck\<close>: an error, or the data.\<close>

type_synonym 'a ChatAck = "ChatError + 'a"

definition emit :: "target \<Rightarrow> chat_event \<Rightarrow> ('z, unit) cact" where
  "emit tgt ev = modify (\<lambda>s. s\<lparr>emitted := emitted s @ [(tgt, ev)]\<rparr>)"

subsection \<open>The gateway: helpers\<close>

text \<open>The version and variant digits of the gateway's UUID pattern.\<close>

definition CHAT_UUID_PATTERN :: "string \<Rightarrow> bool" where
  "CHAT_UUID_PATTERN s \<longleftrightarrow> UUID_PATTERN s \<and>
     s ! 14 \<in> set ''12345'' \<and> s ! 19 \<in> set ''89abAB''"

fun isValidOrderId :: "json option \<Rightarrow> bool" where
  "isValidOrderId (Some (JStr s)) = CHAT_UUID_PATTERN s"
| "isValidOrderId _ = False"

fun str_of :: "json option \<Rightarrow> string" where
  "str_of (Some (JStr s)) = s"
| "str_of _ = []"

definition roomFor :: "string \<Rightarrow> string" where
  "roomFor orderId = ''order:'' @ orderId"

definition orderIdFromRoom :: "string \<Rightarrow> string" where
  "orderIdFromRoom room = (if starts_with ''order:'' room then drop 6 room else room)"

definition configuredValues :: "config \<Rightarrow> string \<Rightarrow> string set" where
  "configuredValues cfg key = set (filter (\<lambda>v. v \<noteq> []) (map trim (split_on (CHR '','') (get_or (cfg key) []))))"

definition isSupportUser :: "config \<Rightarrow> ChatSocket \<Rightarrow> bool" where
  "isSupportUser cfg sk \<longleftrightarrow> sk_userId sk \<in> configuredValues cfg ''CHAT_SUPPORT_USER_IDS'' \<or>
     (truthy (sk_publicKey sk) \<and> the (sk_publicKey sk) \<in>
        configuredValues cfg ''CHAT_SUPPORT_PUBLIC_KEYS'' \<union> configuredValues cfg ''IKASH_SUPPORT_ADDRESS'')"

definition chat_fail :: "ChatSocket \<Rightarrow> ChatErrorCode \<Rightarrow> json option \<Rightarrow> ('z, 'a ChatAck) cact" where
  "chat_fail sk code orderId =
     andThen (emit (ToSocket (sk_id sk)) (CHAT_ERROR \<lparr> ce_code = code, ce_orderId = orderId \<rparr>))
       (ret (Inl \<lparr> ce_code = code, ce_orderId = orderId \<rparr>))"

definition getAccessError :: "config \<Rightarrow> ChatSocket \<Rightarrow> string \<Rightarrow> ('z, ChatErrorCode option) cact" where
  "getAccessError cfg sk orderId = bindE (canAccessOrder orderId (sk_userId sk)) (\<lambda>isParticipant.
     ret (case isParticipant of
            None \<Rightarrow> Some INVALID_ORDER_ID
          | Some p \<Rightarrow> if \<not> p \<and> \<not> isSupportUser cfg sk then Some UNAUTHORIZED_ORDER_ACCESS else None))"

definition inRoom :: "ChatSocket \<Rightarrow> string \<Rightarrow> ('z, bool) cact" where
  "inRoom sk room = getState (\<lambda>s. (sk_id sk, room) \<in> set (joined s))"

subsection \<open>The gateway: events\<close>

definition joinOrder :: "config \<Rightarrow> ChatSocket \<Rightarrow> json option \<Rightarrow> ('z, unit ChatAck) cact" where
  "joinOrder cfg sk body =
     (let orderId = vfield body ''orderId''; room = roomFor (str_of orderId)
      in if \<not> isValidOrderId orderId then chat_fail sk INVALID_ORDER_ID orderId
         else bindE (getAccessError cfg sk (str_of orderId)) (\<lambda>accessError. case accessError of
           Some code \<Rightarrow> chat_fail sk code orderId
         | None \<Rightarrow> bindE (inRoom sk room) (\<lambda>there.
             andThen (if there then ret ()
                      else andThen (modify (\<lambda>s. s\<lparr>joined := joined s @ [(sk_id sk, room)]\<rparr>))
                             (emit (ToOthers room (sk_id sk)) (USER_JOINED (str_of orderId) (sk_userId sk))))
               (ret (Inr ())))))"

definition leaveOrder :: "ChatSocket \<Rightarrow> json option \<Rightarrow> ('z, unit ChatAck) cact" where
  "leaveOrder sk body =
     (let orderId = vfield body ''orderId''; room = roomFor (str_of orderId)
      in if \<not> isValidOrderId orderId then chat_fail sk INVALID_ORDER_ID orderId
         else bindE (inRoom sk room) (\<lambda>there.
           andThen (if there
                    then andThen (modify (\<lambda>s. s\<lparr>joined := filter (\<lambda>j. j \<noteq> (sk_id sk, room)) (joined s)\<rparr>))
                           (emit (ToOthers room (sk_id sk)) (USER_LEFT (str_of orderId) (sk_userId sk)))
                    else ret ())
             (ret (Inr ()))))"

definition persistMessage :: "ChatSocket \<Rightarrow> json option \<Rightarrow> string \<Rightarrow> string \<Rightarrow> ('z, CreatedChatMessage ChatAck) cact" where
  "persistMessage sk body orderId content =
     tryCatch
       (bindE (chat_create \<lparr> cc_orderId = orderId, cc_senderId = sk_userId sk, cc_content = content \<rparr>) (\<lambda>message.
          let created = \<lparr> cr_message = message, cr_clientMessageId = vfield body ''clientMessageId'' \<rparr>
          in andThen (emit (ToRoom (roomFor orderId)) (MESSAGE_CREATED created)) (ret (Inr created))))
       (\<lambda>_. chat_fail sk MESSAGE_PERSISTENCE_FAILED (Some (JStr orderId)))"

definition sendMessage :: "config \<Rightarrow> ChatSocket \<Rightarrow> json option \<Rightarrow> ('z, CreatedChatMessage ChatAck) cact" where
  "sendMessage cfg sk body =
     (let orderId = vfield body ''orderId''; room = roomFor (str_of orderId);
          content = trim (str_of (vfield body ''content''))
      in if \<not> isValidOrderId orderId then chat_fail sk INVALID_ORDER_ID orderId
         else if content = [] then chat_fail sk EMPTY_MESSAGE orderId
         else if length content > 4000 then chat_fail sk EMPTY_MESSAGE orderId
         else bindE (inRoom sk room) (\<lambda>there.
           if \<not> there then chat_fail sk NOT_IN_ORDER_ROOM orderId
           else bindE (getAccessError cfg sk (str_of orderId)) (\<lambda>accessError. case accessError of
             Some code \<Rightarrow> chat_fail sk code orderId
           | None \<Rightarrow> persistMessage sk body (str_of orderId) content)))"

text \<open>When a socket disconnects, each of its rooms is told; the socket has left them after that.\<close>

definition handleDisconnecting :: "ChatSocket \<Rightarrow> ('z, unit) cact" where
  "handleDisconnecting sk =
     andThen (bindE (getState (\<lambda>s. map snd (filter (\<lambda>j. fst j = sk_id sk \<and> snd j \<noteq> sk_id sk) (joined s)))) (\<lambda>rooms.
        forEach rooms (\<lambda>room. emit (ToOthers room (sk_id sk)) (USER_LEFT (orderIdFromRoom room) (sk_userId sk)))))
       (modify (\<lambda>s. s\<lparr>joined := filter (\<lambda>j. fst j \<noteq> sk_id sk) (joined s)\<rparr>))"

subsection \<open>The gateway: authentication\<close>

text \<open>The token of the handshake: \<open>auth.token\<close>, or the second word of a bearer header.\<close>

definition extractToken :: "json option \<Rightarrow> string option \<Rightarrow> string option" where
  "extractToken auth authorization =
     (if trim (str_of (vfield auth ''token'')) \<noteq> [] then Some (trim (str_of (vfield auth ''token'')))
      else case authorization of
        None \<Rightarrow> None
      | Some h \<Rightarrow> (case split_on (CHR '' '') h of
          scheme # token # _ \<Rightarrow> if toLower scheme = ''bearer'' then Some token else None
        | _ \<Rightarrow> None))"

text \<open>\<open>verifyAsync\<close> is a parameter: the subject and wallet of a valid token.  The middleware refuses
  the connection with the same error in every other case.\<close>

definition authenticateSocket ::
    "(string \<Rightarrow> (string option \<times> string option) option) \<Rightarrow> string \<Rightarrow> json option \<Rightarrow> string option \<Rightarrow> ChatError + ChatSocket" where
  "authenticateSocket verify i auth authorization =
     (let refused = Inl \<lparr> ce_code = INVALID_JWT, ce_orderId = None \<rparr>; token = extractToken auth authorization
      in if \<not> truthy token then refused
         else (case verify (the token) of
           None \<Rightarrow> refused
         | Some (sub, pk) \<Rightarrow> if \<not> truthy sub then refused
             else Inr \<lparr> sk_id = i, sk_userId = the sub, sk_publicKey = pk \<rparr>))"

subsection \<open>The controller\<close>

text \<open>\<open>POST\<close> and \<open>GET /chat-messages\<close> have no guard.\<close>

definition ctrl_chat_create :: "CreateChatMessageDto \<Rightarrow> ('z, chat_message) act" where
  "ctrl_chat_create dto = chat_create dto"

definition ctrl_chat_get :: "jwt_user \<Rightarrow> (string \<Rightarrow> string option) \<Rightarrow> ('z, chat_message) act" where
  "ctrl_chat_get caller params =
     andThen (owner_canActivate (Some (RT_CHAT_MESSAGE, ''id'')) (Some caller) params) (chat_get (get_or (params ''id'') []))"

definition ctrl_chat_remove :: "jwt_user \<Rightarrow> (string \<Rightarrow> string option) \<Rightarrow> ('z, chat_message) act" where
  "ctrl_chat_remove caller params =
     andThen (owner_canActivate (Some (RT_CHAT_MESSAGE, ''id'')) (Some caller) params) (chat_remove (get_or (params ''id'') []))"

end
