(* ===== verification/ChatProps.thy ===== *)
theory ChatProps
  imports Chat AuthProps
begin

text \<open>
  Properties of the chat gateway: who can send a message and what is stored and broadcast, and,
  over runs of the gateway, who is in a room.
\<close>

text \<open>The pieces of a text between separators, and the entries of a comma-separated setting.\<close>

inductive piece :: "char \<Rightarrow> string \<Rightarrow> string \<Rightarrow> bool" for d where
  only: "d \<notin> set w \<Longrightarrow> piece d w w"
| front: "d \<notin> set w \<Longrightarrow> piece d (w @ d # rest) w"
| later: "piece d rest w \<Longrightarrow> piece d (a @ d # rest) w"

lemma piece_split: "piece d s w \<longleftrightarrow> w \<in> set (split_on d s)"
proof
  show "piece d s w \<Longrightarrow> w \<in> set (split_on d s)"
    by (induction rule: piece.induct) (simp_all add: split_on_none split_on_append split_on_last)
  show "w \<in> set (split_on d s) \<Longrightarrow> piece d s w"
  proof (induction "length s" arbitrary: s rule: less_induct)
    case less
    show ?case
    proof (cases "d \<in> set s")
      case True
      then obtain a b where s: "s = a @ d # b" "d \<notin> set a" by (meson split_list_first)
      with less show ?thesis by (auto simp: split_on_append intro: piece.intros)
    next
      case False
      with less.prems show ?thesis by (simp add: split_on_none piece.only)
    qed
  qed
qed

text \<open>The value is listed in the setting: an entry without its surrounding spaces, not blank.\<close>

definition listed :: "config \<Rightarrow> string \<Rightarrow> string \<Rightarrow> bool" where
  "listed cfg key v \<longleftrightarrow> v \<noteq> [] \<and> (\<exists>text entry. cfg key = Some text \<and> piece (CHR '','') text entry \<and> v = trim entry)"

text \<open>
  Support, as the operator configures it: the user's id, or the wallet key the socket was authenticated
  with, is listed.
\<close>

definition support :: "config \<Rightarrow> ChatSocket \<Rightarrow> bool" where
  "support cfg sk \<longleftrightarrow> listed cfg ''CHAT_SUPPORT_USER_IDS'' (sk_userId sk) \<or>
     (\<exists>k. sk_publicKey sk = Some k \<and>
        (listed cfg ''CHAT_SUPPORT_PUBLIC_KEYS'' k \<or> listed cfg ''IKASH_SUPPORT_ADDRESS'' k))"

text \<open>Who may be in the chat of an order: its buyer, its seller, and support.\<close>

definition may_chat :: "config \<Rightarrow> ChatSocket \<Rightarrow> order \<Rightarrow> bool" where
  "may_chat cfg sk x \<longleftrightarrow> sk_userId sk = o_buyerId x \<or> sk_userId sk = o_sellerId x \<or> support cfg sk"

lemma configuredValues_listed: "v \<in> configuredValues cfg key \<longleftrightarrow> listed cfg key v"
proof -
  have "trim [] = []" by code_simp
  then show ?thesis by (cases "cfg key") (auto simp: configuredValues_def listed_def piece_split)
qed

lemma isSupportUser_support: "isSupportUser cfg sk \<longleftrightarrow> support cfg sk"
  by (cases "sk_publicKey sk") (auto simp: isSupportUser_def support_def configuredValues_listed listed_def)

lemma wp_emit [prog]: "wp (emit tgt ev) Q E s = Q () (s\<lparr>emitted := emitted s @ [(tgt, ev)]\<rparr>)"
  by (simp add: emit_def wp_modify)

lemma wp_chat_fail [prog]:
  "wp (chat_fail sk code o') Q E s = Q (Inl \<lparr> ce_code = code, ce_orderId = o' \<rparr>)
     (s\<lparr>emitted := emitted s @ [(ToSocket (sk_id sk), CHAT_ERROR \<lparr> ce_code = code, ce_orderId = o' \<rparr>)]\<rparr>)"
  by (simp add: chat_fail_def prog)

lemma wp_inRoom [prog]: "wp (inRoom sk room) Q E s = Q ((sk_id sk, room) \<in> set (joined s)) s"
  by (simp add: inRoom_def wp_getState)

lemma chat_faults [simp]:
  fixes s :: "'a chat_world_scheme"
  shows "joined (s\<lparr>faults := bs\<rparr>) = joined s" "emitted (s\<lparr>faults := bs\<rparr>) = emitted s"
    "joined (s\<lparr>uuid_next := n\<rparr>) = joined s" "emitted (s\<lparr>uuid_next := n\<rparr>) = emitted s"
    "joined (putRows T rs s) = joined s" "emitted (putRows T rs s) = emitted s"
  by (simp_all add: putRows_def)

text \<open>The access check reads the order and changes nothing.\<close>

lemma getAccessError_post:
  "wp (getAccessError cfg sk i)
     (\<lambda>r t. tables t = tables s \<and> joined t = joined s \<and> emitted t = emitted s \<and> clock t = clock s \<and>
        (r = None \<longrightarrow> (\<exists>x \<in> set (orders (tables s)). o_orderId x = i \<and> may_chat cfg sk x)))
     (\<lambda>_ t. tables t = tables s \<and> joined t = joined s \<and> emitted t = emitted s) s"
  unfolding getAccessError_def canAccessOrder_def findOrderParticipants_def
  by (auto simp: prog wp_any may_chat_def isSupportUser_support dest!: find_SomeD intro!: db_anyI split: option.split)

definition sent :: "config \<Rightarrow> ChatSocket \<Rightarrow> json option \<Rightarrow> CreatedChatMessage \<Rightarrow> 'a chat_world_scheme \<Rightarrow> 'a chat_world_scheme \<Rightarrow> bool" where
  "sent cfg sk body m s t \<longleftrightarrow>
     (\<exists>x \<in> set (orders (tables s)). vfield body ''orderId'' = Some (JStr (o_orderId x)) \<and> may_chat cfg sk x \<and>
        (sk_id sk, roomFor (o_orderId x)) \<in> set (joined s) \<and>
        c_orderId (cr_message m) = o_orderId x \<and> c_senderId (cr_message m) = sk_userId sk \<and>
        c_content (cr_message m) = trim (str_of (vfield body ''content'')) \<and>
        c_content (cr_message m) \<noteq> [] \<and> length (c_content (cr_message m)) \<le> 4000 \<and>
        tables t = (tables s)\<lparr>chats := chats (tables s) @ [cr_message m]\<rparr> \<and>
        emitted t = emitted s @ [(ToRoom (roomFor (o_orderId x)), MESSAGE_CREATED m)])"

definition refused :: "ChatSocket \<Rightarrow> 'a chat_world_scheme \<Rightarrow> 'a chat_world_scheme \<Rightarrow> bool" where
  "refused sk s t \<longleftrightarrow> tables t = tables s \<and>
     (\<exists>es. emitted t = emitted s @ es \<and> (\<forall>e \<in> set es. \<exists>err. e = (ToSocket (sk_id sk), CHAT_ERROR err)))"

lemma validOrderId_text: "isValidOrderId x \<Longrightarrow> x = Some (JStr (str_of x))"
  by (cases x rule: isValidOrderId.cases) auto

lemma refused_fail [simp]:
  "tables u = tables s \<Longrightarrow> emitted u = emitted s \<Longrightarrow>
   refused sk s (u\<lparr>emitted := emitted s @ [(ToSocket (sk_id sk), CHAT_ERROR err)]\<rparr>)"
  by (simp add: refused_def)

lemma refused_refl: "tables u = tables s \<Longrightarrow> emitted u = emitted s \<Longrightarrow> refused sk s u"
  by (simp add: refused_def)

definition sent_or_refused :: "config \<Rightarrow> ChatSocket \<Rightarrow> json option \<Rightarrow> 'a chat_world_scheme \<Rightarrow> CreatedChatMessage ChatAck \<Rightarrow>
    'a chat_world_scheme \<Rightarrow> bool" where
  "sent_or_refused cfg sk body s r t \<longleftrightarrow> joined t = joined s \<and>
     (case r of Inl _ \<Rightarrow> refused sk s t | Inr m \<Rightarrow> sent cfg sk body m s t)"

lemma persistMessage_post:
  assumes "tables u = tables s" "joined u = joined s" "emitted u = emitted s"
    and "vfield body ''orderId'' = Some (JStr (o_orderId x))" "x \<in> set (orders (tables s))" "may_chat cfg sk x"
    and "(sk_id sk, roomFor (o_orderId x)) \<in> set (joined s)"
    and "c = trim (str_of (vfield body ''content''))" "c \<noteq> []" "length c \<le> 4000"
  shows "wp (persistMessage sk body (o_orderId x) c) (sent_or_refused cfg sk body s) (\<lambda>_ _. False) u"
  unfolding persistMessage_def chat_create_def base_create_def Let_def sent_or_refused_def
  using assms(1-7,9,10)
  by (auto simp: prog wp_any sent_def assms(8) intro!: db_anyI bexI[of _ x] split: option.split)

lemma sendMessage_post:
  "wp (sendMessage cfg sk body) (sent_or_refused cfg sk body s) (\<lambda>_ t. joined t = joined s \<and> refused sk s t) s"
proof (cases "vfield body ''orderId''" rule: isValidOrderId.cases)
  case (1 i)
  let ?c = "trim (str_of (vfield body ''content''))"
  have check: "wp (getAccessError cfg sk i)
      (\<lambda>r t. wp (case r of Some code \<Rightarrow> chat_fail sk code (Some (JStr i)) | None \<Rightarrow> persistMessage sk body i ?c)
         (sent_or_refused cfg sk body s) (\<lambda>_ t. joined t = joined s \<and> refused sk s t) t)
      (\<lambda>_ t. joined t = joined s \<and> refused sk s t) s"
    if "?c \<noteq> []" "length ?c \<le> 4000" "(sk_id sk, roomFor i) \<in> set (joined s)"
  proof (rule wp_mono[OF getAccessError_post])
    fix r :: "ChatErrorCode option" and t :: "'a chat_world_scheme"
    assume post: "tables t = tables s \<and> joined t = joined s \<and> emitted t = emitted s \<and> clock t = clock s \<and>
      (r = None \<longrightarrow> (\<exists>x\<in>set (orders (tables s)). o_orderId x = i \<and> may_chat cfg sk x))"
    show "wp (case r of Some code \<Rightarrow> chat_fail sk code (Some (JStr i)) | None \<Rightarrow> persistMessage sk body i ?c)
        (sent_or_refused cfg sk body s) (\<lambda>_ t. joined t = joined s \<and> refused sk s t) t"
    proof (cases r)
      case None
      with post obtain x where x: "x \<in> set (orders (tables s))" "o_orderId x = i" "may_chat cfg sk x" by blast
      have "wp (persistMessage sk body (o_orderId x) ?c) (sent_or_refused cfg sk body s) (\<lambda>_ _. False) t"
        by (rule persistMessage_post) (use post x 1 that in simp_all)
      then show ?thesis using None x(2) by (auto elim: wp_mono)
    next
      case (Some code)
      then show ?thesis using post by (simp add: prog sent_or_refused_def)
    qed
  qed (simp add: refused_refl)
  show ?thesis
    unfolding sendMessage_def Let_def
    using 1 check by (auto simp: prog sent_or_refused_def not_less simp del: wp_option)
qed (simp_all add: sendMessage_def Let_def prog sent_or_refused_def)

text \<open>
  C25.  Sending a chat message.  A message is stored only for a socket that is in the room of an existing
  order and whose user is its buyer, its seller or support, that is, listed by id or wallet key in
  the support settings; its sender is that user, its text the trimmed
  text, not blank and at most 4000 characters; exactly this row is added and announced once, to that
  room.  In every other case nothing is written and only the sender is told.
\<close>

theorem chat_send_rules:
  assumes "sendMessage cfg sk body s = (r, t)"
  shows "joined t = joined s \<and>
     (case r of Inr (Inr m) \<Rightarrow> sent cfg sk body m s t | _ \<Rightarrow> refused sk s t)"
  using wp_run[OF sendMessage_post assms] by (auto simp: sent_or_refused_def split: sum.splits)

subsection \<open>Rooms\<close>

text \<open>
  The runs of the gateway with the sockets \<open>S\<close>, as the list of their states, the latest first: the
  gateway's events in any order, between them any change of the database and of the world by others
  (orders deleted or handed to other parties included).
\<close>

inductive chat_run :: "config \<Rightarrow> ChatSocket set \<Rightarrow> chat_world list \<Rightarrow> bool" for cfg S where
  start: "joined s = [] \<Longrightarrow> chat_run cfg S [s]"
| join: "chat_run cfg S (s # ss) \<Longrightarrow> sk \<in> S \<Longrightarrow> joinOrder cfg sk body s = (r, t) \<Longrightarrow> chat_run cfg S (t # s # ss)"
| leave: "chat_run cfg S (s # ss) \<Longrightarrow> sk \<in> S \<Longrightarrow> leaveOrder sk body s = (r', t) \<Longrightarrow> chat_run cfg S (t # s # ss)"
| send: "chat_run cfg S (s # ss) \<Longrightarrow> sk \<in> S \<Longrightarrow> sendMessage cfg sk body s = (r'', t) \<Longrightarrow> chat_run cfg S (t # s # ss)"
| disconnect: "chat_run cfg S (s # ss) \<Longrightarrow> sk \<in> S \<Longrightarrow> handleDisconnecting sk s = (r', t) \<Longrightarrow> chat_run cfg S (t # s # ss)"
| other: "chat_run cfg S (s # ss) \<Longrightarrow> joined t = joined s \<Longrightarrow> chat_run cfg S (t # s # ss)"

text \<open>
  How the member \<open>p\<close> of a room (a socket's id and the room) got there: at some earlier state one of the
  sockets was admitted, being buyer, seller or support of an order there was then, and it has been in
  the room ever since.
\<close>

definition admitted :: "config \<Rightarrow> ChatSocket set \<Rightarrow> chat_world list \<Rightarrow> string \<times> string \<Rightarrow> bool" where
  "admitted cfg S ss p \<longleftrightarrow> (\<exists>sk \<in> S. \<exists>body later t s earlier. \<exists>x \<in> set (orders (tables s)).
     ss = later @ t # s # earlier \<and> fst (joinOrder cfg sk body s) = Inr (Inr ()) \<and> snd (joinOrder cfg sk body s) = t \<and>
     p = (sk_id sk, roomFor (o_orderId x)) \<and> may_chat cfg sk x \<and> (\<forall>u \<in> set (t # later). p \<in> set (joined u)))"

text \<open>A change that leaves every order with its parties.\<close>

definition parties_kept :: "db \<Rightarrow> db \<Rightarrow> bool" where
  "parties_kept d d' \<longleftrightarrow> (\<forall>x \<in> set (orders d). \<exists>y \<in> set (orders d').
     o_orderId y = o_orderId x \<and> o_buyerId y = o_buyerId x \<and> o_sellerId y = o_sellerId x)"

text \<open>A socket of \<open>S\<close> and a room it may be in.\<close>

definition member_ok :: "config \<Rightarrow> ChatSocket set \<Rightarrow> order list \<Rightarrow> string \<times> string \<Rightarrow> bool" where
  "member_ok cfg S os p \<longleftrightarrow> (\<exists>sk \<in> S. \<exists>x \<in> set os. sk_id sk = fst p \<and> snd p = roomFor (o_orderId x) \<and> may_chat cfg sk x)"

definition rooms_private :: "config \<Rightarrow> ChatSocket set \<Rightarrow> 'a chat_world_scheme \<Rightarrow> bool" where
  "rooms_private cfg S s \<longleftrightarrow> (\<forall>p \<in> set (joined s). member_ok cfg S (orders (tables s)) p)"

lemma member_ok_mono:
  assumes "member_ok cfg S (orders d) p" "parties_kept d d'"
  shows "member_ok cfg S (orders d') p"
proof -
  from assms(1) obtain sk x where sk: "sk \<in> S" "x \<in> set (orders d)" "sk_id sk = fst p"
    "snd p = roomFor (o_orderId x)" "may_chat cfg sk x" unfolding member_ok_def by blast
  from assms(2) sk(2) obtain y where "y \<in> set (orders d')" "o_orderId y = o_orderId x"
    "o_buyerId y = o_buyerId x" "o_sellerId y = o_sellerId x" unfolding parties_kept_def by blast
  with sk show ?thesis unfolding member_ok_def by (intro bexI[of _ sk] bexI[of _ y]) (auto simp: may_chat_def)
qed

lemma parties_kept_trans: "parties_kept a b \<Longrightarrow> parties_kept b c \<Longrightarrow> parties_kept a c"
  unfolding parties_kept_def by metis

lemma parties_kept_refl: "parties_kept d d"
  by (auto simp: parties_kept_def)

text \<open>A member that was admitted may still be in the room if the parties were kept at every step.\<close>

lemma admitted_member:
  assumes "admitted cfg S ss p" "successively (\<lambda>t s. parties_kept (tables s) (tables t)) ss"
  shows "member_ok cfg S (orders (tables (hd ss))) p"
proof -
  let ?R = "\<lambda>(t :: chat_world) (s :: chat_world). parties_kept (tables s) (tables t)"
  from assms(1) obtain sk body later t s earlier x where a: "sk \<in> S" "x \<in> set (orders (tables s))"
    "ss = later @ t # s # earlier" "p = (sk_id sk, roomFor (o_orderId x))" "may_chat cfg sk x"
    unfolding admitted_def by blast
  have "transp ?R" by (rule transpI) (blast intro: parties_kept_trans)
  with assms(2) have "sorted_wrt ?R ss" by (simp add: successively_conv_sorted_wrt)
  then have "parties_kept (tables s) (tables (hd ss))"
    by (cases later) (simp_all add: a(3))
  moreover have "member_ok cfg S (orders (tables s)) p"
    unfolding member_ok_def using a by (intro bexI[of _ sk] bexI[of _ x]) simp_all
  ultimately show ?thesis by (rule member_ok_mono[rotated])
qed

lemma admitted_later: "admitted cfg S ss p \<Longrightarrow> p \<in> set (joined t) \<Longrightarrow> admitted cfg S (t # ss) p"
  unfolding admitted_def
proof (elim bexE exE conjE)
  fix sk body later t' s earlier x
  assume "p \<in> set (joined t)" "sk \<in> S" "x \<in> set (orders (tables s))" "ss = later @ t' # s # earlier"
    "fst (joinOrder cfg sk body s) = Inr (Inr ())" "snd (joinOrder cfg sk body s) = t'"
    "p = (sk_id sk, roomFor (o_orderId x))" "may_chat cfg sk x" "\<forall>u\<in>set (t' # later). p \<in> set (joined u)"
  then show "\<exists>sk\<in>S. \<exists>body later t' s earlier. \<exists>x\<in>set (orders (tables s)). t # ss = later @ t' # s # earlier \<and>
      fst (joinOrder cfg sk body s) = Inr (Inr ()) \<and> snd (joinOrder cfg sk body s) = t' \<and>
      p = (sk_id sk, roomFor (o_orderId x)) \<and> may_chat cfg sk x \<and> (\<forall>u\<in>set (t' # later). p \<in> set (joined u))"
    by (intro bexI[of _ sk] exI[of _ body] exI[of _ "t # later"] exI[of _ t'] exI[of _ s] exI[of _ earlier] bexI[of _ x]) auto
qed

text \<open>Only \<open>joinOrder\<close> adds a socket to a room, after the access check.\<close>

lemma joinOrder_post:
  "wp (joinOrder cfg sk body)
     (\<lambda>r t. joined t = joined s \<or> (r = Inr () \<and> (\<exists>x \<in> set (orders (tables s)). may_chat cfg sk x \<and>
        joined t = joined s @ [(sk_id sk, roomFor (o_orderId x))])))
     (\<lambda>_ t. joined t = joined s) s"
proof (cases "vfield body ''orderId''" rule: isValidOrderId.cases)
  case (1 i)
  show ?thesis
    unfolding joinOrder_def Let_def
    using 1 by (auto simp: prog intro!: wp_mono[OF getAccessError_post] split: option.split)
qed (simp_all add: joinOrder_def Let_def prog)

lemma leaveOrder_post:
  "wp (leaveOrder sk body) (\<lambda>_ t. set (joined t) \<subseteq> set (joined s)) (\<lambda>_ _. False) s"
  unfolding leaveOrder_def Let_def by (auto simp: prog)

lemma emits_only:
  "wp (forEach rooms (\<lambda>room. emit (f room) (g room))) (\<lambda>_ t. tables t = tables s \<and> joined t = joined s) (\<lambda>_ _. False) s"
proof (induction rooms arbitrary: s)
  case (Cons r rs)
  show ?case using Cons[of "s\<lparr>emitted := emitted s @ [(f r, g r)]\<rparr>"] by (simp add: prog)
qed (simp add: prog)

lemma handleDisconnecting_post:
  "wp (handleDisconnecting sk) (\<lambda>_ t. set (joined t) \<subseteq> set (joined s)) (\<lambda>_ _. False) s"
  unfolding handleDisconnecting_def
  by (auto simp: prog intro!: wp_mono[OF emits_only])

lemma leaves_joined:
  assumes "wp m (\<lambda>_ t. set (joined t) \<subseteq> set (joined s)) (\<lambda>_ _. False) s" "m s = (r, t)"
  shows "set (joined t) \<subseteq> set (joined s)"
  using wp_run[OF assms] by (auto split: sum.splits)

lemma admitted_step:
  assumes "\<forall>p \<in> set (joined (hd ss)). admitted cfg S ss p" "set (joined t) \<subseteq> set (joined (hd ss))"
  shows "\<forall>p \<in> set (joined (hd (t # ss))). admitted cfg S (t # ss) p"
  using assms by (auto intro: admitted_later)

text \<open>
  C26.  Rooms are private.  In every run of the gateway, whatever the sockets send, in whatever order, and
  whatever becomes of the orders meanwhile, every member of a room was admitted: by a join at which
  its user was the buyer, the seller or support of an existing order whose room this is.  Membership
  is checked at the join only; if no step of the run deleted an order or changed its parties, every
  member is still such a user of an order there is.
\<close>

theorem chat_rooms_private:
  assumes "chat_run cfg S ss"
  shows "(\<forall>p \<in> set (joined (hd ss)). admitted cfg S ss p) \<and>
    (successively (\<lambda>t s. parties_kept (tables s) (tables t)) ss \<longrightarrow> rooms_private cfg S (hd ss))"
proof -
  have "\<forall>p \<in> set (joined (hd ss)). admitted cfg S ss p"
    using assms
  proof (induction rule: chat_run.induct)
    case (join s ss sk body r t)
    show ?case
    proof
      fix p assume p: "p \<in> set (joined (hd (t # s # ss)))"
      show "admitted cfg S (t # s # ss) p"
      proof (cases "p \<in> set (joined s)")
        case True
        with join.IH p show ?thesis by (auto intro: admitted_later)
      next
        case False
        with wp_run[OF joinOrder_post join.hyps(3)] p obtain x where x: "r = Inr (Inr ())"
          "x \<in> set (orders (tables s))" "may_chat cfg sk x" "p = (sk_id sk, roomFor (o_orderId x))"
          by (auto split: sum.splits)
        show ?thesis
          unfolding admitted_def
          by (intro bexI[of _ sk] exI[of _ body] exI[of _ "[]"] exI[of _ t] exI[of _ s] exI[of _ ss] bexI[of _ x])
            (use x p join.hyps in auto)
      qed
    qed
  next
    case (leave s ss sk body r t)
    from admitted_step[OF leave.IH] leaves_joined[OF leaveOrder_post leave.hyps(3)] show ?case by simp
  next
    case (send s ss sk body r t)
    have "joined t = joined s"
      using wp_run[OF sendMessage_post send.hyps(3)] by (auto simp: sent_or_refused_def split: sum.splits)
    with admitted_step[OF send.IH] show ?case by simp
  next
    case (disconnect s ss sk r t)
    from admitted_step[OF disconnect.IH] leaves_joined[OF handleDisconnecting_post disconnect.hyps(3)] show ?case by simp
  next
    case (other s ss t)
    with admitted_step[OF other.IH] show ?case by simp
  qed simp
  then show ?thesis unfolding rooms_private_def using admitted_member by blast
qed

text \<open>The witnesses: \<open>b\<close>'s socket joins the room of the order with \<open>c\<close> and writes there.\<close>

definition chat_order_id :: string where
  "chat_order_id = ''aaaaaaaa-aaaa-4aaa-8aaa-aaaaaaaaaaaa''"

lemma chat_order_id_valid: "CHAT_UUID_PATTERN chat_order_id"
  by code_simp

definition chat_db :: db where
  "chat_db = sample_db\<lparr>orders := [sample_order chat_order_id OS_created None]\<rparr>"

lemma chat_db_simps [simp]:
  "orders chat_db = [sample_order chat_order_id OS_created None]" "chats chat_db = []"
  "users chat_db = [sample_user ''b'' ''GB'', sample_user ''c'' ''GC'']"
  by (simp_all add: chat_db_def)

definition chat_start :: "(string \<times> string) list \<Rightarrow> chat_world" where
  "chat_start js = listener.extend (world.extend (quiet_world chat_db) (listener.fields None {} False)) (chat_world.fields js [])"

lemma chat_start_simps [simp]:
  "tables (chat_start js) = chat_db" "faults (chat_start js) = []" "joined (chat_start js) = js"
  "emitted (chat_start js) = []" "clock (chat_start js) = 1000" "uuid_next (chat_start js) = 0"
  by (simp_all add: chat_start_def world.defs listener.defs chat_world.defs)

definition chat_socket :: ChatSocket where
  "chat_socket = \<lparr> sk_id = ''k'', sk_userId = ''b'', sk_publicKey = None \<rparr>"

definition chat_body :: "json option" where
  "chat_body = Some (JObj [(''orderId'', JStr chat_order_id), (''content'', JStr '' hi '')])"

lemma chat_sample_simps [simp]:
  "sk_id chat_socket = ''k''" "sk_userId chat_socket = ''b''"
  "vfield chat_body ''orderId'' = Some (JStr chat_order_id)" "vfield chat_body ''content'' = Some (JStr '' hi '')"
  by (simp_all add: chat_socket_def chat_body_def vfield_def)

lemma chat_send_runs:
  "\<exists>m t. sendMessage Map.empty chat_socket chat_body (chat_start [(''k'', roomFor chat_order_id)]) = (Inr (Inr m), t)"
proof -
  have hi: "trim '' hi '' = ''hi''" by code_simp
  have "wp (sendMessage Map.empty chat_socket chat_body) (\<lambda>r _. \<exists>m. r = Inr m) (\<lambda>_ _. False)
      (chat_start [(''k'', roomFor chat_order_id)])"
    unfolding sendMessage_def getAccessError_def canAccessOrder_def findOrderParticipants_def persistMessage_def
      chat_create_def base_create_def Let_def
    by (simp add: prog hi chat_order_id_valid chat_table_def)
  from wp_returns[OF this] show ?thesis by blast
qed

theorem chat_send_rules_witness:
  "\<exists>m t. sendMessage Map.empty chat_socket chat_body (chat_start [(''k'', roomFor chat_order_id)]) = (Inr (Inr m), t) \<and>
     map c_content (chats (tables t)) = [''hi''] \<and> length (emitted t) = 1"
proof -
  have hi: "trim '' hi '' = ''hi''" by code_simp
  obtain m t where run: "sendMessage Map.empty chat_socket chat_body (chat_start [(''k'', roomFor chat_order_id)]) = (Inr (Inr m), t)"
    using chat_send_runs by blast
  from chat_send_rules[OF run] run hi show ?thesis by (auto simp: sent_def)
qed

text \<open>The order is deleted after its buyer's socket joined: the socket stays in the room it was admitted to.\<close>

theorem chat_rooms_private_witness:
  "\<exists>ss :: chat_world list. joined (hd ss) = [(''k'', roomFor chat_order_id)] \<and> orders (tables (hd ss)) = [] \<and>
     admitted Map.empty {chat_socket} ss (''k'', roomFor chat_order_id)"
proof -
  have "wp (joinOrder Map.empty chat_socket chat_body) (\<lambda>_ t. joined t = [(''k'', roomFor chat_order_id)]) (\<lambda>_ _. False)
      (chat_start [])"
    unfolding joinOrder_def getAccessError_def canAccessOrder_def findOrderParticipants_def Let_def
    by (simp add: prog chat_order_id_valid)
  from wp_returns[OF this] obtain r t where run: "joinOrder Map.empty chat_socket chat_body (chat_start []) = (Inr r, t)"
    and t: "joined t = [(''k'', roomFor chat_order_id)]" by blast
  let ?u = "t\<lparr>tables := (tables t)\<lparr>orders := []\<rparr>\<rparr>"
  have "chat_run Map.empty {chat_socket} [?u, t, chat_start []]"
    by (rule chat_run.other[OF chat_run.join[OF chat_run.start _ run]]) simp_all
  from chat_rooms_private[OF this] t show ?thesis by (intro exI[of _ "[?u, t, chat_start []]"]) auto
qed

end
