(* ===== verification/Threads.thy ===== *)
theory Threads
  imports Prog
begin

text \<open>
  Handlers that run at the same time.  Between two \<open>await\<close>s the code of a handler runs alone; at an
  \<open>await\<close> any other handler may go on.  A \<open>thread\<close> is a handler cut at these points: finished with its
  result, or waiting to execute its next statement.  \<open>alone\<close> runs it without interruption, which is
  what the handlers of the other theories are; \<open>pool_run\<close> runs several, in any order, with steps of the
  rest of the program in between.
\<close>

subsection \<open>Threads\<close>

datatype ('s, 'a) thread = Done "exn + 'a" | Await "'s \<Rightarrow> ('s, 'a) thread \<times> 's"

primrec tbind :: "('s, 'a) thread \<Rightarrow> ('a \<Rightarrow> ('s, 'b) thread) \<Rightarrow> ('s, 'b) thread" where
  "tbind (Done r) k = (case r of Inl e \<Rightarrow> Done (Inl e) | Inr a \<Rightarrow> k a)"
| "tbind (Await f) k = Await (\<lambda>s. map_prod (\<lambda>t. tbind t k) id (f s))"

text \<open>One statement, executed at once.\<close>

definition stmt :: "('s, 'a) prog \<Rightarrow> ('s, 'a) thread" where
  "stmt m = Await (\<lambda>s. apfst Done (m s))"

definition failed :: "exn \<Rightarrow> ('s, 'a) thread" where
  "failed e = Done (Inl e)"

definition returned :: "'a \<Rightarrow> ('s, 'a) thread" where
  "returned a = Done (Inr a)"

text \<open>A thread whose value is dropped, so that threads of different handlers fit in one pool.\<close>

definition silent :: "('s, 'a) thread \<Rightarrow> ('s, unit) thread" where
  "silent t = tbind t (\<lambda>_. returned ())"

primrec alone :: "('s, 'a) thread \<Rightarrow> ('s, 'a) prog" where
  "alone (Done r) = (\<lambda>s. (r, s))"
| "alone (Await f) = (\<lambda>s. (\<lambda>(g, u). g u) (map_prod alone id (f s)))"

definition succeeded :: "('s, 'a) thread \<Rightarrow> bool" where
  "succeeded t \<longleftrightarrow> (case t of Done (Inr a) \<Rightarrow> True | _ \<Rightarrow> False)"

lemma tbind_simps [simp]:
  "tbind (failed e) k = failed e" "tbind (returned a) k = k a"
  by (simp_all add: failed_def returned_def)

lemma succeeded_simps [simp]:
  "succeeded (Await f) = False" "succeeded (failed e) = False" "succeeded (returned a) = True"
  by (simp_all add: succeeded_def failed_def returned_def)

lemma in_range: "f s = p \<Longrightarrow> p \<in> range f"
  by blast

lemma alone_tbind: "alone (tbind t k) = bindE (alone t) (\<lambda>a. alone (k a))"
proof -
  have "alone (tbind t k) s = bindE (alone t) (\<lambda>a. alone (k a)) s" for s
  proof (induction t arbitrary: s)
    case (Done r)
    then show ?case by (simp add: bindE_def split: sum.split)
  next
    case (Await f)
    obtain t u where f: "f s = (t, u)" by (metis surj_pair)
    have "alone (tbind t k) u = bindE (alone t) (\<lambda>a. alone (k a)) u"
      by (rule Await.IH[OF in_range[OF refl, of f s]]) (simp add: f)
    then show ?case by (simp add: f bindE_def)
  qed
  then show ?thesis by (simp add: fun_eq_iff)
qed

lemma alone_simps [simp]:
  "alone (stmt m) = m" "alone (failed e) = throw e" "alone (returned a) = ret a"
  by (auto simp: stmt_def failed_def returned_def throw_def ret_def fun_eq_iff apfst_def map_prod_def split: prod.split)

lemma alone_if [simp]: "alone (if b then t else u) = (if b then alone t else alone u)"
  by simp

text \<open>The laws of sequencing, to compare a thread run alone with the handler it is cut from.\<close>

lemma bindE_assoc: "bindE (bindE m f) g = bindE m (\<lambda>a. bindE (f a) g)"
  by (auto simp: bindE_def fun_eq_iff split: prod.split sum.split)

lemma bindE_throw [simp]: "bindE (throw e) f = throw e"
  by (simp add: bindE_def throw_def fun_eq_iff)

lemma bindE_ret [simp]: "bindE (ret a) f = f a"
  by (simp add: bindE_def ret_def fun_eq_iff)

lemma bindE_if: "bindE (if b then m else k) f = (if b then bindE m f else bindE k f)"
  by simp

lemma bindE_cases:
  "bindE (case x of None \<Rightarrow> m | Some a \<Rightarrow> h a) f = (case x of None \<Rightarrow> bindE m f | Some a \<Rightarrow> bindE (h a) f)"
  "bindE (case r of Inl e \<Rightarrow> j e | Inr b \<Rightarrow> k b) f = (case r of Inl e \<Rightarrow> bindE (j e) f | Inr b \<Rightarrow> bindE (k b) f)"
  by (simp_all split: option.split sum.split)

lemma lift_sum: "bindE (lift r) f = (case r of Inl e \<Rightarrow> throw e | Inr a \<Rightarrow> f a)"
  by (cases r) (simp_all add: lift_def bindE_def throw_def fun_eq_iff)

lemma alone_cases [simp]:
  "alone (case x of None \<Rightarrow> t | Some a \<Rightarrow> k a) = (case x of None \<Rightarrow> alone t | Some a \<Rightarrow> alone (k a))"
  "alone (case r of Inl e \<Rightarrow> h e | Inr b \<Rightarrow> j b) = (case r of Inl e \<Rightarrow> alone (h e) | Inr b \<Rightarrow> alone (j b))"
  by (simp_all split: option.split sum.split)

lemmas alone_laws = alone_tbind andThen_def bindE_assoc bindE_if bindE_cases lift_sum throwIf_def

lemma stmt_await: "stmt m = Await (\<lambda>s. (Done (fst (m s)), snd (m s)))"
  by (simp add: stmt_def apfst_def map_prod_def case_prod_beta)

lemma silent_tbind [simp]: "silent (tbind (stmt m) k) = tbind (stmt m) (\<lambda>a. silent (k a))"
  by (simp add: silent_def stmt_await fun_eq_iff split: sum.split)

lemma alone_silent: "alone t s = (Inr a, u) \<Longrightarrow> alone (silent t) s = (Inr (), u)"
  by (simp add: silent_def alone_tbind bindE_def ret_def)

subsection \<open>Pools\<close>

type_synonym ('s, 'a) pool = "('s, 'a) thread list \<times> 's"

text \<open>The next step of thread \<open>i\<close>, and a run in which the scheduler picks the given threads.\<close>

definition tick :: "nat \<Rightarrow> ('s, 'a) pool \<Rightarrow> ('s, 'a) pool" where
  "tick i p = (case p of (ts, s) \<Rightarrow>
     (if i < length ts then (case ts ! i of Done r \<Rightarrow> (ts, s) | Await f \<Rightarrow> (case f s of (t, u) \<Rightarrow> (ts[i := t], u)))
      else (ts, s)))"

text \<open>\<open>R\<close> is what the rest of the program may do at any time.\<close>

inductive pool_step :: "('s \<Rightarrow> 's \<Rightarrow> bool) \<Rightarrow> ('s, 'a) pool \<Rightarrow> ('s, 'a) pool \<Rightarrow> bool" for R where
  thread: "pool_step R p (tick i p)"
| rest: "R s u \<Longrightarrow> pool_step R (ts, s) (ts, u)"

definition pool_run :: "('s \<Rightarrow> 's \<Rightarrow> bool) \<Rightarrow> ('s, 'a) pool \<Rightarrow> ('s, 'a) pool \<Rightarrow> bool" where
  "pool_run R = (pool_step R)\<^sup>*\<^sup>*"

inductive_cases pool_stepE: "pool_step R p q"

lemma schedule_runs: "pool_run R p (fold tick is p)"
proof (induction "is" arbitrary: p)
  case (Cons i "is")
  show ?case
    using converse_rtranclp_into_rtranclp[OF pool_step.thread[of R p i] Cons.IH[unfolded pool_run_def]]
    by (simp add: pool_run_def)
qed (simp add: pool_run_def)

text \<open>A thread that the scheduler does not interrupt.\<close>

lemma tick_await: "i < length ts \<Longrightarrow> tick i (ts[i := Await f], s) = (ts[i := fst (f s)], snd (f s))"
  by (simp add: tick_def case_prod_beta)

lemma runs_alone:
  assumes "i < length ts"
  shows "\<exists>n. fold tick (replicate n i) (ts[i := t], s) = (ts[i := Done (fst (alone t s))], snd (alone t s))"
proof (induction t arbitrary: s)
  case (Done r)
  show ?case by (intro exI[of _ 0]) simp
next
  case (Await f)
  obtain n where n: "fold tick (replicate n i) (ts[i := fst (f s)], snd (f s)) =
      (ts[i := Done (fst (alone (fst (f s)) (snd (f s))))], snd (alone (fst (f s)) (snd (f s))))"
    using Await.IH[of "f s" "fst (f s)" "snd (f s)"] by (auto simp: prod_set_defs)
  have "alone (Await f) s = alone (fst (f s)) (snd (f s))" by (simp add: case_prod_beta)
  then show ?case using n assms by (intro exI[of _ "Suc n"]) (simp add: tick_await)
qed

lemma pool_run_induct [consumes 1, case_names start thread rest]:
  assumes "pool_run R p q" "P p"
    and "\<And>i ts s. P (ts, s) \<Longrightarrow> P (tick i (ts, s))"
    and "\<And>ts s u. P (ts, s) \<Longrightarrow> R s u \<Longrightarrow> P (ts, u)"
  shows "P q"
  using assms(1) unfolding pool_run_def
proof (induction rule: rtranclp_induct)
  case (step q r)
  from step.hyps(2) show ?case
    by (cases rule: pool_step.cases) (use step.IH assms(3,4) in \<open>auto, metis surj_pair\<close>)
qed (rule assms(2))

subsection \<open>A relation that every step obeys\<close>

primrec obeying :: "('s \<Rightarrow> 's \<Rightarrow> bool) \<Rightarrow> ('s, 'a) thread \<Rightarrow> bool" where
  "obeying R (Done r) = True"
| "obeying R (Await f) = (\<forall>s. (\<lambda>(b, u). b \<and> R s u) (map_prod (obeying R) id (f s)))"

lemma obeying_Await: "obeying R (Await f) \<longleftrightarrow> (\<forall>s. obeying R (fst (f s)) \<and> R s (snd (f s)))"
  by (simp add: case_prod_beta)

declare obeying.simps(2) [simp del]

lemma obeying_ends [simp]: "obeying R (failed e)" "obeying R (returned a)"
  by (simp_all add: failed_def returned_def)

lemma obeying_stmt: "obeys R m \<Longrightarrow> obeying R (stmt m)"
  by (simp add: stmt_await obeying_Await obeysD)

lemma obeying_tbind: "obeying R t \<Longrightarrow> (\<And>a. obeying R (k a)) \<Longrightarrow> obeying R (tbind t k)"
proof (induction t)
  case (Done r) then show ?case by (simp split: sum.split)
next
  case (Await f)
  have "obeying R (tbind (fst (f s)) k) \<and> R s (snd (f s))" for s
    using Await.prems Await.IH[of "f s" "fst (f s)"] by (auto simp: obeying_Await prod_set_defs)
  then show ?case by (simp add: obeying_Await)
qed

lemma obeying_silent: "obeying R t \<Longrightarrow> obeying R (silent t)"
  by (simp add: silent_def obeying_tbind)

lemma obeying_tick:
  assumes "list_all (obeying R) ts" "tick i (ts, s) = (us, u)" "R s s"
  shows "list_all (obeying R) us \<and> R s u"
proof (cases "i < length ts \<and> (\<exists>f. ts ! i = Await f)")
  case False
  then have "tick i (ts, s) = (ts, s)" by (cases "ts ! i") (auto simp: tick_def)
  with assms show ?thesis by simp
next
  case True
  then obtain f where f: "ts ! i = Await f" "i < length ts" by blast
  have "obeying R (ts ! i)" using assms(1) f(2) by (simp add: list_all_length)
  then have "obeying R (fst (f s))" "R s (snd (f s))" by (simp_all add: f(1) obeying_Await)
  moreover have "us = ts[i := fst (f s)]" "u = snd (f s)" using assms(2) f by (auto simp: tick_def split: prod.splits)
  ultimately show ?thesis using assms(1) f(2) by (auto simp: list_all_length nth_list_update)
qed

context effect
begin

lemma pool_obeys:
  assumes "pool_run R (ts, s) (us, t)" "list_all (obeying R) ts"
  shows "R s t"
proof -
  have "list_all (obeying R) (fst (us, t)) \<and> R s (snd (us, t))"
  proof (rule pool_run_induct[OF assms(1), where P = "\<lambda>p. list_all (obeying R) (fst p) \<and> R s (snd p)"])
    show "list_all (obeying R) (fst (ts, s)) \<and> R s (snd (ts, s))" using assms(2) refl by simp
  next
    fix i us u
    assume p: "list_all (obeying R) (fst (us, u)) \<and> R s (snd (us, u))"
    obtain us' v where v: "tick i (us, u) = (us', v)" by (metis surj_pair)
    have "list_all (obeying R) us' \<and> R u v" using p by (intro obeying_tick[OF _ v refl]) simp
    with p show "list_all (obeying R) (fst (tick i (us, u))) \<and> R s (snd (tick i (us, u)))"
      using trans[of s u v] by (simp add: v)
  next
    fix us u v
    assume "list_all (obeying R) (fst (us, u)) \<and> R s (snd (us, u))" "R u v"
    then show "list_all (obeying R) (fst (us, v)) \<and> R s (snd (us, v))" using trans[of s u v] by simp
  qed
  then show ?thesis by simp
qed

end

subsection \<open>What can be used once\<close>

text \<open>
  Something is available (\<open>A\<close>) or not, in the states that satisfy \<open>I\<close>.  A step keeps it when it does not
  make it available again.  A thread is \<open>idle\<close> when all its steps keep it; it \<open>claims\<close> it when it only
  succeeds after a step that took it.
\<close>

definition keeps :: "('s \<Rightarrow> bool) \<Rightarrow> ('s \<Rightarrow> bool) \<Rightarrow> 's \<Rightarrow> 's \<Rightarrow> bool" where
  "keeps I A s u \<longleftrightarrow> (I s \<longrightarrow> I u \<and> (A u \<longrightarrow> A s))"

definition takes :: "('s \<Rightarrow> bool) \<Rightarrow> ('s \<Rightarrow> bool) \<Rightarrow> 's \<Rightarrow> 's \<Rightarrow> bool" where
  "takes I A s u \<longleftrightarrow> (I s \<longrightarrow> I u \<and> A s \<and> \<not> A u)"

abbreviation idle :: "('s \<Rightarrow> bool) \<Rightarrow> ('s \<Rightarrow> bool) \<Rightarrow> ('s, 'a) thread \<Rightarrow> bool" where
  "idle I A \<equiv> obeying (keeps I A)"

primrec claims :: "('s \<Rightarrow> bool) \<Rightarrow> ('s \<Rightarrow> bool) \<Rightarrow> ('s, 'a) thread \<Rightarrow> bool" where
  "claims I A (Done r) = isl r"
| "claims I A (Await f) = (\<forall>s. (\<lambda>((b, t), u). takes I A s u \<and> idle I A t \<or> b \<and> keeps I A s u)
     (map_prod (\<lambda>t. (claims I A t, t)) id (f s)))"

lemma claims_Await: "claims I A (Await f) \<longleftrightarrow> (\<forall>s. takes I A s (snd (f s)) \<and> idle I A (fst (f s)) \<or>
    claims I A (fst (f s)) \<and> keeps I A s (snd (f s)))"
  by (simp add: case_prod_beta)

declare claims.simps(2) [simp del]

lemma idle_step: "idle I A (Await f) \<Longrightarrow> f s = (t, u) \<Longrightarrow> idle I A t \<and> keeps I A s u"
  unfolding obeying_Await by (metis fst_conv snd_conv)

lemma claims_step:
  "claims I A (Await f) \<Longrightarrow> f s = (t, u) \<Longrightarrow> takes I A s u \<and> idle I A t \<or> claims I A t \<and> keeps I A s u"
  unfolding claims_Await by (metis fst_conv snd_conv)

lemma claims_not_succeeded: "claims I A t \<Longrightarrow> \<not> succeeded t"
  by (cases t) (auto simp: succeeded_def split: sum.splits)

text \<open>All of \<open>C\<close> claim it, or one of \<open>C\<close> has taken it.\<close>

definition one_taker :: "('s \<Rightarrow> bool) \<Rightarrow> ('s \<Rightarrow> bool) \<Rightarrow> nat set \<Rightarrow> nat \<Rightarrow> ('s, 'a) pool \<Rightarrow> bool" where
  "one_taker I A C n p \<longleftrightarrow> length (fst p) = n \<and> I (snd p) \<and>
     (\<exists>W. (W = {} \<or> (\<exists>w. W = {w} \<and> \<not> A (snd p))) \<and>
       (\<forall>i<n. if i \<in> C - W then claims I A (fst p ! i) else idle I A (fst p ! i)))"

lemma one_taker_tick:
  assumes "one_taker I A C n (ts, s)" shows "one_taker I A C n (tick i (ts, s))"
proof (cases "i < n \<and> (\<exists>f. ts ! i = Await f)")
  case False
  then have "tick i (ts, s) = (ts, s)" using assms by (cases "ts ! i") (auto simp: tick_def one_taker_def)
  with assms show ?thesis by simp
next
  case True
  then obtain f t u where f: "ts ! i = Await f" "f s = (t, u)" "i < n" by (metis surj_pair)
  from assms obtain W where W: "length ts = n" "I s" "W = {} \<or> (\<exists>w. W = {w} \<and> \<not> A s)"
      "\<forall>i<n. if i \<in> C - W then claims I A (ts ! i) else idle I A (ts ! i)"
    unfolding one_taker_def fst_conv snd_conv by blast
  have tick: "tick i (ts, s) = (ts[i := t], u)" using f W(1) by (simp add: tick_def)
  have at_i: "(if i \<in> C - W then claims I A (ts ! i) else idle I A (ts ! i))" using W(4) f(3) by simp
  show ?thesis
  proof (cases "i \<in> C - W \<and> takes I A s u \<and> idle I A t")
    case True
    then have "A s" "\<not> A u" "I u" using W(2) by (auto simp: takes_def)
    with W(3) have "W = {}" by auto
    then show ?thesis using True W(1,4) f(3) \<open>\<not> A u\<close> \<open>I u\<close> unfolding tick one_taker_def
      by (auto simp: nth_list_update intro!: exI[of _ "{i}"])
  next
    case False
    have kept: "keeps I A s u" and i: "if i \<in> C - W then claims I A t else idle I A t"
      using at_i False claims_step[of I A f s t u] idle_step[of I A f s t u] f(1,2)
      by (auto split: if_splits)
    have "I u" "W = {} \<or> (\<exists>w. W = {w} \<and> \<not> A u)" using kept W(2,3) by (auto simp: keeps_def)
    moreover have "\<forall>j<n. if j \<in> C - W then claims I A (ts[i := t] ! j) else idle I A (ts[i := t] ! j)"
    proof (intro allI impI)
      fix j assume "j < n"
      then show "if j \<in> C - W then claims I A (ts[i := t] ! j) else idle I A (ts[i := t] ! j)"
        using W(1,4) i by (cases "j = i") simp_all
    qed
    ultimately show ?thesis using W(1) unfolding tick one_taker_def fst_conv snd_conv length_list_update
      by (intro conjI exI[of _ W])
  qed
qed

lemma one_taker_rest: "one_taker I A C n (ts, s) \<Longrightarrow> keeps I A s u \<Longrightarrow> one_taker I A C n (ts, u)"
  proof -
  assume p: "one_taker I A C n (ts, s)" and k: "keeps I A s u"
  from p obtain W where W: "length ts = n" "I s" "W = {} \<or> (\<exists>w. W = {w} \<and> \<not> A s)"
      "\<forall>i<n. if i \<in> C - W then claims I A (ts ! i) else idle I A (ts ! i)"
    unfolding one_taker_def fst_conv snd_conv by blast
  then have "I u" "W = {} \<or> (\<exists>w. W = {w} \<and> \<not> A u)" using k by (auto simp: keeps_def)
  with W(1,4) show ?thesis unfolding one_taker_def fst_conv snd_conv by (intro conjI exI[of _ W])
qed

text \<open>Of the threads that claim it, at most one succeeds.\<close>

lemma claimed_once:
  assumes "pool_run (keeps I A) (ts, s) (us, t)" "I s"
    and "\<And>i. i < length ts \<Longrightarrow> if i \<in> C then claims I A (ts ! i) else idle I A (ts ! i)"
  shows "card {i. i < length ts \<and> i \<in> C \<and> succeeded (us ! i)} \<le> 1"
proof -
  have "one_taker I A C (length ts) (us, t)"
    using assms(1)
  proof (induction rule: pool_run_induct)
    case start
    show ?case using assms(2,3) by (auto simp: one_taker_def intro!: exI[of _ "{}"])
  qed (simp_all add: one_taker_tick one_taker_rest)
  then obtain W where W: "W = {} \<or> (\<exists>w. W = {w})"
      "\<And>i. i < length ts \<Longrightarrow> i \<in> C \<Longrightarrow> i \<notin> W \<Longrightarrow> claims I A (us ! i)"
    unfolding one_taker_def fst_conv snd_conv by (metis DiffI)
  then have "{i. i < length ts \<and> i \<in> C \<and> succeeded (us ! i)} \<subseteq> W"
    using claims_not_succeeded by blast
  moreover have "finite W" "card W \<le> 1" using W(1) by auto
  ultimately show ?thesis using card_mono le_trans by blast
qed

subsection \<open>Composing claims\<close>

lemma claims_failed [simp]: "claims I A (failed e)"
  by (simp add: failed_def)

text \<open>A statement that keeps it, then claims; and the statement that takes it.\<close>

lemma claims_take:
  assumes "\<And>s a u. m s = (Inr a, u) \<Longrightarrow> takes I A s u \<and> idle I A (k a) \<or> claims I A (k a) \<and> keeps I A s u"
    and "\<And>s e u. m s = (Inl e, u) \<Longrightarrow> keeps I A s u"
  shows "claims I A (tbind (stmt m) k)"
proof -
  have "takes I A s (snd (m s)) \<and> idle I A (tbind (Done (fst (m s))) k) \<or>
      claims I A (tbind (Done (fst (m s))) k) \<and> keeps I A s (snd (m s))" for s
  proof (cases "fst (m s)")
    case (Inl e)
    then have "m s = (Inl e, snd (m s))" by (metis prod.collapse)
    from assms(2)[OF this] show ?thesis by (simp add: Inl)
  next
    case (Inr a)
    then have "m s = (Inr a, snd (m s))" by (metis prod.collapse)
    from assms(1)[OF this] show ?thesis by (simp add: Inr)
  qed
  then show ?thesis by (simp add: stmt_await claims_Await del: tbind.simps(1))
qed

lemma claims_tbind:
  assumes "\<And>s. keeps I A s (snd (m s))" "\<And>a. claims I A (k a)"
  shows "claims I A (tbind (stmt m) k)"
proof (rule claims_take)
  show "takes I A s u \<and> idle I A (k a) \<or> claims I A (k a) \<and> keeps I A s u" if "m s = (Inr a, u)" for s a u
    using assms(1)[of s] assms(2)[of a] that by simp
  show "keeps I A s u" if "m s = (Inl e, u)" for s e u
    using assms(1)[of s] that by simp
qed

end
