(* ===== verification/Concurrent.thy ===== *)
theory Concurrent
  imports Threads Auth Listener
begin

text \<open>
  The handlers whose guards read before they write, cut at their \<open>await\<close>s: login, cancellation, the
  synchronisation of a transaction and of a chain event.  Each statement to the database, each
  request to the chain and each reading of the clock is a step of its own; a \<open>$transaction\<close> is one step.
  Run alone, each is the handler of its own theory.
\<close>

subsection \<open>Login\<close>

definition login_issue :: "auth_env \<Rightarrow> LoginDto \<Rightarrow> RequestContext \<Rightarrow> int \<Rightarrow> ('z world_scheme, string \<times> user) thread" where
  "login_issue env dto ctx now =
     tbind (stmt (bindE newUuid (\<lambda>i. upsertUnique user_table (\<lambda>u. u_publicKey u = lg_publicKey dto)
                    (new_user i (lg_publicKey dto) now) id))) (\<lambda>u.
     tbind (stmt (audit_create (login_audit USER_LOGIN_SUCCESS SUCCESS (lg_publicKey dto) ctx None))) (\<lambda>_.
     returned (jwt_sign env (login_payload (u_userId u) (lg_publicKey dto)), u)))"

definition login_refuse :: "LoginDto \<Rightarrow> RequestContext \<Rightarrow> string \<Rightarrow> error_code \<Rightarrow> ('z world_scheme, 'a) thread" where
  "login_refuse dto ctx reason code =
     tbind (stmt (recordLoginFailure (lg_publicKey dto) ctx reason)) (\<lambda>_. failed (appExc code))"

definition login_thread :: "auth_env \<Rightarrow> LoginDto \<Rightarrow> RequestContext \<Rightarrow> ('z world_scheme, string \<times> user) thread" where
  "login_thread env dto ctx =
     (if \<not> isValidEd25519PublicKey env (lg_publicKey dto) then failed (appExc INVALID_WALLET)
      else tbind (stmt (findUnique challenge_table (\<lambda>c. ac_publicKey c = lg_publicKey dto))) (\<lambda>stored.
       tbind (stmt (getState clock)) (\<lambda>now.
       if (case stored of None \<Rightarrow> True
           | Some c \<Rightarrow> ac_usedAt c \<noteq> None \<or> ac_expiresAt c \<le> now \<or> ac_challenge c \<noteq> lg_challenge dto)
       then login_refuse dto ctx ''invalid_or_expired_challenge'' INVALID_CHALLENGE
       else (case decodeSignature (lg_signature dto) of
           Inl e \<Rightarrow> failed e
         | Inr sig \<Rightarrow>
             if \<not> isValidSignature env (lg_publicKey dto) (lg_challenge dto) sig
             then login_refuse dto ctx ''invalid_signature'' INVALID_SIGNATURE
             else tbind (stmt (getState clock)) (\<lambda>now.
               tbind (stmt (updateMany challenge_table (usable_challenge (lg_publicKey dto) (lg_challenge dto) now)
                        (\<lambda>c. c\<lparr>ac_usedAt := Some now\<rparr>))) (\<lambda>count.
               if count = 0 then login_refuse dto ctx ''challenge_race_condition'' INVALID_CHALLENGE
               else login_issue env dto ctx now))))))"

lemma login_alone: "alone (login_thread env dto ctx) = login env dto ctx"
  unfolding login_thread_def login_def login_verify_def login_consume_def assertValidPublicKey_def
    login_refuse_def login_issue_def
  by (simp add: alone_laws cong: if_cong option.case_cong sum.case_cong)

subsection \<open>Cancelling an order\<close>

definition cancel_thread :: "string \<Rightarrow> string \<Rightarrow> ('z world_scheme, order) thread" where
  "cancel_thread i userId =
     tbind (stmt (order_findById i)) (\<lambda>found. case found of
       None \<Rightarrow> failed (appExc ORDER_NOT_FOUND)
     | Some v \<Rightarrow>
         if o_buyerId (ov_order v) \<noteq> userId \<and> o_sellerId (ov_order v) \<noteq> userId then failed (appExc UNAUTHORIZED_ACTION)
         else if o_orderStatus (ov_order v) \<in> set terminalOrderStatuses then failed (appExc ORDER_CANCELLATION_NOT_ALLOWED)
         else if (case ov_escrow v of None \<Rightarrow> False | Some e \<Rightarrow> e_escrowStatus e \<in> set blockedEscrowStatuses)
         then failed (appExc ORDER_CANCELLATION_NOT_ALLOWED)
         else stmt (base_update order_table i (\<lambda>r. r\<lparr>o_orderStatus := OS_cancelled\<rparr>)))"

lemma cancel_alone: "alone (cancel_thread i userId) = order_cancel i userId"
  unfolding cancel_thread_def order_cancel_def
  by (simp add: alone_laws cong: if_cong option.case_cong sum.case_cong)

subsection \<open>Synchronising a transaction\<close>

definition sync_thread ::
    "services \<Rightarrow> SyncEscrowDto \<Rightarrow> ('z world_scheme, string \<times> string \<times> string option \<times> escrow_status) thread" where
  "sync_thread sv dto =
     tbind (stmt (escrow_getOrFail (sy_escrowId dto))) (\<lambda>e.
     case validateStatusTransition (escrow_status_name (e_escrowStatus e)) (action_key (sy_action dto)) of
       Inl x \<Rightarrow> failed x
     | Inr _ \<Rightarrow>
        tbind (stmt (tw_sendTransaction (sv_tw sv) (sy_signedXdr dto))) (\<lambda>res.
        if sr_status res \<noteq> ''SUCCESS'' then failed (appExc ESCROW_SYNC_FAILED)
        else tbind (stmt (base_update escrow_table (sy_escrowId dto)
                  (sync_update (sy_action dto) res (sy_signedXdr dto)))) (\<lambda>_.
          tbind (if sy_action dto \<in> {FUND, RELEASE}
                 then stmt (sync_audit dto (nullish (sr_contractId res) (e_contractId e))) else returned ()) (\<lambda>_.
          returned (sy_escrowId dto, sr_status res, nullish (sr_contractId res) (e_contractId e),
              sync_target (sy_action dto))))))"

lemma sync_alone: "alone (sync_thread sv dto) = escrow_syncTransaction sv dto"
  unfolding sync_thread_def escrow_syncTransaction_def
  by (cases "sy_action dto") (simp_all add: alone_laws sync_audit_def cong: if_cong option.case_cong sum.case_cong)

subsection \<open>Synchronising a chain event\<close>

definition find_thread :: "OnChainEscrowEvent \<Rightarrow> ('z world_scheme, escrow option) thread" where
  "find_thread ev =
     tbind (if ev_contractId ev \<noteq> []
            then stmt (findUnique escrow_table (\<lambda>e. e_contractId e = Some (ev_contractId ev)))
            else returned None) (\<lambda>m. case m of
       Some e \<Rightarrow> returned (Some e)
     | None \<Rightarrow>
         let orderId = orElse (ev_engagementId ev) (ev_orderId ev)
         in if truthy orderId then stmt (findFirstByOrder (the orderId)) else returned None)"

definition event_thread :: "OnChainEscrowEvent \<Rightarrow> ('z listener_scheme, bool) thread" where
  "event_thread ev =
     tbind (stmt (getState processedEventIds)) (\<lambda>seen.
     if event_key ev \<in> seen then returned False
     else tbind (find_thread ev) (\<lambda>found. case found of
       None \<Rightarrow> returned False
     | Some e \<Rightarrow>
         if isTerminalOrAlreadyProcessed (e_escrowStatus e) (event_name (ev_eventType ev))
         then tbind (stmt (rememberEvent (event_key ev))) (\<lambda>_. returned False)
         else (case validateStatusTransition (escrow_status_name (e_escrowStatus e)) (event_name (ev_eventType ev)) of
             Inl x \<Rightarrow> failed x
           | Inr _ \<Rightarrow>
               tbind (stmt (transaction (event_tx ev e))) (\<lambda>_.
               tbind (stmt (rememberEvent (event_key ev))) (\<lambda>_. returned True)))))"

lemma find_alone: "alone (find_thread ev) = findEscrowRecord ev"
  unfolding find_thread_def findEscrowRecord_def
  by (simp add: alone_laws Let_def cong: if_cong option.case_cong sum.case_cong)

lemma event_alone: "alone (event_thread ev) = processEvent ev"
  unfolding event_thread_def processEvent_def by (simp add: alone_laws find_alone cong: if_cong option.case_cong sum.case_cong)

end
