(* ===== verification/Writes.thy ===== *)
theory Writes
  imports Users Offers Kyc Send Chat
begin

text \<open>
  What a handler may write.  Every change of the tables is a sequence of the \<open>db_write\<close> steps below,
  each a single statement that kept the constraints of its model, labelled by its \<open>kind\<close>.
  \<open>writes K\<close> are the sequences of steps of the kinds \<open>K\<close>: a handler that obeys it has \<open>K\<close> as its
  footprint, whatever calls fail and wherever it stops.
\<close>

datatype (plugins only: code size) kind =
    AuditAdd | AuditScrub | UserAdd | UserSet | OfferAdd | OfferSet | OfferDrop
  | OrderAdd | OrderSet | OrderDrop | EscrowAdd | EscrowEdit | EscrowMove | EscrowDrop
  | ChatAdd | ChatScrub | ChatDrop | MethodAdd | MethodSet | MethodDrop | ChallengeWrite | WaitlistWrite

text \<open>The columns of a user that no statement of the program changes.\<close>

definition same_account :: "user \<Rightarrow> user \<Rightarrow> bool" where
  "same_account u v \<longleftrightarrow> u_userId v = u_userId u \<and> u_publicKey v = u_publicKey u \<and> u_role v = u_role u"

definition scrubbed :: "audit_log \<Rightarrow> audit_log" where
  "scrubbed a = a\<lparr>a_ipAddress := None, a_userAgent := None\<rparr>"

text \<open>A row written back over the row of its key.\<close>

definition replace_by :: "('r \<Rightarrow> string) \<Rightarrow> 'r \<Rightarrow> ('r \<Rightarrow> 'r) \<Rightarrow> 'r list \<Rightarrow> 'r list" where
  "replace_by key r f rs = map (\<lambda>x. if key x = key r then f x else x) rs"

definition others_of :: "('r \<Rightarrow> string) \<Rightarrow> 'r \<Rightarrow> 'r list \<Rightarrow> 'r list" where
  "others_of key r rs = filter (\<lambda>x. key x \<noteq> key r) rs"

inductive db_write :: "kind \<Rightarrow> db \<Rightarrow> db \<Rightarrow> bool" where
  audit_add: "t_check audit_table d (audits d) a = None \<Longrightarrow> db_write AuditAdd d (d\<lparr>audits := audits d @ [a]\<rparr>)"
| audit_scrub: "db_write AuditScrub d (d\<lparr>audits := map (\<lambda>a. if p a then scrubbed a else a) (audits d)\<rparr>)"
| user_add: "t_check user_table d (users d) u = None \<Longrightarrow> u_role u = Role_user \<Longrightarrow>
    db_write UserAdd d (d\<lparr>users := users d @ [u]\<rparr>)"
| user_set: "r \<in> set (users d) \<Longrightarrow> (\<And>u. same_account u (f u)) \<Longrightarrow>
    t_check user_table d (others_of u_userId r (users d)) (f r) = None \<Longrightarrow>
    db_write UserSet d (d\<lparr>users := replace_by u_userId r f (users d)\<rparr>)"
| offer_add: "t_check offer_table d (offers d) x = None \<Longrightarrow> set ms \<subseteq> m_paymentId ` set (pmethods d) \<Longrightarrow>
    db_write OfferAdd d (d\<lparr>offers := offers d @ [x], offer_methods := offer_methods d @ map (Pair (f_offerId x)) ms\<rparr>)"
| offer_set: "r \<in> set (offers d) \<Longrightarrow> (\<And>x. f_offerId (f x) = f_offerId x) \<Longrightarrow>
    t_check offer_table d (others_of f_offerId r (offers d)) (f r) = None \<Longrightarrow>
    db_write OfferSet d (d\<lparr>offers := replace_by f_offerId r f (offers d)\<rparr>)"
| offer_drop: "r \<in> set (offers d) \<Longrightarrow> t_drop offer_table d r = Inr d' \<Longrightarrow> db_write OfferDrop d d'"
| order_add: "t_check order_table d (orders d) x = None \<Longrightarrow> db_write OrderAdd d (d\<lparr>orders := orders d @ [x]\<rparr>)"
| order_set: "r \<in> set (orders d) \<Longrightarrow> (\<And>x. o_orderId (f x) = o_orderId x) \<Longrightarrow>
    t_check order_table d (others_of o_orderId r (orders d)) (f r) = None \<Longrightarrow>
    db_write OrderSet d (d\<lparr>orders := replace_by o_orderId r f (orders d)\<rparr>)"
| order_drop: "r \<in> set (orders d) \<Longrightarrow> t_drop order_table d r = Inr d' \<Longrightarrow> db_write OrderDrop d d'"
| escrow_add: "t_check escrow_table d (escrows d) e = None \<Longrightarrow> e_escrowStatus e \<in> {ES_pending, ES_initialized} \<Longrightarrow>
    db_write EscrowAdd d (d\<lparr>escrows := escrows d @ [e]\<rparr>)"
| escrow_edit: "r \<in> set (escrows d) \<Longrightarrow>
    (\<And>e. e_escrowId (f e) = e_escrowId e \<and> e_escrowStatus (f e) = e_escrowStatus e \<and> e_contractId (f e) = e_contractId e) \<Longrightarrow>
    t_check escrow_table d (others_of e_escrowId r (escrows d)) (f r) = None \<Longrightarrow>
    db_write EscrowEdit d (d\<lparr>escrows := replace_by e_escrowId r f (escrows d)\<rparr>)"
| escrow_move: "r \<in> set (escrows d) \<Longrightarrow> (\<And>e. e_escrowId (f e) = e_escrowId e) \<Longrightarrow>
    t_check escrow_table d (others_of e_escrowId r (escrows d)) (f r) = None \<Longrightarrow>
    db_write EscrowMove d (d\<lparr>escrows := replace_by e_escrowId r f (escrows d)\<rparr>)"
| escrow_drop: "r \<in> set (escrows d) \<Longrightarrow> t_drop escrow_table d r = Inr d' \<Longrightarrow> db_write EscrowDrop d d'"
| chat_add: "t_check chat_table d (chats d) c = None \<Longrightarrow> db_write ChatAdd d (d\<lparr>chats := chats d @ [c]\<rparr>)"
| chat_scrub: "db_write ChatScrub d (d\<lparr>chats := map (\<lambda>c. if p c then c\<lparr>c_content := t\<rparr> else c) (chats d)\<rparr>)"
| chat_drop: "r \<in> set (chats d) \<Longrightarrow> t_drop chat_table d r = Inr d' \<Longrightarrow> db_write ChatDrop d d'"
| method_add: "t_check pmethod_table d (pmethods d) m = None \<Longrightarrow> db_write MethodAdd d (d\<lparr>pmethods := pmethods d @ [m]\<rparr>)"
| method_set: "r \<in> set (pmethods d) \<Longrightarrow> (\<And>m. m_paymentId (f m) = m_paymentId m) \<Longrightarrow>
    t_check pmethod_table d (others_of m_paymentId r (pmethods d)) (f r) = None \<Longrightarrow>
    db_write MethodSet d (d\<lparr>pmethods := replace_by m_paymentId r f (pmethods d)\<rparr>)"
| method_drop: "r \<in> set (pmethods d) \<Longrightarrow> t_drop pmethod_table d r = Inr d' \<Longrightarrow> db_write MethodDrop d d'"
| method_clear: "db_write MethodDrop d (d\<lparr>pmethods := filter (\<lambda>m. \<not> p m) (pmethods d),
    offer_methods := filter (\<lambda>j. snd j \<notin> m_paymentId ` set (filter p (pmethods d))) (offer_methods d)\<rparr>)"
| challenge_add: "t_check challenge_table d (challenges d) c = None \<Longrightarrow>
    db_write ChallengeWrite d (d\<lparr>challenges := challenges d @ [c]\<rparr>)"
| challenge_set: "r \<in> set (challenges d) \<Longrightarrow> (\<And>c. ac_challengeId (f c) = ac_challengeId c) \<Longrightarrow>
    t_check challenge_table d (others_of ac_challengeId r (challenges d)) (f r) = None \<Longrightarrow>
    db_write ChallengeWrite d (d\<lparr>challenges := replace_by ac_challengeId r f (challenges d)\<rparr>)"
| challenge_use: "db_write ChallengeWrite d (d\<lparr>challenges := map (\<lambda>c. if p c then c\<lparr>ac_usedAt := t\<rparr> else c) (challenges d)\<rparr>)"
| challenge_clear: "db_write ChallengeWrite d (d\<lparr>challenges := filter (\<lambda>c. \<not> p c) (challenges d)\<rparr>)"
| waitlist_add: "t_check waitlist_table d (waitlist d) w = None \<Longrightarrow>
    db_write WaitlistWrite d (d\<lparr>waitlist := waitlist d @ [w]\<rparr>)"
| waitlist_clear: "db_write WaitlistWrite d (d\<lparr>waitlist := filter (\<lambda>w. \<not> p w) (waitlist d)\<rparr>)"

definition writes :: "kind set \<Rightarrow> db \<Rightarrow> db \<Rightarrow> bool" where
  "writes K = (\<lambda>d d'. \<exists>k \<in> K. db_write k d d')\<^sup>*\<^sup>*"

interpretation wr: table_relation "writes K" for K
  by unfold_locales (auto simp: writes_def)

lemma writes_step: "db_write k d d' \<Longrightarrow> k \<in> K \<Longrightarrow> writes K d d'"
  by (auto simp: writes_def)

lemma writes_mono: "writes K d d' \<Longrightarrow> K \<subseteq> L \<Longrightarrow> writes L d d'"
  unfolding writes_def by (erule rtranclp_mono[THEN predicate2D, rotated]) auto

text \<open>A relation that every step of the kinds \<open>K\<close> obeys, every sequence of them does.\<close>

lemma writes_lift:
  assumes "writes K d d'" "\<And>d. P d d" "\<And>a b c. P a b \<Longrightarrow> P b c \<Longrightarrow> P a c"
    and "\<And>k a b. k \<in> K \<Longrightarrow> db_write k a b \<Longrightarrow> P a b"
  shows "P d d'"
  using assms(1) unfolding writes_def
  by (induction rule: rtranclp_induct) (use assms(2-4) in blast)+

subsection \<open>The statements of the handlers\<close>

abbreviation footprint_of :: "kind set \<Rightarrow> ('z world_scheme, 'a) prog \<Rightarrow> bool" where
  "footprint_of K m \<equiv> obeys (on_tables (writes K)) m"

lemma replace_by_eq: "map (\<lambda>x. if key x = key r then f x else x) rs = replace_by key r f rs"
  by (simp add: replace_by_def)

lemma others_of_eq: "filter (\<lambda>x. key x \<noteq> key r) rs = others_of key r rs"
  by (simp add: others_of_def)

lemma replace_by_id [simp]: "replace_by key r id rs = rs"
  by (auto simp: replace_by_def intro: map_idI)

lemma put_back [simp]: "d\<lparr>users := users d\<rparr> = d" "d\<lparr>waitlist := waitlist d\<rparr> = d"
  by (cases d; simp)+

lemmas set_steps = db_write.user_set db_write.offer_set db_write.order_set db_write.escrow_edit
  db_write.escrow_move db_write.method_set db_write.challenge_set

lemma fp_creates:
  "AuditAdd \<in> K \<Longrightarrow> footprint_of K (createRow audit_table a)"
  "UserAdd \<in> K \<Longrightarrow> u_role u = Role_user \<Longrightarrow> footprint_of K (createRow user_table u)"
  "OrderAdd \<in> K \<Longrightarrow> footprint_of K (createRow order_table x)"
  "EscrowAdd \<in> K \<Longrightarrow> e_escrowStatus e \<in> {ES_pending, ES_initialized} \<Longrightarrow> footprint_of K (createRow escrow_table e)"
  "ChatAdd \<in> K \<Longrightarrow> footprint_of K (createRow chat_table c)"
  "MethodAdd \<in> K \<Longrightarrow> footprint_of K (createRow pmethod_table m)"
  "OfferAdd \<in> K \<Longrightarrow> footprint_of K (createOffer f ms)"
  by (auto intro!: wr.ob_createRow wr.ob_createOffer writes_step[rotated] intro: db_write.intros)

lemma fp_updates:
  "UserSet \<in> K \<Longrightarrow> (\<And>u. same_account u (fu u)) \<Longrightarrow> footprint_of K (updateUnique user_table pu fu)"
  "OfferSet \<in> K \<Longrightarrow> (\<And>x. f_offerId (ff x) = f_offerId x) \<Longrightarrow> footprint_of K (updateUnique offer_table pf ff)"
  "OrderSet \<in> K \<Longrightarrow> (\<And>x. o_orderId (fo x) = o_orderId x) \<Longrightarrow> footprint_of K (updateUnique order_table po fo)"
  "EscrowMove \<in> K \<Longrightarrow> (\<And>e. e_escrowId (fe e) = e_escrowId e) \<Longrightarrow> footprint_of K (updateUnique escrow_table pe fe)"
  "MethodSet \<in> K \<Longrightarrow> (\<And>m. m_paymentId (fm m) = m_paymentId m) \<Longrightarrow> footprint_of K (updateUnique pmethod_table pm fm)"
  by (auto intro!: wr.ob_updateUnique writes_step[rotated] simp: replace_by_eq others_of_eq
      intro!: set_steps dest!: find_SomeD)

lemma fp_escrow_edit:
  "EscrowEdit \<in> K \<Longrightarrow> (\<And>e. e_escrowId (f e) = e_escrowId e \<and> e_escrowStatus (f e) = e_escrowStatus e \<and> e_contractId (f e) = e_contractId e) \<Longrightarrow>
   footprint_of K (updateUnique escrow_table p f)"
  by (auto intro!: wr.ob_updateUnique writes_step[rotated] simp: replace_by_eq others_of_eq
      intro!: set_steps dest!: find_SomeD)

lemma fp_deletes:
  "OfferDrop \<in> K \<Longrightarrow> footprint_of K (deleteUnique offer_table pf)"
  "OrderDrop \<in> K \<Longrightarrow> footprint_of K (deleteUnique order_table po)"
  "EscrowDrop \<in> K \<Longrightarrow> footprint_of K (deleteUnique escrow_table pe)"
  "ChatDrop \<in> K \<Longrightarrow> footprint_of K (deleteUnique chat_table pc)"
  "MethodDrop \<in> K \<Longrightarrow> footprint_of K (deleteUnique pmethod_table pm)"
  by (auto intro!: wr.ob_deleteUnique writes_step[rotated] intro: db_write.intros dest!: find_SomeD)

lemma fp_many:
  "ChallengeWrite \<in> K \<Longrightarrow> footprint_of K (deleteMany challenge_table pc)"
  "ChallengeWrite \<in> K \<Longrightarrow> footprint_of K (updateMany challenge_table pc (\<lambda>c. c\<lparr>ac_usedAt := t\<rparr>))"
  "WaitlistWrite \<in> K \<Longrightarrow> footprint_of K (deleteMany waitlist_table pw)"
  "ChatScrub \<in> K \<Longrightarrow> footprint_of K (updateMany chat_table px (\<lambda>c. c\<lparr>c_content := x\<rparr>))"
  by (auto intro!: wr.ob_deleteMany wr.ob_updateMany writes_step[rotated] intro: db_write.intros)

lemma fp_scrub:
  "AuditScrub \<in> K \<Longrightarrow> footprint_of K (updateMany audit_table p (\<lambda>a. a\<lparr>a_ipAddress := None, a_userAgent := None\<rparr>))"
  using db_write.audit_scrub[of _ p]
  by (auto intro!: wr.ob_updateMany writes_step[rotated] simp: scrubbed_def cong: if_cong)

lemma fp_clear: "MethodDrop \<in> K \<Longrightarrow> footprint_of K (deletePaymentMethods p)"
  unfolding deletePaymentMethods_def
  by (rule wr.ob_db_call) (simp add: obeys_def on_tables_def writes_step[OF db_write.method_clear] del: set_filter)

lemma fp_upsert_challenge:
  "ChallengeWrite \<in> K \<Longrightarrow> (\<And>c. ac_challengeId (f c) = ac_challengeId c) \<Longrightarrow>
   footprint_of K (upsertUnique challenge_table p c f)"
  by (auto intro!: wr.ob_upsertUnique writes_step[rotated] simp: replace_by_eq others_of_eq
      intro!: set_steps db_write.challenge_add dest!: find_SomeD)

lemma fp_upsert_same:
  "WaitlistWrite \<in> K \<Longrightarrow> footprint_of K (upsertUnique waitlist_table pw w id)"
  "UserAdd \<in> K \<Longrightarrow> u_role u = Role_user \<Longrightarrow> footprint_of K (upsertUnique user_table pu u id)"
  by (rule wr.ob_upsertUnique; simp add: replace_by_eq wr.same writes_step[OF db_write.waitlist_add]
      writes_step[OF db_write.user_add])+

end
