(* ===== verification/Footprints.thy ===== *)
theory Footprints
  imports Writes
begin

text \<open>
  The footprint of every handler: the kinds of statements it may execute.  A handler with the empty
  footprint reads only.  The proofs follow the handlers' composition; nothing is known or assumed
  of the answers of the chain, of the database's failures or of the data.
\<close>

lemma fp_mono: "footprint_of K m \<Longrightarrow> K \<subseteq> L \<Longrightarrow> footprint_of L m"
  by (erule obeys_mono) (auto simp: on_tables_def intro: writes_mono)

lemma fp_sum:
  "(\<And>a. x = Inl a \<Longrightarrow> footprint_of K (m a)) \<Longrightarrow> (\<And>b. x = Inr b \<Longrightarrow> footprint_of K (k b)) \<Longrightarrow>
   footprint_of K (case x of Inl a \<Rightarrow> m a | Inr b \<Rightarrow> k b)"
  by (cases x) auto

lemma fp_list:
  "footprint_of K m \<Longrightarrow> (\<And>y ys. footprint_of K (k y ys)) \<Longrightarrow> footprint_of K (case xs of [] \<Rightarrow> m | y # ys \<Rightarrow> k y ys)"
  by (cases xs) auto

lemma fp_Let: "footprint_of K (f x) \<Longrightarrow> footprint_of K (let y = x in f y)"
  by simp

lemmas fp_flow = wr.ob_reads wr.ob_transaction wr.ob_tw_client fp_sum fp_list fp_Let

lemmas fp_writes = fp_creates fp_updates(1-3,5) fp_deletes fp_many fp_scrub fp_clear fp_upsert_challenge fp_upsert_same

lemmas base_defs = base_create_def base_findById_def base_findMany_def base_update_def base_delete_def find_args_def

subsection \<open>Audit log, guards, helpers\<close>

lemma fp_audit:
  "AuditAdd \<in> K \<Longrightarrow> footprint_of K (audit_repo_create inp)"
  "AuditAdd \<in> K \<Longrightarrow> footprint_of K (audit_create inp)"
  "AuditAdd \<in> K \<Longrightarrow> footprint_of K (audit_createOrThrow inp)"
  unfolding audit_create_def audit_createOrThrow_def audit_repo_create_def by (intro fp_flow fp_writes; simp)+

lemma fp_guards:
  "footprint_of K (owner_canActivate meta u params)"
  "footprint_of K (kyc_canActivate u)"
  "footprint_of K (roles_canActivate rs u)"
  "footprint_of K (jwt_validate sub pk)"
  unfolding owner_canActivate_def kyc_canActivate_def roles_canActivate_def jwt_validate_def resolveOwnerIds_def Let_def
  by (intro fp_flow; simp)+

lemma fp_config:
  "footprint_of K (cfg_getOrThrow cfg k)"
  "footprint_of K (buildP2PRoles cfg a b)"
  "footprint_of K (resolveTrustline cfg c)"
  "footprint_of K (escrow_payload cfg signer orderId title sellerAddress buyerAddress amount c)"
  unfolding escrow_payload_def buildP2PRoles_def resolveTrustline_def cfg_getOrThrow_def by (intro fp_flow)+

lemma fp_escrow_helpers:
  "footprint_of K (escrow_getOrFail i)"
  "footprint_of K (findByOrder i)"
  "footprint_of K (deployEscrowToChain sv i (dd :: 'd deploy_dto_scheme))"
  "EscrowAdd \<in> K \<Longrightarrow> (\<And>e. e_escrowStatus e = ES_pending \<Longrightarrow> e_escrowStatus (f e) \<in> {ES_pending, ES_initialized}) \<Longrightarrow>
     footprint_of K (create_escrow i f)"
  "footprint_of K m \<Longrightarrow> footprint_of K (settled m)"
  unfolding escrow_getOrFail_def findByOrder_def deployEscrowToChain_def create_escrow_def settled_def base_defs validateAssetCode_def
  by (intro fp_flow fp_config fp_writes; simp add: new_escrow_def)+

subsection \<open>Escrows\<close>

lemma fp_escrow_reads:
  "footprint_of {} (escrow_fund sv d1)"
  "footprint_of {} (escrow_markFiatSent sv i d2)"
  "footprint_of {} (escrow_release sv d3)"
  "footprint_of {} (escrow_getStatus sv i)"
  "footprint_of {} (escrow_get i)"
  "footprint_of {} (escrow_list p q)"
  unfolding escrow_fund_def escrow_markFiatSent_def escrow_release_def autoApprove_def escrow_getStatus_def
    escrow_get_def escrow_list_def base_defs
  by (intro fp_flow fp_config fp_escrow_helpers)+

lemma fp_escrow_open: "footprint_of {EscrowAdd, EscrowMove, AuditAdd} (escrow_open sv dto)"
  unfolding escrow_open_def open_persist_def base_defs
  by (intro fp_flow fp_escrow_helpers fp_audit fp_updates(4); simp)

lemma fp_escrow_initialize: "footprint_of {EscrowAdd, EscrowEdit, AuditAdd} (escrow_initialize sv dto)"
  unfolding escrow_initialize_def validateAssetCode_def base_defs
  by (intro fp_flow fp_config fp_escrow_helpers fp_audit fp_escrow_edit; simp)

lemma fp_escrow_sync: "footprint_of {EscrowMove, AuditAdd} (escrow_syncTransaction sv dto)"
  unfolding escrow_syncTransaction_def sync_audit_def base_defs
  by (intro fp_flow fp_escrow_helpers fp_audit fp_updates(4); cases "sy_action dto"; simp)

lemma fp_escrow_crud:
  "footprint_of {EscrowEdit} (escrow_uploadEvidence sv i file)"
  "footprint_of {EscrowAdd} (escrow_create d4)"
  "footprint_of {EscrowEdit} (escrow_update i d5)"
  "footprint_of {EscrowDrop} (escrow_remove i)"
  unfolding escrow_uploadEvidence_def escrow_create_def escrow_update_def escrow_remove_def base_defs
  by (intro fp_flow fp_escrow_helpers fp_escrow_edit fp_deletes; simp)+

subsection \<open>Orders\<close>

lemma fp_order_reads:
  "footprint_of {} (order_get i)"
  "footprint_of {} (order_list p q)"
  "footprint_of {} (order_getUserStats i)"
  unfolding order_get_def order_findById_def order_list_def order_search_def order_getUserStats_def by (intro fp_flow)+

lemma fp_order_create: "footprint_of {OrderAdd, EscrowAdd, OfferSet, AuditAdd} (order_create sv dto)"
  unfolding order_create_def order_repo_create_def order_tx_def writeDate_def
  by (intro fp_flow fp_escrow_helpers fp_audit fp_writes; (simp add: wr.eff.ob_ret wr.eff.ob_throw split: date_input.split)?)

lemma fp_order_writes:
  "footprint_of {OrderSet, AuditAdd} (order_update i d1)"
  "footprint_of {OrderDrop, AuditAdd} (order_remove i)"
  "footprint_of {OrderSet} (order_cancel i userId)"
  unfolding order_update_def order_remove_def order_cancel_def order_findById_def base_defs
  by (intro fp_flow fp_audit fp_writes; simp add: order_patch_def)+

lemma fp_expiry: "footprint_of {OrderSet} (cron_expireOrders sv)"
  unfolding cron_expireOrders_def expireOrders_def processExpiredOrder_def checkBalance_def
  by (intro fp_flow fp_writes; simp)

subsection \<open>The chain listener\<close>

lemma fp_event: "footprint_of {EscrowMove, OrderSet, AuditAdd} (processEvent ev)"
  unfolding processEvent_def findEscrowRecord_def findFirstByOrder_def event_tx_def rememberEvent_def
  by (intro fp_flow fp_audit fp_writes fp_updates(4) wr.ob_world; simp add: event_update_def)

lemma fp_advance: "footprint_of K (advanceTo n)"
  unfolding advanceTo_def by (rule wr.ob_world) simp

lemma fp_batch: "footprint_of {EscrowMove, OrderSet, AuditAdd} (processBatch raws n)"
  by (induction raws arbitrary: n) (auto simp: processRaw_def intro!: fp_flow fp_event fp_advance)

lemma fp_poll: "footprint_of {EscrowMove, OrderSet, AuditAdd} (pollEventsWithRecovery env)"
  unfolding pollEventsWithRecovery_def fetchAndProcessNewEvents_def getTargetContractIds_def queryEventsFromRpc_def
  by (intro fp_flow fp_batch fp_advance)

lemma fp_listener_start: "footprint_of {} listener_onModuleInit"
  unfolding listener_onModuleInit_def loadLastProcessedLedger_def startListening_def
  by (intro fp_flow wr.ob_world; simp)

subsection \<open>Accounts\<close>

lemma fp_auth:
  "footprint_of {ChallengeWrite} (createChallenge env pk)"
  "footprint_of {ChallengeWrite, UserAdd, AuditAdd} (login env dto ctx)"
  "footprint_of {ChallengeWrite} cleanupExpiredChallenges"
  "footprint_of {} (getCsrfToken env req)"
  unfolding createChallenge_def login_def login_verify_def login_consume_def assertValidPublicKey_def randomHex_def
    recordLoginFailure_def cleanupExpiredChallenges_def purgeExpiredChallenges_def getCsrfToken_def
  by (intro fp_flow fp_audit fp_writes wr.ob_world; simp add: new_user_def)+

lemma fp_user_reads:
  "footprint_of {} (user_list sk tk)"
  "footprint_of {} (user_get i)"
  "footprint_of {} (isAliasAvailable a)"
  "footprint_of K (findByPublicKey pk)"
  "footprint_of K (findByAlias a)"
  unfolding user_list_def user_get_def isAliasAvailable_def repo_isAliasAvailable_def findByPublicKey_def findByAlias_def base_defs
  by (intro fp_flow)+

lemma same_account_patches [simp]:
  "same_account u (profile_patch dto n u)" "same_account u (anonymize now u)"
  "same_account u (u\<lparr>u_profileImageUrl := x\<rparr>)" "same_account u (u\<lparr>u_kycStatus := st, u_kycUpdatedAt := n\<rparr>)"
  by (simp_all add: same_account_def profile_patch_def anonymize_def)

lemma fp_user_writes:
  "footprint_of {UserAdd} (getOrCreateAccount pk')"
  "footprint_of {WaitlistWrite} (earlyRegister email)"
  "footprint_of {UserSet, MethodAdd} (setupAccount env rs i d1)"
  "footprint_of {UserAdd} (user_create d2)"
  "footprint_of {UserSet} (user_update i d3 caller)"
  "footprint_of {UserSet} (uploadProfilePicture cfg gcs i file snap)"
  "footprint_of {AuditAdd} (exportUserData i caller)"
  "footprint_of {UserSet, MethodDrop, ChatScrub, AuditScrub, WaitlistWrite, AuditAdd} (user_remove i caller)"
  unfolding getOrCreateAccount_def findOrCreateByPublicKey_def earlyRegister_def setupAccount_def setup_method_def
    user_create_def user_update_def check_alias_def repo_isAliasAvailable_def user_repo_update_def uploadProfilePicture_def
    exportUserData_def findExportData_def user_remove_def remove_tx_def base_defs
  by (intro fp_flow fp_audit fp_writes fp_user_reads; simp add: new_user_def)+

lemma fp_setKycStatus: "footprint_of {UserSet, AuditAdd} (setKycStatus i st)"
  unfolding setKycStatus_def by (intro fp_flow fp_audit fp_writes; simp)

lemma fp_webhook_event: "footprint_of {UserSet, AuditAdd} (processWebhookEvent payload)"
  unfolding processWebhookEvent_def Let_def
  by (auto intro!: fp_flow fp_setKycStatus split: option.split json.split)

lemma fp_kyc:
  "footprint_of {} (ctrl_kyc_start env i)"
  "footprint_of {} (ctrl_kyc_status i)"
  "footprint_of {UserSet, AuditAdd} (ctrl_kyc_webhook env opts)"
  unfolding ctrl_kyc_start_def ctrl_kyc_status_def ctrl_kyc_webhook_def
  by (intro fp_flow fp_webhook_event)+

subsection \<open>Payment methods, offers, chat, transfers\<close>

lemma fp_payment:
  "footprint_of {MethodAdd, AuditAdd} (payment_create rs d1)"
  "footprint_of {} (payment_list sk tk)"
  "footprint_of {} (payment_get i)"
  "footprint_of {MethodSet, AuditAdd} (payment_update rs i d2)"
  "footprint_of {MethodDrop, AuditAdd} (payment_remove i)"
  unfolding payment_create_def payment_list_def payment_get_def payment_update_def payment_remove_def base_defs
  by (intro fp_flow fp_audit fp_writes; simp add: method_patch_def)+

lemma fp_offers:
  "footprint_of {OfferAdd, AuditAdd} (offer_create d1)"
  "footprint_of {} (offer_list sk tk q)"
  "footprint_of {} (offer_get i)"
  "footprint_of {OfferSet, AuditAdd} (offer_update i d2)"
  "footprint_of {OfferDrop, AuditAdd} (offer_remove i)"
  unfolding offer_create_def offer_repo_create_def offer_list_def offer_search_def offer_get_def offer_findById_def
    offer_update_def offer_remove_def base_defs
  by (intro fp_flow fp_audit fp_writes; simp)+

lemma fp_chat:
  "footprint_of {ChatAdd} (chat_create dto)"
  "footprint_of {} (chat_list sk tk orderId)"
  "footprint_of {} (chat_get i)"
  "footprint_of {ChatDrop} (chat_remove i)"
  unfolding chat_create_def chat_list_def chat_findByOrder_def chat_get_def chat_remove_def base_defs
  by (intro fp_flow fp_writes; simp)+

lemma fp_send:
  "footprint_of {} (ctrl_send_resolve env r)"
  "footprint_of {} (prepare env a rcp n)"
  unfolding ctrl_send_resolve_def resolveRecipient_def prepare_def resolve_def Let_def
  by (intro fp_flow fp_user_reads)+

subsection \<open>The gateway\<close>

lemma fp_gateway_helpers:
  "footprint_of K (emit tgt ev)"
  "footprint_of K (chat_fail sk code orderId)"
  "footprint_of K (getAccessError cfg sk i)"
  "footprint_of K (inRoom sk room)"
  unfolding emit_def chat_fail_def getAccessError_def canAccessOrder_def findOrderParticipants_def inRoom_def
  by (intro fp_flow wr.ob_world; simp)+

lemma fp_gateway:
  "footprint_of {} (joinOrder cfg sk body)"
  "footprint_of {} (leaveOrder sk body)"
  "footprint_of {ChatAdd} (sendMessage cfg sk body)"
  "footprint_of {} (handleDisconnecting sk)"
  unfolding joinOrder_def leaveOrder_def sendMessage_def persistMessage_def handleDisconnecting_def
  by (intro fp_flow fp_gateway_helpers wr.ob_world fp_chat; simp)+

end
