(* ===== verification/Schema.thy ===== *)
theory Schema
  imports Writes
begin

text \<open>
  The constraints of \<open>prisma/schema.prisma\<close> as an invariant of the tables: identifiers and unique
  columns are unique, every reference finds its row.  Each model's constraint is a conflict between
  two rows and a set of references of a row (locale \<open>constrained_model\<close>); every statement of the
  program keeps all of them.
\<close>

subsection \<open>The invariant\<close>

definition rows_ok :: "'r table \<Rightarrow> db \<Rightarrow> bool" where
  "rows_ok T d \<longleftrightarrow> distinct (map (t_key T) (t_rows T d)) \<and>
     (\<forall>r \<in> set (t_rows T d). t_check T d (others_of (t_key T) r (t_rows T d)) r = None)"

definition joins_ok :: "db \<Rightarrow> bool" where
  "joins_ok d \<longleftrightarrow> (\<forall>j \<in> set (offer_methods d). fst j \<in> f_offerId ` set (offers d) \<and> snd j \<in> m_paymentId ` set (pmethods d))"

definition db_wf :: "db \<Rightarrow> bool" where
  "db_wf d \<longleftrightarrow> rows_ok user_table d \<and> rows_ok offer_table d \<and> rows_ok order_table d \<and> rows_ok escrow_table d \<and>
     rows_ok chat_table d \<and> rows_ok pmethod_table d \<and> rows_ok provider_table d \<and> rows_ok audit_table d \<and>
     rows_ok challenge_table d \<and> rows_ok waitlist_table d \<and> joins_ok d"

text \<open>The identifiers that references may name, before and after a statement that only adds some.\<close>

definition keys_grow :: "db \<Rightarrow> db \<Rightarrow> bool" where
  "keys_grow d d' \<longleftrightarrow> u_userId ` set (users d) \<subseteq> u_userId ` set (users d') \<and>
     f_offerId ` set (offers d) \<subseteq> f_offerId ` set (offers d') \<and> o_orderId ` set (orders d) \<subseteq> o_orderId ` set (orders d') \<and>
     m_paymentId ` set (pmethods d) \<subseteq> m_paymentId ` set (pmethods d') \<and>
     pp_provider_id ` set (providers d) \<subseteq> pp_provider_id ` set (providers d')"

subsection \<open>The contract of a model's constraints\<close>

locale constrained_model = prisma_model T for T :: "'r table" +
  fixes conflict :: "'r \<Rightarrow> 'r \<Rightarrow> bool" and refs :: "db \<Rightarrow> 'r \<Rightarrow> bool"
  assumes check_iff: "t_check T d rs r = None \<longleftrightarrow> (\<forall>x \<in> set rs. \<not> conflict x r) \<and> refs d r"
    and conflict_sym: "conflict x y \<Longrightarrow> conflict y x"
    and refs_grow: "keys_grow d d' \<Longrightarrow> refs d r \<Longrightarrow> refs d' r"
    and refs_own: "refs (t_put T rs d) r = refs d r"
begin

lemma ok_iff: "rows_ok T d \<longleftrightarrow> distinct (map (t_key T) (t_rows T d)) \<and>
    (\<forall>x \<in> set (t_rows T d). \<forall>y \<in> set (t_rows T d). t_key T x \<noteq> t_key T y \<longrightarrow> \<not> conflict x y) \<and>
    (\<forall>r \<in> set (t_rows T d). refs d r)"
  by (auto simp: rows_ok_def others_of_def check_iff)

lemma ok_frame:
  assumes "rows_ok T d" "t_rows T d' = t_rows T d" "keys_grow d d'"
  shows "rows_ok T d'"
  using assms(1) refs_grow[OF assms(3)] unfolding ok_iff assms(2) by blast

lemma ok_create:
  assumes "rows_ok T d" "t_check T d (t_rows T d) r = None"
  shows "rows_ok T (t_put T (t_rows T d @ [r]) d)"
  using assms check_key[OF assms(2)] conflict_sym
  by (auto simp: ok_iff check_iff put_rows refs_own)

lemma ok_replace:
  assumes "rows_ok T d" "r \<in> set (t_rows T d)" "\<And>x. t_key T (f x) = t_key T x"
    "t_check T d (others_of (t_key T) r (t_rows T d)) (f r) = None"
  shows "rows_ok T (t_put T (replace_by (t_key T) r f (t_rows T d)) d)"
proof -
  have row: "x = r" if "x \<in> set (t_rows T d)" "t_key T x = t_key T r" for x
    using that assms(1,2) by (auto simp: ok_iff distinct_map inj_on_def)
  have keys: "map (t_key T) (replace_by (t_key T) r f (t_rows T d)) = map (t_key T) (t_rows T d)"
    using assms(3) by (simp add: replace_by_def)
  have set: "y = f r \<or> y \<in> set (t_rows T d) \<and> t_key T y \<noteq> t_key T r"
    if "y \<in> set (replace_by (t_key T) r f (t_rows T d))" for y
    using that row by (auto simp: replace_by_def split: if_splits)
  show ?thesis
    unfolding ok_iff put_rows keys refs_own
    using assms(1,4) set conflict_sym assms(3)
    by (simp add: ok_iff check_iff others_of_def) metis
qed

lemma ok_filter: "rows_ok T d \<Longrightarrow> rows_ok T (t_put T (filter p (t_rows T d)) d)"
  by (auto simp: ok_iff put_rows refs_own distinct_map_filter)

lemma ok_same:
  assumes "rows_ok T d" "t_rows T d' = t_rows T d" "\<And>r. r \<in> set (t_rows T d) \<Longrightarrow> refs d r \<Longrightarrow> refs d' r"
  shows "rows_ok T d'"
  using assms by (auto simp: ok_iff)

lemma ok_sub:
  assumes "rows_ok T d" "t_rows T d' = filter p (t_rows T d)" "\<And>r. r \<in> set (t_rows T d) \<Longrightarrow> p r \<Longrightarrow> refs d r \<Longrightarrow> refs d' r"
  shows "rows_ok T d'"
  using assms by (auto simp: ok_iff distinct_map_filter)

lemma ok_map:
  assumes "rows_ok T d" "\<And>x. t_key T (f x) = t_key T x" "\<And>x y. conflict (f x) (f y) = conflict x y" "\<And>x. refs d (f x) = refs d x"
  shows "rows_ok T (t_put T (map f (t_rows T d)) d)"
  using assms by (auto simp: ok_iff put_rows refs_own comp_def)

end

subsection \<open>The models of the schema\<close>

definition same_value :: "'k option \<Rightarrow> 'k option \<Rightarrow> bool" where
  "same_value a b \<longleftrightarrow> a \<noteq> None \<and> a = b"

lemma clash_iff: "clash k rs r \<longleftrightarrow> (\<exists>x \<in> set rs. same_value (k x) (k r))"
  unfolding clash_def same_value_def by (auto simp: image_iff) (metis option.distinct(1))+

lemma same_value_sym: "same_value a b \<Longrightarrow> same_value b a"
  by (auto simp: same_value_def)

lemma no_image: "c \<notin> f ` S \<longleftrightarrow> (\<forall>x \<in> S. f x \<noteq> c)"
  by auto

definition provider_unique :: "payment_provider \<Rightarrow> (string \<times> string \<times> payment_provider_type) option" where
  "provider_unique p = map_option (\<lambda>c. (pp_name p, c, pp_type p)) (pp_country_code p)"

definition order_refs :: "db \<Rightarrow> order \<Rightarrow> bool" where
  "order_refs d x \<longleftrightarrow> o_offerId x \<in> f_offerId ` set (offers d) \<and> o_buyerId x \<in> u_userId ` set (users d) \<and>
     o_sellerId x \<in> u_userId ` set (users d)"

definition chat_refs :: "db \<Rightarrow> chat_message \<Rightarrow> bool" where
  "chat_refs d c \<longleftrightarrow> c_orderId c \<in> o_orderId ` set (orders d) \<and> c_senderId c \<in> u_userId ` set (users d)"

definition method_refs :: "db \<Rightarrow> payment_method \<Rightarrow> bool" where
  "method_refs d m \<longleftrightarrow> m_providerId m \<in> pp_provider_id ` set (providers d) \<and> m_userId m \<in> u_userId ` set (users d)"

definition audit_refs :: "db \<Rightarrow> audit_log \<Rightarrow> bool" where
  "audit_refs d a \<longleftrightarrow> (\<forall>u. a_userId a = Some u \<longrightarrow> u \<in> u_userId ` set (users d))"

lemmas refs_defs = order_refs_def chat_refs_def method_refs_def audit_refs_def keys_grow_def

interpretation user_c: constrained_model user_table
  "\<lambda>x y. u_userId x = u_userId y \<or> u_publicKey x = u_publicKey y \<or> same_value (u_alias x) (u_alias y)" "\<lambda>d r. True"
  by unfold_locales (auto simp: user_table_def clash_iff image_iff refs_defs intro: same_value_sym split: if_splits)

interpretation offer_c: constrained_model offer_table
  "\<lambda>x y. f_offerId x = f_offerId y" "\<lambda>d f. f_creatorId f \<in> u_userId ` set (users d)"
  by unfold_locales (auto simp: offer_table_def image_iff refs_defs split: if_splits)

interpretation order_c: constrained_model order_table "\<lambda>x y. o_orderId x = o_orderId y" order_refs
  by unfold_locales (auto simp: order_table_def image_iff refs_defs split: if_splits)

interpretation escrow_c: constrained_model escrow_table
  "\<lambda>x y. e_escrowId x = e_escrowId y \<or> e_orderId x = e_orderId y \<or> same_value (e_contractId x) (e_contractId y)"
  "\<lambda>d e. e_orderId e \<in> o_orderId ` set (orders d)"
  by unfold_locales (auto simp: escrow_table_def clash_iff image_iff refs_defs intro: same_value_sym split: if_splits)

interpretation chat_c: constrained_model chat_table "\<lambda>x y. c_messageId x = c_messageId y" chat_refs
  by unfold_locales (auto simp: chat_table_def image_iff refs_defs split: if_splits)

interpretation method_c: constrained_model pmethod_table "\<lambda>x y. m_paymentId x = m_paymentId y" method_refs
  by unfold_locales (auto simp: pmethod_table_def image_iff refs_defs split: if_splits)

interpretation provider_c: constrained_model provider_table
  "\<lambda>x y. pp_provider_id x = pp_provider_id y \<or> same_value (provider_unique x) (provider_unique y)" "\<lambda>d p. True"
  by unfold_locales (auto simp: provider_table_def provider_unique_def[abs_def] clash_iff image_iff refs_defs intro: same_value_sym split: if_splits)

interpretation audit_c: constrained_model audit_table "\<lambda>x y. a_id x = a_id y" audit_refs
  by unfold_locales (auto simp: audit_table_def no_image refs_defs split: if_splits option.split)

interpretation challenge_c: constrained_model challenge_table
  "\<lambda>x y. ac_challengeId x = ac_challengeId y \<or> ac_publicKey x = ac_publicKey y" "\<lambda>d c. True"
  by unfold_locales (auto simp: challenge_table_def image_iff split: if_splits)

interpretation waitlist_c: constrained_model waitlist_table
  "\<lambda>x y. wl_id x = wl_id y \<or> wl_email x = wl_email y" "\<lambda>d w. True"
  by unfold_locales (auto simp: waitlist_table_def image_iff split: if_splits)

lemmas frames = user_c.ok_frame offer_c.ok_frame order_c.ok_frame escrow_c.ok_frame chat_c.ok_frame method_c.ok_frame
  provider_c.ok_frame audit_c.ok_frame challenge_c.ok_frame waitlist_c.ok_frame

subsection \<open>One table changes\<close>

lemma wf_users: "db_wf d \<Longrightarrow> rows_ok user_table (d\<lparr>users := us\<rparr>) \<Longrightarrow> u_userId ` set (users d) \<subseteq> u_userId ` set us \<Longrightarrow>
  db_wf (d\<lparr>users := us\<rparr>)"
  unfolding db_wf_def
  by (elim conjE, intro conjI) (assumption | rule frames, assumption, simp, simp add: keys_grow_def | simp add: joins_ok_def)+

lemma wf_offers: "db_wf d \<Longrightarrow> rows_ok offer_table (d\<lparr>offers := fs\<rparr>) \<Longrightarrow> f_offerId ` set (offers d) \<subseteq> f_offerId ` set fs \<Longrightarrow>
  db_wf (d\<lparr>offers := fs\<rparr>)"
  unfolding db_wf_def
  by (elim conjE, intro conjI) (assumption | rule frames, assumption, simp, simp add: keys_grow_def | force simp: joins_ok_def)+

lemma wf_orders: "db_wf d \<Longrightarrow> rows_ok order_table (d\<lparr>orders := os\<rparr>) \<Longrightarrow> o_orderId ` set (orders d) \<subseteq> o_orderId ` set os \<Longrightarrow>
  db_wf (d\<lparr>orders := os\<rparr>)"
  unfolding db_wf_def
  by (elim conjE, intro conjI) (assumption | rule frames, assumption, simp, simp add: keys_grow_def | simp add: joins_ok_def)+

lemma wf_methods: "db_wf d \<Longrightarrow> rows_ok pmethod_table (d\<lparr>pmethods := ms\<rparr>) \<Longrightarrow>
  m_paymentId ` set (pmethods d) \<subseteq> m_paymentId ` set ms \<Longrightarrow> db_wf (d\<lparr>pmethods := ms\<rparr>)"
  unfolding db_wf_def
  by (elim conjE, intro conjI) (assumption | rule frames, assumption, simp, simp add: keys_grow_def | force simp: joins_ok_def)+

text \<open>Nothing refers to the rows of the other models.\<close>

lemma wf_escrows: "db_wf d \<Longrightarrow> rows_ok escrow_table (d\<lparr>escrows := es\<rparr>) \<Longrightarrow> db_wf (d\<lparr>escrows := es\<rparr>)"
  unfolding db_wf_def
  by (elim conjE, intro conjI) (assumption | rule frames, assumption, simp, simp add: keys_grow_def | simp add: joins_ok_def)+

lemma wf_chats: "db_wf d \<Longrightarrow> rows_ok chat_table (d\<lparr>chats := cs\<rparr>) \<Longrightarrow> db_wf (d\<lparr>chats := cs\<rparr>)"
  unfolding db_wf_def
  by (elim conjE, intro conjI) (assumption | rule frames, assumption, simp, simp add: keys_grow_def | simp add: joins_ok_def)+

lemma wf_audits: "db_wf d \<Longrightarrow> rows_ok audit_table (d\<lparr>audits := as\<rparr>) \<Longrightarrow> db_wf (d\<lparr>audits := as\<rparr>)"
  unfolding db_wf_def
  by (elim conjE, intro conjI) (assumption | rule frames, assumption, simp, simp add: keys_grow_def | simp add: joins_ok_def)+

lemma wf_challenges: "db_wf d \<Longrightarrow> rows_ok challenge_table (d\<lparr>challenges := hs\<rparr>) \<Longrightarrow> db_wf (d\<lparr>challenges := hs\<rparr>)"
  unfolding db_wf_def
  by (elim conjE, intro conjI) (assumption | rule frames, assumption, simp, simp add: keys_grow_def | simp add: joins_ok_def)+

lemma wf_waitlist: "db_wf d \<Longrightarrow> rows_ok waitlist_table (d\<lparr>waitlist := ws\<rparr>) \<Longrightarrow> db_wf (d\<lparr>waitlist := ws\<rparr>)"
  unfolding db_wf_def
  by (elim conjE, intro conjI) (assumption | rule frames, assumption, simp, simp add: keys_grow_def | simp add: joins_ok_def)+

lemmas wf_changes = wf_users wf_offers wf_orders wf_methods wf_escrows wf_chats wf_audits wf_challenges wf_waitlist

lemmas oks = user_c.ok_create offer_c.ok_create order_c.ok_create escrow_c.ok_create chat_c.ok_create method_c.ok_create
  audit_c.ok_create challenge_c.ok_create waitlist_c.ok_create

lemmas replaced = user_c.ok_replace offer_c.ok_replace order_c.ok_replace escrow_c.ok_replace method_c.ok_replace
  challenge_c.ok_replace

lemmas filtered = escrow_c.ok_filter chat_c.ok_filter challenge_c.ok_filter waitlist_c.ok_filter order_c.ok_filter
  offer_c.ok_filter method_c.ok_filter

lemma replace_keys: "(\<And>x. key (f x) = key x) \<Longrightarrow> key ` set (replace_by key r f rs) = key ` set rs"
proof -
  assume keep: "\<And>x. key (f x) = key x"
  have "map key (replace_by key r f rs) = map key rs" by (simp add: replace_by_def keep)
  then have "set (map key (replace_by key r f rs)) = set (map key rs)" by simp
  then show ?thesis by simp
qed

lemma db_wfD:
  assumes "db_wf d"
  shows "rows_ok user_table d" "rows_ok offer_table d" "rows_ok order_table d" "rows_ok escrow_table d"
    "rows_ok chat_table d" "rows_ok pmethod_table d" "rows_ok provider_table d" "rows_ok audit_table d"
    "rows_ok challenge_table d" "rows_ok waitlist_table d" "joins_ok d"
  using assms by (simp_all add: db_wf_def)

text \<open>A deletion with its referential actions.\<close>

lemmas sames = user_c.ok_same offer_c.ok_same order_c.ok_same escrow_c.ok_same chat_c.ok_same method_c.ok_same
  provider_c.ok_same audit_c.ok_same challenge_c.ok_same waitlist_c.ok_same

lemmas row_refs = order_refs_def chat_refs_def method_refs_def audit_refs_def

lemma wf_offer_drop:
  assumes "t_drop offer_table d r = Inr d'" "db_wf d"
  shows "db_wf d'"
proof -
  let ?p = "\<lambda>x. f_offerId x \<noteq> f_offerId r"
  have d': "d' = d\<lparr>offers := filter ?p (offers d),
      offer_methods := filter (\<lambda>j. fst j \<noteq> f_offerId r) (offer_methods d)\<rparr>"
    and free: "\<And>x. x \<in> set (orders d) \<Longrightarrow> o_offerId x \<noteq> f_offerId r"
    using assms(1) by (auto simp: offer_table_def split: if_splits)
  have "rows_ok offer_table d'"
    by (rule offer_c.ok_sub[OF db_wfD(2)[OF assms(2)], of _ ?p]) (simp_all add: d')
  moreover have "rows_ok order_table d'"
    by (rule order_c.ok_same[OF db_wfD(3)[OF assms(2)]]) (auto simp: d' order_refs_def dest: free)
  moreover have "joins_ok d'"
    using db_wfD(11)[OF assms(2)] by (auto simp: d' joins_ok_def)
  ultimately show ?thesis
    using db_wfD[OF assms(2)] unfolding db_wf_def
    by (intro conjI) (assumption | rule sames, assumption, simp add: d', simp add: d' row_refs)+
qed

lemma wf_order_drop:
  assumes "t_drop order_table d r = Inr d'" "db_wf d"
  shows "db_wf d'"
proof -
  have d': "d' = d\<lparr>orders := filter (\<lambda>x. o_orderId x \<noteq> o_orderId r) (orders d),
      escrows := filter (\<lambda>x. e_orderId x \<noteq> o_orderId r) (escrows d),
      chats := filter (\<lambda>x. c_orderId x \<noteq> o_orderId r) (chats d)\<rparr>"
    using assms(1) by (simp add: order_table_def)
  have "rows_ok order_table d'"
    by (rule order_c.ok_sub[OF db_wfD(3)[OF assms(2)], of _ "\<lambda>x. o_orderId x \<noteq> o_orderId r"])
      (simp_all add: d' order_refs_def)
  moreover have "rows_ok escrow_table d'"
    by (rule escrow_c.ok_sub[OF db_wfD(4)[OF assms(2)], of _ "\<lambda>x. e_orderId x \<noteq> o_orderId r"]) (auto simp: d')
  moreover have "rows_ok chat_table d'"
    by (rule chat_c.ok_sub[OF db_wfD(5)[OF assms(2)], of _ "\<lambda>x. c_orderId x \<noteq> o_orderId r"]) (auto simp: d' chat_refs_def)
  moreover have "joins_ok d'"
    using db_wfD(11)[OF assms(2)] by (auto simp: d' joins_ok_def)
  ultimately show ?thesis
    using db_wfD[OF assms(2)] unfolding db_wf_def
    by (intro conjI) (assumption | rule sames, assumption, simp add: d', simp add: d' row_refs)+
qed

lemma wf_method_clear:
  assumes "db_wf d"
  shows "db_wf (d\<lparr>pmethods := filter (\<lambda>m. \<not> p m) (pmethods d),
    offer_methods := filter (\<lambda>j. snd j \<notin> m_paymentId ` set (filter p (pmethods d))) (offer_methods d)\<rparr>)" (is "db_wf ?d")
proof -
  have "rows_ok pmethod_table ?d"
    by (rule method_c.ok_sub[OF db_wfD(6)[OF assms], of _ "\<lambda>m. \<not> p m"]) (simp_all add: method_refs_def)
  moreover have "joins_ok ?d"
    using db_wfD(11)[OF assms] by (fastforce simp: joins_ok_def image_iff)
  ultimately show ?thesis
    using db_wfD[OF assms] unfolding db_wf_def
    by (intro conjI) (assumption | rule sames, assumption, simp, simp add: row_refs)+
qed

lemma wf_method_drop:
  assumes "t_drop pmethod_table d r = Inr d'" "db_wf d"
  shows "db_wf d'"
proof -
  have d': "d' = d\<lparr>pmethods := filter (\<lambda>x. m_paymentId x \<noteq> m_paymentId r) (pmethods d),
      offer_methods := filter (\<lambda>j. snd j \<noteq> m_paymentId r) (offer_methods d)\<rparr>"
    using assms(1) by (simp add: pmethod_table_def)
  have "rows_ok pmethod_table d'"
    by (rule method_c.ok_sub[OF db_wfD(6)[OF assms(2)], of _ "\<lambda>x. m_paymentId x \<noteq> m_paymentId r"])
      (simp_all add: d' method_refs_def)
  moreover have "joins_ok d'"
    using db_wfD(11)[OF assms(2)] by (fastforce simp: d' joins_ok_def image_iff)
  ultimately show ?thesis
    using db_wfD[OF assms(2)] unfolding db_wf_def
    by (intro conjI) (assumption | rule sames, assumption, simp add: d', simp add: d' row_refs)+
qed

lemma wf_leaf_drop:
  "t_drop escrow_table d e = Inr d' \<Longrightarrow> db_wf d \<Longrightarrow> db_wf d'"
  "t_drop chat_table d c = Inr d' \<Longrightarrow> db_wf d \<Longrightarrow> db_wf d'"
  using wf_escrows[of d] wf_chats[of d] escrow_c.ok_filter[OF db_wfD(4), of d] chat_c.ok_filter[OF db_wfD(5), of d]
  by (auto simp: escrow_table_def chat_table_def)

subsection \<open>Every statement keeps the constraints\<close>

lemma wf_step: "db_write k d d' \<Longrightarrow> db_wf d \<Longrightarrow> db_wf d'"
proof (induction rule: db_write.induct)
  case (audit_add d a)
  then show ?case by (intro wf_audits) (use audit_c.ok_create[OF db_wfD(8), of d a] in simp_all)
next
  case (audit_scrub d p)
  then show ?case
    by (intro wf_audits) (use audit_c.ok_map[OF db_wfD(8), of d "\<lambda>a. if p a then scrubbed a else a"] in
      \<open>simp_all add: scrubbed_def audit_refs_def\<close>)
next
  case (user_add d u)
  then show ?case by (intro wf_users) (use user_c.ok_create[OF db_wfD(1), of d u] in auto)
next
  case (user_set r d f)
  then show ?case
    by (intro wf_users)
      (use user_c.ok_replace[OF db_wfD(1), of d r f] in \<open>simp_all add: same_account_def replace_keys\<close>)
next
  case (offer_add d x ms)
  have "db_wf (d\<lparr>offers := offers d @ [x]\<rparr>)"
    using offer_add by (intro wf_offers) (use offer_c.ok_create[OF db_wfD(2), of d x] in auto)
  moreover have "db_wf (e\<lparr>offer_methods := offer_methods e @ map (Pair (f_offerId x)) ms\<rparr>)"
    if "db_wf e" "f_offerId x \<in> f_offerId ` set (offers e)" "set ms \<subseteq> m_paymentId ` set (pmethods e)" for e
    using that unfolding db_wf_def
    by (elim conjE, intro conjI) (rule frames, assumption, simp, simp add: keys_grow_def | force simp: joins_ok_def)+
  ultimately show ?case using offer_add(2) by force
next
  case (offer_set r d f)
  then show ?case
    by (intro wf_offers) (use offer_c.ok_replace[OF db_wfD(2), of d r f] in \<open>simp_all add: replace_keys\<close>)
next
  case (offer_drop r d d')
  then show ?case by (auto intro: wf_offer_drop)
next
  case (order_add d x)
  then show ?case by (intro wf_orders) (use order_c.ok_create[OF db_wfD(3), of d x] in auto)
next
  case (order_set r d f)
  then show ?case
    by (intro wf_orders) (use order_c.ok_replace[OF db_wfD(3), of d r f] in \<open>simp_all add: replace_keys\<close>)
next
  case (order_drop r d d')
  then show ?case by (auto intro: wf_order_drop)
next
  case (escrow_add d e)
  then show ?case by (intro wf_escrows) (use escrow_c.ok_create[OF db_wfD(4), of d e] in simp_all)
next
  case (escrow_edit r d f)
  then show ?case by (intro wf_escrows) (use escrow_c.ok_replace[OF db_wfD(4), of d r f] in simp_all)
next
  case (escrow_move r d f)
  then show ?case by (intro wf_escrows) (use escrow_c.ok_replace[OF db_wfD(4), of d r f] in simp_all)
next
  case (escrow_drop r d d')
  then show ?case by (auto intro: wf_leaf_drop(1))
next
  case (chat_add d c)
  then show ?case by (intro wf_chats) (use chat_c.ok_create[OF db_wfD(5), of d c] in simp_all)
next
  case (chat_scrub d p t)
  then show ?case
    by (intro wf_chats) (use chat_c.ok_map[OF db_wfD(5), of d "\<lambda>c. if p c then c\<lparr>c_content := t\<rparr> else c"] in
      \<open>simp_all add: chat_refs_def\<close>)
next
  case (chat_drop r d d')
  then show ?case by (auto intro: wf_leaf_drop(2))
next
  case (method_add d m)
  then show ?case by (intro wf_methods) (use method_c.ok_create[OF db_wfD(6), of d m] in auto)
next
  case (method_set r d f)
  then show ?case
    by (intro wf_methods) (use method_c.ok_replace[OF db_wfD(6), of d r f] in \<open>simp_all add: replace_keys\<close>)
next
  case (method_drop r d d')
  then show ?case by (auto intro: wf_method_drop)
next
  case (method_clear d p)
  then show ?case by (rule wf_method_clear)
next
  case (challenge_add d c)
  then show ?case by (intro wf_challenges) (use challenge_c.ok_create[OF db_wfD(9), of d c] in simp_all)
next
  case (challenge_set r d f)
  then show ?case by (intro wf_challenges) (use challenge_c.ok_replace[OF db_wfD(9), of d r f] in simp_all)
next
  case (challenge_use d p t)
  then show ?case
    by (intro wf_challenges)
      (use challenge_c.ok_map[OF db_wfD(9), of d "\<lambda>c. if p c then c\<lparr>ac_usedAt := t\<rparr> else c"] in simp_all)
next
  case (challenge_clear d p)
  then show ?case by (intro wf_challenges) (use challenge_c.ok_filter[OF db_wfD(9), of d "\<lambda>c. \<not> p c"] in simp_all)
next
  case (waitlist_add d w)
  then show ?case by (intro wf_waitlist) (use waitlist_c.ok_create[OF db_wfD(10), of d w] in simp_all)
next
  case (waitlist_clear d p)
  then show ?case by (intro wf_waitlist) (use waitlist_c.ok_filter[OF db_wfD(10), of d "\<lambda>w. \<not> p w"] in simp_all)
qed

end
