(* ===== verification/Races.thy ===== *)
theory Races
  imports Concurrent AuthProps ListenerProps Footprints Schema
begin

text \<open>
  What holds, and what does not, when handlers run at the same time: a challenge is consumed by one
  conditional update, so it logs in at most once in any interleaving; the guards of cancellation and
  of the two synchronisations read the status that they later overwrite without looking again.
\<close>

subsection \<open>A challenge is used once\<close>

definition unused_challenge :: "string \<Rightarrow> string \<Rightarrow> 'z world_scheme \<Rightarrow> bool" where
  "unused_challenge pk ch s \<longleftrightarrow>
     (\<exists>c \<in> set (challenges (tables s)). ac_publicKey c = pk \<and> ac_challenge c = ch \<and> ac_usedAt c = None)"

definition one_challenge :: "string \<Rightarrow> 'z world_scheme \<Rightarrow> bool" where
  "one_challenge pk s \<longleftrightarrow> length (filter (\<lambda>c. ac_publicKey c = pk) (challenges (tables s))) \<le> 1"

text \<open>The rest of the program: anything that neither brings the challenge back nor adds a second row.\<close>

definition challenge_kept :: "string \<Rightarrow> string \<Rightarrow> 'z world_scheme \<Rightarrow> 'z world_scheme \<Rightarrow> bool" where
  "challenge_kept pk ch = keeps (one_challenge pk) (unused_challenge pk ch)"

lemma kept_same: "challenges (tables u) = challenges (tables s) \<Longrightarrow> challenge_kept pk ch s u"
  by (simp add: challenge_kept_def keeps_def one_challenge_def unused_challenge_def)

lemma kept_wp:
  assumes "wp m (\<lambda>_ t. challenges (tables t) = challenges (tables s)) (\<lambda>_ t. challenges (tables t) = challenges (tables s)) s"
  shows "keeps (one_challenge pk) (unused_challenge pk ch) s (snd (m s))"
  using kept_same[of "snd (m s)" s pk ch] assms unfolding challenge_kept_def wp_snd by simp

lemma kept_statements:
  "keeps (one_challenge pk) (unused_challenge pk ch) s (snd (recordLoginFailure k ctx reason s))"
  "keeps (one_challenge pk) (unused_challenge pk ch) s (snd (findUnique challenge_table p s))"
  "keeps (one_challenge pk) (unused_challenge pk ch) s (snd (getState g s))"
  "keeps (one_challenge pk) (unused_challenge pk ch) s (snd (audit_create inp s))"
  "keeps (one_challenge pk) (unused_challenge pk ch) s (snd (bindE newUuid (\<lambda>i. upsertUnique user_table q (row i) id) s))"
  unfolding recordLoginFailure_def
  by (rule kept_wp; auto simp: prog wp_any same_but_audits_eqs intro!: db_anyI split: option.split)+

text \<open>The conditional update, of any challenges.\<close>

definition mark_used :: "string \<Rightarrow> string \<Rightarrow> int \<Rightarrow> ('z, nat) act" where
  "mark_used pk ch now = updateMany challenge_table (usable_challenge pk ch now) (\<lambda>c. c\<lparr>ac_usedAt := Some now\<rparr>)"

lemma mark_used_post:
  "wp (mark_used pk ch now)
    (\<lambda>n t. n = length (filter (usable_challenge pk ch now) (challenges (tables s))) \<and>
       challenges (tables t) = map (\<lambda>c. if usable_challenge pk ch now c then c\<lparr>ac_usedAt := Some now\<rparr> else c) (challenges (tables s)))
    (\<lambda>_ t. challenges (tables t) = challenges (tables s)) s"
  unfolding mark_used_def by (auto simp: wp_any intro!: db_anyI)

lemma used_keys: "map ac_publicKey (map (\<lambda>c. if p c then c\<lparr>ac_usedAt := Some now\<rparr> else c) cs) = map ac_publicKey cs"
  by simp

lemma one_challenge_map:
  assumes "challenges (tables t) = map f (challenges (tables s))" "\<And>c. ac_publicKey (f c) = ac_publicKey c"
  shows "one_challenge pk t = one_challenge pk s"
  by (simp add: one_challenge_def assms filter_map comp_def)

lemma mark_used_keeps: "keeps (one_challenge pk) (unused_challenge pk ch) s (snd (mark_used k x now s))"
proof (cases "mark_used k x now s")
  case (Pair r t)
  show ?thesis
  proof (cases r)
    case (Inl e)
    have "challenges (tables t) = challenges (tables s)" using wp_exn[OF mark_used_post] Pair Inl by blast
    then show ?thesis using kept_same Pair by (simp add: challenge_kept_def)
  next
    case (Inr n)
    have c: "challenges (tables t) = map (\<lambda>c. if usable_challenge k x now c then c\<lparr>ac_usedAt := Some now\<rparr> else c) (challenges (tables s))"
      using wp_value[OF mark_used_post] Pair Inr by blast
    have "one_challenge pk t = one_challenge pk s" by (rule one_challenge_map[OF c]) simp
    moreover have "unused_challenge pk ch t \<Longrightarrow> unused_challenge pk ch s"
      by (auto simp: unused_challenge_def c split: if_splits)
    ultimately show ?thesis using Pair by (auto simp: keeps_def)
  qed
qed

lemma filter_one: "length (filter p xs) \<le> 1 \<Longrightarrow> x \<in> set xs \<Longrightarrow> y \<in> set xs \<Longrightarrow> p x \<Longrightarrow> p y \<Longrightarrow> x = y"
  by (induction xs) (auto split: if_splits simp: filter_empty_conv)

lemma mark_used_takes:
  assumes "mark_used pk ch now s = (Inr n, t)" "n \<noteq> 0"
  shows "takes (one_challenge pk) (unused_challenge pk ch) s t"
proof -
  let ?p = "usable_challenge pk ch now"
  have c: "n = length (filter ?p (challenges (tables s)))"
    "challenges (tables t) = map (\<lambda>c. if ?p c then c\<lparr>ac_usedAt := Some now\<rparr> else c) (challenges (tables s))"
    using wp_value[OF mark_used_post assms(1)] by auto
  then have "filter ?p (challenges (tables s)) \<noteq> []" using assms(2) by auto
  then obtain a where a: "a \<in> set (challenges (tables s))" "?p a" unfolding filter_empty_conv by blast
  have one: "one_challenge pk t = one_challenge pk s" by (rule one_challenge_map[OF c(2)]) simp
  have "\<not> unused_challenge pk ch t" if "one_challenge pk s"
  proof
    assume "unused_challenge pk ch t"
    then obtain b where b: "b \<in> set (challenges (tables s))" "\<not> ?p b" "ac_publicKey b = pk"
      by (auto simp: unused_challenge_def c(2) split: if_splits)
    have "a = b" using filter_one[of "\<lambda>c. ac_publicKey c = pk" _ a b] that a b(1,3)
      by (auto simp: one_challenge_def usable_challenge_def)
    with a b show False by simp
  qed
  moreover have "unused_challenge pk ch s" using a by (auto simp: unused_challenge_def usable_challenge_def)
  ultimately show ?thesis by (auto simp: takes_def one)
qed

lemma keeping_stmt: "(\<And>s. R s (snd (m s))) \<Longrightarrow> obeying R (stmt m)"
  by (rule obeying_stmt) (simp add: obeys_def)

lemmas keeping = obeying_tbind keeping_stmt kept_statements mark_used_keeps

lemma refuse_idle: "idle (one_challenge pk) (unused_challenge pk ch) (login_refuse dto ctx r e)"
  unfolding login_refuse_def by (intro keeping) simp

lemma issue_idle: "idle (one_challenge pk) (unused_challenge pk ch) (login_issue env dto ctx now)"
  unfolding login_issue_def by (intro keeping) simp

lemma login_idle: "idle (one_challenge pk) (unused_challenge pk ch) (login_thread env dto ctx)"
  unfolding login_thread_def mark_used_def[symmetric]
  by (auto intro!: keeping refuse_idle issue_idle split: option.split sum.split)

lemma refuse_claims: "claims (one_challenge pk) (unused_challenge pk ch) (login_refuse dto ctx r e)"
  unfolding login_refuse_def by (intro claims_tbind kept_statements) simp

lemma login_claims:
  assumes "lg_publicKey dto = pk" "lg_challenge dto = ch"
  shows "claims (one_challenge pk) (unused_challenge pk ch) (login_thread env dto ctx :: ('z world_scheme, string \<times> user) thread)"
proof -
  define consume :: "int \<Rightarrow> ('z world_scheme, string \<times> user) thread" where
    "consume now = tbind (stmt (mark_used pk ch now)) (\<lambda>count.
       if count = 0 then login_refuse dto ctx ''challenge_race_condition'' INVALID_CHALLENGE else login_issue env dto ctx now)" for now
  have consumes: "claims (one_challenge pk) (unused_challenge pk ch) (consume now)" for now
    unfolding consume_def
  proof (rule claims_take)
    fix s u :: "'z world_scheme" and n
    assume m: "mark_used pk ch now s = (Inr n, u)"
    then show "takes (one_challenge pk) (unused_challenge pk ch) s u \<and>
        idle (one_challenge pk) (unused_challenge pk ch) (if n = 0 then login_refuse dto ctx ''challenge_race_condition'' INVALID_CHALLENGE else login_issue env dto ctx now) \<or>
      claims (one_challenge pk) (unused_challenge pk ch) (if n = 0 then login_refuse dto ctx ''challenge_race_condition'' INVALID_CHALLENGE else login_issue env dto ctx now) \<and>
        keeps (one_challenge pk) (unused_challenge pk ch) s u"
      using mark_used_keeps[of pk ch s pk ch now] mark_used_takes[OF m] by (cases "n = 0") (simp_all add: refuse_claims issue_idle)
  next
    fix s u :: "'z world_scheme" and x
    assume "mark_used pk ch now s = (Inl x, u)"
    then show "keeps (one_challenge pk) (unused_challenge pk ch) s u" using mark_used_keeps[of pk ch s pk ch now] by simp
  qed
  show ?thesis
    unfolding login_thread_def assms mark_used_def[symmetric] consume_def[symmetric]
    by (simp add: claims_tbind kept_statements refuse_claims consumes split: option.split sum.split)
qed

text \<open>
  C14.  A challenge logs in at most once, however the logins interleave.  Any number of requests, cut at
  every statement and run in any order, with anything in between that does not bring the challenge back:
  of those that present the same challenge of the same wallet at most one succeeds.
\<close>

theorem login_once:
  assumes "pool_run (challenge_kept pk ch) (map (\<lambda>(dto, ctx). login_thread env dto ctx) requests, s) (ts, t)"
    and "one_challenge pk s"
  shows "card {i. i < length requests \<and> lg_publicKey (fst (requests ! i)) = pk \<and>
    lg_challenge (fst (requests ! i)) = ch \<and> succeeded (ts ! i)} \<le> 1"
proof -
  let ?C = "{i. lg_publicKey (fst (requests ! i)) = pk \<and> lg_challenge (fst (requests ! i)) = ch}"
  have "if i \<in> ?C then claims (one_challenge pk) (unused_challenge pk ch) (map (\<lambda>(dto, ctx). login_thread env dto ctx) requests ! i)
      else idle (one_challenge pk) (unused_challenge pk ch) (map (\<lambda>(dto, ctx). login_thread env dto ctx) requests ! i)"
    if "i < length (map (\<lambda>(dto, ctx). login_thread env dto ctx) requests)" for i
    using that by (auto simp: login_idle login_claims split: prod.split)
  from claimed_once[OF assms(1)[unfolded challenge_kept_def] assms(2), of ?C, OF this]
  show ?thesis by (simp add: conj_assoc)
qed

text \<open>Every handler that writes no challenge may run in between.\<close>

lemma other_handlers_keep:
  assumes "footprint_of K m" "ChallengeWrite \<notin> K"
  shows "challenge_kept pk ch s (snd (m s))"
proof -
  have "challenges d' = challenges d" if "writes K d d'" for d d'
    using that
  proof (rule writes_lift)
    fix k a b
    assume k: "k \<in> K" and "db_write k a b"
    from this(2) show "challenges b = challenges a"
      using k assms(2) by (cases rule: db_write.cases)
        (auto simp: offer_table_def order_table_def escrow_table_def chat_table_def pmethod_table_def split: if_splits)
  qed simp_all
  then show ?thesis using obeysD[OF assms(1), of s] by (intro kept_same) (simp add: on_tables_def)
qed

lemma tick_stmt [simp]:
  "tick 0 (tbind (stmt m) k # ts, s) = (tbind (Done (fst (m s))) k # ts, snd (m s))"
  "tick (Suc 0) (t # tbind (stmt m) k # ts, s) = (t # tbind (Done (fst (m s))) k # ts, snd (m s))"
  by (simp_all add: tick_def stmt_await)

text \<open>Statements on a working connection.\<close>

lemma run_quiet:
  "getState g s = (Inr (g s), s)"
  "faults s = [] \<Longrightarrow> findUnique T p s = (Inr (List.find p (t_rows T (tables s))), s)"
  "faults s = [] \<Longrightarrow> updateMany T p f s = (Inr (length (filter p (t_rows T (tables s)))),
     putRows T (map (\<lambda>x. if p x then f x else x) (t_rows T (tables s))) s)"
  "faults s = [] \<Longrightarrow> order_findById i s =
     (Inr (map_option (view_of (tables s)) (List.find (\<lambda>r. o_orderId r = i) (orders (tables s)))), s)"
  by (simp_all add: getState_def findUnique_def updateMany_def order_findById_def db_call_def)

text \<open>Two logins whose checks both pass before either consumes the challenge.\<close>

definition two_logins :: "(LoginDto \<times> RequestContext) list" where
  "two_logins = [(sample_login, sample_ctx), (sample_login, sample_ctx)]"

definition both_verified :: "nat list" where
  "both_verified = [0, 0, 1, 1, 0, 1, 0, 1, 0, 0, 1]"

lemma known_wallet:
  assumes "faults s = []" "users (tables s) = [sample_user ''b'' ''GB'', sample_user ''c'' ''GC'']"
  shows "fst (bindE newUuid (\<lambda>i. upsertUnique user_table (\<lambda>u. u_publicKey u = ''GB'') (row i) id) s) =
    Inr (sample_user ''b'' ''GB'')"
proof -
  have "wp (bindE newUuid (\<lambda>i. upsertUnique user_table (\<lambda>u. u_publicKey u = ''GB'') (row i) id))
      (\<lambda>u _. u = sample_user ''b'' ''GB'') (\<lambda>_ _. False) s"
    using assms by (simp add: prog user_table_def clash_def)
  from wp_returns[OF this] show ?thesis by auto
qed

lemma two_logins_run:
  "succeeded (fst (fold tick both_verified (map (\<lambda>(dto, ctx). login_thread sample_auth dto ctx) two_logins, quiet_world login_db)) ! 0)"
  by (simp add: both_verified_def two_logins_def login_thread_def run_quiet sample_signature_decoded sample_login_valid
      login_refuse_def login_issue_def usable_challenge_def recordLoginFailure_def audit_create_run known_wallet)

theorem login_once_witness:
  "let requests = two_logins; (ts, t) = fold tick both_verified
      (map (\<lambda>(dto, ctx). login_thread sample_auth dto ctx) requests, quiet_world login_db)
    in succeeded (ts ! 0) \<and> \<not> succeeded (ts ! 1)"
proof -
  let ?start = "(map (\<lambda>(dto, ctx). login_thread sample_auth dto ctx) two_logins, quiet_world login_db)"
  obtain ts t where run: "fold tick both_verified ?start = (ts, t)" by (metis surj_pair)
  have first: "succeeded (ts ! 0)" using two_logins_run by (simp add: run)
  have pool: "pool_run (challenge_kept ''GB'' ''ch'') ?start (ts, t)"
    using schedule_runs[of _ ?start both_verified] by (simp add: run)
  let ?S = "{i. i < length two_logins \<and> lg_publicKey (fst (two_logins ! i)) = ''GB'' \<and>
      lg_challenge (fst (two_logins ! i)) = ''ch'' \<and> succeeded (ts ! i)}"
  have one: "card ?S \<le> 1" by (rule login_once[OF pool]) (simp add: one_challenge_def)
  have "\<not> succeeded (ts ! 1)"
  proof
    assume "succeeded (ts ! 1)"
    with first have "{0, 1} \<subseteq> ?S" by (simp add: two_logins_def)
    then have "card {0 :: nat, 1} \<le> card ?S" by (intro card_mono) simp_all
    with one show False by simp
  qed
  with first run show ?thesis by simp
qed

subsection \<open>The guards that read before they write\<close>

lemma handler_keeps_wf: "footprint_of K m \<Longrightarrow> db_wf (tables s) \<Longrightarrow> db_wf (tables (snd (m s)))"
  using obeysD[of "on_tables (writes K)" m s] unfolding on_tables_def
  by (blast intro: writes_lift[where P = "\<lambda>d d'. db_wf d \<longrightarrow> db_wf d'", THEN mp] wf_step)

lemma event_faults:
  assumes "faults s = []" shows "faults (snd (processEvent ev s)) = []"
proof -
  have "wp (processEvent ev) (\<lambda>_ t. faults t = []) (\<lambda>_ t. faults t = []) s"
    using assms unfolding processEvent_def findEscrowRecord_def findFirstByOrder_def event_tx_def audit_repo_create_def rememberEvent_def
    by (auto simp: prog wp_transaction wp_db_call Let_def split: option.split sum.split)
  then show ?thesis by (simp add: wp_snd)
qed

lemma escrow_of_order:
  assumes "db_wf d" "e \<in> set (escrows d)" "e_orderId e = i"
  shows "List.find (\<lambda>x. e_orderId x = i) (escrows d) = Some e"
proof -
  obtain x where x: "List.find (\<lambda>x. e_orderId x = i) (escrows d) = Some x"
    using assms(2,3) by (cases "List.find (\<lambda>x. e_orderId x = i) (escrows d)") (auto simp: find_None_iff_ball)
  then have mem: "x \<in> set (escrows d)" "e_orderId x = i" by (auto dest: find_SomeD)
  moreover have "e_orderId y \<noteq> e_orderId z" if "y \<in> set (escrows d)" "z \<in> set (escrows d)" "e_escrowId y \<noteq> e_escrowId z" for y z
    using assms(1) that by (auto simp: db_wf_def escrow_c.ok_iff)
  ultimately have "e_escrowId x = e_escrowId e" using assms(2,3) by metis
  then have "x = e" using assms(1,2) mem(1) by (auto simp: db_wf_def rows_ok_def distinct_map inj_on_def)
  with x show ?thesis by simp
qed

lemma order_status_written:
  assumes "faults t = []" "db_wf (tables t)" "List.find (\<lambda>r. o_orderId r = i) (orders (tables t)) = Some r"
  shows "\<exists>a u. base_update order_table i (\<lambda>r. r\<lparr>o_orderStatus := st\<rparr>) t = (Inr a, u) \<and> tables u = set_status i st (tables t)"
proof -
  have r: "r \<in> set (orders (tables t))" "o_orderId r = i" using find_SomeD[OF assms(3)] by auto
  have "t_check order_table (tables t) (filter (\<lambda>x. o_orderId x \<noteq> i) (orders (tables t))) (r\<lparr>o_orderStatus := st\<rparr>) = None"
    using assms(2) r by (auto simp: db_wf_def order_c.ok_iff order_c.check_iff order_refs_def)
  then have "wp (base_update order_table i (\<lambda>r. r\<lparr>o_orderStatus := st\<rparr>)) (\<lambda>_ u. tables u = set_status i st (tables t)) (\<lambda>_ _. False) t"
    using assms(1,3) r by (simp add: base_update_def prog set_status_def)
  from wp_returns[OF this] show ?thesis by metis
qed

text \<open>
  C36.  Cancellation races with funding.  Take any consistent database in which a party may cancel an order
  and in which the listener would accept the funding of its escrow.  After the event the cancellation
  is refused.  Yet if the event arrives between the reading and the writing of the cancellation, both
  succeed, and the order ends as cancelled while its escrow is funded.
\<close>

theorem cancel_race:
  assumes "db_wf (tables s)" "faults s = []"
    and "order_cancel i userId s = (Inr row, u)"
    and "processEvent ev s = (Inr True, t)" "ev_eventType ev = ESCROW_FUNDED"
    and "event_escrow (tables s) ev = Some e" "e_orderId e = i"
  shows "isl (fst (order_cancel i userId t)) \<and>
    (\<exists>is v. fold tick is ([silent (cancel_thread i userId), silent (event_thread ev)], s) = ([returned (), returned ()], v) \<and>
       map_option o_orderStatus (List.find (\<lambda>r. o_orderId r = i) (orders (tables v))) = Some OS_cancelled \<and>
       map_option e_escrowStatus (List.find (\<lambda>e. e_orderId e = i) (escrows (tables v))) = Some ES_funded)"
proof -
  obtain row' where t: "tables t = event_applied ev e row' (tables s)"
    using wp_value[OF processEvent_post assms(4)] assms(6) by (auto simp: event_result_def event_handled_def)
  obtain r where r: "List.find (\<lambda>r. o_orderId r = i) (orders (tables s)) = Some r" "cancellable (tables s) userId r"
    using wp_value[OF order_cancel_post assms(3)] by blast
  have own: "List.find (\<lambda>x. e_orderId x = i) (escrows (tables s)) = Some e"
    by (rule escrow_of_order[OF assms(1) event_escrow_mem[OF assms(6)] assms(7)])
  then have funded: "List.find (\<lambda>x. e_orderId x = i) (escrows (tables t)) = Some (event_update ev e)"
    by (simp add: t event_applied_def) (subst find_map_any; simp)
  obtain r' where r': "List.find (\<lambda>r. o_orderId r = i) (orders (tables t)) = Some r'"
    using r(1) by (simp add: t event_applied_def) (subst (asm) find_map_any; simp)
  have id: "o_orderId r' = i" using find_SomeD[OF r'] by simp
  have refused: "isl (fst (order_cancel i userId t))"
  proof (cases "order_cancel i userId t")
    case (Pair x y)
    have False if "x = Inr z" for z
      using wp_value[OF order_cancel_post, of i userId t z y] Pair that r' funded id assms(5)
      by (auto simp: cancellable_def)
    with Pair show ?thesis by (cases x) auto
  qed
  have t_ok: "faults t = []" "db_wf (tables t)"
    using event_faults[OF assms(2), of ev] handler_keeps_wf[OF fp_event assms(1), of ev] assms(4) by auto
  obtain a v where v: "base_update order_table i (\<lambda>r. r\<lparr>o_orderStatus := OS_cancelled\<rparr>) t = (Inr a, v)"
      "tables v = set_status i OS_cancelled (tables t)"
    using order_status_written[OF t_ok r'] by metis
  let ?rest = "tbind (stmt (base_update order_table i (\<lambda>r. r\<lparr>o_orderStatus := OS_cancelled\<rparr>))) (\<lambda>_. returned ())"
  have read: "tick 0 ([silent (cancel_thread i userId), p], s) = ([?rest, p], s)" for p
  proof -
    have "o_orderId r = i" "o_buyerId r = userId \<or> o_sellerId r = userId" "o_orderStatus r \<notin> set terminalOrderStatuses"
      "e_escrowStatus e \<notin> set blockedEscrowStatuses"
      using r(2) own find_SomeD[OF r(1)] by (auto simp: cancellable_def terminal_iff blocked_iff)
    then show ?thesis using own r(1) assms(2) by (simp add: cancel_thread_def run_quiet view_of_def) (auto simp: silent_def)
  qed
  obtain n where n: "fold tick (replicate n 1) ([?rest, silent (event_thread ev)], s) = ([?rest, returned ()], t)"
    using runs_alone[of 1 "[?rest, undefined]" "silent (event_thread ev)" s]
      alone_silent[of "event_thread ev" s True t] assms(4) by (auto simp: event_alone returned_def)
  have "fold tick (0 # replicate n 1 @ [0]) ([silent (cancel_thread i userId), silent (event_thread ev)], s) = ([returned (), returned ()], v)"
    using n v(1) by (simp add: read returned_def)
  moreover have "map_option o_orderStatus (List.find (\<lambda>r. o_orderId r = i) (orders (tables v))) = Some OS_cancelled"
    using r' id by (simp add: v(2) set_status_def) (subst find_map_any; simp)
  moreover have "map_option e_escrowStatus (List.find (\<lambda>e. e_orderId e = i) (escrows (tables v))) = Some ES_funded"
    using funded assms(5) by (simp add: v(2) set_status_def)
  ultimately show ?thesis using refused by blast
qed

lemma one_order_wf: "db_wf (one_order st es)"
  by (simp add: db_wf_def rows_ok_def others_of_def joins_ok_def table_defs clash_def one_order_def)

theorem cancel_race_witness:
  "\<exists>is v. fold tick is ([silent (cancel_thread ''o1'' ''b''), silent (event_thread sample_event)],
       sample_listener (one_order OS_created ES_initialized) []) = ([returned (), returned ()], v) \<and>
     map_option o_orderStatus (List.find (\<lambda>r. o_orderId r = ''o1'') (orders (tables v))) = Some OS_cancelled \<and>
     map_option e_escrowStatus (List.find (\<lambda>e. e_orderId e = ''o1'') (escrows (tables v))) = Some ES_funded"
proof -
  let ?s = "sample_listener (one_order OS_created ES_initialized) []"
  obtain t where t: "processEvent sample_event ?s = (Inr True, t)" using sample_processed by metis
  have "wp (order_cancel ''o1'' ''b'') (\<lambda>_ _. True) (\<lambda>_ _. False) ?s"
    by (simp add: order_cancel_def base_update_def wp_order_findById db_any_def prog view_of_def
        terminal_iff blocked_iff order_table_def)
  from wp_returns[OF this] obtain row u where u: "order_cancel ''o1'' ''b'' ?s = (Inr row, u)" by metis
  from cancel_race[OF _ _ u t] show ?thesis by (simp add: one_order_wf sample_event_escrow)
qed

lemma event_calls:
  assumes "faults s = []" shows "tw_calls (snd (processEvent ev s)) = tw_calls s"
proof -
  have "wp (processEvent ev) (\<lambda>_ t. tw_calls t = tw_calls s) (\<lambda>_ t. tw_calls t = tw_calls s) s"
    using assms unfolding processEvent_def findEscrowRecord_def findFirstByOrder_def event_tx_def audit_repo_create_def rememberEvent_def
    by (auto simp: prog wp_transaction wp_db_call Let_def split: option.split sum.split)
  then show ?thesis by (simp add: wp_snd)
qed

lemma fiat_sent_written:
  assumes "faults t = []" "db_wf (tables t)" "List.find (\<lambda>r. e_escrowId r = i) (escrows (tables t)) = Some e"
  shows "\<exists>a u. base_update escrow_table i (sync_update FIAT_SENT res xdr) t = (Inr a, u) \<and>
    tables u = (tables t)\<lparr>escrows := map (\<lambda>x. if e_escrowId x = i then x\<lparr>e_escrowStatus := ES_fiat_sent\<rparr> else x) (escrows (tables t))\<rparr>"
proof -
  have e: "e \<in> set (escrows (tables t))" "e_escrowId e = i" using find_SomeD[OF assms(3)] by auto
  have "t_check escrow_table (tables t) (filter (\<lambda>x. e_escrowId x \<noteq> i) (escrows (tables t))) (e\<lparr>e_escrowStatus := ES_fiat_sent\<rparr>) = None"
    using assms(2) e by (auto simp: db_wf_def escrow_c.ok_iff escrow_c.check_iff)
  then have "wp (base_update escrow_table i (sync_update FIAT_SENT res xdr)) (\<lambda>_ u. tables u = (tables t)\<lparr>escrows :=
      map (\<lambda>x. if e_escrowId x = i then x\<lparr>e_escrowStatus := ES_fiat_sent\<rparr> else x) (escrows (tables t))\<rparr>) (\<lambda>_ _. False) t"
    using assms(1,3) e by (simp add: base_update_def prog)
  from wp_returns[OF this] show ?thesis by metis
qed

text \<open>
  C8.  A synchronisation overwrites the release.  Take any consistent database in which the buyer's report
  of the fiat payment would be accepted and in which the listener would accept the release of the same
  escrow.  After the event the report is refused.  Yet if the event arrives while the report waits
  for the chain, both succeed, and the released escrow is open again: its status goes back to
  \<open>fiat_sent\<close>, against the lifecycle, while its order stays released.
\<close>

theorem sync_race:
  assumes "db_wf (tables s)" "faults s = []"
    and "escrow_syncTransaction sv dto s = (Inr x, u)" "sy_action dto = FIAT_SENT"
    and "processEvent ev s = (Inr True, t)" "ev_eventType ev = ESCROW_RELEASED"
    and "event_escrow (tables s) ev = Some e" "e_escrowId e = sy_escrowId dto"
  shows "isl (fst (escrow_syncTransaction sv dto t)) \<and>
    (\<exists>is v. fold tick is ([silent (sync_thread sv dto), silent (event_thread ev)], s) = ([returned (), returned ()], v) \<and>
       map_option e_escrowStatus (List.find (\<lambda>x. e_escrowId x = e_escrowId e) (escrows (tables v))) = Some ES_fiat_sent \<and>
       (\<forall>r \<in> set (orders (tables v)). o_orderId r = e_orderId e \<longrightarrow> o_orderStatus r = OS_released))"
proof -
  let ?i = "sy_escrowId dto"
  obtain row where t: "tables t = event_applied ev e row (tables s)"
    using wp_value[OF processEvent_post assms(5)] assms(7) by (auto simp: event_result_def event_handled_def)
  obtain a res where a: "List.find (\<lambda>r. e_escrowId r = ?i) (escrows (tables s)) = Some a" "e_escrowStatus a = ES_funded"
      "http_send (sv_tw sv) (tw_calls s) (sy_signedXdr dto) = Inr res" "sr_status res = ''SUCCESS''"
    using wp_value[OF sync_post assms(3)] assms(4) by (auto simp: synced_def elim!: escrow_edge.cases)
  have own: "List.find (\<lambda>r. e_escrowId r = ?i) (escrows (tables s)) = Some e"
    using find_unique[of e_escrowId "escrows (tables s)" e] event_escrow_mem[OF assms(7)] assms(1,8)
    by (simp add: db_wf_def rows_ok_def table_defs)
  have released: "List.find (\<lambda>r. e_escrowId r = ?i) (escrows (tables t)) = Some (event_update ev e)"
    using own assms(8) by (simp add: t event_applied_def) (subst find_map_any; simp)
  have refused: "isl (fst (escrow_syncTransaction sv dto t))"
  proof (cases "escrow_syncTransaction sv dto t")
    case (Pair z y)
    have False if "z = Inr w" for w
      using wp_value[OF sync_post, of sv dto t w y] Pair that released assms(6)
      by (auto simp: synced_def dest: escrow_edge_terminal)
    with Pair show ?thesis by (cases z) auto
  qed
  have t_ok: "faults t = []" "db_wf (tables t)" "tw_calls t = tw_calls s"
    using event_faults[OF assms(2), of ev] handler_keeps_wf[OF fp_event assms(1), of ev] event_calls[OF assms(2), of ev] assms(5)
    by auto
  let ?t = "t\<lparr>tw_calls := tw_calls t @ [SendTransaction (sy_signedXdr dto)]\<rparr>"
  have sent: "tw_sendTransaction (sv_tw sv) (sy_signedXdr dto) t = (Inr res, ?t)"
    using a(3) t_ok(3) by (intro run_eqI) (simp add: wp_tw_send)
  obtain b v where v: "base_update escrow_table ?i (sync_update FIAT_SENT res (sy_signedXdr dto)) ?t = (Inr b, v)"
      "tables v = (tables t)\<lparr>escrows := map (\<lambda>x. if e_escrowId x = ?i then x\<lparr>e_escrowStatus := ES_fiat_sent\<rparr> else x) (escrows (tables t))\<rparr>"
    using fiat_sent_written[of ?t ?i "event_update ev e" res "sy_signedXdr dto"] t_ok(1,2) released by auto
  let ?rest = "tbind (stmt (tw_sendTransaction (sv_tw sv) (sy_signedXdr dto))) (\<lambda>res.
      silent (if sr_status res \<noteq> ''SUCCESS'' then failed (appExc ESCROW_SYNC_FAILED)
        else tbind (stmt (base_update escrow_table ?i (sync_update FIAT_SENT res (sy_signedXdr dto)))) (\<lambda>_.
          tbind (returned ()) (\<lambda>_. returned (?i, sr_status res, nullish (sr_contractId res) (e_contractId e), ES_fiat_sent)))))"
  have found: "escrow_getOrFail ?i s = (Inr e, s)"
    using own assms(2) by (intro run_eqI) (simp add: escrow_getOrFail_def base_findById_def prog table_defs)
  have read: "tick 0 ([silent (sync_thread sv dto), p], s) = ([?rest, p], s)" for p
  proof -
    have "validateStatusTransition ''funded'' ''fiat_sent'' = Inr ()"
      by (simp add: validateStatusTransition_def validTransitions_def)
    then show ?thesis using own a(1,2) assms(4) by (simp add: sync_thread_def found cong: if_cong)
  qed
  obtain n where n: "fold tick (replicate n 1) ([?rest, silent (event_thread ev)], s) = ([?rest, returned ()], t)"
    using runs_alone[of 1 "[?rest, undefined]" "silent (event_thread ev)" s]
      alone_silent[of "event_thread ev" s True t] assms(5) by (auto simp: event_alone returned_def)
  have "fold tick (0 # replicate n 1 @ [0, 0]) ([silent (sync_thread sv dto), silent (event_thread ev)], s) = ([returned (), returned ()], v)"
    using n v(1) a(4) by (simp add: read sent) (simp add: silent_def returned_def)
  moreover have "map_option e_escrowStatus (List.find (\<lambda>x. e_escrowId x = e_escrowId e) (escrows (tables v))) = Some ES_fiat_sent"
    using released assms(8) by (simp add: v(2)) (subst find_map_any; simp)
  moreover have "\<forall>r \<in> set (orders (tables v)). o_orderId r = e_orderId e \<longrightarrow> o_orderStatus r = OS_released"
    by (auto simp: v(2) t event_applied_def assms(6) split: if_splits)
  ultimately show ?thesis using refused by blast
qed

definition sample_report :: SyncEscrowDto where
  "sample_report = \<lparr> sy_escrowId = ''e1'', sy_signedXdr = ''XDR'', sy_action = FIAT_SENT \<rparr>"

definition sample_release :: OnChainEscrowEvent where
  "sample_release = sample_event\<lparr>ev_eventType := ESCROW_RELEASED\<rparr>"

lemma sample_release_simps [simp]:
  "ev_eventType sample_release = ESCROW_RELEASED" "ev_contractId sample_release = ''C''" "ev_txHash sample_release = ''T''"
  by (simp_all add: sample_release_def)

lemma release_processable:
  "\<not> isTerminalOrAlreadyProcessed ES_funded (event_name ESCROW_RELEASED)"
  "validateStatusTransition (escrow_status_name ES_funded) (event_name ESCROW_RELEASED) = Inr ()"
  by code_simp+

theorem sync_race_witness:
  "\<exists>is v. fold tick is ([silent (sync_thread (sample_services ''SUCCESS'') sample_report), silent (event_thread sample_release)],
       sample_listener (one_order OS_locked ES_funded) []) = ([returned (), returned ()], v) \<and>
     map_option e_escrowStatus (List.find (\<lambda>e. e_escrowId e = ''e1'') (escrows (tables v))) = Some ES_fiat_sent"
proof -
  let ?s = "sample_listener (one_order OS_locked ES_funded) []"
  have "wp (processEvent sample_release) (\<lambda>h _. h = True) (\<lambda>_ _. False) ?s"
    unfolding processEvent_def sample_release_simps
    by (simp add: prog wp_option findEscrowRecord_def findFirstByOrder_def release_processable release_processable[simplified] wp_transaction wp_db_call
        event_tx_def audit_repo_create_def event_update_def escrow_table_def order_table_def audit_table_def clash_def
        audit_row_def event_audit_def audit_input_def)
  from wp_returns[OF this] obtain t where t: "processEvent sample_release ?s = (Inr True, t)" by metis
  have "wp (escrow_syncTransaction (sample_services ''SUCCESS'') sample_report) (\<lambda>_ _. True) (\<lambda>_ _. False) ?s"
    by (simp add: sample_report_def prog escrow_syncTransaction_def escrow_getOrFail_def base_findById_def base_update_def
        wp_tw_send sample_services_def sample_tw_def sync_audit_def escrow_table_def
        validateStatusTransition_def validTransitions_def clash_def)
  from wp_returns[OF this] obtain x u where u: "escrow_syncTransaction (sample_services ''SUCCESS'') sample_report ?s = (Inr x, u)"
    by metis
  have "event_escrow (tables ?s) sample_release = Some (sample_escrow ''e1'' ''o1'' ES_funded (Some ''C''))"
    by (simp add: event_escrow_def)
  from sync_race[OF _ _ u _ t _ this] show ?thesis by (auto simp: one_order_wf sample_report_def)
qed

subsection \<open>What no interleaving breaks\<close>

abbreviation steps_of :: "kind set \<Rightarrow> ('z world_scheme, 'a) thread \<Rightarrow> bool" where
  "steps_of K \<equiv> obeying (on_tables (writes K))"

lemmas steps_flow = obeying_ends obeying_tbind obeying_stmt fp_flow

lemma login_steps: "steps_of UNIV (login_thread env dto ctx)"
  unfolding login_thread_def login_refuse_def login_issue_def recordLoginFailure_def
  by (auto intro!: steps_flow fp_audit fp_writes wr.ob_world simp: new_user_def split: option.split sum.split)

lemma cancel_steps: "steps_of UNIV (cancel_thread i userId)"
  unfolding cancel_thread_def order_findById_def base_defs
  by (auto intro!: steps_flow fp_writes split: option.split)

lemma sync_steps: "steps_of UNIV (sync_thread sv dto)"
proof -
  have "footprint_of UNIV (base_update escrow_table i (sync_update act res xdr))" for i act res xdr
    unfolding base_defs by (cases act) (auto intro!: fp_updates(4))
  then show ?thesis
    unfolding sync_thread_def sync_audit_def
    by (auto intro!: steps_flow fp_escrow_helpers fp_audit split: sum.split)
qed

lemma event_steps: "steps_of UNIV (event_thread ev)"
  unfolding event_thread_def find_thread_def findFirstByOrder_def event_tx_def rememberEvent_def Let_def
  by (auto intro!: steps_flow fp_audit fp_writes fp_updates(4) wr.ob_world simp: event_update_def split: option.split sum.split)

text \<open>
  The constraints of the schema survive every interleaving: of these four handlers, any number of
  each, at every statement, with any statements of the other handlers in between.
\<close>

theorem schema_kept_interleaved:
  assumes "pool_run (on_tables (writes UNIV))
      (map (\<lambda>(dto, ctx). silent (login_thread env dto ctx)) logins @ map (\<lambda>(i, userId). silent (cancel_thread i userId)) cancels @
       map (\<lambda>dto. silent (sync_thread sv dto)) syncs @ map (\<lambda>ev. silent (event_thread ev)) events, s) (us, t)"
    and "db_wf (tables s)"
  shows "db_wf (tables t)"
proof -
  have "on_tables (writes UNIV) s t"
    by (rule effect.pool_obeys[OF wr.eff.effect_axioms assms(1)])
      (auto simp: list_all_iff intro!: obeying_silent login_steps cancel_steps sync_steps event_steps)
  then have "writes UNIV (tables s) (tables t)" by (simp add: on_tables_def)
  with assms(2) show ?thesis
    by (blast intro: writes_lift[where P = "\<lambda>d d'. db_wf d \<longrightarrow> db_wf d'", THEN mp] wf_step)
qed

end
