(* ===== verification/Calendar.thy ===== *)
theory Calendar
  imports Decimal "HOL-Library.List_Lexorder" "HOL-Library.Char_ord"
begin

text \<open>
  The calendar of JavaScript's \<open>Date\<close>: a time is a number of milliseconds, a zone a fixed offset to
  it; the local fields of a time, the setters the source uses, and the text \<open>YYYY-MM-DD\<close>.  The
  order of such texts is the order of their days (within four-digit years).
\<close>

subsection \<open>Days and dates\<close>

definition leap :: "int \<Rightarrow> bool" where
  "leap y \<longleftrightarrow> y mod 4 = 0 \<and> y mod 100 \<noteq> 0 \<or> y mod 400 = 0"

text \<open>The number of the first day of a year; day 0 is the first of January 1970.\<close>

definition year_days :: "int \<Rightarrow> int" where
  "year_days y = 365 * (y - 1970) + (y + 3) div 4 - (y + 99) div 100 + (y + 399) div 400 - 478"

definition month_lengths :: "int \<Rightarrow> nat list" where
  "month_lengths y = [31, if leap y then 29 else 28, 31, 30, 31, 30, 31, 31, 30, 31, 30, 31]"

definition year_of :: "int \<Rightarrow> int" where
  "year_of n =
     (let y = n * 400 div 146097 + 1970
      in if n < year_days y then y - 1 else if year_days (y + 1) \<le> n then y + 1 else y)"

text \<open>Month, counted from 0, and day of the month, counted from 1, of a day of the year.\<close>

fun month_walk :: "nat list \<Rightarrow> nat \<Rightarrow> nat \<times> nat" where
  "month_walk [] k = (0, Suc k)"
| "month_walk (l # ls) k =
     (if k < l then (0, Suc k) else let (m, d) = month_walk ls (k - l) in (Suc m, d))"

definition civil :: "int \<Rightarrow> int \<times> nat \<times> nat" where
  "civil n = (let y = year_of n; (m, d) = month_walk (month_lengths y) (nat (n - year_days y)) in (y, m, d))"

text \<open>\<open>MakeDay\<close>: the day of a year, a month that may be out of range, and a day that may be too.\<close>

definition makeDay :: "int \<Rightarrow> int \<Rightarrow> int \<Rightarrow> int" where
  "makeDay y m d = (let y' = y + m div 12
     in year_days y' + int (sum_list (take (nat (m mod 12)) (month_lengths y'))) + d - 1)"

definition formatDate :: "int \<Rightarrow> string" where
  "formatDate n = (let (y, m, d) = civil n
     in show_int y @ ''-'' @ padStart 2 (CHR ''0'') (show_nat (m + 1)) @ ''-'' @ padStart 2 (CHR ''0'') (show_nat d))"

subsection \<open>Times\<close>

definition DAY :: int where
  "DAY = 24 * 60 * 60 * 1000"

definition local_day :: "int \<Rightarrow> int \<Rightarrow> int" where
  "local_day tz t = (t + tz) div DAY"

definition startOfDay :: "int \<Rightarrow> int \<Rightarrow> int" where
  "startOfDay tz t = local_day tz t * DAY - tz"

definition endOfDay :: "int \<Rightarrow> int \<Rightarrow> int" where
  "endOfDay tz t = startOfDay tz t + DAY - 1"

text \<open>\<open>setDate(getDate() + n)\<close> keeps the time of the day, and so does \<open>setMonth(getMonth() + n)\<close>.\<close>

definition addDays :: "int \<Rightarrow> int \<Rightarrow> int" where
  "addDays n t = t + n * DAY"

definition addMonths :: "int \<Rightarrow> int \<Rightarrow> int \<Rightarrow> int" where
  "addMonths tz n t = (let (y, m, d) = civil (local_day tz t)
     in makeDay y (int m + n) (int d) * DAY + (t + tz) mod DAY - tz)"

subsection \<open>Every day has its date\<close>

lemma div_succ:
  fixes k :: int
  assumes "0 < k" "j = k - 1"
  shows "(y + 1 + j) div k = (y + j) div k + (if y mod k = 0 then 1 else 0)"
proof -
  note that = assms(1)
  have y: "y = k * (y div k) + y mod k" "0 \<le> y mod k" "y mod k < k" using that by simp_all
  have "(y + (k - 1)) div k = (k * (y div k) + (y mod k + (k - 1))) div k" using y(1) by (metis add.assoc)
  also have "\<dots> = y div k + (y mod k + (k - 1)) div k" using that by (subst div_mult_self4) simp_all
  also have "(y mod k + (k - 1)) div k = (if y mod k = 0 then 0 else 1)"
  proof (cases "y mod k = 0")
    case False
    then have "(y mod k + (k - 1)) div k = 1"
      using y(2,3) by (intro int_div_pos_eq[where r = "y mod k - 1"]) auto
    with False show ?thesis by simp
  qed (use that in simp)
  finally show ?thesis using that div_add_self2[of k y] by (simp add: assms(2))
qed

lemma year_days_step: "year_days (y + 1) = year_days y + (if leap y then 366 else 365)"
proof -
  have cancel: "y mod 100 mod 4 = y mod 4" "y mod 400 mod 100 = y mod 100" by (rule mod_mod_cancel, simp)+
  have m4: "y mod 4 = 0" if "y mod 100 = 0" using cancel(1) unfolding that by simp
  have m100: "y mod 100 = 0" if "y mod 400 = 0" using cancel(2) unfolding that by simp
  have up: "(y + 1 + 3) div 4 = (y + 3) div 4 + (if y mod 4 = 0 then 1 else 0)"
    "(y + 1 + 99) div 100 = (y + 99) div 100 + (if y mod 100 = 0 then 1 else 0)"
    "(y + 1 + 399) div 400 = (y + 399) div 400 + (if y mod 400 = 0 then 1 else 0)"
    by (rule div_succ; simp)+
  have "year_days (y + 1) = year_days y + 365 + (if y mod 4 = 0 then 1 else 0) - (if y mod 100 = 0 then 1 else 0)
      + (if y mod 400 = 0 then 1 else 0)"
    unfolding year_days_def up by simp
  then show ?thesis unfolding leap_def
    using m4 m100 by (cases "y mod 400 = 0"; cases "y mod 100 = 0"; cases "y mod 4 = 0") simp_all
qed

lemma year_days_mono: "a \<le> b \<Longrightarrow> year_days a \<le> year_days b"
  by (induction b rule: int_ge_induct) (simp_all add: year_days_step split: if_splits)

lemma div_bounds: "k * (a div k) \<le> a" "a < k * (a div k) + k" if "0 < k" for k :: int
  using that pos_mod_sign[of k a] pos_mod_bound[of k a] minus_mod_eq_mult_div[of a k] by - (linarith+)

lemma leap_count:
  fixes y a b c :: int
  assumes "4 * a \<le> y + 3" "y + 3 < 4 * a + 4" "100 * b \<le> y + 99" "y + 99 < 100 * b + 100"
    "400 * c \<le> y + 399" "y + 399 < 400 * c + 400"
  shows "146097 * y \<le> 400 * (365 * y - 719528 + a - b + c) + 287811890 \<and>
    400 * (365 * y - 719528 + a - b + c) + 287810290 \<le> 146097 * y"
proof -
  have "100 * y \<le> 400 * a" "400 * a \<le> 100 * y + 300" "4 * y \<le> 400 * b" "400 * b \<le> 4 * y + 396"
    "y \<le> 400 * c" "400 * c \<le> y + 399" using assms by simp_all
  then show ?thesis by (simp add: algebra_simps)
qed

lemma year_days_bounds:
  "146097 * y \<le> 400 * year_days y + 287811890" "400 * year_days y + 287810290 \<le> 146097 * y"
proof -
  have "year_days y = 365 * y - 719528 + (y + 3) div 4 - (y + 99) div 100 + (y + 399) div 400"
    by (simp add: year_days_def)
  then show "146097 * y \<le> 400 * year_days y + 287811890" "400 * year_days y + 287810290 \<le> 146097 * y"
    using leap_count[OF div_bounds[of 4 "y + 3"] div_bounds[of 100 "y + 99"] div_bounds[of 400 "y + 399"]] by simp_all
qed

lemma year_of_bounds: "year_days (year_of n) \<le> n" "n < year_days (year_of n + 1)"
proof -
  let ?q = "n * 400 div 146097"
  let ?y = "?q + 1970"
  have est: "146097 * ?q \<le> n * 400" "n * 400 < 146097 * ?q + 146097"
    using div_bounds[of 146097 "n * 400"] by simp_all
  have "400 * year_days (?y - 1) \<le> 400 * n"
    using est year_days_bounds(2)[of "?y - 1"] by (simp add: algebra_simps)
  moreover have "400 * n < 400 * year_days (?y + 2)"
    using est year_days_bounds(1)[of "?y + 2"] by (simp add: algebra_simps)
  ultimately show "year_days (year_of n) \<le> n" "n < year_days (year_of n + 1)"
    by (auto simp: year_of_def Let_def add.commute)
qed

lemma year_of_mono: "m \<le> n \<Longrightarrow> year_of m \<le> year_of n"
proof (rule ccontr)
  assume "m \<le> n" "\<not> year_of m \<le> year_of n"
  then have "year_days (year_of n + 1) \<le> year_days (year_of m)" by (intro year_days_mono) simp
  with \<open>m \<le> n\<close> year_of_bounds(2)[of n] year_of_bounds(1)[of m] show False by simp
qed

lemma year_of_unique: "year_days y \<le> n \<Longrightarrow> n < year_days (y + 1) \<Longrightarrow> year_of n = y"
proof (rule ccontr)
  assume n: "year_days y \<le> n" "n < year_days (y + 1)" and "year_of n \<noteq> y"
  then consider "y + 1 \<le> year_of n" | "year_of n + 1 \<le> y" by linarith
  then show False
  proof cases
    case 1 from year_days_mono[OF this] n year_of_bounds(1)[of n] show False by simp
  next
    case 2 from year_days_mono[OF this] n year_of_bounds(2)[of n] show False by simp
  qed
qed

lemma sum_month_lengths: "sum_list (month_lengths y) = (if leap y then 366 else 365)"
  by (simp add: month_lengths_def)

lemma day_of_year: "nat (n - year_days (year_of n)) < sum_list (month_lengths (year_of n))"
  using year_of_bounds[of n] year_days_step[of "year_of n"] by (simp add: sum_month_lengths split: if_splits)

text \<open>The walk over the months finds the month and day that make up the day of the year.\<close>

lemma month_walk_spec:
  "k < sum_list ls \<Longrightarrow> month_walk ls k = (m, d) \<Longrightarrow>
     m < length ls \<and> 0 < d \<and> d \<le> ls ! m \<and> k + 1 = sum_list (take m ls) + d"
proof (induction ls arbitrary: k m)
  case (Cons l ls)
  show ?case
  proof (cases "k < l")
    case False
    then obtain j where k: "k = l + j" by (metis le_Suc_ex not_less)
    then obtain m' where "month_walk ls j = (m', d)" "m = Suc m'"
      using Cons.prems by (auto split: prod.splits)
    with Cons.IH[of j m'] Cons.prems k show ?thesis by simp
  qed (use Cons.prems in auto)
qed simp

lemma civilE:
  assumes "civil n = (y, m, d)"
  obtains "y = year_of n" "m < 12" "0 < d" "d \<le> 31" "n = year_days y + int (sum_list (take m (month_lengths y))) + int d - 1"
proof -
  from assms have y: "y = year_of n" and w: "month_walk (month_lengths y) (nat (n - year_days y)) = (m, d)"
    by (auto simp: civil_def Let_def split: prod.splits)
  note spec = month_walk_spec[OF day_of_year[of n, folded y] w]
  have "\<forall>l \<in> set (month_lengths y). l \<le> 31" by (simp add: month_lengths_def)
  with spec have "d \<le> 31" by (meson nth_mem order_trans)
  moreover have "m < 12" using spec by (simp add: month_lengths_def)
  moreover have "n = year_days y + int (sum_list (take m (month_lengths y))) + int d - 1"
    using spec year_of_bounds(1)[of n] unfolding y by linarith
  ultimately show thesis using that y spec by blast
qed

text \<open>A day is what its own date makes.\<close>

lemma makeDay_civil: "civil n = (y, m, d) \<Longrightarrow> makeDay y (int m) (int d) = n"
  by (erule civilE) (simp add: makeDay_def)

subsection \<open>The order of the texts is the order of the days\<close>

lemma month_walk_less:
  "k < l \<Longrightarrow> l < sum_list ls \<Longrightarrow> month_walk ls k = (m, d) \<Longrightarrow> month_walk ls l = (m', d') \<Longrightarrow> m < m' \<or> m = m' \<and> d < d'"
proof (induction ls arbitrary: k l m m')
  case (Cons x xs)
  show ?case
  proof (cases "k < x")
    case False
    then obtain i j where k: "k = x + i" "l = x + j" using Cons.prems(1) by (metis le_Suc_ex less_or_eq_imp_le not_less order_trans)
    then obtain a b where "month_walk xs i = (a, d)" "m = Suc a" "month_walk xs j = (b, d')" "m' = Suc b"
      using Cons.prems by (auto split: prod.splits)
    with Cons.IH[of i j a b] Cons.prems k show ?thesis by simp
  qed (use Cons.prems in \<open>auto split: if_splits prod.splits\<close>)
qed simp

lemma civil_less:
  assumes "m < n" "civil m = (y, a, d)" "civil n = (y', a', d')"
  shows "y < y' \<or> y = y' \<and> (a < a' \<or> a = a' \<and> d < d')"
proof -
  have y: "y = year_of m" "y' = year_of n" using assms(2,3) by (auto elim: civilE)
  have "y \<le> y'" using assms(1) by (simp add: y year_of_mono)
  moreover have "a < a' \<or> a = a' \<and> d < d'" if "y = y'"
  proof -
    have w: "month_walk (month_lengths y) (nat (m - year_days y)) = (a, d)"
      "month_walk (month_lengths y) (nat (n - year_days y)) = (a', d')"
      using assms(2,3) that y by (auto simp: civil_def Let_def split: prod.splits)
    have "nat (m - year_days y) < nat (n - year_days y)"
      using assms(1) year_of_bounds(1)[of m] by (simp add: y(1))
    from month_walk_less[OF this _ w] day_of_year[of n] show ?thesis by (simp add: y(2) that)
  qed
  ultimately show ?thesis by linarith
qed

lemma char_less: "is_digit c \<Longrightarrow> is_digit e \<Longrightarrow> digit_val c < digit_val e \<Longrightarrow> c < e"
  by (auto simp: less_char_def digit_val_def is_digit_def code_of_def)

lemma digits_less:
  "all_digits s \<Longrightarrow> all_digits t \<Longrightarrow> length s = length t \<Longrightarrow> digits_val s < digits_val t \<Longrightarrow> s < t"
proof (induction s arbitrary: t)
  case (Cons c s)
  then obtain e u where t: "t = e # u" by (cases t) auto
  have small: "digits_val s < 10 ^ length u" "digits_val u < 10 ^ length u"
    using digits_val_less[of s] digits_val_less[of u] Cons.prems by (simp_all add: t)
  have digits: "is_digit c" "is_digit e" using Cons.prems by (simp_all add: t)
  consider "digit_val c < digit_val e" | "digit_val c = digit_val e" | "digit_val e + 1 \<le> digit_val c" by linarith
  then show ?case
  proof cases
    case 1
    then show ?thesis using char_less[OF digits] by (simp add: t)
  next
    case 2
    then have "c = e" using digits by (metis digit_char_digit_val)
    with Cons 2 show ?thesis by (simp add: t digits_val_Cons)
  next
    case 3
    then have "(digit_val e + 1) * 10 ^ length u \<le> digit_val c * 10 ^ length u" by (rule mult_le_mono1)
    with Cons.prems small show ?thesis by (simp add: t digits_val_Cons)
  qed
qed simp

lemma append_less: "length s = length t \<Longrightarrow> s < t \<Longrightarrow> s @ x < t @ y" for s t x y :: string
  by (induction s t rule: list_induct2) auto

lemma append_less_same: "s @ x < s @ y \<longleftrightarrow> x < y" for s x y :: string
  by (induction s) auto

definition two :: "nat \<Rightarrow> string" where
  "two k = padStart 2 (CHR ''0'') (show_nat k)"

lemma two_digits: "k < 100 \<Longrightarrow> length (two k) = 2" "all_digits (two k)" "digits_val (two k) = k"
proof -
  have zeros: "all_digits (replicate j (CHR ''0''))" for j by (induction j) (simp_all add: zero_digit)
  show "k < 100 \<Longrightarrow> length (two k) = 2" using length_show_nat[of 2 k] by (simp add: two_def padStart_def)
  show "all_digits (two k)" "digits_val (two k) = k" by (simp_all add: two_def padStart_def zeros)
qed

lemma two_less: "a < b \<Longrightarrow> b < 100 \<Longrightarrow> two a < two b"
  by (intro digits_less) (simp_all add: two_digits)

lemma length_show_nat_ge: "10 ^ k \<le> n \<Longrightarrow> k < length (show_nat n)"
  by (metis all_digits_show_nat digits_val_less digits_val_show_nat leI le_less_trans less_irrefl power_increasing one_le_numeral)

lemma four_digits: "1000 \<le> y \<Longrightarrow> y < 10000 \<Longrightarrow> length (show_nat y) = 4"
  using length_show_nat[of 4 y] length_show_nat_ge[of 3 y] by simp

text \<open>The days of the years 1970 to 9999.\<close>

definition common_day :: "int \<Rightarrow> bool" where
  "common_day n \<longleftrightarrow> 0 \<le> n \<and> n < year_days 10000"

lemma common_year: "common_day n \<Longrightarrow> 1000 \<le> year_of n \<and> year_of n < 10000"
proof -
  assume n: "common_day n"
  have "year_of 0 = 1970" by code_simp
  then have "1970 \<le> year_of n" using n year_of_mono[of 0 n] by (simp add: common_day_def)
  moreover have "year_of n < 10000"
  proof (rule ccontr)
    assume "\<not> year_of n < 10000"
    then have "year_days 10000 \<le> year_days (year_of n)" by (intro year_days_mono) simp
    with n year_of_bounds(1)[of n] show False by (simp add: common_day_def)
  qed
  ultimately show ?thesis by simp
qed

lemma formatDate_less:
  assumes "m < n" "common_day m" "common_day n"
  shows "formatDate m < formatDate n"
proof -
  obtain y a d where m: "civil m = (y, a, d)" by (cases "civil m")
  obtain y' a' d' where n: "civil n = (y', a', d')" by (cases "civil n")
  have small: "a < 12" "d \<le> 31" "a' < 12" "d' \<le> 31" using m n by (auto elim: civilE)
  have years: "1000 \<le> y" "y < 10000" "1000 \<le> y'" "y' < 10000"
    using m n common_year[OF assms(2)] common_year[OF assms(3)] by (auto elim: civilE)
  then have four: "length (show_nat (nat y)) = 4" "length (show_nat (nat y')) = 4"
    by (simp_all add: four_digits nat_less_iff le_nat_iff)
  have texts: "formatDate m = show_nat (nat y) @ ''-'' @ two (a + 1) @ ''-'' @ two d"
    "formatDate n = show_nat (nat y') @ ''-'' @ two (a' + 1) @ ''-'' @ two d'"
    using m n years by (simp_all add: formatDate_def two_def show_int_def)
  from civil_less[OF assms(1) m n] consider "y < y'" | "y = y'" "a < a'" | "y = y'" "a = a'" "d < d'" by blast
  then show ?thesis
  proof cases
    case 1
    then have "show_nat (nat y) < show_nat (nat y')"
      using four years by (intro digits_less) simp_all
    then show ?thesis unfolding texts by (rule append_less[rotated]) (simp add: four)
  next
    case 2
    then show ?thesis using small
      by (simp add: texts append_less_same append_less two_less two_digits)
  next
    case 3
    then show ?thesis using small by (simp add: texts append_less_same two_less)
  qed
qed

lemma formatDate_le:
  assumes "common_day m" "common_day n"
  shows "formatDate m \<le> formatDate n \<longleftrightarrow> m \<le> n" "formatDate m = formatDate n \<longleftrightarrow> m = n"
  using formatDate_less[of m n] formatDate_less[of n m] assms by (cases m n rule: linorder_cases; force)+

end
