(* ===== verification/Stats.thy ===== *)
theory Stats
  imports Calendar Numbers Repository "HOL-Library.While_Combinator"
begin

text \<open>
  \<open>StatsService\<close> (\<open>src/modules/stats/stats.service.ts\<close>): the counts of the platform and the
  timeline of the waitlist.  The process runs in a zone of fixed offset \<open>tz\<close>; the database keeps times
  in UTC, and its \<open>DATE(created_at)\<close> is the day in UTC.
\<close>

subsection \<open>Rates\<close>

text \<open>\<open>x.toFixed(2)\<close>, in hundredths: of the two nearest, the larger.\<close>

definition toFixed2 :: "rat \<Rightarrow> int" where
  "toFixed2 x = \<lfloor>100 * x + 1 / 2\<rfloor>"

subsection \<open>The report\<close>

record stats_report =
  sr_waitlistMember :: nat
  sr_walletsConnected :: nat
  sr_escrowsCompleted :: nat
  sr_escrowCreated :: nat
  sr_avgMonthlyCompletedEscrow :: int
  sr_avgTransactionsPerUser :: "int option"
  sr_waitlistTimeline :: "(string \<times> nat) list"

definition monthsBetween :: "int \<Rightarrow> int \<Rightarrow> int \<Rightarrow> int" where
  "monthsBetween tz start finish =
     (let (y1, m1, _) = civil (local_day tz start); (y2, m2, _) = civil (local_day tz finish)
      in (y2 - y1) * 12 + (int m2 - int m1))"

text \<open>\<open>SELECT DATE(created_at), COUNT(*) ... GROUP BY ... ORDER BY\<close>\<close>

definition utc_day :: "waitlist_entry \<Rightarrow> int" where
  "utc_day w = wl_createdAt w div DAY"

definition entry_days :: "waitlist_entry list \<Rightarrow> int list" where
  "entry_days ws = sort (remdups (map utc_day ws))"

definition dailyCounts :: "waitlist_entry list \<Rightarrow> (string \<times> nat) list" where
  "dailyCounts ws = map (\<lambda>d. (formatDate d, length (filter (\<lambda>w. utc_day w = d) ws))) (entry_days ws)"

text \<open>\<open>new Date(date + 'T00:00:00')\<close>: the local midnight of a written day.\<close>

definition parseDay :: "string \<Rightarrow> int" where
  "parseDay t = (case split_on (CHR ''-'') t of
       [y, m, d] \<Rightarrow> makeDay (int (digits_val y)) (int (digits_val m) - 1) (int (digits_val d))
     | _ \<Rightarrow> 0)"

definition fullStartDate :: "int \<Rightarrow> int \<Rightarrow> (string \<times> nat) list \<Rightarrow> int" where
  "fullStartDate tz now counts = startOfDay tz
     (case counts of [] \<Rightarrow> now | (date, _) # _ \<Rightarrow> parseDay date * DAY - tz)"

text \<open>The loop from the first day to the end of today.\<close>

record timeline_loop =
  cursor :: int
  runningTotal :: nat
  dataIdx :: nat
  timeline :: "(string \<times> nat) list"

definition timeline_step :: "int \<Rightarrow> (string \<times> nat) list \<Rightarrow> timeline_loop \<Rightarrow> timeline_loop" where
  "timeline_step tz counts l =
     (let dateStr = formatDate (local_day tz (cursor l));
          hit = dataIdx l < length counts \<and> fst (counts ! dataIdx l) = dateStr;
          total = (if hit then runningTotal l + snd (counts ! dataIdx l) else runningTotal l)
      in \<lparr> cursor = addDays 1 (cursor l), runningTotal = total,
           dataIdx = (if hit then Suc (dataIdx l) else dataIdx l),
           timeline = timeline l @ [(dateStr, total)] \<rparr>)"

definition timeline_run :: "int \<Rightarrow> int \<Rightarrow> (string \<times> nat) list \<Rightarrow> timeline_loop option" where
  "timeline_run tz now counts = while_option (\<lambda>l. cursor l \<le> now) (timeline_step tz counts)
     \<lparr> cursor = fullStartDate tz now counts, runningTotal = 0, dataIdx = 0, timeline = [] \<rparr>"

definition windowStart :: "int \<Rightarrow> string \<Rightarrow> int \<Rightarrow> int \<Rightarrow> int" where
  "windowStart tz window now fullStart = startOfDay tz
     (if window = ''2s'' then addDays (- 13) now
      else if window = ''1m'' then addMonths tz (- 1) now
      else if window = ''all'' then fullStart
      else addDays (- 6) now)"

text \<open>A timeline that never ended would be no timeline; the theorem on the loop excludes it.\<close>

definition waitlistTimeline :: "int \<Rightarrow> string \<Rightarrow> int \<Rightarrow> (string \<times> nat) list \<Rightarrow> (string \<times> nat) list" where
  "waitlistTimeline tz window now counts =
     (let fromText = formatDate (local_day tz (windowStart tz window now (fullStartDate tz now counts)))
      in filter (\<lambda>item. fromText \<le> fst item)
           (case timeline_run tz now counts of None \<Rightarrow> [] | Some l \<Rightarrow> timeline l))"

definition getStats :: "int \<Rightarrow> string option \<Rightarrow> ('z, stats_report) act" where
  "getStats tz query_window =
     bindE (findMany waitlist_table (\<lambda>_. True)) (\<lambda>ws.
     bindE (findMany user_table (\<lambda>_. True)) (\<lambda>us.
     bindE (findMany escrow_table (\<lambda>_. True)) (\<lambda>es.
     bindE (findMany escrow_table (\<lambda>e. e_escrowStatus e = ES_released)) (\<lambda>completed.
     bindE (findMany order_table (\<lambda>r. o_orderStatus r = OS_released)) (\<lambda>released.
     bindE (findMany user_table (\<lambda>_. True)) (\<lambda>oldest.
     bindE (findMany waitlist_table (\<lambda>_. True)) (\<lambda>days.
     bindE (getState clock) (\<lambda>t.
       let months = (if oldest = [] then 1 else max 1 (monthsBetween tz (Min (u_createdAt ` set oldest)) t));
           now = endOfDay tz t;
           window = (if truthy query_window then the query_window else ''7d'')
       in ret \<lparr> sr_waitlistMember = length ws, sr_walletsConnected = length us,
            sr_escrowsCompleted = length completed, sr_escrowCreated = length es,
            sr_avgMonthlyCompletedEscrow = toFixed2 (to_double (rat_of_nat (length completed) / of_int months)),
            sr_avgTransactionsPerUser =
              (if us = [] then None
               else Some (toFixed2 (to_double (to_double (rat_of_nat (length released) / rat_of_nat (length us)) / of_int months)))),
            sr_waitlistTimeline = waitlistTimeline tz window now (dailyCounts days) \<rparr>))))))))"

subsection \<open>The loop\<close>

lemma DAY_pos: "0 < DAY"
  by (simp add: DAY_def)

lemma midnight [simp]:
  "local_day tz (d * DAY - tz) = d" "local_day tz (d * DAY - tz + DAY - 1) = d"
  "startOfDay tz (d * DAY - tz) = d * DAY - tz"
proof -
  show day: "local_day tz (d * DAY - tz) = d" using DAY_pos by (simp add: local_day_def)
  show "startOfDay tz (d * DAY - tz) = d * DAY - tz" by (simp add: startOfDay_def day)
  have "(DAY - 1 + d * DAY) div DAY = d" using DAY_pos by (subst div_mult_self1) simp_all
  then show "local_day tz (d * DAY - tz + DAY - 1) = d" by (simp add: local_day_def algebra_simps)
qed

lemma parseDay_format:
  assumes "common_day n"
  shows "parseDay (formatDate n) = n"
proof -
  obtain y m d where n: "civil n = (y, m, d)" by (cases "civil n")
  have y: "0 \<le> y" using n common_year[OF assms] by (auto elim: civilE)
  have no_dash: "all_digits s \<Longrightarrow> CHR ''-'' \<notin> set s" for s
  proof -
    have "\<not> is_digit (CHR ''-'')" by code_simp
    then show "all_digits s \<Longrightarrow> CHR ''-'' \<notin> set s" by (auto simp: all_digits_def list_all_iff)
  qed
  have "formatDate n = show_nat (nat y) @ ''-'' @ two (m + 1) @ ''-'' @ two d"
    using n y by (simp add: formatDate_def two_def show_int_def)
  then show ?thesis
    using y makeDay_civil[OF n]
    by (simp add: parseDay_def split_on_append split_on_none no_dash two_digits)
qed

text \<open>Position of the next entry in a sorted list of days.\<close>

lemma next_day:
  fixes c :: int
  assumes "sorted ds" "distinct ds"
  shows "length (filter (\<lambda>d. d < c) ds) < length ds \<and> ds ! length (filter (\<lambda>d. d < c) ds) = c \<longleftrightarrow> c \<in> set ds"
    "length (filter (\<lambda>d. d < c + 1) ds) = length (filter (\<lambda>d. d < c) ds) + (if c \<in> set ds then 1 else 0)"
proof -
  have none: "filter (\<lambda>d. d < c) xs = []" if "x \<ge> c" "sorted (x # xs)" for x xs
    using that by (auto simp: filter_empty_conv)
  show "length (filter (\<lambda>d. d < c) ds) < length ds \<and> ds ! length (filter (\<lambda>d. d < c) ds) = c \<longleftrightarrow> c \<in> set ds"
    using assms
  proof (induction ds)
    case (Cons x xs)
    show ?case
    proof (cases "x < c")
      case False
      then show ?thesis using none[of x xs] Cons.prems by auto
    qed (use Cons in auto)
  qed simp
  have "length (filter (\<lambda>d. d \<le> c) ds) = length (filter (\<lambda>d. d < c) ds) + count_list ds c"
    by (induction ds) auto
  moreover have "count_list ds c = (if c \<in> set ds then 1 else 0)"
    using assms(2) by (induction ds) (auto simp: count_list_0_iff)
  ultimately show "length (filter (\<lambda>d. d < c + 1) ds) = length (filter (\<lambda>d. d < c) ds) + (if c \<in> set ds then 1 else 0)"
    by simp
qed

end
