(* ===== verification/Validation.thy ===== *)
theory Validation
  imports Users Orders Offers Chat Send Stats Numbers
begin

text \<open>
  The validation of bodies and queries: the DTO classes as lists of fields with the decorators of
  class-validator, and Nest's \<open>ValidationPipe\<close> as \<open>main.ts\<close> configures it (\<open>transform\<close>, \<open>whitelist\<close>,
  \<open>forbidNonWhitelisted\<close>).  The formats that the library decides (\<open>IsUUID\<close>, \<open>IsEmail\<close>,
  \<open>IsNumberString\<close>) are parameters.  A body is an object; numbers in it are integers here.
\<close>

subsection \<open>Decorators\<close>

record formats =
  isUUID :: "string \<Rightarrow> bool"
  isEmail :: "string \<Rightarrow> bool"
  isNumberString :: "string \<Rightarrow> bool"

datatype (plugins only: code size) rule =
    IsOptional | IsString | IsNotEmpty | MinLength nat | MaxLength nat | Matches "string \<Rightarrow> bool"
  | IsUUID | IsEmail | IsNumberString | IsBoolean | IsIn "string list" | IsNumber | Positive
  | IsArrayOfStrings | ValidateNested "(string \<times> rule list) list"

type_synonym dto = "(string \<times> rule list) list"

definition text_rule :: "(string \<Rightarrow> bool) \<Rightarrow> json option \<Rightarrow> bool" where
  "text_rule p v = (case v of Some (JStr s) \<Rightarrow> p s | _ \<Rightarrow> False)"

definition absent :: "json option \<Rightarrow> bool" where
  "absent v \<longleftrightarrow> v = None \<or> v = Some JNull"

fun optional :: "rule \<Rightarrow> bool" where
  "optional IsOptional = True"
| "optional _ = False"

text \<open>
  One decorator on a value, \<open>None\<close> being \<open>undefined\<close>.  \<open>Positive\<close> is \<open>@Min(0.0000001)\<close>.  A nested
  object is held to its own class, unknown fields included.
\<close>

fun holds :: "formats \<Rightarrow> rule \<Rightarrow> json option \<Rightarrow> bool"
  and fields_hold :: "formats \<Rightarrow> dto \<Rightarrow> (string \<times> json) list \<Rightarrow> bool"
  and rules_hold :: "formats \<Rightarrow> rule list \<Rightarrow> json option \<Rightarrow> bool" where
  "holds fm IsOptional v = True"
| "holds fm IsString v = text_rule (\<lambda>_. True) v"
| "holds fm IsNotEmpty v = (\<not> absent v \<and> v \<noteq> Some (JStr []))"
| "holds fm (MinLength n) v = text_rule (\<lambda>s. n \<le> length s) v"
| "holds fm (MaxLength n) v = text_rule (\<lambda>s. length s \<le> n) v"
| "holds fm (Matches p) v = text_rule p v"
| "holds fm IsUUID v = text_rule (isUUID fm) v"
| "holds fm IsEmail v = text_rule (isEmail fm) v"
| "holds fm IsNumberString v = text_rule (isNumberString fm) v"
| "holds fm IsBoolean v = (case v of Some (JBool _) \<Rightarrow> True | _ \<Rightarrow> False)"
| "holds fm (IsIn xs) v = text_rule (\<lambda>s. s \<in> set xs) v"
| "holds fm IsNumber v = (case v of Some (JNum _) \<Rightarrow> True | _ \<Rightarrow> False)"
| "holds fm Positive v = (case v of Some (JNum k) \<Rightarrow> 0 < k | _ \<Rightarrow> False)"
| "holds fm IsArrayOfStrings v =
     (case v of Some (JArr xs) \<Rightarrow> list_all (\<lambda>x. text_rule (\<lambda>_. True) (Some x)) xs | _ \<Rightarrow> False)"
| "holds fm (ValidateNested d) v =
     (case v of Some (JObj body) \<Rightarrow> fst ` set body \<subseteq> fst ` set d \<and> fields_hold fm d body | _ \<Rightarrow> False)"
| "fields_hold fm [] body = True"
| "fields_hold fm ((k, rs) # d) body =
     ((list_ex optional rs \<and> absent (map_of body k) \<or> rules_hold fm rs (map_of body k)) \<and> fields_hold fm d body)"
| "rules_hold fm [] v = True"
| "rules_hold fm (r # rs) v = (holds fm r v \<and> rules_hold fm rs v)"

subsection \<open>The classes\<close>

definition ALIAS_REGEX :: "string \<Rightarrow> bool" where
  "ALIAS_REGEX s \<longleftrightarrow> s \<noteq> [] \<and>
     list_all (\<lambda>c. is_lower c \<or> is_digit c \<or> c \<in> {CHR ''.'', CHR ''!'', CHR ''_''}) s"

definition UpdateUserDto_rules :: dto where
  "UpdateUserDto_rules =
     [(''alias'', [IsOptional, IsString, MaxLength 80, Matches ALIAS_REGEX]),
      (''username'', [IsOptional, IsString, MaxLength 80]),
      (''email'', [IsOptional, IsEmail]),
      (''notificationsEnabled'', [IsOptional, IsBoolean]),
      (''preferredCurrency'', [IsOptional, IsString]),
      (''pendingAccountInfo'', [IsOptional, IsBoolean]),
      (''kycStatus'', [IsOptional, IsString]),
      (''bio'', [IsOptional, IsString, MaxLength 250]),
      (''securityUpdates'', [IsOptional, IsBoolean])]"

definition CreateUserDto_rules :: dto where
  "CreateUserDto_rules =
     [(''publicKey'', [IsString]),
      (''alias'', [IsOptional, IsString, MaxLength 80]),
      (''username'', [IsOptional, IsString, MaxLength 80]),
      (''kycStatus'', [IsOptional, IsString]),
      (''currentNonce'', [IsOptional, IsString])]"

definition SetupAccountDto_rules :: dto where
  "SetupAccountDto_rules =
     [(''alias'', [IsOptional, IsString, MaxLength 80]),
      (''username'', [IsOptional, IsString, MaxLength 80]),
      (''email'', [IsOptional, IsEmail]),
      (''notificationsEnabled'', [IsOptional, IsBoolean]),
      (''preferredCurrency'', [IsOptional, IsString]),
      (''bankName'', [IsOptional, IsString]),
      (''accountHolderName'', [IsOptional, IsString]),
      (''accountNumber'', [IsOptional, IsString]),
      (''providerId'', [IsOptional, IsString]),
      (''accountIdentifier'', [IsOptional, IsString]),
      (''identificationNumber'', [IsOptional, IsString]),
      (''beneficiaryName'', [IsOptional, IsString]),
      (''description'', [IsOptional, IsString])]"

definition ValidateAliasDto_rules :: dto where
  "ValidateAliasDto_rules =
     [(''alias'', [IsString, MaxLength 80, Matches ALIAS_REGEX])]"

definition CreateChatMessageDto_rules :: dto where
  "CreateChatMessageDto_rules =
     [(''orderId'', [IsUUID]),
      (''senderId'', [IsUUID]),
      (''content'', [IsString])]"

text \<open>
  The classes of the chat's socket messages, on which no pipe runs (a global pipe does not cover a
  gateway; the gateway makes its own checks), and one that is bound to no route.
\<close>

definition OrderRoomDto_rules :: dto where
  "OrderRoomDto_rules = [(''orderId'', [IsUUID])]"

definition SendMessageDto_rules :: dto where
  "SendMessageDto_rules = OrderRoomDto_rules @
     [(''content'', [IsString, IsNotEmpty, MaxLength 4000]),
      (''clientMessageId'', [IsOptional, IsUUID])]"

definition CompleteEscrowDto_rules :: dto where
  "CompleteEscrowDto_rules =
     [(''escrowId'', [IsUUID]), (''serviceProvider'', [IsString]), (''evidence'', [IsOptional, IsString])]"

definition LoginDto_rules :: dto where
  "LoginDto_rules =
     [(''publicKey'', [IsString, IsNotEmpty]),
      (''challenge'', [IsString, IsNotEmpty]),
      (''signature'', [IsString, IsNotEmpty])]"

definition CreateAuthChallengeDto_rules :: dto where
  "CreateAuthChallengeDto_rules =
     [(''publicKey'', [IsString, IsNotEmpty])]"

definition StatsQueryDto_rules :: dto where
  "StatsQueryDto_rules =
     [(''window'', [IsOptional, IsString, IsIn [''7d'', ''2s'', ''1m'', ''all'']])]"

definition SendPaymentDto_rules :: dto where
  "SendPaymentDto_rules =
     [(''destination'', [IsString]),
      (''amount'', [IsString, Matches AMOUNT_REGEX]),
      (''memo'', [IsOptional, IsString]),
      (''asset'', [IsOptional, ValidateNested [(''code'', [IsString]), (''issuer'', [IsOptional, IsString])]])]"

definition CreateOrderDto_rules :: dto where
  "CreateOrderDto_rules =
     [(''offerId'', [IsUUID]),
      (''buyerId'', [IsUUID]),
      (''sellerId'', [IsUUID]),
      (''assetAmount'', [IsNumberString]),
      (''fiatAmount'', [IsNumberString]),
      (''orderStatus'', [IsOptional, IsIn [''created'', ''locked'', ''released'', ''cancelled'', ''expired'', ''disputed'']]),
      (''expiresAt'', [IsOptional]),
      (''sellerAddress'', [IsString, IsNotEmpty]),
      (''buyerAddress'', [IsString, IsNotEmpty]),
      (''assetCode'', [IsString, IsNotEmpty]),
      (''title'', [IsOptional, IsString])]"

definition CreatePaymentMethodDto_rules :: dto where
  "CreatePaymentMethodDto_rules =
     [(''userId'', [IsUUID]),
      (''providerId'', [IsUUID]),
      (''accountIdentifier'', [IsString]),
      (''identificationNumber'', [IsOptional, IsString]),
      (''beneficiaryName'', [IsOptional, IsString]),
      (''description'', [IsOptional, IsString])]"

definition OpenEscrowDto_rules :: dto where
  "OpenEscrowDto_rules =
     [(''orderId'', [IsUUID]),
      (''sellerAddress'', [IsString]),
      (''buyerAddress'', [IsString]),
      (''amount'', [IsNumber, Positive]),
      (''title'', [IsString]),
      (''assetCode'', [IsString, IsOptional])]"

definition InitializeEscrowDto_rules :: dto where
  "InitializeEscrowDto_rules =
     [(''orderId'', [IsUUID]),
      (''signerAddress'', [IsString]),
      (''sellerAddress'', [IsString]),
      (''buyerAddress'', [IsString]),
      (''amount'', [IsNumber, Positive]),
      (''title'', [IsString]),
      (''assetCode'', [IsString, IsOptional])]"

definition FundEscrowDto_rules :: dto where
  "FundEscrowDto_rules =
     [(''escrowId'', [IsUUID]),
      (''signerAddress'', [IsString]),
      (''amount'', [IsNumber, Positive])]"

definition ReleaseEscrowDto_rules :: dto where
  "ReleaseEscrowDto_rules =
     [(''escrowId'', [IsUUID]),
      (''releaseSigner'', [IsString])]"

definition SyncEscrowDto_rules :: dto where
  "SyncEscrowDto_rules =
     [(''escrowId'', [IsUUID]),
      (''signedXdr'', [IsString]),
      (''action'', [IsIn [''initialize'', ''fund'', ''fiat_sent'', ''release'']])]"

definition FiatSentDto_rules :: dto where
  "FiatSentDto_rules =
     [(''evidence'', [IsOptional, IsString]),
      (''buyerAddress'', [IsString])]"

definition CreateEscrowDto_rules :: dto where
  "CreateEscrowDto_rules =
     [(''orderId'', [IsUUID]),
      (''txHashLock'', [IsOptional, IsString]),
      (''txHashRelease'', [IsOptional, IsString])]"

definition CreateOfferDto_rules :: dto where
  "CreateOfferDto_rules =
     [(''creatorId'', [IsUUID]),
      (''type'', [IsIn [''buy'', ''sell'']]),
      (''assetCode'', [IsString]),
      (''price'', [IsNumberString]),
      (''minAmount'', [IsNumberString]),
      (''maxAmount'', [IsNumberString]),
      (''status'', [IsOptional, IsIn [''active'', ''paused'', ''closed'']]),
      (''paymentMethodIds'', [IsOptional, IsArrayOfStrings])]"

definition PrepareSendDto_rules :: dto where
  "PrepareSendDto_rules =
     [(''recipient'', [IsString, MinLength 1]),
      (''amount'', [IsString, Matches AMOUNT_REGEX])]"

definition SubmitSendDto_rules :: dto where
  "SubmitSendDto_rules =
     [(''signedXdr'', [IsString, MinLength 1])]"

text \<open>\<open>PartialType\<close>: every field of the class, optional.\<close>

definition partialType :: "dto \<Rightarrow> dto" where
  "partialType d = map (\<lambda>(k, rs). (k, IsOptional # rs)) d"

definition UpdateOrderDto_rules :: dto where
  "UpdateOrderDto_rules = partialType CreateOrderDto_rules"

definition UpdateOfferDto_rules :: dto where
  "UpdateOfferDto_rules = partialType CreateOfferDto_rules"

definition UpdateEscrowDto_rules :: dto where
  "UpdateEscrowDto_rules = partialType CreateEscrowDto_rules"

definition UpdatePaymentMethodDto_rules :: dto where
  "UpdatePaymentMethodDto_rules = partialType CreatePaymentMethodDto_rules"

subsection \<open>The pipe\<close>

definition validationPipe :: "formats \<Rightarrow> dto \<Rightarrow> (string \<times> json) list \<Rightarrow> exn + (string \<times> json) list" where
  "validationPipe fm d body =
     (if fst ` set body \<subseteq> fst ` set d \<and> fields_hold fm d body then Inr body else Inl (HttpException 400))"

text \<open>
  \<open>PaginationDto\<close>: both fields are first put through \<open>Number\<close>; the defaults are 0 and 20.  A key given
  twice is an array, whose \<open>Number\<close> is \<open>NaN\<close>.  What the database client makes of an integer that is too
  large for it is not modelled.
\<close>

definition pageField :: "string \<Rightarrow> int \<Rightarrow> int \<Rightarrow> (string \<times> string) list \<Rightarrow> int option" where
  "pageField k least fallback q = (case filter (\<lambda>(k', _). k' = k) q of
       [] \<Rightarrow> Some fallback
     | [(_, t)] \<Rightarrow> (case js_Number_of t of
         Some x \<Rightarrow> if x = of_int \<lfloor>x\<rfloor> \<and> least \<le> \<lfloor>x\<rfloor> then Some \<lfloor>x\<rfloor> else None
       | None \<Rightarrow> None)
     | _ \<Rightarrow> None)"

definition paginationPipe :: "(string \<times> string) list \<Rightarrow> exn + PaginationDto" where
  "paginationPipe q =
     (if fst ` set q \<subseteq> {''skip'', ''take''} then
        (case (pageField ''skip'' 0 0 q, pageField ''take'' 1 20 q) of
           (Some sk, Some tk) \<Rightarrow> Inr \<lparr> pg_skip = Some (nat sk), pg_take = Some (nat tk) \<rparr>
         | _ \<Rightarrow> Inl (HttpException 400))
      else Inl (HttpException 400))"

subsection \<open>The routes that read a query\<close>

text \<open>
  \<open>@Query() q: OrderFilter\<close> is a type without decorators, which the pipe passes as it is; an unknown
  status is refused by Prisma.
\<close>

definition statusNamed :: "string \<Rightarrow> order_status option" where
  "statusNamed s = map_of
     [(''created'', OS_created), (''locked'', OS_locked), (''released'', OS_released),
      (''cancelled'', OS_cancelled), (''expired'', OS_expired), (''disputed'', OS_disputed)] s"

definition orderFilter :: "(string \<times> string) list \<Rightarrow> Orders.OrderFilter option" where
  "orderFilter q =
     (let st = map_of q ''status''
      in if truthy st \<and> statusNamed (the st) = None then None
         else Some \<lparr> q_offerId = map_of q ''offerId'', q_buyerId = map_of q ''buyerId'',
           q_sellerId = map_of q ''sellerId'', q_userId = map_of q ''userId'',
           q_status = (if truthy st then statusNamed (the st) else None) \<rparr>)"

definition ctrl_order_list :: "(string \<times> string) list \<Rightarrow> ('z, order_view list) act" where
  "ctrl_order_list q = bindE (lift (paginationPipe q)) (\<lambda>p. case orderFilter q of
       None \<Rightarrow> throw QueryInvalid | Some f \<Rightarrow> order_list p f)"

definition offerFilter :: "(string \<times> string) list \<Rightarrow> Offers.OfferFilter option" where
  "offerFilter q =
     (let st = map_of q ''status''; ty = map_of q ''type'';
          status = map_of [(''active'', FS_active), (''paused'', FS_paused), (''closed'', FS_closed)];
          side = map_of [(''buy'', OT_buy), (''sell'', OT_sell)]
      in if truthy st \<and> status (the st) = None \<or> truthy ty \<and> side (the ty) = None then None
         else Some \<lparr> qf_creatorId = map_of q ''creatorId'', qf_status = (if truthy st then status (the st) else None),
           qf_type = (if truthy ty then side (the ty) else None), qf_assetCode = map_of q ''assetCode'' \<rparr>)"

definition ctrl_offer_list :: "(string \<times> string) list \<Rightarrow> ('z, OfferWithRelations list) act" where
  "ctrl_offer_list q = bindE (lift (paginationPipe q)) (\<lambda>p. case offerFilter q of
       None \<Rightarrow> throw QueryInvalid | Some f \<Rightarrow> offer_list (pg_skip p) (pg_take p) f)"

definition ctrl_escrow_list :: "(string \<times> string) list \<Rightarrow> ('z, escrow list) act" where
  "ctrl_escrow_list q = bindE (lift (paginationPipe q)) (\<lambda>p. escrow_list p (map_of q ''orderId''))"

definition ctrl_chat_list :: "(string \<times> string) list \<Rightarrow> ('z, chat_message list) act" where
  "ctrl_chat_list q = bindE (lift (paginationPipe q))
     (\<lambda>p. chat_list (pg_skip p) (pg_take p) (map_of q ''orderId''))"

definition ctrl_users_list :: "(string \<times> string) list \<Rightarrow> ('z, PublicUser list) act" where
  "ctrl_users_list q = bindE (lift (paginationPipe q)) (\<lambda>p. user_list (pg_skip p) (pg_take p))"

definition ctrl_payment_list :: "(string \<times> string) list \<Rightarrow> ('z, payment_method list) act" where
  "ctrl_payment_list q = bindE (lift (paginationPipe q)) (\<lambda>p. payment_list (pg_skip p) (pg_take p))"

text \<open>\<open>StatsQueryDto\<close> is an ordinary class: its one field has the default \<open>7d\<close>.\<close>

definition ctrl_getStats :: "formats \<Rightarrow> int \<Rightarrow> (string \<times> string) list \<Rightarrow> ('z, stats_report) act" where
  "ctrl_getStats fm tz q =
     andThen (lift (validationPipe fm StatsQueryDto_rules (map (\<lambda>(k, t). (k, JStr t)) q)))
       (getStats tz (Some (get_or (map_of q ''window'') ''7d'')))"

subsection \<open>What the pipe lets through\<close>

text \<open>The columns of an account that no client may write.\<close>

definition protected_columns :: "string list" where
  "protected_columns = [''userId'', ''role'', ''totalVolume'', ''createdAt'', ''kycUpdatedAt'', ''deletedAt'']"

definition creation_columns :: "string list" where
  "creation_columns = [''publicKey'', ''currentNonce'']"

lemma pipe_keys: "validationPipe fm d body = Inr b \<Longrightarrow> b = body \<and> fst ` set b \<subseteq> fst ` set d"
  by (auto simp: validationPipe_def split: if_splits)

text \<open>
  The bodies of the account routes carry no protected column.  Whatever body a client sends to
  create, update or set up an account, if the pipe accepts it then it names neither identifier,
  role, volume nor a time stamp; a wallet address or nonce only when the account is created.
\<close>

theorem account_bodies_protected:
  assumes "validationPipe fm d body = Inr b" "d \<in> {CreateUserDto_rules, UpdateUserDto_rules, SetupAccountDto_rules}"
  shows "fst ` set b \<inter> set protected_columns = {} \<and>
    (d = CreateUserDto_rules \<or> fst ` set b \<inter> set creation_columns = {})"
proof -
  have free: "fst ` set e \<inter> set ks = {}" if "list_all (\<lambda>k. k \<notin> set ks) (map fst e)" for e :: dto and ks
    using that by (auto simp: list_all_iff)
  have "list_all (\<lambda>k. k \<notin> set protected_columns) (map fst CreateUserDto_rules)"
    "list_all (\<lambda>k. k \<notin> set protected_columns) (map fst UpdateUserDto_rules)"
    "list_all (\<lambda>k. k \<notin> set protected_columns) (map fst SetupAccountDto_rules)"
    "list_all (\<lambda>k. k \<notin> set creation_columns) (map fst UpdateUserDto_rules)"
    "list_all (\<lambda>k. k \<notin> set creation_columns) (map fst SetupAccountDto_rules)"
    by (simp_all add: protected_columns_def creation_columns_def CreateUserDto_rules_def UpdateUserDto_rules_def SetupAccountDto_rules_def)
  then have "fst ` set d \<inter> set protected_columns = {}"
    "d = CreateUserDto_rules \<or> fst ` set d \<inter> set creation_columns = {}"
    using assms(2) free by (metis insertE singletonD)+
  then show ?thesis using pipe_keys[OF assms(1)] by blast
qed

definition sample_formats :: formats where
  "sample_formats = \<lparr> isUUID = (\<lambda>_. True), isEmail = (\<lambda>_. True), isNumberString = all_digits \<rparr>"

theorem account_bodies_protected_witness:
  "\<exists>b. validationPipe sample_formats UpdateUserDto_rules [(''kycStatus'', JStr ''approved'')] = Inr b \<and>
     fst ` set b \<inter> set protected_columns = {}"
proof -
  have run: "validationPipe sample_formats UpdateUserDto_rules [(''kycStatus'', JStr ''approved'')] =
      Inr [(''kycStatus'', JStr ''approved'')]"
    by (simp add: validationPipe_def UpdateUserDto_rules_def text_rule_def absent_def)
  have "fst ` set [(''kycStatus'', JStr ''approved'')] \<inter> set protected_columns = {}"
    using account_bodies_protected[OF run] by simp
  with run show ?thesis by (intro exI conjI)
qed

end
