(* ===== verification/Routes.thy ===== *)
theory Routes
  imports RateLimit Kyc Validation
begin

text \<open>
  The controllers: each route with its guards, in the order Nest runs them, and the service call it
  makes.  A route carries the validated body of the request, or its query as the client sent it; its \<open>:id\<close> is read from the
  parameters.  The value a route returns is the one of its service and is not repeated here.
\<close>

subsection \<open>The server process\<close>

text \<open>
  The memory of the process: the listener's, the gateway's, the login limiter's, and the requests the
  throttler has counted, with their times.  \<open>rq_path\<close> is the path as the client wrote it, which the
  router matches without regard to case or a final slash; the route it matched is given apart.
\<close>

record http = http_request +
  rq_path :: string
  rq_ip :: "string option"

record server = chat_world +
  rate_windows :: windows
  counted :: "(http \<times> int) list"

type_synonym ('z, 'a) sact = "('z server_scheme, 'a) prog"

text \<open>
  The environment the process runs in.  \<open>bearer\<close> is passport's check of the bearer token: the payload
  (\<open>sub\<close>, \<open>publicKey\<close>) of a token whose signature and expiry are right at a time.  \<open>throttled\<close> is the
  decision of the throttler library: from the requests it has counted, for a request at a time.
  \<open>utc_offset\<close> is the offset of the zone the process runs in.
\<close>

record env =
  en_services :: services
  en_auth :: auth_env
  en_rules :: rules
  en_kyc :: kyc_env
  en_horizon :: horizon_env
  en_listener :: listener_env
  bearer :: "http \<Rightarrow> int \<Rightarrow> (string \<times> string) option"
  utc_offset :: int
  en_formats :: formats
  throttled :: "(http \<times> int) list \<Rightarrow> http \<Rightarrow> int \<Rightarrow> bool"

definition env_config :: "env \<Rightarrow> config" where
  "env_config env = sv_config (en_services env)"

subsection \<open>Guards of a route\<close>

definition finish :: "('s, 'a) prog \<Rightarrow> ('s, unit) prog" where
  "finish m = andThen m (ret ())"

definition param_id :: "http \<Rightarrow> string" where
  "param_id req = get_or (rq_params req ''id'') []"

definition passport :: "env \<Rightarrow> http \<Rightarrow> ('z, jwt_user) sact" where
  "passport env req = bindE (getState clock) (\<lambda>now. case bearer env req now of
       None \<Rightarrow> throw (HttpException 401)
     | Some (sub, pk) \<Rightarrow> bindE (jwt_validate sub pk) (\<lambda>(userId, publicKey).
         ret \<lparr> ju_userId = Some userId, ju_publicKey = Some publicKey \<rparr>))"

text \<open>\<open>JwtAuthGuard\<close>: the passport check, or the mock user.\<close>

definition authenticated :: "env \<Rightarrow> http \<Rightarrow> (jwt_user \<Rightarrow> ('z, unit) sact) \<Rightarrow> ('z, unit) sact" where
  "authenticated env req k =
     bindE (jwt_canActivate (env_config env) (\<lambda>_. passport env req) (http_request.truncate req)) k"

definition owned :: "env \<Rightarrow> http \<Rightarrow> ResourceType \<Rightarrow> (jwt_user \<Rightarrow> ('z, unit) sact) \<Rightarrow> ('z, unit) sact" where
  "owned env req ty k = authenticated env req (\<lambda>u.
     andThen (owner_canActivate (Some (ty, ''id'')) (Some u) (rq_params req)) (k u))"

definition verified :: "env \<Rightarrow> http \<Rightarrow> (jwt_user \<Rightarrow> ('z, unit) sact) \<Rightarrow> ('z, unit) sact" where
  "verified env req k = authenticated env req (\<lambda>u. andThen (kyc_canActivate (Some u)) (k u))"

definition verified_owner :: "env \<Rightarrow> http \<Rightarrow> ResourceType \<Rightarrow> (jwt_user \<Rightarrow> ('z, unit) sact) \<Rightarrow> ('z, unit) sact" where
  "verified_owner env req ty k = verified env req (\<lambda>u.
     andThen (owner_canActivate (Some (ty, ''id'')) (Some u) (rq_params req)) (k u))"

text \<open>\<open>AuthRateLimitGuard\<close>, over the windows of the process.\<close>

definition rate_limited :: "http \<Rightarrow> ('z, unit) sact \<Rightarrow> ('z, unit) sact" where
  "rate_limited req k = (\<lambda>s.
     case rate_canActivate (rate_key (rq_path req) (rq_ip req)) (clock s) (rate_windows s) of
       (Inl e, ws) \<Rightarrow> (Inl e, s\<lparr>rate_windows := ws\<rparr>)
     | (Inr _, ws) \<Rightarrow> k (s\<lparr>rate_windows := ws\<rparr>))"

subsection \<open>Controllers\<close>

datatype auth_route = AuthCsrf | AuthChallenge string | AuthLogin LoginDto

primrec auth_controller :: "env \<Rightarrow> http \<Rightarrow> auth_route \<Rightarrow> ('z, unit) sact" where
  "auth_controller env req AuthCsrf = finish (getCsrfToken (en_auth env) (http_request.truncate req))"
| "auth_controller env req (AuthChallenge pk) =
     rate_limited req (finish (createChallenge (en_auth env) pk))"
| "auth_controller env req (AuthLogin dto) =
     rate_limited req (finish (login (en_auth env) dto
       \<lparr> rc_ipAddress = rq_ip req, rc_userAgent = rq_header req ''user-agent'', rc_correlationId = None \<rparr>))"

datatype users_route =
    UsersAccount "string option" | UsersEarlyRegister "string option" | UsersValidateAlias string
  | UsersSetup SetupAccountDto | UsersCreate CreateUserDto | UsersList "(string \<times> string) list" | UsersGet
  | UsersUpdate UpdateUserDto | UsersPicture "snapshot_text option" "UploadFileInput option"
  | UsersExport | UsersRemove

primrec users_controller :: "env \<Rightarrow> http \<Rightarrow> users_route \<Rightarrow> ('z, unit) sact" where
  "users_controller env req (UsersAccount pk) = finish (getOrCreateAccount pk)"
| "users_controller env req (UsersEarlyRegister email) = finish (earlyRegister email)"
| "users_controller env req (UsersValidateAlias alias) = authenticated env req (\<lambda>_. finish (isAliasAvailable alias))"
| "users_controller env req (UsersSetup dto) = authenticated env req (\<lambda>u.
     finish (ctrl_users_setup (en_auth env) (en_rules env) u (param_id req) dto))"
| "users_controller env req (UsersCreate dto) = finish (user_create dto)"
| "users_controller env req (UsersList q) = finish (ctrl_users_list q)"
| "users_controller env req UsersGet = finish (user_get (param_id req))"
| "users_controller env req (UsersUpdate dto) = authenticated env req (\<lambda>u. finish (ctrl_users_update u (param_id req) dto))"
| "users_controller env req (UsersPicture snapshot file) = authenticated env req (\<lambda>u.
     finish (ctrl_users_uploadProfilePicture (env_config env) (sv_gcs (en_services env)) u (param_id req) snapshot file))"
| "users_controller env req UsersExport = authenticated env req (\<lambda>u. finish (ctrl_users_export u (param_id req)))"
| "users_controller env req UsersRemove = authenticated env req (\<lambda>u. finish (ctrl_users_remove u (param_id req)))"

datatype offers_route =
  OffersCreate CreateOfferDto | OffersList "(string \<times> string) list" | OffersGet | OffersUpdate UpdateOfferDto | OffersRemove

primrec offers_controller :: "env \<Rightarrow> http \<Rightarrow> offers_route \<Rightarrow> ('z, unit) sact" where
  "offers_controller env req (OffersCreate dto) = authenticated env req (\<lambda>u. finish (ctrl_offer_create u dto))"
| "offers_controller env req (OffersList q) = finish (ctrl_offer_list q)"
| "offers_controller env req OffersGet = finish (offer_get (param_id req))"
| "offers_controller env req (OffersUpdate dto) = authenticated env req (\<lambda>u. finish (ctrl_offer_update u (param_id req) dto))"
| "offers_controller env req OffersRemove = authenticated env req (\<lambda>u. finish (ctrl_offer_remove u (param_id req)))"

datatype orders_route =
    OrdersCreate CreateOrderDto | OrdersList "(string \<times> string) list" | OrdersUserStats string | OrdersCancel | OrdersGet
  | OrdersUpdate UpdateOrderDto | OrdersRemove

primrec orders_controller :: "env \<Rightarrow> http \<Rightarrow> orders_route \<Rightarrow> ('z, unit) sact" where
  "orders_controller env req (OrdersCreate dto) = verified env req (\<lambda>u.
     finish (ctrl_order_create (en_services env) dto (get_or (ju_userId u) [])))"
| "orders_controller env req (OrdersList q) = finish (ctrl_order_list q)"
| "orders_controller env req (OrdersUserStats userId) = finish (order_getUserStats userId)"
| "orders_controller env req OrdersCancel = authenticated env req (\<lambda>u.
     finish (order_cancel (param_id req) (get_or (ju_userId u) [])))"
| "orders_controller env req OrdersGet = owned env req RT_ORDER (\<lambda>_. finish (order_get (param_id req)))"
| "orders_controller env req (OrdersUpdate dto) =
     verified_owner env req RT_ORDER (\<lambda>_. finish (order_update (param_id req) dto))"
| "orders_controller env req OrdersRemove =
     verified_owner env req RT_ORDER (\<lambda>_. finish (order_remove (param_id req)))"

datatype escrows_route =
    EscrowsOpen OpenEscrowDto | EscrowsInitialize InitializeEscrowDto | EscrowsFund FundEscrowDto
  | EscrowsRelease ReleaseEscrowDto | EscrowsSync SyncEscrowDto | EscrowsFiatSent FiatSentDto
  | EscrowsEvidence "UploadFileInput option" | EscrowsStatus | EscrowsCreate CreateEscrowDto
  | EscrowsList "(string \<times> string) list" | EscrowsGet | EscrowsUpdate UpdateEscrowDto | EscrowsRemove

primrec escrows_controller :: "env \<Rightarrow> http \<Rightarrow> escrows_route \<Rightarrow> ('z, unit) sact" where
  "escrows_controller env req (EscrowsOpen dto) = finish (escrow_open (en_services env) dto)"
| "escrows_controller env req (EscrowsInitialize dto) = finish (escrow_initialize (en_services env) dto)"
| "escrows_controller env req (EscrowsFund dto) = finish (escrow_fund (en_services env) dto)"
| "escrows_controller env req (EscrowsRelease dto) = finish (escrow_release (en_services env) dto)"
| "escrows_controller env req (EscrowsSync dto) = finish (escrow_syncTransaction (en_services env) dto)"
| "escrows_controller env req (EscrowsFiatSent dto) = owned env req RT_ESCROW (\<lambda>_.
     finish (escrow_markFiatSent (en_services env) (param_id req) dto))"
| "escrows_controller env req (EscrowsEvidence file) = owned env req RT_ESCROW (\<lambda>_.
     finish (escrow_uploadEvidence (en_services env) (param_id req) file))"
| "escrows_controller env req EscrowsStatus = owned env req RT_ESCROW (\<lambda>_.
     finish (escrow_getStatus (en_services env) (param_id req)))"
| "escrows_controller env req (EscrowsCreate dto) = finish (escrow_create dto)"
| "escrows_controller env req (EscrowsList q) = finish (ctrl_escrow_list q)"
| "escrows_controller env req EscrowsGet = owned env req RT_ESCROW (\<lambda>_. finish (escrow_get (param_id req)))"
| "escrows_controller env req (EscrowsUpdate dto) = owned env req RT_ESCROW (\<lambda>_. finish (escrow_update (param_id req) dto))"
| "escrows_controller env req EscrowsRemove = owned env req RT_ESCROW (\<lambda>_. finish (escrow_remove (param_id req)))"

datatype payments_route =
  PaymentsCreate CreatePaymentMethodDto | PaymentsList "(string \<times> string) list" | PaymentsGet | PaymentsUpdate UpdatePaymentMethodDto | PaymentsRemove

primrec payments_controller :: "env \<Rightarrow> http \<Rightarrow> payments_route \<Rightarrow> ('z, unit) sact" where
  "payments_controller env req (PaymentsCreate dto) = finish (payment_create (en_rules env) dto)"
| "payments_controller env req (PaymentsList q) = finish (ctrl_payment_list q)"
| "payments_controller env req PaymentsGet = owned env req RT_PAYMENT_METHOD (\<lambda>_. finish (payment_get (param_id req)))"
| "payments_controller env req (PaymentsUpdate dto) =
     owned env req RT_PAYMENT_METHOD (\<lambda>_. finish (payment_update (en_rules env) (param_id req) dto))"
| "payments_controller env req PaymentsRemove =
     owned env req RT_PAYMENT_METHOD (\<lambda>_. finish (payment_remove (param_id req)))"

datatype chat_route = ChatCreate CreateChatMessageDto | ChatList "(string \<times> string) list" | ChatGet | ChatRemove

primrec chat_controller :: "env \<Rightarrow> http \<Rightarrow> chat_route \<Rightarrow> ('z, unit) sact" where
  "chat_controller env req (ChatCreate dto) = finish (ctrl_chat_create dto)"
| "chat_controller env req (ChatList q) = finish (ctrl_chat_list q)"
| "chat_controller env req ChatGet = authenticated env req (\<lambda>u. finish (ctrl_chat_get u (rq_params req)))"
| "chat_controller env req ChatRemove = authenticated env req (\<lambda>u. finish (ctrl_chat_remove u (rq_params req)))"

datatype kyc_route = KycStart "string option" | KycStatus "string option" | KycWebhook VerifyWebhookSignatureOptions

primrec kyc_controller :: "env \<Rightarrow> http \<Rightarrow> kyc_route \<Rightarrow> ('z, unit) sact" where
  "kyc_controller env req (KycStart userId) = finish (ctrl_kyc_start (en_kyc env) userId)"
| "kyc_controller env req (KycStatus userId) = finish (ctrl_kyc_status userId)"
| "kyc_controller env req (KycWebhook opts) = finish (ctrl_kyc_webhook (en_kyc env) opts)"

datatype send_route = SendResolve "string option" | SendPrepare string string | SendSubmit string

primrec send_controller :: "env \<Rightarrow> http \<Rightarrow> send_route \<Rightarrow> ('z, unit) sact" where
  "send_controller env req (SendResolve recipient) =
     authenticated env req (\<lambda>_. finish (ctrl_send_resolve (en_horizon env) recipient))"
| "send_controller env req (SendPrepare recipient amount) = authenticated env req (\<lambda>u.
     finish (prepare (en_horizon env) (get_or (ju_publicKey u) []) recipient amount))"
| "send_controller env req (SendSubmit xdr) = authenticated env req (\<lambda>_. finish (lift (submit (en_horizon env) xdr)))"

datatype stellar_route =
    StellarAccount string | StellarBalances string | StellarMyTransactions "string option"
  | StellarTransactions string "string option" | StellarPay SendPaymentDto

primrec stellar_controller :: "env \<Rightarrow> http \<Rightarrow> stellar_route \<Rightarrow> ('z, unit) sact" where
  "stellar_controller env req (StellarAccount pk) = finish (lift (getAccount (en_horizon env) pk))"
| "stellar_controller env req (StellarBalances pk) = finish (lift (getBalances (en_horizon env) pk))"
| "stellar_controller env req (StellarMyTransactions limit) = authenticated env req (\<lambda>u.
     finish (lift (ctrl_getTransactions (en_horizon env) (get_or (ju_publicKey u) []) limit)))"
| "stellar_controller env req (StellarTransactions pk limit) =
     finish (lift (ctrl_getTransactions (en_horizon env) pk limit))"
| "stellar_controller env req (StellarPay dto) = finish (lift (ctrl_sendPayment (en_horizon env) dto))"

text \<open>\<open>GET /payment-providers\<close>, \<open>GET /health\<close>: any failure of the query is a 503.\<close>

definition providers_findAll :: "('z, payment_provider list) act" where
  "providers_findAll = bindE (findMany provider_table pp_is_active) (\<lambda>ps. ret (sort_key pp_name ps))"

definition getHealth :: "('z, unit) act" where
  "getHealth = tryCatch (db_call (ret ())) (\<lambda>_. throw (HttpException 503))"

end
