(* ===== verification/Server.thy ===== *)
theory Server
  imports Routes
begin

text \<open>
  The whole process: an HTTP request passes the throttler, the CSRF guard and the guards of its
  route before its handler runs; beside the requests there are the events of the chat sockets, the
  cycles of the chain listener, the scheduled jobs, the clock, and the failures of the database.
  \<open>run\<close> is the state after any sequence of such events.
\<close>

subsection \<open>HTTP\<close>

datatype route =
    RAuth auth_route | RUsers users_route | ROffers offers_route | ROrders orders_route
  | REscrows escrows_route | RPayments payments_route | RChat chat_route | RKyc kyc_route
  | RSend send_route | RStellar stellar_route | RStats "(string \<times> string) list" | RProviders | RHealth | RHello

primrec controller :: "env \<Rightarrow> http \<Rightarrow> route \<Rightarrow> ('z, unit) sact" where
  "controller env req (RAuth r) = auth_controller env req r"
| "controller env req (RUsers r) = users_controller env req r"
| "controller env req (ROffers r) = offers_controller env req r"
| "controller env req (ROrders r) = orders_controller env req r"
| "controller env req (REscrows r) = escrows_controller env req r"
| "controller env req (RPayments r) = payments_controller env req r"
| "controller env req (RChat r) = chat_controller env req r"
| "controller env req (RKyc r) = kyc_controller env req r"
| "controller env req (RSend r) = send_controller env req r"
| "controller env req (RStellar r) = stellar_controller env req r"
| "controller env req (RStats q) = finish (ctrl_getStats (en_formats env) (utc_offset env) q)"
| "controller env req RProviders = finish providers_findAll"
| "controller env req RHealth = getHealth"
| "controller env req RHello = ret ()"

text \<open>The decorators \<open>@Get\<close>, \<open>@Post\<close>, \<open>@Patch\<close>, \<open>@Delete\<close> of the routes.\<close>

fun route_method :: "route \<Rightarrow> string" where
  "route_method (RAuth r) = (case r of AuthCsrf \<Rightarrow> ''GET'' | _ \<Rightarrow> ''POST'')"
| "route_method (RUsers r) = (case r of UsersAccount _ \<Rightarrow> ''GET'' | UsersValidateAlias _ \<Rightarrow> ''GET''
     | UsersList _ \<Rightarrow> ''GET'' | UsersGet \<Rightarrow> ''GET'' | UsersExport \<Rightarrow> ''GET''
     | UsersUpdate _ \<Rightarrow> ''PATCH'' | UsersPicture _ _ \<Rightarrow> ''PATCH'' | UsersRemove \<Rightarrow> ''DELETE'' | _ \<Rightarrow> ''POST'')"
| "route_method (ROffers r) = (case r of OffersCreate _ \<Rightarrow> ''POST'' | OffersUpdate _ \<Rightarrow> ''PATCH''
     | OffersRemove \<Rightarrow> ''DELETE'' | _ \<Rightarrow> ''GET'')"
| "route_method (ROrders r) = (case r of OrdersCreate _ \<Rightarrow> ''POST'' | OrdersCancel \<Rightarrow> ''POST''
     | OrdersUpdate _ \<Rightarrow> ''PATCH'' | OrdersRemove \<Rightarrow> ''DELETE'' | _ \<Rightarrow> ''GET'')"
| "route_method (REscrows r) = (case r of EscrowsStatus \<Rightarrow> ''GET'' | EscrowsList _ \<Rightarrow> ''GET'' | EscrowsGet \<Rightarrow> ''GET''
     | EscrowsUpdate _ \<Rightarrow> ''PATCH'' | EscrowsRemove \<Rightarrow> ''DELETE'' | _ \<Rightarrow> ''POST'')"
| "route_method (RPayments r) = (case r of PaymentsCreate _ \<Rightarrow> ''POST'' | PaymentsUpdate _ \<Rightarrow> ''PATCH''
     | PaymentsRemove \<Rightarrow> ''DELETE'' | _ \<Rightarrow> ''GET'')"
| "route_method (RChat r) = (case r of ChatCreate _ \<Rightarrow> ''POST'' | ChatRemove \<Rightarrow> ''DELETE'' | _ \<Rightarrow> ''GET'')"
| "route_method (RKyc r) = (case r of KycStatus _ \<Rightarrow> ''GET'' | _ \<Rightarrow> ''POST'')"
| "route_method (RSend r) = (case r of SendResolve _ \<Rightarrow> ''GET'' | _ \<Rightarrow> ''POST'')"
| "route_method (RStellar r) = (case r of StellarPay _ \<Rightarrow> ''POST'' | _ \<Rightarrow> ''GET'')"
| "route_method (RStats _) = ''GET''"
| "route_method RProviders = ''GET''"
| "route_method RHealth = ''GET''"
| "route_method RHello = ''GET''"

text \<open>Express serves a \<open>HEAD\<close> request by the route of the \<open>GET\<close> request.\<close>

definition serves :: "string option \<Rightarrow> route \<Rightarrow> bool" where
  "serves m r \<longleftrightarrow> m = Some (route_method r) \<or> m = Some ''HEAD'' \<and> route_method r = ''GET''"

text \<open>\<open>@CsrfExempt()\<close> and \<open>@SkipThrottle()\<close>.\<close>

fun csrf_exempt :: "route \<Rightarrow> bool" where
  "csrf_exempt (RKyc (KycWebhook _)) = True"
| "csrf_exempt _ = False"

fun skip_throttle :: "route \<Rightarrow> bool" where
  "skip_throttle RHealth = True"
| "skip_throttle RHello = True"
| "skip_throttle _ = False"

text \<open>\<open>CustomThrottlerGuard\<close>: a request over the limit is logged and refused.\<close>

definition throttler_canActivate :: "env \<Rightarrow> http \<Rightarrow> route \<Rightarrow> ('z, unit) sact" where
  "throttler_canActivate env req r =
     (if skip_throttle r then ret ()
      else bindE (getState clock) (\<lambda>now. bindE (getState counted) (\<lambda>past.
           andThen (modify (\<lambda>s. s\<lparr>counted := (req, now) # past\<rparr>))
             (throwIf (throttled env past req now) (HttpException 429)))))"

text \<open>The two global guards, in their order, then the controller.\<close>

definition handle :: "env \<Rightarrow> http \<Rightarrow> route \<Rightarrow> ('z, unit) sact" where
  "handle env req r =
     (if \<not> serves (rq_method req) r then throw (HttpException 404)
      else andThen (throttler_canActivate env req r)
       (andThen (lift (csrf_canActivate (csrf_exempt r) (http_request.truncate req)))
         (controller env req r)))"

subsection \<open>Events\<close>

datatype event =
    Request http route
  | JoinOrder ChatSocket "json option"
  | LeaveOrder ChatSocket "json option"
  | SendMessage ChatSocket "json option"
  | Disconnecting ChatSocket
  | ListenerStart
  | ListenerPoll
  | ListenerStop
  | ExpireOrders
  | CleanChallenges
  | TimePasses nat
  | DatabaseFails "bool list"

primrec process :: "env \<Rightarrow> event \<Rightarrow> ('z, unit) sact" where
  "process env (Request req r) = handle env req r"
| "process env (JoinOrder sk body) = finish (joinOrder (env_config env) sk body)"
| "process env (LeaveOrder sk body) = finish (leaveOrder sk body)"
| "process env (SendMessage sk body) = finish (sendMessage (env_config env) sk body)"
| "process env (Disconnecting sk) = handleDisconnecting sk"
| "process env ListenerStart = listener_onModuleInit"
| "process env ListenerPoll = pollEventsWithRecovery (en_listener env)"
| "process env ListenerStop = stopListening"
| "process env ExpireOrders = cron_expireOrders (en_services env)"
| "process env CleanChallenges = cleanupExpiredChallenges"
| "process env (TimePasses n) = modify (\<lambda>s. s\<lparr>clock := clock s + int n\<rparr>)"
| "process env (DatabaseFails bs) = modify (\<lambda>s. s\<lparr>faults := bs\<rparr>)"

text \<open>The state after the events, whatever each of them answered.\<close>

primrec run :: "env \<Rightarrow> event list \<Rightarrow> 'z server_scheme \<Rightarrow> 'z server_scheme" where
  "run env [] s = s"
| "run env (ev # evs) s = run env evs (snd (process env ev s))"

lemma run_append: "run env (as @ bs) s = run env bs (run env as s)"
  by (induction as arbitrary: s) simp_all

text \<open>A relation between tables that every event obeys, every run does.\<close>

context table_relation
begin

lemma run_obeys:
  assumes "\<And>ev. obeys (on_tables P) (process env ev :: ('z, unit) sact)"
  shows "P (tables s) (tables (run env evs (s :: 'z server_scheme)))"
proof (induction evs arbitrary: s)
  case (Cons ev evs)
  have "P (tables s) (tables (snd (process env ev s)))"
    using obeysD[OF assms] by (simp add: on_tables_def)
  with Cons.IH show ?case by (simp add: comp[OF _ Cons.IH])
qed (simp add: same)

end

end
