(* ===== verification/Surface.thy ===== *)
theory Surface
  imports Footprints Server GuardProps
begin

text \<open>
  What a request and an event may write, route by route, and what follows for the attack surface:
  which routes write for a caller without a token, and which without a CSRF token.
\<close>

subsection \<open>The footprint of a route\<close>

fun footprint :: "route \<Rightarrow> kind set" where
  "footprint (RAuth r) = (case r of AuthCsrf \<Rightarrow> {} | AuthChallenge _ \<Rightarrow> {ChallengeWrite}
     | AuthLogin _ \<Rightarrow> {ChallengeWrite, UserAdd, AuditAdd})"
| "footprint (RUsers r) = (case r of
       UsersAccount _ \<Rightarrow> {UserAdd} | UsersEarlyRegister _ \<Rightarrow> {WaitlistWrite}
     | UsersSetup _ \<Rightarrow> {UserSet, MethodAdd} | UsersCreate _ \<Rightarrow> {UserAdd}
     | UsersUpdate _ \<Rightarrow> {UserSet} | UsersPicture _ _ \<Rightarrow> {UserSet} | UsersExport \<Rightarrow> {AuditAdd}
     | UsersRemove \<Rightarrow> {UserSet, MethodDrop, ChatScrub, AuditScrub, WaitlistWrite, AuditAdd}
     | _ \<Rightarrow> {})"
| "footprint (ROffers r) = (case r of OffersCreate _ \<Rightarrow> {OfferAdd, AuditAdd}
     | OffersUpdate _ \<Rightarrow> {OfferSet, AuditAdd} | OffersRemove \<Rightarrow> {OfferDrop, AuditAdd} | _ \<Rightarrow> {})"
| "footprint (ROrders r) = (case r of OrdersCreate _ \<Rightarrow> {OrderAdd, EscrowAdd, OfferSet, AuditAdd}
     | OrdersCancel \<Rightarrow> {OrderSet} | OrdersUpdate _ \<Rightarrow> {OrderSet, AuditAdd}
     | OrdersRemove \<Rightarrow> {OrderDrop, AuditAdd} | _ \<Rightarrow> {})"
| "footprint (REscrows r) = (case r of EscrowsOpen _ \<Rightarrow> {EscrowAdd, EscrowMove, AuditAdd}
     | EscrowsInitialize _ \<Rightarrow> {EscrowAdd, EscrowEdit, AuditAdd} | EscrowsSync _ \<Rightarrow> {EscrowMove, AuditAdd}
     | EscrowsEvidence _ \<Rightarrow> {EscrowEdit} | EscrowsCreate _ \<Rightarrow> {EscrowAdd}
     | EscrowsUpdate _ \<Rightarrow> {EscrowEdit} | EscrowsRemove \<Rightarrow> {EscrowDrop} | _ \<Rightarrow> {})"
| "footprint (RPayments r) = (case r of PaymentsCreate _ \<Rightarrow> {MethodAdd, AuditAdd}
     | PaymentsUpdate _ \<Rightarrow> {MethodSet, AuditAdd} | PaymentsRemove \<Rightarrow> {MethodDrop, AuditAdd} | _ \<Rightarrow> {})"
| "footprint (RChat r) = (case r of ChatCreate _ \<Rightarrow> {ChatAdd} | ChatRemove \<Rightarrow> {ChatDrop} | _ \<Rightarrow> {})"
| "footprint (RKyc r) = (case r of KycWebhook _ \<Rightarrow> {UserSet, AuditAdd} | _ \<Rightarrow> {})"
| "footprint _ = {}"

primrec event_footprint :: "event \<Rightarrow> kind set" where
  "event_footprint (Request req r) = footprint r"
| "event_footprint (JoinOrder sk body) = {}"
| "event_footprint (LeaveOrder sk body) = {}"
| "event_footprint (SendMessage sk body) = {ChatAdd}"
| "event_footprint (Disconnecting sk) = {}"
| "event_footprint ListenerStart = {}"
| "event_footprint ListenerPoll = {EscrowMove, OrderSet, AuditAdd}"
| "event_footprint ListenerStop = {}"
| "event_footprint ExpireOrders = {OrderSet}"
| "event_footprint CleanChallenges = {ChallengeWrite}"
| "event_footprint (TimePasses n) = {}"
| "event_footprint (DatabaseFails bs) = {}"

lemma fp_finish: "footprint_of K m \<Longrightarrow> footprint_of K (finish m)"
  unfolding finish_def by (intro fp_flow)

lemma fp_authenticated: "(\<And>u. footprint_of K (k u)) \<Longrightarrow> footprint_of K (authenticated env req k)"
  unfolding authenticated_def jwt_canActivate_def passport_def by (intro fp_flow fp_guards)

lemma fp_guarded:
  "(\<And>u. footprint_of K (k u)) \<Longrightarrow> footprint_of K (owned env req ty k)"
  "(\<And>u. footprint_of K (k u)) \<Longrightarrow> footprint_of K (verified env req k)"
  "(\<And>u. footprint_of K (k u)) \<Longrightarrow> footprint_of K (verified_owner env req ty k)"
  "footprint_of K m \<Longrightarrow> footprint_of K (kyc_guarded u m)"
  unfolding owned_def verified_owner_def verified_def kyc_guarded_def by (intro fp_flow fp_guards fp_authenticated; simp)+

lemma fp_rate_limited:
  assumes "footprint_of K k" shows "footprint_of K (rate_limited req k)"
proof -
  have "on_tables (writes K) s (snd (k t))" if "tables t = tables s" for s t :: "'a server_scheme"
    using obeysD[OF assms, of t] that by (simp add: on_tables_def)
  then show ?thesis
    by (auto simp: obeys_def rate_limited_def on_tables_def wr.same split: prod.split sum.split)
qed

lemmas fp_routes = fp_finish fp_authenticated fp_guarded fp_rate_limited

lemma fp_own_account: "footprint_of K (ownAccount u i)"
  unfolding ownAccount_def by (intro fp_flow fp_user_reads)

lemma fp_ctrl_users:
  "footprint_of {UserSet, MethodAdd} (ctrl_users_setup a rs u i d1)"
  "footprint_of {UserSet} (ctrl_users_update u i d2)"
  "footprint_of {AuditAdd} (ctrl_users_export u i)"
  "footprint_of {UserSet, MethodDrop, ChatScrub, AuditScrub, WaitlistWrite, AuditAdd} (ctrl_users_remove u i)"
  "footprint_of {UserSet} (ctrl_users_uploadProfilePicture cfg gcs u i snap file)"
  unfolding ctrl_users_setup_def ctrl_users_update_def ctrl_users_export_def ctrl_users_remove_def
    ctrl_users_uploadProfilePicture_def
  by (auto intro!: fp_user_writes fp_own_account fp_flow split: option.split snapshot_text.split)

lemma fp_ctrl_others:
  "footprint_of {OfferAdd, AuditAdd} (ctrl_offer_create u d1)"
  "footprint_of {OfferSet, AuditAdd} (ctrl_offer_update u i d2)"
  "footprint_of {OfferDrop, AuditAdd} (ctrl_offer_remove u i)"
  "footprint_of {OrderAdd, EscrowAdd, OfferSet, AuditAdd} (ctrl_order_create sv d3 i)"
  "footprint_of {ChatAdd} (ctrl_chat_create d4)"
  "footprint_of {} (ctrl_chat_get u params)"
  "footprint_of {ChatDrop} (ctrl_chat_remove u params)"
  "footprint_of {} providers_findAll"
  "footprint_of {} getHealth"
  unfolding ctrl_offer_create_def ctrl_offer_update_def ctrl_offer_remove_def ctrl_order_create_def
    ctrl_chat_create_def ctrl_chat_get_def ctrl_chat_remove_def providers_findAll_def getHealth_def
  by (intro fp_flow fp_guarded fp_guards fp_offers fp_order_create fp_chat)+

lemma fp_queries:
  "footprint_of {} (ctrl_getStats fm tz q)" "footprint_of {} (ctrl_users_list q)" "footprint_of {} (ctrl_offer_list q)"
  "footprint_of {} (ctrl_order_list q)" "footprint_of {} (ctrl_escrow_list q)" "footprint_of {} (ctrl_payment_list q)"
  "footprint_of {} (ctrl_chat_list q)"
  unfolding ctrl_getStats_def ctrl_users_list_def ctrl_offer_list_def ctrl_order_list_def ctrl_escrow_list_def
    ctrl_payment_list_def ctrl_chat_list_def getStats_def Let_def
  by (intro fp_flow fp_user_reads fp_offers fp_order_reads fp_escrow_reads fp_payment fp_chat)+

lemmas fp_handlers = fp_auth fp_user_reads fp_user_writes fp_ctrl_users fp_ctrl_others fp_queries fp_offers fp_order_reads
  fp_order_writes fp_escrow_reads fp_escrow_open fp_escrow_initialize fp_escrow_sync fp_escrow_crud fp_payment
  fp_chat fp_kyc fp_send wr.eff.ob_lift wr.eff.ob_ret

lemma auth_footprint: "footprint_of (footprint (RAuth r)) (auth_controller env req r)"
  by (cases r; simp; intro fp_routes fp_handlers)

lemma users_footprint: "footprint_of (footprint (RUsers r)) (users_controller env req r)"
  by (cases r; simp; intro fp_routes fp_handlers)

lemma offers_footprint: "footprint_of (footprint (ROffers r)) (offers_controller env req r)"
  by (cases r; simp; intro fp_routes fp_handlers)

lemma orders_footprint: "footprint_of (footprint (ROrders r)) (orders_controller env req r)"
  by (cases r; simp; intro fp_routes fp_handlers)

lemma escrows_footprint: "footprint_of (footprint (REscrows r)) (escrows_controller env req r)"
  by (cases r; simp; intro fp_routes fp_handlers)

lemma payments_footprint: "footprint_of (footprint (RPayments r)) (payments_controller env req r)"
  by (cases r; simp; intro fp_routes fp_handlers)

lemma chat_footprint: "footprint_of (footprint (RChat r)) (chat_controller env req r)"
  by (cases r; simp; intro fp_routes fp_handlers)

lemma kyc_footprint: "footprint_of (footprint (RKyc r)) (kyc_controller env req r)"
  by (cases r; simp; intro fp_routes fp_handlers)

lemma send_footprint: "footprint_of (footprint (RSend r)) (send_controller env req r)"
  by (cases r; simp; intro fp_routes fp_handlers)

lemma stellar_footprint: "footprint_of (footprint (RStellar r)) (stellar_controller env req r)"
  by (cases r; simp; intro fp_routes fp_handlers)

lemma controller_footprint: "footprint_of (footprint r) (controller env req r)"
  by (cases r) (simp_all add: auth_footprint users_footprint offers_footprint orders_footprint escrows_footprint
      payments_footprint chat_footprint kyc_footprint send_footprint stellar_footprint fp_finish fp_queries fp_ctrl_others wr.eff.ob_ret
      del: footprint.simps, simp_all add: fp_finish fp_queries fp_ctrl_others)

lemma handle_footprint: "footprint_of (footprint r) (handle env req r)"
  unfolding handle_def throttler_canActivate_def by (intro fp_flow wr.ob_world controller_footprint) simp

lemma process_footprint: "footprint_of (event_footprint ev) (process env ev)"
  by (cases ev; simp add: handle_footprint stopListening_def wr.ob_world;
      intro fp_finish fp_gateway fp_listener_start fp_poll fp_expiry fp_auth)

subsection \<open>Routes without a guard\<close>

text \<open>The routes that have no authentication guard and write to the database.\<close>

fun open_route :: "route \<Rightarrow> bool" where
  "open_route (RAuth r) = (case r of AuthCsrf \<Rightarrow> False | _ \<Rightarrow> True)"
| "open_route (RUsers r) =
     (case r of UsersAccount _ \<Rightarrow> True | UsersEarlyRegister _ \<Rightarrow> True | UsersCreate _ \<Rightarrow> True | _ \<Rightarrow> False)"
| "open_route (REscrows r) =
     (case r of EscrowsOpen _ \<Rightarrow> True | EscrowsInitialize _ \<Rightarrow> True | EscrowsSync _ \<Rightarrow> True
      | EscrowsCreate _ \<Rightarrow> True | _ \<Rightarrow> False)"
| "open_route (RPayments r) = (case r of PaymentsCreate _ \<Rightarrow> True | _ \<Rightarrow> False)"
| "open_route (RChat r) = (case r of ChatCreate _ \<Rightarrow> True | _ \<Rightarrow> False)"
| "open_route (RKyc r) = (case r of KycWebhook _ \<Rightarrow> True | _ \<Rightarrow> False)"
| "open_route _ = False"

definition mock_login :: "env \<Rightarrow> bool" where
  "mock_login env \<longleftrightarrow> env_config env ''MOCK_PROFILE_UPLOAD'' = Some ''true''"

lemma fp_nothing: "footprint_of {} m \<Longrightarrow> tables (snd (m s)) = tables s"
  using obeysD[of "on_tables (writes {})" m s] by (auto simp: on_tables_def writes_def elim: rtranclp.cases)

lemma no_token_no_entry:
  assumes "bearer env req (clock s) = None" "\<not> mock_login env"
  shows "authenticated env req k s = (Inl (HttpException 401), s)"
  using assms by (simp add: authenticated_def jwt_canActivate_def mock_login_def passport_def bindE_def throw_def getState_def)

lemma no_token_guarded:
  assumes "bearer env req (clock s) = None" "\<not> mock_login env"
  shows "snd (owned env req ty k s) = s" "snd (verified env req k s) = s" "snd (verified_owner env req ty k s) = s"
    "snd (authenticated env req k s) = s"
  by (simp_all add: owned_def verified_owner_def verified_def no_token_no_entry[OF assms])

text \<open>A route that is not open writes nothing for a request without a token.\<close>

lemma closed_controller:
  assumes "bearer env req (clock s) = None" "\<not> mock_login env" "\<not> open_route r"
  shows "tables (snd (controller env req r s)) = tables s"
proof (cases "footprint r = {}")
  case True
  have "footprint_of (footprint r) (controller env req r)"
    by (rule controller_footprint)
  then show ?thesis unfolding True by (rule fp_nothing)
next
  case False
  note guarded = no_token_guarded[OF assms(1,2)]
  show ?thesis
  proof (cases r)
    case (RAuth x) with False assms(3) show ?thesis by (cases x) auto
  next
    case (RUsers x) with False assms(3) show ?thesis by (cases x) (auto simp: guarded)
  next
    case (ROffers x) with False assms(3) show ?thesis by (cases x) (auto simp: guarded)
  next
    case (ROrders x) with False assms(3) show ?thesis by (cases x) (auto simp: guarded)
  next
    case (REscrows x) with False assms(3) show ?thesis by (cases x) (auto simp: guarded)
  next
    case (RPayments x) with False assms(3) show ?thesis by (cases x) (auto simp: guarded)
  next
    case (RChat x) with False assms(3) show ?thesis by (cases x) (auto simp: guarded)
  next
    case (RKyc x) with False assms(3) show ?thesis by (cases x) auto
  qed (use False in simp_all)
qed

text \<open>The global guards leave the tables and the clock as they are.\<close>

lemma handle_run:
  "\<exists>t. tables t = tables s \<and> clock t = clock s \<and>
    (snd (handle env req r s) = t \<or>
     serves (rq_method req) r \<and> \<not> isl (csrf_canActivate (csrf_exempt r) (http_request.truncate req)) \<and>
       snd (handle env req r s) = snd (controller env req r t))"
proof -
  let ?c = "csrf_canActivate (csrf_exempt r) (http_request.truncate req)"
  have "\<exists>t. tables t = tables s \<and> clock t = clock s \<and>
      (throttler_canActivate env req r s = (Inr (), t) \<or> (\<exists>e. throttler_canActivate env req r s = (Inl e, t)))"
    by (simp add: throttler_canActivate_def run_defs throwIf_def)
  then obtain t where t: "tables t = tables s" "clock t = clock s"
      "throttler_canActivate env req r s = (Inr (), t) \<or> (\<exists>e. throttler_canActivate env req r s = (Inl e, t))" by blast
  then show ?thesis
    by (cases ?c; cases "serves (rq_method req) r")
      (auto simp: handle_def run_defs intro!: exI[of _ t])
qed

end
