(* ===== verification/SurfaceProps.thy ===== *)
theory SurfaceProps
  imports Surface OrderProps ListenerProps UserProps KycProps SendProps ChatProps
begin

text \<open>
  The attack surface as theorems over whole requests: which routes can write without a token, and
  which without a matching CSRF token.
\<close>

text \<open>The GET routes that write: the account lookup creates an account, the export is audited.\<close>

fun writing_get :: "route \<Rightarrow> bool" where
  "writing_get (RUsers (UsersAccount _)) = True"
| "writing_get (RUsers UsersExport) = True"
| "writing_get _ = False"

text \<open>
  C6.  No write without a token.  A request that carries no valid bearer token, on a server whose mock
  login is off, leaves every table as it is, unless its route is one of the twelve open ones:
  challenge and login, the account lookup, early registration and user creation, opening,
  initialising, synchronising and creating an escrow, creating a payment method or a chat message, the
  KYC webhook.
\<close>

theorem no_write_without_token:
  assumes "bearer env req (clock s) = None" "\<not> mock_login env" "\<not> open_route r"
  shows "tables (snd (handle env req r s)) = tables s"
proof -
  obtain t where t: "tables t = tables s" "clock t = clock s"
    "snd (handle env req r s) = t \<or> snd (handle env req r s) = snd (controller env req r t)"
    using handle_run[of s env req r] by blast
  with closed_controller[of env req t r] assms show ?thesis by auto
qed

text \<open>
  C7.  No write without the CSRF token.  When a request changes a table, it sent the same non-empty
  token as cookie and as header or body field, or its route is the KYC webhook, which is exempt, or
  one of two GET routes: the account lookup, which creates an account, and the data export, which is
  audited.
\<close>

theorem csrf_covers_writes:
  assumes "tables (snd (handle env req r s)) \<noteq> tables s"
  shows "(\<exists>tok. tok \<noteq> [] \<and> cookieToken (http_request.truncate req) = Some tok \<and>
       submittedToken (http_request.truncate req) = Some tok) \<or>
     writing_get r \<or> (\<exists>opts. r = RKyc (KycWebhook opts))"
proof (rule ccontr)
  let ?q = "http_request.truncate req"
  assume no: "\<not> ?thesis"
  obtain t where t: "tables t = tables s" "snd (handle env req r s) = t \<or>
      serves (rq_method req) r \<and> \<not> isl (csrf_canActivate (csrf_exempt r) ?q) \<and>
        snd (handle env req r s) = snd (controller env req r t)"
    using handle_run[of s env req r] by blast
  with assms have csrf: "serves (rq_method req) r" "\<not> isl (csrf_canActivate (csrf_exempt r) ?q)"
    and ran: "tables (snd (controller env req r t)) \<noteq> tables t" by auto
  have "\<not> csrf_exempt r" using no by (cases r rule: csrf_exempt.cases) auto
  with csrf no have safe: "toUpper (route_method r) \<in> set safeMethods \<or> route_method r = [] \<or> route_method r = ''GET''"
    by (cases "cookieToken ?q"; cases "submittedToken ?q")
      (auto simp: serves_def csrf_canActivate_def Let_def utf8_inj http_request.defs split: if_splits)
  have posts: "toUpper ''POST'' \<notin> set safeMethods" "toUpper ''PATCH'' \<notin> set safeMethods"
    "toUpper ''DELETE'' \<notin> set safeMethods" by code_simp+
  have "footprint r = {} \<or> writing_get r"
  proof (cases r)
    case (RAuth x) with safe posts show ?thesis by (cases x) auto
  next
    case (RUsers x) with safe posts show ?thesis by (cases x) auto
  next
    case (ROffers x) with safe posts show ?thesis by (cases x) auto
  next
    case (ROrders x) with safe posts show ?thesis by (cases x) auto
  next
    case (REscrows x) with safe posts show ?thesis by (cases x) auto
  next
    case (RPayments x) with safe posts show ?thesis by (cases x) auto
  next
    case (RChat x) with safe posts show ?thesis by (cases x) auto
  next
    case (RKyc x) with safe posts show ?thesis by (cases x) auto
  qed simp_all
  then have "tables (snd (controller env req r t)) = tables t"
    using no controller_footprint[of r env req] fp_nothing[of "controller env req r" t] by auto
  with ran show False by simp
qed

subsection \<open>A server, and its requests\<close>

definition server_env :: "(string \<times> string) option \<Rightarrow> env" where
  "server_env tok = \<lparr> en_services = sample_services ''SUCCESS'', en_auth = sample_auth, en_rules = initialRules,
     en_kyc = sample_kyc, en_horizon = sample_horizon, en_listener = sample_env, bearer = (\<lambda>_ _. tok), utc_offset = 0,
     en_formats = sample_formats, throttled = (\<lambda>_ _ _. False) \<rparr>"

definition server_start :: "db \<Rightarrow> server" where
  "server_start d = chat_world.extend (listener.extend (world.extend (quiet_world d) (listener.fields None {} False))
     (chat_world.fields [] [])) (server.fields Map.empty [])"

lemma server_start_simps [simp]:
  "tables (server_start d) = d" "faults (server_start d) = []" "clock (server_start d) = 1000"
  "uuid_next (server_start d) = 0" "uuid_source (server_start d) n = CHR ''u'' # replicate n (CHR ''-'')"
  by (simp_all add: server_start_def world.defs listener.defs chat_world.defs server.defs)

definition tokens :: "string \<Rightarrow> string option" where
  "tokens = [''cookie'' \<mapsto> ''_csrf=t0k'', ''x-csrf-token'' \<mapsto> ''t0k'']"

definition sample_http :: "route \<Rightarrow> string \<Rightarrow> http" where
  "sample_http r i = \<lparr> rq_method = Some (route_method r), rq_header = tokens, rq_body = None,
     rq_params = [''id'' \<mapsto> i], rq_path = [], rq_ip = None \<rparr>"

lemma sample_http_method [simp]: "rq_method (sample_http r i) = Some (route_method r)"
  by (simp add: sample_http_def)

lemma sample_http_csrf: "csrf_canActivate e (http_request.truncate (sample_http r i)) = Inr True"
proof -
  have "rq_header (http_request.truncate (sample_http r i)) = tokens"
    by (simp add: sample_http_def http_request.defs)
  moreover have "parseCookies (tokens ''cookie'') CSRF_COOKIE_NAME = Some ''t0k''" "trim ''t0k'' = ''t0k''"
    "CSRF_HEADER_NAME = ''x-csrf-token''" "tokens ''x-csrf-token'' = Some ''t0k''"
    by (code_simp | simp add: CSRF_HEADER_NAME_def tokens_def)+
  ultimately show ?thesis
    by (simp add: csrf_canActivate_def cookieToken_def submittedToken_def jor_def Let_def)
qed

subsection \<open>Lists\<close>

fun list_query :: "route \<Rightarrow> (string \<times> string) list option" where
  "list_query (RUsers (UsersList q)) = Some q"
| "list_query (ROffers (OffersList q)) = Some q"
| "list_query (ROrders (OrdersList q)) = Some q"
| "list_query (REscrows (EscrowsList q)) = Some q"
| "list_query (RPayments (PaymentsList q)) = Some q"
| "list_query (RChat (ChatList q)) = Some q"
| "list_query _ = None"

text \<open>Nothing but a page: \<open>skip\<close> a natural number, \<open>take\<close> a positive one, each at most once.\<close>

definition paging_query :: "(string \<times> string) list \<Rightarrow> bool" where
  "paging_query q \<longleftrightarrow> fst ` set q \<subseteq> {''skip'', ''take''} \<and> distinct (map fst q) \<and>
     (\<forall>t. (''skip'', t) \<in> set q \<longrightarrow> (\<exists>n. js_Number_of t = Some (of_nat n))) \<and>
     (\<forall>t. (''take'', t) \<in> set q \<longrightarrow> (\<exists>n. js_Number_of t = Some (of_nat (Suc n))))"

text \<open>The values given for a key.\<close>

definition given :: "string \<Rightarrow> (string \<times> string) list \<Rightarrow> (string \<times> string) list" where
  "given k q = filter (\<lambda>(k', _). k' = k) q"

lemma given_nil: "given k q = [] \<longleftrightarrow> k \<notin> fst ` set q"
  by (auto simp: given_def filter_empty_conv image_iff)

lemma given_mem: "(k, t) \<in> set q \<longleftrightarrow> (k, t) \<in> set (given k q)"
  by (simp add: given_def)

lemma given_keys: "given k q = (k', t) # ps \<Longrightarrow> k' = k"
proof -
  assume "given k q = (k', t) # ps"
  then have "(k', t) \<in> set (given k q)" by simp
  then show "k' = k" by (simp add: given_def)
qed

lemma distinct_given: "distinct (map fst q) \<longleftrightarrow> (\<forall>k. length (given k q) \<le> 1)"
proof (induction q)
  case (Cons p q)
  obtain k t where p: "p = (k, t)" by (cases p)
  have split: "given i (p # q) = (if i = k then (k, t) # given i q else given i q)" for i
    by (auto simp: given_def p)
  show ?case
  proof
    assume "distinct (map fst (p # q))"
    with Cons have "given k q = []" "\<forall>i. length (given i q) \<le> 1" by (auto simp: given_nil p)
    then show "\<forall>i. length (given i (p # q)) \<le> 1" by (simp add: split)
  next
    assume one: "\<forall>i. length (given i (p # q)) \<le> 1"
    have "given k q = []" using one[rule_format, of k] by (simp add: split)
    moreover have "length (given i q) \<le> 1" for i
      using one[rule_format, of i] calculation by (cases "i = k") (simp_all add: split)
    ultimately show "distinct (map fst (p # q))" using Cons by (auto simp: given_nil p)
  qed
qed (simp add: given_def)

text \<open>A field is not given, or once with a number from \<open>m\<close>.\<close>

definition field_ok :: "string \<Rightarrow> nat \<Rightarrow> (string \<times> string) list \<Rightarrow> bool" where
  "field_ok k m q \<longleftrightarrow> given k q = [] \<or> (\<exists>t n. given k q = [(k, t)] \<and> js_Number_of t = Some (of_nat (m + n)))"

lemma number_from:
  fixes x :: rat
  shows "x = of_int \<lfloor>x\<rfloor> \<and> int m \<le> \<lfloor>x\<rfloor> \<longleftrightarrow> (\<exists>n. x = of_nat (m + n))"
proof
  assume x: "x = of_int \<lfloor>x\<rfloor> \<and> int m \<le> \<lfloor>x\<rfloor>"
  then have "\<lfloor>x\<rfloor> = int (m + nat (\<lfloor>x\<rfloor> - int m))" by simp
  then have "of_int \<lfloor>x\<rfloor> = (of_nat (m + nat (\<lfloor>x\<rfloor> - int m)) :: rat)" by (metis of_int_of_nat_eq)
  with x show "\<exists>n. x = of_nat (m + n)" by metis
next
  assume "\<exists>n. x = of_nat (m + n)"
  then obtain n where n: "x = of_nat (m + n)" by blast
  have "\<lfloor>x\<rfloor> = int (m + n)" unfolding n by (rule floor_of_nat)
  then show "x = of_int \<lfloor>x\<rfloor> \<and> int m \<le> \<lfloor>x\<rfloor>" by (simp add: n)
qed

lemma pageField_iff: "pageField k (int m) (int d) q = None \<longleftrightarrow> \<not> field_ok k m q"
proof (cases "given k q")
  case (Cons p ps)
  obtain t where p: "p = (k, t)" using given_keys[of k q] Cons by (cases p) auto
  note q = Cons[unfolded given_def p]
  have ok: "field_ok k m q \<longleftrightarrow> ps = [] \<and> (\<exists>n. js_Number_of t = Some (of_nat (m + n)))"
    by (auto simp: field_ok_def Cons p)
  show ?thesis
  proof (cases "js_Number_of t")
    case (Some x)
    then show ?thesis
      using number_from[of x m] by (cases ps) (auto simp: ok pageField_def q simp del: of_nat_add)
  qed (cases ps; simp add: ok pageField_def q)
qed (simp add: pageField_def field_ok_def given_def)

lemma field_ok_iff:
  assumes "length (given k q) \<le> 1"
  shows "field_ok k m q \<longleftrightarrow> (\<forall>t. (k, t) \<in> set q \<longrightarrow> (\<exists>n. js_Number_of t = Some (of_nat (m + n))))"
proof (cases "given k q")
  case Nil
  then show ?thesis using given_mem[of k _ q] by (simp add: field_ok_def)
next
  case (Cons p ps)
  with assms obtain t where "given k q = [(k, t)]" using given_keys[of k q] by (cases p) auto
  then show ?thesis using given_mem[of k _ q] by (simp add: field_ok_def)
qed

lemma paging_query_iff:
  "paging_query q \<longleftrightarrow> fst ` set q \<subseteq> {''skip'', ''take''} \<and> field_ok ''skip'' 0 q \<and> field_ok ''take'' 1 q"
proof (cases "distinct (map fst q)")
  case True
  then have "length (given k q) \<le> 1" for k by (simp add: distinct_given)
  then show ?thesis using True by (simp add: paging_query_def field_ok_iff)
next
  case False
  then obtain k where k: "1 < length (given k q)" by (auto simp: distinct_given not_le)
  then have "k \<in> fst ` set q" using given_nil[of k q] by auto
  moreover have "\<not> field_ok k m q" for m using k by (auto simp: field_ok_def)
  ultimately show ?thesis using False by (auto simp: paging_query_def)
qed

lemma paginationPipe_iff:
  "paging_query q \<Longrightarrow> \<exists>p. paginationPipe q = Inr p"
  "\<not> paging_query q \<Longrightarrow> paginationPipe q = Inl (HttpException 400)"
  using pageField_iff[of "''skip''" 0 0 q] pageField_iff[of "''take''" 1 20 q]
  by (auto simp: paging_query_iff paginationPipe_def split: option.splits)

lemma list_methods: "list_query r = Some q \<Longrightarrow> route_method r = ''GET'' \<and> \<not> skip_throttle r"
  by (cases r rule: list_query.cases) simp_all

lemma get_passes_csrf: "rq_method req = Some ''GET'' \<Longrightarrow> csrf_canActivate e (http_request.truncate req) = Inr True"
proof -
  assume m: "rq_method req = Some ''GET''"
  have "toUpper ''GET'' \<in> set safeMethods" by code_simp
  with m show ?thesis by (simp add: csrf_canActivate_def http_request.defs)
qed

lemma list_controller:
  assumes "list_query r = Some q"
  shows "\<not> paging_query q \<Longrightarrow> controller env req r t = (Inl (HttpException 400), t)"
    and "paging_query q \<Longrightarrow> faults t = [] \<Longrightarrow> fst (controller env req r t) = Inr ()"
proof -
  assume "\<not> paging_query q"
  then show "controller env req r t = (Inl (HttpException 400), t)"
    using assms by (cases r rule: list_query.cases)
      (simp_all add: finish_def run_defs paginationPipe_iff ctrl_users_list_def ctrl_offer_list_def ctrl_order_list_def
        ctrl_escrow_list_def ctrl_payment_list_def ctrl_chat_list_def)
next
  assume q: "paging_query q" and f: "faults t = []"
  obtain p where p: "paginationPipe q = Inr p" using paginationPipe_iff(1)[OF q] by blast
  have keys: "map_of q k = None" if "k \<notin> {''skip'', ''take''}" for k
    using q that by (auto simp: paging_query_def map_of_eq_None_iff)
  have "wp (controller env req r) (\<lambda>_ _. True) (\<lambda>_ _. False) t"
    using assms by (cases r rule: list_query.cases)
      (simp_all add: f prog p keys finish_def ctrl_users_list_def ctrl_offer_list_def ctrl_order_list_def
        ctrl_escrow_list_def ctrl_payment_list_def ctrl_chat_list_def user_list_def payment_list_def escrow_list_def chat_list_def
        order_list_def offer_list_def order_search_def offer_search_def base_findMany_def find_args_def
        orderFilter_def offerFilter_def Let_def wp_db_call)
  from wp_returns[OF this] show "fst (controller env req r t) = Inr ()" by auto
qed

text \<open>
  C39.  Which list requests are answered.  A request for users, offers, orders, escrows, payment methods or
  chat messages that the throttler lets pass is answered exactly when its query has no field but
  \<open>skip\<close>, a number from 0, and \<open>take\<close>, a number from 1, each given at most once.  Every other query, so every filter that
  \<open>OrderFilter\<close>, \<open>OfferFilter\<close> and the parameter \<open>orderId\<close> offer, is answered with status 400 and reads nothing.
\<close>

theorem lists_served_iff:
  assumes "list_query r = Some q" "rq_method req = Some ''GET''" "faults s = []"
    and "\<not> throttled env (counted s) req (clock s)"
  shows "(fst (handle env req r s) = Inr () \<longleftrightarrow> paging_query q) \<and>
    (\<not> paging_query q \<longrightarrow> handle env req r s = (Inl (HttpException 400), s\<lparr>counted := (req, clock s) # counted s\<rparr>))"
proof -
  have "handle env req r s = controller env req r (s\<lparr>counted := (req, clock s) # counted s\<rparr>)"
    using assms list_methods[OF assms(1)]
    by (simp add: handle_def serves_def throttler_canActivate_def run_defs get_passes_csrf)
  then show ?thesis
    using list_controller(1)[OF assms(1), of env req "s\<lparr>counted := (req, clock s) # counted s\<rparr>"]
      list_controller(2)[OF assms(1), of "s\<lparr>counted := (req, clock s) # counted s\<rparr>" env req] assms(3)
    by (cases "paging_query q") auto
qed

text \<open>Without a token an order stays, but a chat message of any sender is stored.\<close>

definition forged_message :: route where
  "forged_message = RChat (ChatCreate \<lparr> cc_orderId = chat_order_id, cc_senderId = ''c'', cc_content = ''send it now'' \<rparr>)"

lemma forged_message_stored:
  "map c_senderId (chats (tables (snd (handle (server_env tok) (sample_http forged_message i) forged_message
     (server_start chat_db))))) = [''c'']"
proof -
  let ?P = "\<lambda>t :: server. map c_senderId (chats (tables t)) = [''c'']"
  have "wp (handle (server_env tok) (sample_http forged_message i) forged_message) (\<lambda>_. ?P) (\<lambda>_. ?P) (server_start chat_db)"
    by (simp add: handle_def serves_def throttler_canActivate_def forged_message_def sample_http_csrf server_env_def finish_def
        ctrl_chat_create_def chat_create_def base_create_def prog wp_createRow chat_table_def)
  then show ?thesis by (simp add: wp_snd)
qed

theorem no_write_without_token_witness:
  "tables (snd (handle (server_env None) (sample_http (ROrders OrdersRemove) chat_order_id) (ROrders OrdersRemove)
      (server_start chat_db))) = chat_db \<and>
   map c_senderId (chats (tables (snd (handle (server_env None) (sample_http forged_message []) forged_message
      (server_start chat_db))))) = [''c'']"
proof -
  have "\<not> mock_login (server_env None)"
    by (simp add: mock_login_def env_config_def server_env_def sample_services_def)
  from no_write_without_token[OF _ this, of "sample_http (ROrders OrdersRemove) chat_order_id" "server_start chat_db"
      "ROrders OrdersRemove"]
  show ?thesis using forged_message_stored by (simp add: server_env_def)
qed

theorem csrf_covers_writes_witness:
  "\<exists>tok. tok \<noteq> [] \<and> cookieToken (http_request.truncate (sample_http forged_message [])) = Some tok \<and>
     submittedToken (http_request.truncate (sample_http forged_message [])) = Some tok"
proof -
  have "tables (snd (handle (server_env None) (sample_http forged_message []) forged_message (server_start chat_db)))
      \<noteq> tables (server_start chat_db)"
    using forged_message_stored[of None "[]"] by auto
  from csrf_covers_writes[OF this] show ?thesis by (simp add: forged_message_def)
qed

definition order_request :: "(string \<times> string) list \<Rightarrow> (exn + unit) \<times> server" where
  "order_request q = handle (server_env None) (sample_http (ROrders (OrdersList q)) []) (ROrders (OrdersList q)) (server_start chat_db)"

theorem lists_served_iff_witness:
  "fst (order_request [(''take'', ''5'')]) = Inr () \<and> fst (order_request [(''status'', ''created'')]) = Inl (HttpException 400)"
proof -
  have "paging_query [(''take'', ''5'')]"
  proof -
    have "js_Number_of ''5'' = Some (of_nat (Suc 4))" by code_simp
    then show ?thesis by (auto simp: paging_query_def intro!: exI[of _ 4])
  qed
  moreover have "\<not> paging_query [(''status'', ''created'')]" by (simp add: paging_query_def)
  moreover note lists_served_iff[of "ROrders (OrdersList q)" q "sample_http (ROrders (OrdersList q)) []" "server_start chat_db"
      "server_env None" for q]
  ultimately show ?thesis by (simp add: order_request_def server_env_def)
qed

end
