(* ===== verification/Platform.thy ===== *)
theory Platform
  imports Races SurfaceProps
begin

text \<open>
  Properties of whole runs: whatever requests, socket events, chain events, scheduled jobs and
  database failures happen, in whatever order, the tables keep the schema's constraints, nobody gains
  a role, and the audit trail only grows.
\<close>

subsection \<open>From statements to runs\<close>

lemma process_writes: "on_tables (writes (event_footprint ev)) s (snd (process env ev s))"
  by (rule obeysD[OF process_footprint])

text \<open>A preorder on the tables that every statement obeys is obeyed by every event.\<close>

context table_relation
begin

lemma process_obeys:
  assumes "\<And>k d d'. db_write k d d' \<Longrightarrow> P d d'"
  shows "obeys (on_tables P) (process env ev)"
  unfolding obeys_def on_tables_def
proof
  fix s :: "'a server_scheme"
  have "writes (event_footprint ev) (tables s) (tables (snd (process env ev s)))"
    using process_writes by (simp add: on_tables_def)
  then show "P (tables s) (tables (snd (process env ev s)))"
    by (rule writes_lift) (auto intro: same comp assms)
qed

lemma run_steps:
  assumes "\<And>k d d'. db_write k d d' \<Longrightarrow> P d d'"
  shows "P (tables s) (tables (run env evs s))"
  by (rule run_obeys) (rule process_obeys[OF assms])

end

subsection \<open>The constraints of the schema\<close>

definition keeps_wf :: "db \<Rightarrow> db \<Rightarrow> bool" where
  "keeps_wf d d' \<longleftrightarrow> (db_wf d \<longrightarrow> db_wf d')"

interpretation wfr: table_relation keeps_wf
  by unfold_locales (auto simp: keeps_wf_def)

lemma db_wf_run: "db_wf (tables s) \<Longrightarrow> db_wf (tables (run env evs s))"
  using wfr.run_steps[where s = s and env = env and evs = evs] wf_step unfolding keeps_wf_def by blast

subsection \<open>Roles and accounts\<close>

definition accounts_kept :: "db \<Rightarrow> db \<Rightarrow> bool" where
  "accounts_kept d d' \<longleftrightarrow> (\<forall>u \<in> set (users d). \<exists>v \<in> set (users d'). same_account u v) \<and>
     (\<forall>v \<in> set (users d'). u_role v = Role_user \<or> (\<exists>u \<in> set (users d). same_account u v))"

lemma same_account_refl [simp]: "same_account u u"
  by (simp add: same_account_def)

lemma accounts_kept_users: "users d' = users d \<Longrightarrow> accounts_kept d d'"
  unfolding accounts_kept_def using same_account_refl by metis

lemma accounts_kept_map:
  "(\<And>u. same_account u (g u)) \<Longrightarrow> users d' = map g (users d) \<Longrightarrow> accounts_kept d d'"
  unfolding accounts_kept_def by auto

interpretation acc: table_relation accounts_kept
proof unfold_locales
  show "accounts_kept d d' \<Longrightarrow> accounts_kept d' d'' \<Longrightarrow> accounts_kept d d''" for d d' d''
    unfolding accounts_kept_def same_account_def by metis
qed (simp add: accounts_kept_users)

lemma accounts_step: "db_write k d d' \<Longrightarrow> accounts_kept d d'"
proof (induction rule: db_write.induct)
  case (user_set r d f)
  have "same_account u (if u_userId u = u_userId r then f u else u)" for u
    by (simp add: user_set(2))
  then show ?case by (rule accounts_kept_map) (simp add: replace_by_def)
next
  case (user_add d u)
  then show ?case by (simp add: accounts_kept_def) (metis same_account_refl)
qed (auto simp: offer_table_def order_table_def escrow_table_def chat_table_def pmethod_table_def
    intro!: accounts_kept_users split: if_splits)

text \<open>
  C9.  No event grants a role.  Whatever happens, every account stays, with its identifier, wallet and
  role; an account that is new has the role of a plain user.
\<close>

theorem roles_never_granted:
  "(\<forall>u \<in> set (users (tables s)). \<exists>v \<in> set (users (tables (run env evs s))). same_account u v) \<and>
   (\<forall>v \<in> set (users (tables (run env evs s))). u_role v = Role_user \<or>
      (\<exists>u \<in> set (users (tables s)). same_account u v))"
  using acc.run_steps[OF accounts_step, where s = s and env = env and evs = evs] by (simp add: accounts_kept_def)

subsection \<open>The audit trail\<close>

definition audits_grow :: "db \<Rightarrow> db \<Rightarrow> bool" where
  "audits_grow d d' \<longleftrightarrow> (\<exists>rs. map scrubbed (audits d') = map scrubbed (audits d) @ rs)"

lemma audits_grow_same: "audits d' = audits d \<Longrightarrow> audits_grow d d'"
  by (simp add: audits_grow_def)

interpretation aud: table_relation audits_grow
proof unfold_locales
  show "audits_grow d d' \<Longrightarrow> audits_grow d' d'' \<Longrightarrow> audits_grow d d''" for d d' d''
    unfolding audits_grow_def by (metis append.assoc)
qed (simp add: audits_grow_same)

lemma audits_step: "db_write k d d' \<Longrightarrow> audits_grow d d'"
proof (induction rule: db_write.induct)
  case (audit_scrub d p)
  have "map scrubbed (map (\<lambda>a. if p a then scrubbed a else a) as) = map scrubbed as" for as
    by (simp add: scrubbed_def)
  then show ?case unfolding audits_grow_def by (intro exI[of _ "[]"]) simp
qed (auto simp: offer_table_def order_table_def escrow_table_def chat_table_def pmethod_table_def
    intro!: audits_grow_same simp: audits_grow_def split: if_splits)

text \<open>
  C10.  The audit trail is append-only.  In any run the records there were at the start stay, in their
  order and with every field but the client's address and browser, which the erasure of an account
  removes; new records follow them.
\<close>

theorem audit_trail_append_only:
  "\<exists>rs. map scrubbed (audits (tables (run env evs s))) = map scrubbed (audits (tables s)) @ rs"
  using aud.run_steps[OF audits_step, where s = s and env = env and evs = evs] by (simp add: audits_grow_def)

subsection \<open>A run\<close>

text \<open>Anyone may report the funding of an escrow: the request needs no token.\<close>

definition fund_report :: route where
  "fund_report = REscrows (EscrowsSync \<lparr> sy_escrowId = ''e1'', sy_signedXdr = ''XDR'', sy_action = FUND \<rparr>)"

definition fund_run :: server where
  "fund_run = run (server_env None) [Request (sample_http fund_report []) fund_report]
     (server_start (one_order OS_created ES_initialized))"

lemma fund_run_result:
  "map e_escrowStatus (escrows (tables fund_run)) = [ES_funded]" "map e_contractId (escrows (tables fund_run)) = [Some ''C'']"
  "map e_escrowId (escrows (tables fund_run)) = [''e1'']"
  "users (tables fund_run) = users sample_db"
proof -
  let ?P = "\<lambda>t :: server. map e_escrowStatus (escrows (tables t)) = [ES_funded] \<and> map e_contractId (escrows (tables t)) = [Some ''C''] \<and>
    map e_escrowId (escrows (tables t)) = [''e1''] \<and> users (tables t) = users sample_db"
  have "wp (handle (server_env None) (sample_http fund_report []) fund_report) (\<lambda>_. ?P) (\<lambda>_. ?P)
     (server_start (one_order OS_created ES_initialized))"
    by (simp add: handle_def serves_def throttler_canActivate_def fund_report_def sample_http_csrf server_env_def finish_def prog
        escrow_syncTransaction_def escrow_getOrFail_def base_findById_def base_update_def
        wp_tw_send sample_services_def sample_tw_def sync_audit_def escrow_table_def
        validateStatusTransition_def validTransitions_def clash_def)
  then show "map e_escrowStatus (escrows (tables fund_run)) = [ES_funded]" "map e_contractId (escrows (tables fund_run)) = [Some ''C'']"
    "map e_escrowId (escrows (tables fund_run)) = [''e1'']"
    "users (tables fund_run) = users sample_db"
    by (simp_all add: wp_snd fund_run_def)
qed

theorem roles_never_granted_witness: "list_all (\<lambda>v. u_role v = Role_user) (users (tables fund_run))"
  using roles_never_granted[of "server_start (one_order OS_created ES_initialized)" "server_env None"
      "[Request (sample_http fund_report []) fund_report]", folded fund_run_def]
  by (auto simp: same_account_def list_all_iff)

end
