(* ===== verification/Lifecycle.thy ===== *)
theory Lifecycle
  imports Platform EscrowProps
begin

text \<open>
  The refinement of the escrow lifecycle: abstractly, an escrow is its status and its contract; the
  program, event by event over whole runs, makes only the steps of this small machine, each of them
  only at the events meant for it.
\<close>

subsection \<open>The abstract machine\<close>

type_synonym phase = "escrow_status \<times> string option"

text \<open>
  A step of an escrow.  \<open>reopen\<close> is the one step off the lifecycle: \<open>POST /escrows/open\<close> deploys a
  contract for an escrow that has none, and sets its status back to initialized, whatever it was.
\<close>

inductive move :: "phase \<Rightarrow> phase \<Rightarrow> bool" where
  edge: "escrow_edge a b \<Longrightarrow> move (a, c) (b, c)"
| edge_contract: "escrow_edge a ES_initialized \<Longrightarrow> truthy c' \<Longrightarrow> move (a, c) (ES_initialized, c')"
| reopen: "\<not> truthy c \<Longrightarrow> truthy c' \<Longrightarrow> move (a, c) (ES_initialized, c')"

text \<open>The requests that create an escrow, and those that delete one.\<close>

definition creates_escrow :: "event \<Rightarrow> bool" where
  "creates_escrow ev \<longleftrightarrow> (\<exists>req r. ev = Request req r \<and>
     ((\<exists>dto. r = ROrders (OrdersCreate dto)) \<or> (\<exists>dto. r = REscrows (EscrowsOpen dto)) \<or>
      (\<exists>dto. r = REscrows (EscrowsInitialize dto)) \<or> (\<exists>dto. r = REscrows (EscrowsCreate dto))))"

definition deletes_escrow :: "event \<Rightarrow> bool" where
  "deletes_escrow ev \<longleftrightarrow> (\<exists>req. ev = Request req (REscrows EscrowsRemove) \<or> ev = Request req (ROrders OrdersRemove))"

text \<open>What one event may do to the escrow \<open>i\<close>: to its absence or its phase before and after.\<close>

inductive escrow_step :: "event \<Rightarrow> string \<Rightarrow> phase option \<Rightarrow> phase option \<Rightarrow> bool" for ev i where
  stays: "escrow_step ev i p p"
| enters: "creates_escrow ev \<Longrightarrow> st \<in> {ES_pending, ES_initialized} \<Longrightarrow> escrow_step ev i None (Some (st, c))"
| opened: "ev = Request req (REscrows (EscrowsOpen dto)) \<Longrightarrow> \<not> truthy c \<Longrightarrow> truthy c' \<Longrightarrow>
    escrow_step ev i (Some (a, c)) (Some (ES_initialized, c'))"
| synced: "ev = Request req (REscrows (EscrowsSync dto)) \<Longrightarrow> sy_escrowId dto = i \<Longrightarrow> escrow_edge a b \<Longrightarrow>
    c' = c \<or> b = ES_initialized \<and> truthy c' \<Longrightarrow> escrow_step ev i (Some (a, c)) (Some (b, c'))"
| polled: "ev = ListenerPoll \<Longrightarrow> escrow_edge\<^sup>*\<^sup>* a b \<Longrightarrow> escrow_step ev i (Some (a, c)) (Some (b, c))"
| leaves: "deletes_escrow ev \<Longrightarrow> escrow_step ev i (Some p) None"

definition phase_of :: "escrow \<Rightarrow> phase" where
  "phase_of e = (e_escrowStatus e, e_contractId e)"

definition phases :: "db \<Rightarrow> string \<Rightarrow> phase option" where
  "phases d = (\<lambda>i. map_option phase_of (List.find (\<lambda>e. e_escrowId e = i) (escrows d)))"

lemma phases_cong: "escrows d' = escrows d \<Longrightarrow> phases d' = phases d"
  by (simp add: phases_def)

lemma phases_audited [simp]: "phases (tables (audited inp u)) = phases (tables u)"
  by (rule phases_cong) simp

lemma phases_add:
  assumes "e_escrowId e \<notin> e_escrowId ` set (escrows d)" "escrows d' = escrows d @ [e]"
  shows "phases d' = (phases d)(e_escrowId e \<mapsto> phase_of e)" "phases d (e_escrowId e) = None"
proof -
  have "List.find (\<lambda>x. e_escrowId x = e_escrowId e) (escrows d) = None"
    using assms(1) by (auto simp: find_None_iff_ball image_iff)
  then show "phases d' = (phases d)(e_escrowId e \<mapsto> phase_of e)" "phases d (e_escrowId e) = None"
    by (auto simp: phases_def fun_eq_iff find_append assms(2) split: option.split)
qed

lemma phases_update:
  assumes "\<And>x. e_escrowId (f x) = e_escrowId x" "escrows d' = map (\<lambda>x. if e_escrowId x = j then f x else x) (escrows d)"
  shows "phases d' = (case List.find (\<lambda>e. e_escrowId e = j) (escrows d) of
      None \<Rightarrow> phases d | Some e \<Rightarrow> (phases d)(j \<mapsto> phase_of (f e)))"
  using find_map_if[of e_escrowId f _ j "escrows d", OF assms(1)]
  by (auto simp: phases_def assms(2) fun_eq_iff split: option.split)

lemma phases_filter:
  assumes "distinct (map e_escrowId (escrows d))" "escrows d' = filter p (escrows d)"
  shows "phases d' i = phases d i \<or> phases d' i = None"
proof -
  have "List.find (\<lambda>e. e_escrowId e = i) (filter p es) \<in> {List.find (\<lambda>e. e_escrowId e = i) es, None}"
    if "distinct (map e_escrowId es)" for es
    using that by (induction es) (auto simp: find_None_iff_ball image_iff)
  from this[OF assms(1)] show ?thesis by (auto simp: phases_def assms(2))
qed

lemma wf_escrow_ids: "db_wf d \<Longrightarrow> distinct (map e_escrowId (escrows d))"
  by (simp add: db_wf_def rows_ok_def)

subsection \<open>Events that only add, or only delete, escrows\<close>

inductive change :: "kind set \<Rightarrow> phase option \<Rightarrow> phase option \<Rightarrow> bool" for K where
  same: "change K p p"
| enter: "EscrowAdd \<in> K \<Longrightarrow> st \<in> {ES_pending, ES_initialized} \<Longrightarrow> change K None (Some (st, c))"
| leave: "EscrowDrop \<in> K \<or> OrderDrop \<in> K \<Longrightarrow> change K (Some p) None"

lemma change_trans:
  assumes "EscrowAdd \<in> K \<longrightarrow> EscrowDrop \<notin> K \<and> OrderDrop \<notin> K" "change K p q" "change K q r"
  shows "change K p r"
  using assms by (auto elim!: change.cases intro: change.intros)

definition changes :: "kind set \<Rightarrow> db \<Rightarrow> db \<Rightarrow> bool" where
  "changes K d d' \<longleftrightarrow> (db_wf d \<longrightarrow> db_wf d' \<and> (\<forall>i. change K (phases d i) (phases d' i)))"

lemma changes_step:
  assumes "db_write k d d'" "k \<in> K" "k \<noteq> EscrowMove"
  shows "changes K d d'"
  unfolding changes_def
proof (intro impI conjI allI)
  assume wf: "db_wf d"
  show "db_wf d'" by (rule wf_step[OF assms(1) wf])
  fix i
  have same: "phases d' = phases d \<Longrightarrow> change K (phases d i) (phases d' i)"
    by (simp add: change.same)
  have less: "change K (phases d i) (phases d' i)"
    if "EscrowDrop \<in> K \<or> OrderDrop \<in> K" "escrows d' = filter p (escrows d)" for p
    using phases_filter[OF wf_escrow_ids[OF wf] that(2), of i] that(1)
    by (cases "phases d i") (auto intro: change.intros)
  show "change K (phases d i) (phases d' i)"
    using assms(1)
  proof (cases rule: db_write.cases)
    case (escrow_add e)
    then have "e_escrowId e \<notin> e_escrowId ` set (escrows d)"
      using escrow_model.check_key[of d "escrows d" e] by simp
    from phases_add[OF this, of d'] show ?thesis
      using escrow_add assms(2) by (auto simp: phase_of_def intro: change.intros)
  next
    case (escrow_edit r f)
    have "map_option phase_of (List.find (\<lambda>e. e_escrowId e = i) (map g es)) = map_option phase_of (List.find (\<lambda>e. e_escrowId e = i) es)"
      if "\<And>e. e_escrowId (g e) = e_escrowId e \<and> phase_of (g e) = phase_of e" for i g es
      using that by (induction es) auto
    then show ?thesis using escrow_edit(4) by (intro same) (simp add: phases_def escrow_edit(2) replace_by_def phase_of_def)
  next
    case (escrow_drop r)
    then show ?thesis using assms(2) by (intro less) (auto simp: escrow_table_def)
  next
    case (order_drop r)
    then show ?thesis using assms(2) by (intro less) (auto simp: order_table_def)
  next
    case (offer_drop r)
    then show ?thesis by (intro same phases_cong) (auto simp: offer_table_def split: if_splits)
  next
    case (chat_drop r)
    then show ?thesis by (intro same phases_cong) (auto simp: chat_table_def)
  next
    case (method_drop r)
    then show ?thesis by (intro same phases_cong) (auto simp: pmethod_table_def)
  qed (use assms(3) in \<open>simp_all add: change.same phases_def\<close>)
qed

lemma changes_footprint:
  assumes "writes K d d'" "EscrowMove \<notin> K" "EscrowAdd \<in> K \<longrightarrow> EscrowDrop \<notin> K \<and> OrderDrop \<notin> K"
  shows "changes K d d'"
  using assms(1)
proof (rule writes_lift)
  show "changes K d d" for d by (simp add: changes_def change.same)
  show "changes K a b \<Longrightarrow> changes K b c \<Longrightarrow> changes K a c" for a b c
    unfolding changes_def using change_trans[OF assms(3)] by blast
  show "k \<in> K \<Longrightarrow> db_write k a b \<Longrightarrow> changes K a b" for k a b
    using changes_step assms(2) by metis
qed

text \<open>The kinds of statements of an event, against what the event is for.\<close>

lemma footprint_creates: "EscrowAdd \<in> footprint r \<Longrightarrow> creates_escrow (Request req r)"
  by (cases r rule: footprint.cases) (auto simp: creates_escrow_def split: auth_route.splits users_route.splits
      offers_route.splits orders_route.splits escrows_route.splits payments_route.splits chat_route.splits kyc_route.splits)

lemma footprint_deletes: "EscrowDrop \<in> footprint r \<or> OrderDrop \<in> footprint r \<Longrightarrow> deletes_escrow (Request req r)"
  by (cases r rule: footprint.cases) (auto simp: deletes_escrow_def split: auth_route.splits users_route.splits
      offers_route.splits orders_route.splits escrows_route.splits payments_route.splits chat_route.splits kyc_route.splits)

lemma footprint_moves: "EscrowMove \<in> footprint r \<Longrightarrow> (\<exists>dto. r = REscrows (EscrowsOpen dto)) \<or> (\<exists>dto. r = REscrows (EscrowsSync dto))"
  by (cases r rule: footprint.cases) (auto split: auth_route.splits users_route.splits
      offers_route.splits orders_route.splits escrows_route.splits payments_route.splits chat_route.splits kyc_route.splits)

lemma creates_not_deletes: "creates_escrow ev \<Longrightarrow> \<not> deletes_escrow ev"
  by (auto simp: creates_escrow_def deletes_escrow_def)

lemma event_kinds:
  "EscrowAdd \<in> event_footprint ev \<Longrightarrow> creates_escrow ev"
  "EscrowDrop \<in> event_footprint ev \<or> OrderDrop \<in> event_footprint ev \<Longrightarrow> deletes_escrow ev"
  by (cases ev; simp add: footprint_creates footprint_deletes)+

lemma change_event: "change (event_footprint ev) p q \<Longrightarrow> escrow_step ev i p q"
  by (erule change.cases) (auto intro: escrow_step.stays escrow_step.enters event_kinds(1) escrow_step.leaves[OF event_kinds(2)])


subsection \<open>The events that move an escrow\<close>

lemma synced_step:
  assumes "synced sv dto s d" "ev = Request req (REscrows (EscrowsSync dto))"
  shows "escrow_step ev i (phases (tables s) i) (phases d i)"
proof -
  from assms(1) obtain e res where e: "List.find (\<lambda>r. e_escrowId r = sy_escrowId dto) (escrows (tables s)) = Some e"
    "escrow_edge (e_escrowStatus e) (sync_target (sy_action dto))"
    "escrows d = map (\<lambda>r. if e_escrowId r = sy_escrowId dto
                           then sync_update (sy_action dto) res (sy_signedXdr dto) r else r) (escrows (tables s))"
    by (auto simp: synced_def)
  let ?r = "sync_update (sy_action dto) res (sy_signedXdr dto) e"
  have d: "phases d = (phases (tables s))(sy_escrowId dto \<mapsto> phase_of ?r)"
    using phases_update[OF _ e(3)] by (simp add: e(1))
  have "e_contractId ?r = e_contractId e \<or> sync_target (sy_action dto) = ES_initialized \<and> truthy (e_contractId ?r)"
    by (cases "sy_action dto") auto
  moreover have "phases (tables s) (sy_escrowId dto) = Some (e_escrowStatus e, e_contractId e)"
    by (simp add: phases_def phase_of_def e(1))
  ultimately show ?thesis
    using escrow_step.synced[OF assms(2) _ e(2)] by (auto simp: d phase_of_def intro: escrow_step.stays)
qed

lemma sync_step:
  assumes "ev = Request req (REscrows (EscrowsSync dto))"
  shows "escrow_step ev i (phases (tables s) i) (phases (tables (snd (escrow_syncTransaction sv dto s))) i)"
proof -
  let ?Q = "\<lambda>t. escrow_step ev i (phases (tables s) i) (phases (tables t) i)"
  have "wp (escrow_syncTransaction sv dto) (\<lambda>_. ?Q) (\<lambda>_. ?Q) s"
    by (rule wp_mono[OF sync_post]) (auto simp: escrow_step.stays intro: synced_step[OF _ assms] dest!: phases_cong)
  then show ?thesis by (simp add: wp_snd)
qed

text \<open>Opening: a row without a contract, or a new row, gets one.\<close>

lemma set_contract_wp:
  assumes "phases (tables u) i \<noteq> None"
    and "\<And>t. phases (tables t) = (phases (tables u))(i \<mapsto> (ES_initialized, Some cid)) \<Longrightarrow> Q t"
    and "\<And>t. phases (tables t) = phases (tables u) \<Longrightarrow> E t"
  shows "wp (base_update escrow_table i (\<lambda>r. r\<lparr>e_contractId := Some cid, e_escrowStatus := ES_initialized\<rparr>))
    (\<lambda>_. Q) (\<lambda>_. E) u"
proof -
  let ?f = "\<lambda>r. r\<lparr>e_contractId := Some cid, e_escrowStatus := ES_initialized\<rparr>"
  have "phases d = (phases (tables u))(i \<mapsto> (ES_initialized, Some cid))"
    if "escrows d = map (\<lambda>r. if e_escrowId r = i then ?f r else r) (escrows (tables u))" for d
    using phases_update[of ?f d i "tables u", OF _ that] assms(1)
    by (auto simp: phases_def phase_of_def split: option.splits)
  then show ?thesis
    unfolding base_update_def
    by (auto simp: wp_any intro!: db_anyI assms(2,3) dest!: find_SomeD intro: phases_cong split: option.split)
qed

lemma persist_step:
  assumes "ev = Request req (REscrows (EscrowsOpen dto))"
    and "existing = List.find (\<lambda>e. e_orderId e = op_orderId dto) (escrows (tables u))" "\<not> has_contract existing"
    and "db_wf (tables u)" "cid \<noteq> []"
  defines "Q \<equiv> \<lambda>t. \<forall>i. escrow_step ev i (phases (tables u) i) (phases (tables t) i)"
  shows "wp (open_persist dto existing cid xdr) (\<lambda>_. Q) (\<lambda>_. Q) u"
proof (cases existing)
  case (Some e)
  then have e: "e \<in> set (escrows (tables u))" "\<not> truthy (e_contractId e)"
    using assms(2,3) by (auto simp: has_contract_def dest: find_SomeD)
  then have row: "phases (tables u) (e_escrowId e) = Some (e_escrowStatus e, e_contractId e)"
    using find_unique[OF wf_escrow_ids[OF assms(4)] e(1)] by (simp add: phases_def phase_of_def)
  have opened: "Q t" if "phases (tables t) = (phases (tables u))(e_escrowId e \<mapsto> (ES_initialized, Some cid))" for t
    using escrow_step.opened[OF assms(1) e(2)] row assms(5) that by (auto simp: Q_def truthy_def intro: escrow_step.stays)
  have same: "Q t" if "phases (tables t) = phases (tables u)" for t
    using that by (simp add: Q_def escrow_step.stays)
  show ?thesis
    unfolding open_persist_def Some
    by (simp add: prog) (rule set_contract_wp, use row in \<open>auto simp: prog intro: opened same\<close>)
next
  case None
  let ?new = "\<lambda>i. (new_escrow i (op_orderId dto))\<lparr>e_buyerAddress := Some (dd_buyerAddress dto),
     e_sellerAddress := Some (dd_sellerAddress dto), e_amount := Some (decimal_of (dd_amount dto)), e_escrowStatus := ES_initialized\<rparr>"
  let ?added = "\<lambda>i. (tables u)\<lparr>escrows := escrows (tables u) @ [?new i]\<rparr>"
  let ?fresh = "\<lambda>i. t_check escrow_table (tables u) (escrows (tables u)) (?new i) = None"
  have new: "phases (?added i) = (phases (tables u))(i \<mapsto> (ES_initialized, None))" "phases (tables u) i = None" if "?fresh i" for i
    using phases_add[of "?new i" "tables u" "?added i"] escrow_model.check_key[OF that] by (simp_all add: phase_of_def new_escrow_def)
  have creates: "creates_escrow ev" by (auto simp: assms(1) creates_escrow_def)
  have opened: "Q t" if "?fresh i" "phases (tables t) = (phases (tables u))(i \<mapsto> (ES_initialized, Some cid))" for i t
    using new[OF that(1)] that(2) escrow_step.enters[OF creates] by (auto simp: Q_def intro: escrow_step.stays)
  have half: "Q t" if "?fresh i" "phases (tables t) = phases (?added i)" for i t
    using new[OF that(1)] that(2) escrow_step.enters[OF creates] by (auto simp: Q_def intro: escrow_step.stays)
  have same: "Q t" if "phases (tables t) = phases (tables u)" for t
    using that by (simp add: Q_def escrow_step.stays)
  have audited: "Q (audited inp t) \<longleftrightarrow> Q t" for inp t
    by (simp add: Q_def)
  show ?thesis
    unfolding open_persist_def None create_escrow_def base_create_def
    by (auto simp: prog wp_any putRows_def new audited intro!: db_anyI set_contract_wp intro: opened half same split: option.split)
qed

lemma open_step:
  assumes "ev = Request req (REscrows (EscrowsOpen dto))" "db_wf (tables s)"
  shows "escrow_step ev i (phases (tables s) i) (phases (tables (snd (escrow_open sv dto s))) i)"
proof -
  let ?ex = "List.find (\<lambda>e. e_orderId e = op_orderId dto) (escrows (tables s))"
  let ?Q = "\<lambda>t. \<forall>i. escrow_step ev i (phases (tables s) i) (phases (tables (t :: 'a world_scheme)) i)"
  have same: "?Q t" if "phases (tables t) = phases (tables s)" for t :: "'a world_scheme"
    using that by (simp add: escrow_step.stays)
  have "wp (bindE (deployEscrowToChain sv (op_orderId dto) dto) (\<lambda>(cid, xdr). open_persist dto ?ex cid xdr))
      (\<lambda>_. ?Q) (\<lambda>_. ?Q) (s\<lparr>faults := bs\<rparr>)" if no: "\<not> has_contract ?ex" for bs
  proof -
    have "wp (open_persist dto ?ex cid xdr) (\<lambda>_. ?Q) (\<lambda>_. ?Q) u"
      if "deployed sv (op_orderId dto) dto (s\<lparr>faults := bs\<rparr>) cid u" for cid xdr u
    proof -
      have "tables u = tables s" "cid \<noteq> []" using that by (auto simp: deployed_def)
      then show ?thesis using persist_step[OF assms(1) _ no, of u cid xdr] assms(2) by simp
    qed
    then show ?thesis
      unfolding wp_bindE wp_prod
      by (intro wp_mono[OF deploy_post]) (auto simp: escrow_step.stays dest!: only_calls_tables split: prod.split)
  qed
  then have "wp (escrow_open sv dto) (\<lambda>_. ?Q) (\<lambda>_. ?Q) s"
    unfolding escrow_open_def findByOrder_def
    by (auto simp: wp_bindE wp_andThen wp_throwIf wp_any escrow_step.stays intro!: db_anyI)
  then show ?thesis by (simp add: wp_snd)
qed

text \<open>A poll of the listener: any number of steps along the lifecycle, the contract kept.\<close>

definition phase_later :: "phase option \<Rightarrow> phase option \<Rightarrow> bool" where
  "phase_later = rel_option (\<lambda>(a, c) (b, c'). escrow_edge\<^sup>*\<^sup>* a b \<and> c' = c)"

definition polled :: "db \<Rightarrow> db \<Rightarrow> bool" where
  "polled d d' \<longleftrightarrow> (db_wf d \<longrightarrow> db_wf d' \<and> (\<forall>i. phase_later (phases d i) (phases d' i)))"

lemma phase_later_refl: "phase_later p p"
  by (cases p) (auto simp: phase_later_def)

lemma phase_later_trans: "phase_later p q \<Longrightarrow> phase_later q r \<Longrightarrow> phase_later p r"
  by (cases p; cases q; cases r) (auto simp: phase_later_def)

interpretation lc: table_relation polled
proof unfold_locales
  show "polled d d" for d by (simp add: polled_def phase_later_refl)
  show "polled d d' \<Longrightarrow> polled d' d'' \<Longrightarrow> polled d d''" for d d' d''
    unfolding polled_def using phase_later_trans by metis
qed

lemma fp_keeps_wf: "footprint_of K m \<Longrightarrow> db_wf (tables s) \<Longrightarrow> db_wf (tables (snd (m s)))"
  unfolding obeys_def on_tables_def
  by (blast intro: writes_lift[where P = "\<lambda>d d'. db_wf d \<longrightarrow> db_wf d'", THEN mp] wf_step)

lemma event_polled: "obeys (on_tables polled) (processEvent ev)"
proof (rule obeysI)
  fix s :: "'a listener_scheme"
  have handled: "phase_later (phases (tables s) i) (phases d i)"
    if wf: "db_wf (tables s)" and h: "event_handled ev (tables s) d" for d i
  proof -
    from h obtain e row where e: "event_escrow (tables s) ev = Some e"
      "escrow_edge (e_escrowStatus e) (fst (mapEventToStatuses (ev_eventType ev)))" "d = event_applied ev e row (tables s)"
      by (auto simp: event_handled_def)
    have "List.find (\<lambda>x. e_escrowId x = e_escrowId e) (escrows (tables s)) = Some e"
      using find_unique[OF wf_escrow_ids[OF wf] event_escrow_mem[OF e(1)]] .
    moreover have "escrows d = map (\<lambda>x. if e_escrowId x = e_escrowId e then event_update ev x else x) (escrows (tables s))"
      by (simp add: e(3) event_applied_def)
    ultimately have "phases d = (phases (tables s))(e_escrowId e \<mapsto> phase_of (event_update ev e))"
      "phases (tables s) (e_escrowId e) = Some (phase_of e)"
      using phases_update[of "event_update ev" d "e_escrowId e" "tables s"] by (simp_all add: phases_def)
    then show ?thesis using e(2) phase_later_refl by (auto simp: phase_of_def phase_later_def)
  qed
  show "wp (processEvent ev) (\<lambda>_. on_tables polled s) (\<lambda>_. on_tables polled s) s"
    unfolding wp_snd
  proof -
    have wf: "db_wf (tables s) \<Longrightarrow> db_wf (tables (snd (processEvent ev s)))" by (rule fp_keeps_wf[OF fp_event])
    have "wp (processEvent ev) (\<lambda>_ t. tables t = tables s \<or> event_handled ev (tables s) (tables t))
      (\<lambda>_ t. tables t = tables s \<or> event_handled ev (tables s) (tables t)) s"
      by (rule wp_mono[OF processEvent_post]) (auto simp: event_result_def split: if_splits)
    then have "tables (snd (processEvent ev s)) = tables s \<or> event_handled ev (tables s) (tables (snd (processEvent ev s)))"
      by (simp add: wp_snd)
    with wf show "on_tables polled s (snd (processEvent ev s))"
      by (auto simp: on_tables_def polled_def phase_later_refl intro: handled)
  qed
qed

context table_relation
begin

lemma ob_poll:
  assumes "\<And>ev. obeys (on_tables P) (processEvent ev :: ('z, bool) lact)"
  shows "obeys (on_tables P) (pollEventsWithRecovery env :: ('z, unit) lact)"
proof -
  have adv: "obeys (on_tables P) (advanceTo n :: ('z, unit) lact)" for n
    unfolding advanceTo_def by (rule ob_world) simp
  have batch: "obeys (on_tables P) (processBatch raws n :: ('z, nat) lact)" for raws n
    by (induction raws arbitrary: n)
      (auto simp: processRaw_def intro!: eff.ob_rules assms adv split: option.split)
  show ?thesis
    unfolding pollEventsWithRecovery_def fetchAndProcessNewEvents_def getTargetContractIds_def queryEventsFromRpc_def Let_def
    by (intro eff.ob_rules ob_findMany batch adv)
qed

end

lemma poll_step:
  assumes "db_wf (tables s)"
  shows "escrow_step ListenerPoll i (phases (tables s) i) (phases (tables (snd (pollEventsWithRecovery env s))) i)"
proof -
  have "polled (tables s) (tables (snd (pollEventsWithRecovery env s)))"
    using obeysD[OF lc.ob_poll[OF event_polled]] by (auto simp: on_tables_def)
  then have "phase_later (phases (tables s) i)
      (phases (tables (snd (pollEventsWithRecovery env s))) i)"
    using assms by (simp add: polled_def)
  then show ?thesis unfolding phase_later_def by (cases rule: option.rel_cases) (auto intro: escrow_step.stays escrow_step.polled)
qed

subsection \<open>Every event\<close>

lemma snd_finish: "snd (finish m s) = snd (m s)"
  by (simp add: finish_def run_defs split: prod.split sum.split)

lemma process_step:
  assumes "db_wf (tables s)"
  shows "escrow_step ev i (phases (tables s) i) (phases (tables (snd (process env ev s))) i)"
proof (cases "EscrowMove \<in> event_footprint ev")
  case False
  have "writes (event_footprint ev) (tables s) (tables (snd (process env ev s)))"
    using process_writes by (simp add: on_tables_def)
  moreover have "EscrowAdd \<in> event_footprint ev \<longrightarrow> EscrowDrop \<notin> event_footprint ev \<and> OrderDrop \<notin> event_footprint ev"
    using event_kinds creates_not_deletes by blast
  ultimately have "changes (event_footprint ev) (tables s) (tables (snd (process env ev s)))"
    using changes_footprint False by blast
  then show ?thesis using assms by (auto simp: changes_def intro: change_event)
next
  case True
  show ?thesis
  proof (cases ev)
    case (Request req r)
    obtain t where t: "tables t = tables s"
      "snd (handle env req r s) = t \<or> snd (handle env req r s) = snd (controller env req r t)"
      using handle_run[of s env req r] by blast
    have "escrow_step ev i (phases (tables t) i) (phases (tables (snd (controller env req r t))) i)"
    proof -
      have "EscrowMove \<in> footprint r" using True Request by simp
      from footprint_moves[OF this] consider dto where "r = REscrows (EscrowsOpen dto)" | dto where "r = REscrows (EscrowsSync dto)"
        by blast
      then show ?thesis
      proof cases
        case 1
        have "db_wf (tables t)" using assms t(1) by simp
        from open_step[OF Request[unfolded 1] this] show ?thesis by (simp add: 1 snd_finish)
      next
        case 2
        from sync_step[OF Request[unfolded 2]] show ?thesis by (simp add: 2 snd_finish)
      qed
    qed
    with t Request show ?thesis by (auto intro: escrow_step.stays)
  qed (use True poll_step[OF assms] in simp_all)
qed

lemma step_moves: "escrow_step ev i (Some p) (Some q) \<Longrightarrow> move\<^sup>*\<^sup>* p q"
proof (induction "Some p" "Some q" rule: escrow_step.induct)
  case (polled a b c)
  from polled(2) have "move\<^sup>*\<^sup>* (a, c) (b, c)"
    by (induction rule: rtranclp_induct) (auto intro: move.edge rtranclp.rtrancl_into_rtrancl)
  with polled show ?case by simp
qed (auto intro: move.intros)

lemma run_take: "k < length evs \<Longrightarrow> run env (take (Suc k) evs) s = snd (process env (evs ! k) (run env (take k evs) s))"
  by (simp add: take_Suc_conv_app_nth run_append)

text \<open>
  C11.  The program refines the lifecycle of an escrow, event by event.  In any run of the process, each
  event leaves each escrow's status and contract as they are, or: it is one of the four requests that
  create an escrow, and the escrow is new, pending or initialized; it is the opening request and
  gives a contract to an escrow without one, which becomes initialized; it is the synchronisation of
  this escrow, which makes one step of the lifecycle and keeps the contract, unless it
  becomes initialized and gets one; it is a poll of the listener, which moves it along the
  lifecycle with its contract; or it is one of the two deletions.  An escrow that is there all along has made only
  such moves between the beginning and the end.
\<close>

theorem escrow_lifecycle_refined:
  assumes "db_wf (tables s)"
  shows "(\<forall>k < length evs. \<forall>i. escrow_step (evs ! k) i (phases (tables (run env (take k evs) s)) i)
       (phases (tables (run env (take (Suc k) evs) s)) i)) \<and>
    (\<forall>i. (\<forall>k \<le> length evs. phases (tables (run env (take k evs) s)) i \<noteq> None) \<longrightarrow>
       move\<^sup>*\<^sup>* (the (phases (tables s) i)) (the (phases (tables (run env evs s)) i)))"
proof -
  have step: "escrow_step (evs ! k) i (phases (tables (run env (take k evs) s)) i)
       (phases (tables (run env (take (Suc k) evs) s)) i)" if "k < length evs" for k i
    unfolding run_take[OF that] by (intro process_step db_wf_run assms)
  have "move\<^sup>*\<^sup>* (the (phases (tables s) i)) (the (phases (tables (run env (take k evs) s)) i))"
    if there: "\<forall>k \<le> length evs. phases (tables (run env (take k evs) s)) i \<noteq> None" and "k \<le> length evs" for k i
    using that(2)
  proof (induction k)
    case (Suc k)
    then have "phases (tables (run env (take k evs) s)) i \<noteq> None" "phases (tables (run env (take (Suc k) evs) s)) i \<noteq> None"
      using there by auto
    then have "move\<^sup>*\<^sup>* (the (phases (tables (run env (take k evs) s)) i)) (the (phases (tables (run env (take (Suc k) evs) s)) i))"
      using step[of k i] Suc.prems step_moves by fastforce
    with Suc show ?case by auto
  qed simp
  from this[of _ "length evs"] step show ?thesis by auto
qed

theorem escrow_lifecycle_refined_witness:
  "move\<^sup>*\<^sup>* (ES_initialized, Some ''C'') (ES_funded, Some ''C'') \<and>
   phases (one_order OS_created ES_initialized) ''e1'' = Some (ES_initialized, Some ''C'') \<and>
   phases (tables fund_run) ''e1'' = Some (ES_funded, Some ''C'')"
proof -
  let ?ev = "Request (sample_http fund_report []) fund_report"
  have before: "phases (one_order OS_created ES_initialized) ''e1'' = Some (ES_initialized, Some ''C'')"
    by (simp add: phases_def phase_of_def)
  obtain e where "escrows (tables fund_run) = [e]" "e_escrowStatus e = ES_funded" "e_contractId e = Some ''C''" "e_escrowId e = ''e1''"
    using fund_run_result by (cases "escrows (tables fund_run)") auto
  then have after: "phases (tables fund_run) ''e1'' = Some (ES_funded, Some ''C'')" by (simp add: phases_def phase_of_def)
  have "db_wf (tables (server_start (one_order OS_created ES_initialized)))" by (simp add: one_order_wf)
  note run = escrow_lifecycle_refined[OF this, of "[?ev]" "server_env None", THEN conjunct2, rule_format, of "''e1''", folded fund_run_def]
  have "phases (tables (run (server_env None) (take k [?ev]) (server_start (one_order OS_created ES_initialized)))) ''e1'' \<noteq> None"
    if "k \<le> length [?ev]" for k
    using that before after by (cases k) (simp_all add: fund_run_def)
  from run[OF this] have "move\<^sup>*\<^sup>* (ES_initialized, Some ''C'') (ES_funded, Some ''C'')"
    using before after by simp
  with before after show ?thesis by simp
qed

end
