(* ===== verification/PaymentRuns.thy ===== *)
theory PaymentRuns
  imports Platform
begin

text \<open>
  Every stored payment method is one that the rules of its provider accept: the three handlers that
  write one check it first, and no other event writes one or changes a provider.
\<close>

definition keeps_methods :: "rules \<Rightarrow> db \<Rightarrow> db \<Rightarrow> bool" where
  "keeps_methods rs d d' \<longleftrightarrow> (methods_valid rs d \<longrightarrow> methods_valid rs d')"

interpretation km: table_relation "keeps_methods rs" for rs
  by unfold_locales (auto simp: keeps_methods_def)

lemma methods_sub:
  "set (pmethods d') \<subseteq> set (pmethods d) \<Longrightarrow> providers d' = providers d \<Longrightarrow> keeps_methods rs d d'"
  by (auto simp: keeps_methods_def methods_valid_def)

lemma methods_step: "db_write k d d' \<Longrightarrow> k \<notin> {MethodAdd, MethodSet} \<Longrightarrow> keeps_methods rs d d'"
  by (erule db_write.cases)
    (auto simp: offer_table_def order_table_def escrow_table_def chat_table_def pmethod_table_def
      intro!: methods_sub split: if_splits)

lemma methods_footprint: "footprint_of K m \<Longrightarrow> MethodAdd \<notin> K \<Longrightarrow> MethodSet \<notin> K \<Longrightarrow> obeys (on_tables (keeps_methods rs)) m"
  unfolding obeys_def on_tables_def
  by (blast intro: writes_lift km.same km.comp methods_step)

lemma methods_handler:
  "(\<And>s. methods_valid rs (tables s) \<Longrightarrow>
      wp m (\<lambda>_ t. methods_valid rs (tables t)) (\<lambda>_ t. methods_valid rs (tables t)) s) \<Longrightarrow>
   obeys (on_tables (keeps_methods rs)) m"
  by (auto simp: obeys_def on_tables_def keeps_methods_def wp_snd)

lemma setup_method_valid: "obeys (on_tables (keeps_methods rs)) (setup_method rs userId dto)"
proof (rule methods_handler)
  fix s :: "'a world_scheme"
  assume v: "methods_valid rs (tables s)"
  have row: "valid_method rs ps (method_row d p i now)"
    if "List.find (\<lambda>p. Some (pp_provider_id p) = su_providerId dto) ps = Some p"
      "validateFor rs p (the (su_accountIdentifier dto)) = Inr b"
      "cm_providerId d = the (su_providerId dto)" "cm_accountIdentifier d = the (su_accountIdentifier dto)" for ps p d i now b
  proof -
    have p: "p \<in> set ps" "Some (pp_provider_id p) = su_providerId dto" using find_SomeD[OF that(1)] by auto
    from p(2) have "pp_provider_id p = the (su_providerId dto)" by (metis option.sel)
    with p(1) show ?thesis using that(2-) validateFor_True[OF that(2)]
      unfolding valid_method_def by (intro bexI[of _ p]) auto
  qed
  show "wp (setup_method rs userId dto) (\<lambda>_ t. methods_valid rs (tables t)) (\<lambda>_ t. methods_valid rs (tables t)) s"
    unfolding setup_method_def
    using v by (auto simp: prog wp_any dest: methods_validD find_SomeD intro!: db_anyI
      intro: row split: option.split sum.split)
qed

lemma methods_written:
  "obeys (on_tables (keeps_methods rs)) (payment_create rs d1)"
  "obeys (on_tables (keeps_methods rs)) (payment_update rs i d2)"
  "obeys (on_tables (keeps_methods rs)) (setupAccount env rs i d3)"
proof -
  show "obeys (on_tables (keeps_methods rs)) (payment_create rs d1)"
    by (rule methods_handler) (erule wp_mono[OF payment_create_post], simp_all)
  show "obeys (on_tables (keeps_methods rs)) (payment_update rs i d2)"
    by (rule methods_handler) (erule wp_mono[OF payment_update_post], simp_all)
  have "footprint_of {UserSet} (user_repo_update i d n)" for d n
    unfolding user_repo_update_def base_defs by (intro fp_flow fp_writes; simp)
  then show "obeys (on_tables (keeps_methods rs)) (setupAccount env rs i d3)"
    unfolding setupAccount_def by (intro km.eff.ob_rules setup_method_valid methods_footprint) auto
qed

lemma km_guards:
  "obeys (on_tables (keeps_methods rs)) (owner_canActivate meta u params)"
  "obeys (on_tables (keeps_methods rs)) (passport env req)"
proof -
  have "footprint_of {} (owner_canActivate meta u params)" "footprint_of {} (passport env req)"
    unfolding passport_def by (intro fp_flow fp_guards)+
  then show "obeys (on_tables (keeps_methods rs)) (owner_canActivate meta u params)"
    "obeys (on_tables (keeps_methods rs)) (passport env req)" by (auto intro: methods_footprint)
qed

lemma km_routes:
  "(\<And>u. obeys (on_tables (keeps_methods rs)) (k u)) \<Longrightarrow> obeys (on_tables (keeps_methods rs)) (authenticated env req k)"
  "(\<And>u. obeys (on_tables (keeps_methods rs)) (k u)) \<Longrightarrow> obeys (on_tables (keeps_methods rs)) (owned env req ty k)"
  "obeys (on_tables (keeps_methods rs)) m \<Longrightarrow> obeys (on_tables (keeps_methods rs)) (finish m)"
  unfolding owned_def authenticated_def jwt_canActivate_def finish_def by (intro km.eff.ob_rules km_guards; simp)+

lemma controller_methods: "obeys (on_tables (keeps_methods (en_rules env))) (controller env req r)"
proof (cases "MethodAdd \<in> footprint r \<or> MethodSet \<in> footprint r")
  case True
  then consider (a) dto where "r = RUsers (UsersSetup dto)" | (b) dto where "r = RPayments (PaymentsCreate dto)"
    | (c) dto where "r = RPayments (PaymentsUpdate dto)"
    by (cases r rule: footprint.cases) (auto split: auth_route.splits users_route.splits offers_route.splits orders_route.splits
      escrows_route.splits payments_route.splits chat_route.splits kyc_route.splits)
  then show ?thesis
    by cases (simp_all add: ctrl_users_setup_def km_routes methods_written)
qed (use methods_footprint[OF controller_footprint] in blast)

lemma process_methods: "obeys (on_tables (keeps_methods (en_rules env))) (process env ev)"
proof (cases "MethodAdd \<in> event_footprint ev \<or> MethodSet \<in> event_footprint ev")
  case True
  show ?thesis
  proof (cases ev)
    case (Request req r)
    have "obeys (on_tables (keeps_methods (en_rules env))) (handle env req r)"
      unfolding handle_def throttler_canActivate_def by (intro km.eff.ob_rules km.ob_world controller_methods) simp
    then show ?thesis by (simp add: Request)
  qed (use True in simp_all)
qed (use methods_footprint[OF process_footprint] in blast)

text \<open>
  C12.  Stored payment methods stay valid.  If every stored payment method is of its provider's type and
  has an account that the provider's rule accepts, so it is after any run: creation, update and
  account setup check the account before they write it, and nothing else writes one or changes a
  provider.
\<close>

theorem methods_stay_valid:
  assumes "methods_valid (en_rules env) (tables s)"
  shows "methods_valid (en_rules env) (tables (run env evs s))"
  using km.run_obeys[OF process_methods, where s = s and evs = evs] assms by (simp add: keeps_methods_def)

subsection \<open>A run\<close>

definition run_provider :: payment_provider where
  "run_provider = \<lparr> pp_provider_id = ''p1'', pp_name = ''Bank'', pp_type = PT_BANK, pp_country_code = None,
     pp_is_active = True, pp_metadata = None \<rparr>"

definition run_method :: CreatePaymentMethodDto where
  "run_method = \<lparr> cm_userId = ''b'', cm_providerId = ''p1'', cm_accountIdentifier = ''0123456789'',
     cm_identificationNumber = None, cm_beneficiaryName = None, cm_description = None \<rparr>"

definition run_create :: route where
  "run_create = RPayments (PaymentsCreate run_method)"

definition run_providers :: db where
  "run_providers = sample_db\<lparr>providers := [run_provider]\<rparr>"

lemma run_account: "validateFor initialRules run_provider ''0123456789'' = Inr True"
  by code_simp

lemma run_create_stored:
  "map m_userId (pmethods (tables (run (server_env None) [Request (sample_http run_create []) run_create]
     (server_start run_providers)))) = [''b'']"
proof -
  let ?P = "\<lambda>t :: server. map m_userId (pmethods (tables t)) = [''b'']"
  have "wp (handle (server_env None) (sample_http run_create []) run_create) (\<lambda>_. ?P) (\<lambda>_. ?P) (server_start run_providers)"
    using run_account
    by (simp add: handle_def serves_def throttler_canActivate_def run_create_def sample_http_csrf server_env_def finish_def
        payment_create_def run_method_def base_create_def prog wp_createRow pmethod_table_def
        provider_table_def run_providers_def run_provider_def clash_def)
  then show ?thesis by (simp add: wp_snd)
qed

theorem methods_stay_valid_witness:
  "let t = run (server_env None) [Request (sample_http run_create []) run_create] (server_start run_providers)
   in map m_userId (pmethods (tables t)) = [''b''] \<and> methods_valid initialRules (tables t)"
proof -
  have "methods_valid (en_rules (server_env None)) (tables (server_start run_providers))"
    by (simp add: methods_valid_def run_providers_def)
  note kept = methods_stay_valid[OF this]
  have "en_rules (server_env None) = initialRules" by (simp add: server_env_def)
  with run_create_stored kept[of "[Request (sample_http run_create []) run_create]"] show ?thesis
    unfolding Let_def by metis
qed

end
