(* ===== verification/LoginLive.thy ===== *)
theory LoginLive
  imports AuthProps Schema
begin

text \<open>
  The owner of a wallet gets in: the two steps of the login, one after the other.
\<close>

definition ids_unused :: "'z world_scheme \<Rightarrow> bool" where
  "ids_unused s \<longleftrightarrow> (\<forall>n. uuid_source s n \<notin> u_userId ` set (users (tables s)))"

lemma replaced_found:
  assumes "replaced pk ch e now xs ys"
  obtains c where "List.find (\<lambda>c. ac_publicKey c = pk) ys = Some c" "ac_challenge c = ch" "ac_expiresAt c = e"
    "ac_usedAt c = None" "c \<in> set ys" "ac_publicKey c = pk"
proof -
  have found: "List.find p ys = Some c" if "filter p ys = [c]" for p and c :: auth_challenge
    using that by (induction ys) (auto split: if_splits)
  from assms obtain c where c: "filter (\<lambda>c. ac_publicKey c = pk) ys = [c]" "ac_challenge c = ch" "ac_expiresAt c = e"
    "ac_usedAt c = None" unfolding replaced_def by blast
  show thesis using that[OF found[OF c(1)] c(2-)] find_SomeD[OF found[OF c(1)]] by simp
qed

lemma createChallenge_valid: "createChallenge env pk s = (Inr x, t) \<Longrightarrow> isValidEd25519PublicKey env pk"
proof (rule ccontr)
  assume run: "createChallenge env pk s = (Inr x, t)" and bad: "\<not> isValidEd25519PublicKey env pk"
  have "wp (createChallenge env pk) (\<lambda>_ _. False) (\<lambda>_ _. True) s"
    using bad by (simp add: createChallenge_def assertValidPublicKey_def prog)
  from wp_value[OF this run] show False .
qed

lemma login_consume_returns:
  assumes "c \<in> set (challenges (tables s))" "usable_challenge (lg_publicKey dto) (lg_challenge dto) (clock s) c"
    and "faults s = []" "ids_unused s" "rows_ok user_table (tables s)"
  shows "wp (login_consume env dto ctx)
    (\<lambda>(tok, u) _. u_publicKey u = lg_publicKey dto \<and> tok = jwt_sign env (login_payload (u_userId u) (lg_publicKey dto)))
    (\<lambda>_ _. False) s"
proof -
  let ?pk = "lg_publicKey dto"
  have marked: "filter (usable_challenge ?pk (lg_challenge dto) (clock s)) (challenges (tables s)) \<noteq> []"
    using assms(1,2) by (auto simp: filter_empty_conv)
  have known: "t_check user_table (tables s\<lparr>challenges := cs\<rparr>) (filter (\<lambda>x. u_userId x \<noteq> u_userId u) (users (tables s))) u = None"
    if "List.find (\<lambda>u. u_publicKey u = ?pk) (users (tables s)) = Some u" for u cs
    using find_SomeD[OF that(1)] assms(5) by (auto simp: rows_ok_def others_of_def user_table_def)
  have new: "t_check user_table (tables s\<lparr>challenges := cs\<rparr>) (users (tables s)) (new_user (uuid_source s n) ?pk now) = None"
    if "List.find (\<lambda>u. u_publicKey u = ?pk) (users (tables s)) = None" for n now cs
    using that assms(4) by (auto simp: user_table_def clash_def ids_unused_def find_None_iff_ball new_user_def)
  show ?thesis
  proof (cases "List.find (\<lambda>u. u_publicKey u = ?pk) (users (tables s))")
    case None
    show ?thesis unfolding login_consume_def by (simp add: prog marked assms(3) None new[OF None])
  next
    case (Some u)
    from find_SomeD[OF Some] have "u_publicKey u = ?pk" by simp
    then show ?thesis unfolding login_consume_def by (simp add: prog marked assms(3) Some known[OF Some])
  qed
qed

lemma login_verify_returns:
  assumes "List.find (\<lambda>c. ac_publicKey c = lg_publicKey dto) (challenges (tables s)) = Some c"
    and "usable_challenge (lg_publicKey dto) (lg_challenge dto) (clock s) c"
    and "faults s = []" "isValidEd25519PublicKey env (lg_publicKey dto)"
    and "decodeSignature (lg_signature dto) = Inr sig" "isValidSignature env (lg_publicKey dto) (lg_challenge dto) sig"
  shows "wp (login_verify env dto ctx) (\<lambda>_ t. t = s) (\<lambda>_ _. False) s"
  using assms by (simp add: login_verify_def assertValidPublicKey_def prog usable_challenge_def)

text \<open>
  C4.  The owner of a wallet gets in.  When a challenge was issued for the wallet, is still the stored
  one, has not expired, and its owner signs it (plainly, or after the prefix of SEP-53), then the
  login, with a database that works, always returns a token for the wallet's user: the caller is
  never locked out by what was stored before.
\<close>

theorem challenge_then_login:
  assumes "createChallenge env (lg_publicKey dto) s = (Inr (lg_challenge dto, expiry), t)" "db_wf (tables s)"
    and "challenges (tables u) = challenges (tables t)" "clock u < expiry"
    and "db_wf (tables u)" "faults u = []" "ids_unused u"
    and "decodeSignature (lg_signature dto) = Inr sig"
      "ed_verify env (lg_publicKey dto) (sha256 env (SEP_53_PREFIX @ utf8 (lg_challenge dto))) sig = Some True \<or>
       ed_verify env (lg_publicKey dto) (sha256 env (SEP_53_PREFIX @ utf8 (lg_challenge dto))) sig = Some False \<and>
       ed_verify env (lg_publicKey dto) (utf8 (lg_challenge dto)) sig = Some True"
  shows "\<exists>v usr. login env dto ctx u =
       (Inr (jwt_sign env (login_payload (u_userId usr) (lg_publicKey dto)), usr), v) \<and> u_publicKey usr = lg_publicKey dto"
proof -
  have wf: "challenges_wf (tables s)"
    using assms(2) by (auto simp: db_wf_def challenge_c.ok_iff challenges_wf_def distinct_map inj_on_def)
  obtain c where c: "List.find (\<lambda>c. ac_publicKey c = lg_publicKey dto) (challenges (tables u)) = Some c"
    "ac_challenge c = lg_challenge dto" "ac_expiresAt c = expiry" "ac_usedAt c = None"
    "c \<in> set (challenges (tables u))" "ac_publicKey c = lg_publicKey dto"
    using createChallenge_replaces[OF assms(1) wf] unfolding assms(3) by (auto elim: replaced_found)
  then have usable: "usable_challenge (lg_publicKey dto) (lg_challenge dto) (clock u) c"
    using assms(4) by (simp add: usable_challenge_def)
  have sig: "isValidSignature env (lg_publicKey dto) (lg_challenge dto) sig"
    using assms(9) by (auto simp: isValidSignature_def)
  have ok: "rows_ok user_table (tables u)" using assms(5) by (simp add: db_wf_def)
  have "wp (login env dto ctx)
    (\<lambda>(tok, usr) _. u_publicKey usr = lg_publicKey dto \<and> tok = jwt_sign env (login_payload (u_userId usr) (lg_publicKey dto)))
    (\<lambda>_ _. False) u"
    unfolding login_def wp_andThen
    by (rule wp_mono[OF login_verify_returns[OF c(1) usable assms(6) createChallenge_valid[OF assms(1)] assms(8) sig]])
      (simp_all add: login_consume_returns[OF c(5) usable assms(6,7) ok])
  from wp_returns[OF this] show ?thesis by auto
qed

text \<open>Wallet \<open>GB\<close> asks for its first challenge and signs it at once.\<close>

definition first_challenge :: auth_challenge where
  "first_challenge = \<lparr> ac_challengeId = ''u-'', ac_publicKey = ''GB'', ac_challenge = ''ch'',
     ac_expiresAt = 301000, ac_usedAt = None, ac_createdAt = 1000 \<rparr>"

lemma sample_default_expiry: "getChallengeExpirationSeconds sample_auth = 300"
  by (simp add: getChallengeExpirationSeconds_def sample_auth_def)

lemma first_challenge_issued:
  "\<exists>t. createChallenge sample_auth ''GB'' (quiet_world sample_db) = (Inr (''ch'', 301000), t) \<and>
     tables t = sample_db\<lparr>challenges := [first_challenge]\<rparr> \<and> faults t = [] \<and> clock t = 1000 \<and>
     uuid_source t = uuid_source (quiet_world sample_db)"
proof -
  have "wp (createChallenge sample_auth ''GB'') (\<lambda>a t. a = (''ch'', 301000) \<and>
      tables t = sample_db\<lparr>challenges := [first_challenge]\<rparr> \<and> faults t = [] \<and> clock t = 1000 \<and>
      uuid_source t = uuid_source (quiet_world sample_db)) (\<lambda>_ _. False) (quiet_world sample_db)"
    unfolding createChallenge_def assertValidPublicKey_def randomHex_def
    by (simp add: prog Let_def challenge_table_def sample_default_expiry first_challenge_def)
      (simp add: sample_auth_def)
  from wp_returns[OF this] show ?thesis by auto
qed

lemma first_challenge_wf:
  "db_wf sample_db" "db_wf (sample_db\<lparr>challenges := [first_challenge]\<rparr>)"
  by (simp_all add: db_wf_def rows_ok_def others_of_def joins_ok_def table_defs clash_def first_challenge_def)

theorem challenge_then_login_witness:
  "\<exists>t u v. createChallenge sample_auth ''GB'' (quiet_world sample_db) = (Inr (''ch'', 301000), t) \<and>
     login sample_auth sample_login sample_ctx t = (Inr (''JWT'', u), v) \<and> u_publicKey u = ''GB''"
proof -
  obtain t where t: "createChallenge sample_auth ''GB'' (quiet_world sample_db) = (Inr (''ch'', 301000), t)"
    "tables t = sample_db\<lparr>challenges := [first_challenge]\<rparr>" "faults t = []" "clock t = 1000"
    "uuid_source t = uuid_source (quiet_world sample_db)"
    using first_challenge_issued by metis
  have ids: "ids_unused t" by (simp add: ids_unused_def t)
  have "utf8 ''ch'' \<noteq> []" by code_simp
  then have sig: "ed_verify sample_auth ''GB'' (sha256 sample_auth (SEP_53_PREFIX @ utf8 ''ch'')) (replicate 64 0) = Some False \<and>
      ed_verify sample_auth ''GB'' (utf8 ''ch'') (replicate 64 0) = Some True"
    by (simp add: sample_auth_def)
  have "\<exists>v usr. login sample_auth sample_login sample_ctx t = (Inr (jwt_sign sample_auth
      (login_payload (u_userId usr) (lg_publicKey sample_login)), usr), v) \<and> u_publicKey usr = lg_publicKey sample_login"
    by (rule challenge_then_login[where s = "quiet_world sample_db" and t = t and expiry = 301000 and sig = "replicate 64 0"])
      (use t ids sig first_challenge_wf sample_signature_decoded in simp_all)
  with t(1) show ?thesis by auto
qed

end
