(* ===== verification/StatsProps.thy ===== *)
theory StatsProps
  imports Stats Samples
begin

text \<open>
  The timeline of the waitlist: the loop that builds it ends, and it holds for every day of the window
  the number of entries made up to that day.
\<close>

subsection \<open>The loop\<close>

definition entries_before :: "waitlist_entry list \<Rightarrow> int \<Rightarrow> nat" where
  "entries_before ws d = length (filter (\<lambda>w. utc_day w < d) ws)"

definition day_entry :: "waitlist_entry list \<Rightarrow> int \<Rightarrow> string \<times> nat" where
  "day_entry ws d = (formatDate d, entries_before ws (d + 1))"

text \<open>The first day of the timeline: the day of the first entry, or today.\<close>

definition first_day :: "waitlist_entry list \<Rightarrow> int \<Rightarrow> int" where
  "first_day ws today = (if ws = [] then today else Min (utc_day ` set ws))"

lemma first_day_nonneg: "\<forall>w \<in> set ws. common_day (utc_day w) \<Longrightarrow> common_day today \<Longrightarrow> 0 \<le> first_day ws today"
  by (auto simp: first_day_def common_day_def)

lemma entry_days [simp]: "set (entry_days ws) = utc_day ` set ws" "sorted (entry_days ws)" "distinct (entry_days ws)"
  by (simp_all add: entry_days_def)

lemma entries_next:
  "entries_before ws (d + 1) = entries_before ws d + length (filter (\<lambda>w. utc_day w = d) ws)"
  unfolding entries_before_def by (induction ws) auto

lemma entries_none: "d \<notin> utc_day ` set ws \<Longrightarrow> filter (\<lambda>w. utc_day w = d) ws = []"
  by (auto simp: filter_empty_conv)

lemma first_day_start:
  assumes "\<forall>w \<in> set ws. common_day (utc_day w)"
  shows "fullStartDate tz (today * DAY - tz + DAY - 1) (dailyCounts ws) = first_day ws today * DAY - tz"
proof (cases "entry_days ws")
  case Nil
  then have "ws = []" using entry_days(1)[of ws] by simp
  then show ?thesis by (simp add: fullStartDate_def dailyCounts_def entry_days_def first_day_def startOfDay_def)
next
  case (Cons d ds)
  have ws: "ws \<noteq> []" using Cons by (auto simp: entry_days_def)
  have "Min (utc_day ` set ws) = d"
    using entry_days(1,2)[of ws] unfolding Cons by (metis Min_insert2 List.finite_set list.set(2) list.simps(15) sorted_simps(2))
  moreover have "d \<in> utc_day ` set ws" using entry_days(1)[of ws] unfolding Cons by (metis list.set_intros(1))
  ultimately show ?thesis using assms ws Cons
    by (auto simp: fullStartDate_def dailyCounts_def first_day_def parseDay_format)
qed

definition loop_at :: "waitlist_entry list \<Rightarrow> int \<Rightarrow> int \<Rightarrow> int \<Rightarrow> timeline_loop \<Rightarrow> bool" where
  "loop_at ws tz s c l \<longleftrightarrow> cursor l = c * DAY - tz \<and> dataIdx l = length (filter (\<lambda>d. d < c) (entry_days ws)) \<and>
     runningTotal l = entries_before ws c \<and> timeline l = map (day_entry ws) [s..c - 1]"

lemma loop_step:
  assumes "loop_at ws tz s c l" "s \<le> c" "common_day c" "\<forall>w \<in> set ws. common_day (utc_day w)"
  shows "loop_at ws tz s (c + 1) (timeline_step tz (dailyCounts ws) l)"
proof -
  let ?ds = "entry_days ws"
  let ?k = "length (filter (\<lambda>d. d < c) ?ds)"
  have len: "length (dailyCounts ws) = length ?ds" by (simp add: dailyCounts_def)
  have at: "dailyCounts ws ! k = (formatDate (?ds ! k), length (filter (\<lambda>w. utc_day w = ?ds ! k) ws))" if "k < length ?ds" for k
    using that by (simp add: dailyCounts_def)
  have hit: "?k < length ?ds \<and> fst (dailyCounts ws ! ?k) = formatDate c \<longleftrightarrow> c \<in> utc_day ` set ws"
  proof -
    have "common_day (?ds ! ?k)" if "?k < length ?ds"
      using assms(4) nth_mem[OF that] by (auto simp: entry_days(1))
    then have "?k < length ?ds \<and> fst (dailyCounts ws ! ?k) = formatDate c \<longleftrightarrow> ?k < length ?ds \<and> ?ds ! ?k = c"
      using at formatDate_le(2)[OF _ assms(3)] by auto
    then show ?thesis using next_day(1)[OF entry_days(2,3), of c ws] by (simp add: entry_days(1))
  qed
  have upto: "[s..c] = [s..c - 1] @ [c]" using assms(2) by (simp add: upto_rec2)
  have cur: "local_day tz (cursor l) = c" "c * DAY - tz + DAY = (c + 1) * DAY - tz"
    using assms(1) by (simp_all add: loop_at_def distrib_right)
  note l = assms(1)[unfolded loop_at_def] cur len upto
  show ?thesis
  proof (cases "c \<in> utc_day ` set ws")
    case True
    then have k: "?k < length ?ds" "?ds ! ?k = c" using next_day(1)[OF entry_days(2,3), of c ws] by (simp_all add: entry_days(1))
    have "timeline_step tz (dailyCounts ws) l = \<lparr> cursor = (c + 1) * DAY - tz,
        runningTotal = entries_before ws c + length (filter (\<lambda>w. utc_day w = c) ws), dataIdx = Suc ?k,
        timeline = map (day_entry ws) [s..c - 1] @ [(formatDate c, entries_before ws c + length (filter (\<lambda>w. utc_day w = c) ws))] \<rparr>"
      using l k at[OF k(1)] by (simp add: timeline_step_def addDays_def Let_def)
    then show ?thesis using True next_day(2)[OF entry_days(2,3), of c ws] upto
      by (simp add: loop_at_def day_entry_def entries_next entry_days(1) del: upto.simps)
  next
    case False
    then have "timeline_step tz (dailyCounts ws) l = \<lparr> cursor = (c + 1) * DAY - tz, runningTotal = entries_before ws c,
        dataIdx = ?k, timeline = map (day_entry ws) [s..c - 1] @ [(formatDate c, entries_before ws c)] \<rparr>"
      using l hit by (simp add: timeline_step_def addDays_def Let_def)
    then show ?thesis using False next_day(2)[OF entry_days(2,3), of c ws] upto
      by (simp add: loop_at_def day_entry_def entries_next entries_none entry_days(1) del: upto.simps)
  qed
qed

lemma loop_start:
  assumes "\<forall>w \<in> set ws. common_day (utc_day w)"
  shows "loop_at ws tz (first_day ws today) (first_day ws today)
    \<lparr> cursor = fullStartDate tz (today * DAY - tz + DAY - 1) (dailyCounts ws), runningTotal = 0, dataIdx = 0, timeline = [] \<rparr>"
proof -
  have "first_day ws today \<le> utc_day w" if "w \<in> set ws" for w
    using that by (auto simp: first_day_def)
  then have "filter (\<lambda>d. d < first_day ws today) (entry_days ws) = []" "entries_before ws (first_day ws today) = 0"
    by (auto simp: entries_before_def filter_empty_conv entry_days(1) not_less)
  then show ?thesis by (simp add: loop_at_def first_day_start[OF assms])
qed

lemma before_midnight: "c * DAY - tz \<le> today * DAY - tz + DAY - 1 \<longleftrightarrow> c \<le> today" for c today :: int
proof
  assume "c * DAY - tz \<le> today * DAY - tz + DAY - 1"
  then have "c * DAY < (today + 1) * DAY" by (simp add: distrib_right)
  then show "c \<le> today" using DAY_pos by (simp add: mult_less_cancel_right)
next
  assume "c \<le> today"
  then have "c * DAY \<le> today * DAY" using DAY_pos by (simp add: mult_right_mono)
  then show "c * DAY - tz \<le> today * DAY - tz + DAY - 1" using DAY_pos by linarith
qed

lemma loop_result:
  assumes "\<forall>w \<in> set ws. common_day (utc_day w)" "common_day today"
  shows "\<exists>l. timeline_run tz (today * DAY - tz + DAY - 1) (dailyCounts ws) = Some l \<and>
     timeline l = map (day_entry ws) [first_day ws today..today]"
proof -
  let ?s = "first_day ws today" and ?now = "today * DAY - tz + DAY - 1"
  let ?P = "\<lambda>l. \<exists>c \<ge> ?s. (c \<le> ?s \<or> c \<le> today + 1) \<and> loop_at ws tz ?s c l"
  have low: "0 \<le> ?s" using assms by (rule first_day_nonneg)
  have step: "?P (timeline_step tz (dailyCounts ws) l) \<and>
      nat (?now + 1 - cursor (timeline_step tz (dailyCounts ws) l)) < nat (?now + 1 - cursor l)"
    if l: "?P l" "cursor l \<le> ?now" for l
  proof -
    from l(1) obtain c where c: "?s \<le> c" "c \<le> ?s \<or> c \<le> today + 1" "loop_at ws tz ?s c l" by blast
    then have "c \<le> today" using l(2) before_midnight by (simp add: loop_at_def)
    moreover from this have "common_day c" using assms(2) low c(1) by (simp add: common_day_def)
    from loop_step[OF c(3,1) this assms(1)] have at: "loop_at ws tz ?s (c + 1) (timeline_step tz (dailyCounts ws) l)" .
    moreover have "cursor (timeline_step tz (dailyCounts ws) l) = cursor l + DAY"
      by (simp add: timeline_step_def addDays_def Let_def)
    ultimately show ?thesis using c(1) l(2) DAY_pos by (intro conjI exI[of _ "c + 1"]) auto
  qed
  have start: "?P \<lparr> cursor = fullStartDate tz ?now (dailyCounts ws), runningTotal = 0, dataIdx = 0, timeline = [] \<rparr>"
    using loop_start[OF assms(1), of tz today] by (intro exI[of _ ?s]) simp
  have "\<exists>l. timeline_run tz ?now (dailyCounts ws) = Some l"
    unfolding timeline_run_def by (rule measure_while_option_Some[where P = ?P, OF step start])
  then obtain l where run: "timeline_run tz ?now (dailyCounts ws) = Some l" by (rule exE)
  have "?P l" by (rule while_option_rule[where P = ?P, OF _ run[unfolded timeline_run_def] start]) (rule conjunct1[OF step])
  then obtain c where c: "?s \<le> c" "c \<le> ?s \<or> c \<le> today + 1" "loop_at ws tz ?s c l" by blast
  moreover have "\<not> cursor l \<le> ?now" using while_option_stop[OF run[unfolded timeline_run_def]] .
  ultimately have "today < c" using before_midnight by (auto simp: loop_at_def)
  then have "c = today + 1 \<or> today < ?s" using c(2) by linarith
  then have "[?s..c - 1] = [?s..today]" using c(1,2) by auto
  with c(3) run show ?thesis by (auto simp: loop_at_def)
qed

text \<open>
  C37.  The timeline loop ends.  Whatever the waitlist holds (with dates up to the year 9999), the loop
  that walks from the day of the first entry to the end of today stops, after one round per day, and
  has then written for each of these days the number of entries made up to it.
\<close>

theorem timeline_loop_ends:
  assumes "\<forall>w \<in> set ws. common_day (utc_day w)" "common_day today"
  shows "\<exists>l. timeline_run tz (today * DAY - tz + DAY - 1) (dailyCounts ws) = Some l \<and>
     timeline l = map (day_entry ws) [first_day ws today..today]"
  using assms by (rule loop_result)

subsection \<open>The report\<close>

text \<open>The first day a window shows.\<close>

definition window_day :: "int \<Rightarrow> string option \<Rightarrow> int \<Rightarrow> int \<Rightarrow> int" where
  "window_day tz window today first =
     (if window = Some ''2s'' then today - 13
      else if window = Some ''1m'' then (let (y, m, d) = civil today in makeDay y (int m - 1) (int d))
      else if window = Some ''all'' then first
      else today - 6)"

lemma end_of_day: "addDays n (d * DAY - tz + DAY - 1) = (d + n) * DAY - tz + DAY - 1"
  by (simp add: addDays_def distrib_right)

lemma windowStart_day:
  "local_day tz (windowStart tz (if truthy window then the window else ''7d'') (today * DAY - tz + DAY - 1) (first * DAY - tz))
     = window_day tz window today first"
proof -
  have "(today * DAY - tz + DAY - 1 + tz) mod DAY = DAY - 1"
  proof -
    have "today * DAY - tz + DAY - 1 + tz = DAY - 1 + today * DAY" by simp
    then have "(today * DAY - tz + DAY - 1 + tz) mod DAY = (DAY - 1) mod DAY" by (simp only: mod_mult_self1)
    then show ?thesis by (simp add: DAY_def)
  qed
  then have month: "addMonths tz (- 1) (today * DAY - tz + DAY - 1) =
      (let (y, m, d) = civil today in makeDay y (int m - 1) (int d)) * DAY - tz + DAY - 1"
    by (simp add: addMonths_def split: prod.split)
  have day: "local_day tz (startOfDay tz t) = local_day tz t" for t
    by (simp add: startOfDay_def)
  show ?thesis
    by (cases window) (simp_all add: windowStart_def window_day_def day end_of_day[simplified] month truthy_def)
qed

lemma filter_upto: "filter (\<lambda>d. w \<le> d) [a..b] = [max a w..b]" for a b w :: int
proof (induction a b rule: upto.induct)
  case (1 a b)
  then show ?case
    by (cases "a \<le> b"; cases "w \<le> a") (auto simp: upto.simps[of a b] max_def not_le intro: arg_cong2[where f = upto])
qed

text \<open>
  C38.  The waitlist report.  Every report of the statistics shows, for each day of the chosen window up
  to today and in order, the number of entries made up to that day: the last seven days, fourteen
  days, one month, or all days since the first entry.
\<close>

theorem stats_timeline:
  assumes "getStats tz window s = (Inr r, t)"
    and "\<forall>w \<in> set (waitlist (tables s)). common_day (utc_day w)" "common_day (local_day tz (clock s))"
    and "common_day (window_day tz window (local_day tz (clock s)) (first_day (waitlist (tables s)) (local_day tz (clock s))))"
  shows "sr_waitlistTimeline r = map (day_entry (waitlist (tables s)))
     [max (first_day (waitlist (tables s)) (local_day tz (clock s)))
        (window_day tz window (local_day tz (clock s)) (first_day (waitlist (tables s)) (local_day tz (clock s))))
      ..local_day tz (clock s)]"
proof -
  let ?ws = "waitlist (tables s)" and ?today = "local_day tz (clock s)"
  let ?first = "first_day ?ws ?today"
  let ?w = "window_day tz window ?today ?first"
  have now: "endOfDay tz (clock s) = ?today * DAY - tz + DAY - 1" by (simp add: endOfDay_def startOfDay_def)
  obtain l where l: "timeline_run tz (?today * DAY - tz + DAY - 1) (dailyCounts ?ws) = Some l"
    "timeline l = map (day_entry ?ws) [?first..?today]"
    using loop_result[OF assms(2,3)] by blast
  have common: "common_day d" if "d \<in> set [?first..?today]" for d
    using that first_day_nonneg[OF assms(2,3)] assms(3) by (auto simp: common_day_def)
  have "waitlistTimeline tz (if truthy window then the window else ''7d'') (endOfDay tz (clock s)) (dailyCounts ?ws)
      = filter (\<lambda>item. formatDate ?w \<le> fst item) (map (day_entry ?ws) [?first..?today])"
    by (simp add: waitlistTimeline_def Let_def now l first_day_start[OF assms(2)] windowStart_day)
  also have "\<dots> = map (day_entry ?ws) (filter (\<lambda>d. ?w \<le> d) [?first..?today])"
    unfolding filter_map by (rule arg_cong[of _ _ "map _"], rule filter_cong)
      (simp_all add: day_entry_def formatDate_le(1)[OF assms(4)] common)
  finally have line: "waitlistTimeline tz (if truthy window then the window else ''7d'') (endOfDay tz (clock s)) (dailyCounts ?ws)
      = map (day_entry ?ws) [max ?first ?w..?today]" by (simp add: filter_upto)
  have "wp (getStats tz window) (\<lambda>r _. sr_waitlistTimeline r = map (day_entry ?ws) [max ?first ?w..?today]) (\<lambda>_ _. True) s"
    unfolding getStats_def using line
    by (cases "truthy window") (auto simp: prog wp_any Let_def waitlist_table_def intro!: db_anyI)
  from wp_value[OF this assms(1)] show ?thesis .
qed

subsection \<open>A waitlist\<close>

definition entry :: "string \<Rightarrow> int \<Rightarrow> waitlist_entry" where
  "entry i day = \<lparr> wl_id = i, wl_email = i @ ''@x.io'', wl_createdAt = day * DAY + 5000 \<rparr>"

definition two_entries :: "waitlist_entry list" where
  "two_entries = [entry ''w1'' 0, entry ''w2'' 4]"

definition stats_world :: world where
  "stats_world = (quiet_world (sample_db\<lparr>waitlist := two_entries\<rparr>))\<lparr>clock := 8 * DAY + 77\<rparr>"

lemma two_entries_days: "map utc_day two_entries = [0, 4]"
  by code_simp

lemma two_entries_common: "\<forall>w \<in> set two_entries. common_day (utc_day w)"
proof -
  have "\<forall>d \<in> set (map utc_day two_entries). common_day d"
    unfolding two_entries_days by code_simp
  then show ?thesis by simp
qed

theorem timeline_loop_ends_witness:
  "\<exists>l. timeline_run 0 (2 * DAY - 0 + DAY - 1) (dailyCounts two_entries) = Some l \<and>
     timeline l = [(''1970-01-01'', 1), (''1970-01-02'', 1), (''1970-01-03'', 1)]"
proof -
  have "common_day 2" by code_simp
  note timeline_loop_ends[OF two_entries_common this, of 0]
  moreover have "map (day_entry two_entries) [first_day two_entries 2..2] =
      [(''1970-01-01'', 1), (''1970-01-02'', 1), (''1970-01-03'', 1)]" by code_simp
  ultimately show ?thesis by metis
qed

theorem stats_timeline_witness:
  "\<exists>r t. getStats 0 (Some ''7d'') stats_world = (Inr r, t) \<and> map snd (sr_waitlistTimeline r) = [1, 1, 2, 2, 2, 2, 2]"
proof -
  have "wp (getStats 0 (Some ''7d'')) (\<lambda>_ _. True) (\<lambda>_ _. False) stats_world"
    by (simp add: getStats_def prog stats_world_def Let_def)
  from wp_returns[OF this] obtain r t where run: "getStats 0 (Some ''7d'') stats_world = (Inr r, t)" by auto
  have ws: "waitlist (tables stats_world) = two_entries" by (simp add: stats_world_def)
  have day: "local_day 0 (clock stats_world) = 8" by (simp add: stats_world_def local_day_def DAY_def)
  have first: "first_day two_entries 8 = 0" by code_simp
  have win: "window_day 0 (Some ''7d'') 8 0 = 2" by (simp add: window_day_def)
  have ok: "common_day 8" "common_day 2" by code_simp+
  have "sr_waitlistTimeline r = map (day_entry two_entries) [max 0 2..8]"
    using stats_timeline[OF run, unfolded ws day first win, OF two_entries_common ok] .
  moreover have "map snd (map (day_entry two_entries) [max 0 2..8]) = map (\<lambda>d. entries_before two_entries (d + 1)) [2..8]"
    by (simp add: day_entry_def)
  moreover have "map (\<lambda>d. entries_before two_entries (d + 1)) [2..8] = [1, 1, 2, 2, 2, 2, 2]" by code_simp
  ultimately show ?thesis using run by metis
qed

end
