(* ===== verification/Seed.thy ===== *)
theory Seed
  imports Schema Samples
begin

text \<open>
  The seed script (\<open>prisma/seed.ts\<close>): every provider of the catalogue is inserted, or its metadata and
  activity are refreshed, under the unique key of name, country and type.  The script is documented
  to be idempotent; the theorem says so.
\<close>

record catalogue_entry =
  sd_name :: string
  sd_type :: payment_provider_type
  sd_country_code :: string
  sd_metadata :: json

definition catalogued :: "catalogue_entry \<Rightarrow> payment_provider \<Rightarrow> bool" where
  "catalogued e p \<longleftrightarrow> pp_name p = sd_name e \<and> pp_country_code p = Some (sd_country_code e) \<and> pp_type p = sd_type e"

definition refreshed :: "catalogue_entry \<Rightarrow> payment_provider \<Rightarrow> payment_provider" where
  "refreshed e p = p\<lparr>pp_metadata := Some (sd_metadata e), pp_is_active := True\<rparr>"

definition catalogue_row :: "catalogue_entry \<Rightarrow> string \<Rightarrow> payment_provider" where
  "catalogue_row e i = \<lparr> pp_provider_id = i, pp_name = sd_name e, pp_type = sd_type e,
     pp_country_code = Some (sd_country_code e), pp_is_active = True, pp_metadata = Some (sd_metadata e) \<rparr>"

fun seed_main :: "catalogue_entry list \<Rightarrow> ('z, unit) act" where
  "seed_main [] = ret ()"
| "seed_main (e # es) =
     bindE newUuid (\<lambda>i.
     andThen (upsertUnique provider_table (catalogued e) (catalogue_row e i) (refreshed e))
       (seed_main es))"

subsection \<open>One entry\<close>

lemma catalogue_fields [simp]:
  "pp_provider_id (refreshed e p) = pp_provider_id p" "pp_name (refreshed e p) = pp_name p"
  "pp_country_code (refreshed e p) = pp_country_code p" "pp_type (refreshed e p) = pp_type p"
  "pp_provider_id (catalogue_row e i) = i" "catalogued e (catalogue_row e i)" "catalogued a (refreshed e p) = catalogued a p"
  by (simp_all add: refreshed_def catalogue_row_def catalogued_def)

definition fresh_ids :: "'z world_scheme \<Rightarrow> bool" where
  "fresh_ids s \<longleftrightarrow> inj (uuid_source s) \<and> (\<forall>n \<ge> uuid_next s. uuid_source s n \<notin> pp_provider_id ` set (providers (tables s)))"

text \<open>The entry is there: an active provider with its name, country, type and metadata.\<close>

definition seeded :: "catalogue_entry \<Rightarrow> payment_provider list \<Rightarrow> bool" where
  "seeded e ps \<longleftrightarrow> (\<exists>p \<in> set ps. pp_name p = sd_name e \<and> pp_country_code p = Some (sd_country_code e) \<and>
     pp_type p = sd_type e \<and> pp_metadata p = Some (sd_metadata e) \<and> pp_is_active p)"

lemma seeded_iff: "seeded e ps \<longleftrightarrow> (\<exists>p \<in> set ps. catalogued e p \<and> refreshed e p = p)"
proof -
  have "refreshed e p = p \<longleftrightarrow> pp_metadata p = Some (sd_metadata e) \<and> pp_is_active p" for p
    by (cases p) (auto simp: refreshed_def)
  then show ?thesis by (auto simp: seeded_def catalogued_def)
qed

text \<open>
  What the script leaves alone: every other table, the identity of every provider, and every provider
  that is not in the catalogue.
\<close>

definition outside :: "catalogue_entry set \<Rightarrow> payment_provider \<Rightarrow> bool" where
  "outside C p \<longleftrightarrow> (\<forall>e \<in> C. \<not> (pp_name p = sd_name e \<and> pp_country_code p = Some (sd_country_code e) \<and> pp_type p = sd_type e))"

definition only_catalogue :: "catalogue_entry set \<Rightarrow> db \<Rightarrow> db \<Rightarrow> bool" where
  "only_catalogue C d d' \<longleftrightarrow> (\<exists>ps. d' = d\<lparr>providers := ps\<rparr>) \<and>
     (\<exists>new. map pp_provider_id (providers d') = map pp_provider_id (providers d) @ new) \<and>
     filter (outside C) (providers d') = filter (outside C) (providers d)"

lemma outside_iff: "outside C p \<longleftrightarrow> (\<forall>e \<in> C. \<not> catalogued e p)"
  by (simp add: outside_def catalogued_def)

lemma only_catalogue_refl: "only_catalogue C d d"
  by (auto simp: only_catalogue_def intro: exI[of _ "providers d"] exI[of _ "[]"])

lemma only_catalogue_trans: "only_catalogue C a b \<Longrightarrow> only_catalogue C b c \<Longrightarrow> only_catalogue C a c"
  by (auto simp: only_catalogue_def)

definition entry_key :: "catalogue_entry \<Rightarrow> string \<times> string \<times> payment_provider_type" where
  "entry_key e = (sd_name e, sd_country_code e, sd_type e)"

lemma catalogued_key: "catalogued e p \<Longrightarrow> catalogued a p \<Longrightarrow> entry_key a = entry_key e"
  by (auto simp: catalogued_def entry_key_def)

lemma refreshed_twice [simp]: "refreshed e (refreshed e p) = refreshed e p" "refreshed e (catalogue_row e i) = catalogue_row e i"
  by (simp_all add: refreshed_def catalogue_row_def)

lemma provider_row:
  assumes "rows_ok provider_table d" "p \<in> set (providers d)" "q \<in> set (providers d)" "pp_provider_id p = pp_provider_id q"
  shows "p = q"
  using assms by (auto simp: provider_c.ok_iff distinct_map inj_on_def)

lemma provider_catalogued:
  assumes "rows_ok provider_table d" "p \<in> set (providers d)" "q \<in> set (providers d)" "catalogued e p" "catalogued e q"
  shows "p = q"
proof -
  have "same_value (provider_unique p) (provider_unique q)"
    using assms(4,5) by (simp add: same_value_def provider_unique_def catalogued_def)
  then have "pp_provider_id p = pp_provider_id q"
    using assms(1,2,3) by (auto simp: provider_c.ok_iff)
  then show ?thesis by (rule provider_row[OF assms(1-3)])
qed

text \<open>An entry that is there passes the constraints again; one that is not has a place.\<close>

lemma refresh_allowed:
  assumes "rows_ok provider_table d" "r \<in> set (providers d)"
  shows "t_check provider_table d (filter (\<lambda>x. pp_provider_id x \<noteq> pp_provider_id r) (providers d)) (refreshed e r) = None"
  using assms by (auto simp: provider_c.ok_iff provider_c.check_iff provider_unique_def)

lemma insert_allowed:
  assumes "List.find (catalogued e) (providers d) = None" "i \<notin> pp_provider_id ` set (providers d)"
  shows "t_check provider_table d (providers d) (catalogue_row e i) = None"
  using assms by (auto simp: provider_c.check_iff provider_unique_def same_value_def find_None_iff_ball catalogued_def catalogue_row_def)

lemma seeded_refresh:
  assumes "rows_ok provider_table d" "r \<in> set (providers d)" "catalogued e r" "seeded a (providers d)" "entry_key a \<noteq> entry_key e"
  shows "seeded a (map (\<lambda>x. if pp_provider_id x = pp_provider_id r then refreshed e x else x) (providers d))"
proof -
  from assms(4) obtain p where p: "p \<in> set (providers d)" "catalogued a p" "refreshed a p = p" by (auto simp: seeded_iff)
  have "pp_provider_id p \<noteq> pp_provider_id r"
    using provider_row[OF assms(1) p(1) assms(2)] catalogued_key[OF assms(3), of a] p(2) assms(5) by auto
  with p show ?thesis unfolding seeded_iff by (intro bexI[of _ p]) (auto simp: image_iff intro!: bexI[of _ p])
qed

lemma only_catalogue_insert:
  assumes "e \<in> C"
  shows "only_catalogue C d (d\<lparr>providers := providers d @ [catalogue_row e i]\<rparr>)"
  using assms by (auto simp: only_catalogue_def outside_iff intro: bexI[of _ e])

lemma only_catalogue_refresh:
  assumes "e \<in> C" "rows_ok provider_table d" "r \<in> set (providers d)" "catalogued e r"
  shows "only_catalogue C d (d\<lparr>providers := map (\<lambda>x. if pp_provider_id x = pp_provider_id r then refreshed e x else x) (providers d)\<rparr>)"
proof -
  have "pp_provider_id x = pp_provider_id r \<Longrightarrow> x \<in> set (providers d) \<Longrightarrow> \<not> outside C x" for x
    using provider_row[OF assms(2) _ assms(3), of x] assms(1,4) by (auto simp: outside_iff)
  moreover have "outside C (refreshed e x) \<longleftrightarrow> outside C x" for x by (simp add: outside_iff)
  ultimately have "filter (outside C) (map (\<lambda>x. if pp_provider_id x = pp_provider_id r then refreshed e x else x) ps) = filter (outside C) ps"
    if "set ps \<subseteq> set (providers d)" for ps
    using that by (induction ps) auto
  then show ?thesis by (auto simp: only_catalogue_def comp_def if_distrib cong: if_cong)
qed

lemma seed_run:
  fixes s :: "'z world_scheme"
  shows "faults s = [] \<Longrightarrow> rows_ok provider_table (tables s) \<Longrightarrow> fresh_ids s \<Longrightarrow> distinct (map entry_key (es' @ es)) \<Longrightarrow>
   \<forall>e \<in> set es'. seeded e (providers (tables s)) \<Longrightarrow> set es \<subseteq> C \<Longrightarrow>
   wp (seed_main es) (\<lambda>_ t. faults t = [] \<and> rows_ok provider_table (tables t) \<and>
      only_catalogue C (tables s) (tables t) \<and> (\<forall>e \<in> set (es' @ es). seeded e (providers (tables t)))) (\<lambda>_ _. False) s"
proof (induction es arbitrary: s es')
  case Nil
  then show ?case by (simp add: prog only_catalogue_refl)
next
  case (Cons e es)
  let ?ps = "providers (tables s)" and ?i = "uuid_source s (uuid_next s)"
  have keys: "entry_key a \<noteq> entry_key e" if "a \<in> set es'" for a
    using Cons.prems(4) that by (auto simp: rev_image_eqI)
  have rest: "wp (seed_main es) (\<lambda>_ t. faults t = [] \<and> rows_ok provider_table (tables t) \<and>
      only_catalogue C (tables s) (tables t) \<and> (\<forall>e \<in> set (es' @ e # es). seeded e (providers (tables t)))) (\<lambda>_ _. False) t"
    if "only_catalogue C (tables s) (tables t)" "faults t = []" "rows_ok provider_table (tables t)" "fresh_ids t" "seeded e (providers (tables t))"
      "\<forall>a \<in> set es'. seeded a (providers (tables t))" for t :: "'z world_scheme"
    by (rule wp_mono[OF Cons.IH[of t "es' @ [e]"]]) (use that Cons.prems(4,6) in \<open>auto intro: only_catalogue_trans\<close>)
  show ?case
  proof (cases "List.find (catalogued e) ?ps")
    case None
    have new: "?i \<notin> pp_provider_id ` set ?ps" using Cons.prems(3) by (simp add: fresh_ids_def)
    note ok = insert_allowed[OF None new]
    have grown: "only_catalogue C (tables s) (tables s\<lparr>providers := ?ps @ [catalogue_row e ?i]\<rparr>)"
      using only_catalogue_insert Cons.prems(6) by simp
    have put: "rows_ok provider_table (tables s\<lparr>providers := ?ps @ [catalogue_row e ?i]\<rparr>)"
      using provider_c.ok_create[OF Cons.prems(2), of "catalogue_row e ?i"] ok by (simp add: provider_table_def)
    have ids: "uuid_source s n \<noteq> ?i" if "uuid_next s < n" for n
      using Cons.prems(3) that by (auto simp: fresh_ids_def inj_def)
    have fresh: "fresh_ids (putRows provider_table (?ps @ [catalogue_row e ?i]) (s\<lparr>uuid_next := Suc (uuid_next s)\<rparr>))"
      using Cons.prems(3) ids by (auto simp: fresh_ids_def)
    show ?thesis
      using Cons.prems(1,5) None ok
      by (simp add: prog) (rule rest[simplified]; use put fresh grown in \<open>auto simp: seeded_iff\<close>)
  next
    case (Some r)
    then have r: "r \<in> set ?ps" "catalogued e r" using find_SomeD by fastforce+
    note ok = refresh_allowed[OF Cons.prems(2) r(1), of e]
    let ?qs = "map (\<lambda>x. if pp_provider_id x = pp_provider_id r then refreshed e x else x) ?ps"
    have put: "rows_ok provider_table (tables s\<lparr>providers := ?qs\<rparr>)"
      using provider_c.ok_replace[OF Cons.prems(2), of r "refreshed e"] r ok
      by (simp add: provider_table_def replace_by_def others_of_def)
    have same: "only_catalogue C (tables s) (tables s\<lparr>providers := ?qs\<rparr>)"
      using only_catalogue_refresh[OF _ Cons.prems(2) r] Cons.prems(6) by simp
    have "map pp_provider_id ?qs = map pp_provider_id ?ps" by simp
    then have ids: "pp_provider_id ` set ?qs = pp_provider_id ` set ?ps" by (metis set_map)
    have fresh: "fresh_ids (putRows provider_table ?qs (s\<lparr>uuid_next := Suc (uuid_next s)\<rparr>))"
      using Cons.prems(3) ids by (simp add: fresh_ids_def provider_table_def)
    have "refreshed e r \<in> set ?qs" using r(1) by (auto simp: image_iff intro!: bexI[of _ r])
    then have "seeded e ?qs" using r(2) unfolding seeded_iff by (intro bexI[of _ "refreshed e r"]) simp_all
    moreover have "\<forall>a \<in> set es'. seeded a ?qs"
      using Cons.prems(5) seeded_refresh[OF Cons.prems(2) r] keys by blast
    ultimately show ?thesis
      using Cons.prems(1) Some ok
      by (simp add: prog) (rule rest[simplified]; use put fresh same in simp)
  qed
qed

lemma seed_again:
  "faults s = [] \<Longrightarrow> rows_ok provider_table (tables s) \<Longrightarrow> \<forall>e \<in> set es. seeded e (providers (tables s)) \<Longrightarrow>
   wp (seed_main es) (\<lambda>_ t. tables t = tables s) (\<lambda>_ _. False) s"
proof (induction es arbitrary: s)
  case (Cons e es)
  let ?ps = "providers (tables s)"
  from Cons.prems(3) obtain p where p: "p \<in> set ?ps" "catalogued e p" "refreshed e p = p" by (auto simp: seeded_iff)
  then obtain r where Some: "List.find (catalogued e) ?ps = Some r"
    by (cases "List.find (catalogued e) ?ps") (auto simp: find_None_iff_ball)
  then have r: "r \<in> set ?ps" "catalogued e r" using find_SomeD by fastforce+
  have "r = p" using provider_catalogued[OF Cons.prems(2) r(1) p(1) r(2) p(2)] .
  then have same: "map (\<lambda>x. if pp_provider_id x = pp_provider_id r then refreshed e x else x) ?ps = ?ps"
    using p(1,3) provider_row[OF Cons.prems(2) _ p(1)] by (intro map_idI) (metis (no_types))
  have "putRows provider_table ?ps (s\<lparr>uuid_next := n\<rparr>) = s\<lparr>uuid_next := n\<rparr>" for n
    by (simp add: putRows_def provider_table_def)
  then show ?case
    using Cons.prems Some refresh_allowed[OF Cons.prems(2) r(1), of e] same Cons.IH[of "s\<lparr>uuid_next := Suc (uuid_next s)\<rparr>"]
    by (simp add: prog)
qed (simp add: prog)

text \<open>
  C40.  The seed script is idempotent.  On a working database with its constraints, the script leaves every
  entry of a catalogue without repeated keys as an active provider with the name, country, type and
  metadata of the entry, touches no other table, no other provider and no provider's identifier, and
  running it again changes nothing.
\<close>

theorem seed_idempotent:
  assumes "faults s = []" "db_wf (tables s)" "fresh_ids s" "distinct (map entry_key es)"
  shows "\<exists>t u. seed_main es s = (Inr (), t) \<and> (\<forall>e \<in> set es. seeded e (providers (tables t))) \<and>
    only_catalogue (set es) (tables s) (tables t) \<and> seed_main es t = (Inr (), u) \<and> tables u = tables t"
proof -
  have wf: "rows_ok provider_table (tables s)" using assms(2) by (simp add: db_wf_def)
  have "wp (seed_main es) (\<lambda>_ t. faults t = [] \<and> rows_ok provider_table (tables t) \<and>
      only_catalogue (set es) (tables s) (tables t) \<and> (\<forall>e \<in> set es. seeded e (providers (tables t)))) (\<lambda>_ _. False) s"
    using seed_run[OF assms(1) wf assms(3), of "[]" es "set es"] assms(4) by simp
  from wp_returns[OF this] obtain t where t: "seed_main es s = (Inr (), t)" "faults t = []"
    "rows_ok provider_table (tables t)" "\<forall>e \<in> set es. seeded e (providers (tables t))"
    "only_catalogue (set es) (tables s) (tables t)" by auto
  from wp_returns[OF seed_again[OF t(2-4)]] t(1,4,5) show ?thesis by auto
qed

definition sample_catalogue :: "catalogue_entry list" where
  "sample_catalogue =
     [\<lparr> sd_name = ''Pago Movil'', sd_type = PT_MOBILE, sd_country_code = ''VE'', sd_metadata = JObj [] \<rparr>,
      \<lparr> sd_name = ''PayPal'', sd_type = PT_PLATFORM, sd_country_code = [], sd_metadata = JObj [] \<rparr>]"

theorem seed_idempotent_witness:
  "\<exists>t u. seed_main sample_catalogue (quiet_world sample_db) = (Inr (), t) \<and>
     seed_main sample_catalogue t = (Inr (), u) \<and> tables u = tables t"
proof -
  have wf: "db_wf sample_db"
    by (simp add: db_wf_def rows_ok_def others_of_def joins_ok_def table_defs clash_def)
  have "CHR ''u'' # replicate m (CHR ''-'') = CHR ''u'' # replicate n (CHR ''-'') \<Longrightarrow> m = n" for m n
    by (metis length_Cons length_replicate nat.inject)
  then have "fresh_ids (quiet_world sample_db)" by (auto simp: fresh_ids_def inj_def)
  moreover have "distinct (map entry_key sample_catalogue)" by (simp add: sample_catalogue_def entry_key_def)
  ultimately show ?thesis using seed_idempotent[of "quiet_world sample_db" sample_catalogue] wf by auto
qed

end
