(* ===== verification/Poller.thy ===== *)
theory Poller
  imports ListenerProps Numbers
begin

text \<open>
  The loop around the polls of \<open>StellarListenerService\<close>: the settings its constructor reads, the timer
  handle, the timeouts that wait, and the poll in flight.  A poll begins when its timeout fires and ends
  later; in between and around, the rest of the program runs.  The theorems say that the loop never
  stops by itself and never runs twice.
\<close>

subsection \<open>Settings\<close>

record listener_settings =
  ls_rpcUrl :: string
  ls_horizonUrl :: string
  ls_configuredContractId :: "string option"
  ls_pollIntervalMs :: "rat option"

definition listener_settings_of :: "config \<Rightarrow> listener_settings" where
  "listener_settings_of cfg =
     \<lparr> ls_rpcUrl = get_or (cfg ''STELLAR_RPC_URL'') ''https://soroban-testnet.stellar.org'',
       ls_horizonUrl = get_or (cfg ''STELLAR_HORIZON_URL'') ''https://horizon-testnet.stellar.org'',
       ls_configuredContractId = cfg ''TRUSTLESS_WORK_CONTRACT_ID'',
       ls_pollIntervalMs = js_Number_of (cfg_get cfg ''STELLAR_LISTENER_POLL_INTERVAL_MS'' ''5000'') \<rparr>"

text \<open>
  The delay of \<open>setTimeout\<close> in Node: one that is less than 1, too large for 31 bits or not a number is
  1, a fraction is cut off.
\<close>

definition timer_delay :: "rat option \<Rightarrow> int" where
  "timer_delay d = (case d of None \<Rightarrow> 1 | Some r \<Rightarrow> if r < 1 \<or> 2147483647 < r then 1 else \<lfloor>r\<rfloor>)"

lemma timer_delay_bounds: "1 \<le> timer_delay d \<and> timer_delay d \<le> 2147483647"
  by (auto simp: timer_delay_def le_floor_iff floor_le_iff not_less split: option.split)

subsection \<open>The loop\<close>

text \<open>\<open>timer\<close> is the field of the service; \<open>waiting\<close> holds the timeouts that have not fired, with their delay.\<close>

record polling = listener +
  timer :: "nat option"
  waiting :: "(nat \<times> int) list"
  in_flight :: nat
  next_handle :: nat

type_synonym ('z, 'a) pact = "('z polling_scheme, 'a) prog"

definition setTimeout :: "rat option \<Rightarrow> ('z, unit) pact" where
  "setTimeout delayMs = modify (\<lambda>s. s\<lparr>timer := Some (next_handle s),
     waiting := waiting s @ [(next_handle s, timer_delay delayMs)], next_handle := Suc (next_handle s)\<rparr>)"

definition scheduleNextPoll :: "rat option \<Rightarrow> ('z, unit) pact" where
  "scheduleNextPoll delayMs =
     bindE (getState isListening) (\<lambda>on. if \<not> on then ret () else setTimeout delayMs)"

definition startLoop :: "('z, unit) pact" where
  "startLoop =
     bindE (getState isListening) (\<lambda>on.
     if on then ret () else andThen startListening (scheduleNextPoll (Some 0)))"

definition stopLoop :: "('z, unit) pact" where
  "stopLoop =
     andThen stopListening
     (bindE (getState timer) (\<lambda>t. case t of
        None \<Rightarrow> ret ()
      | Some h \<Rightarrow> modify (\<lambda>s. s\<lparr>waiting := filter (\<lambda>w. fst w \<noteq> h) (waiting s), timer := None\<rparr>)))"

text \<open>
  \<open>pollEventsWithRecovery\<close> from the timeout to its first statement, and from there to the end with its
  \<open>finally\<close>.
\<close>

definition pollBegins :: "nat \<Rightarrow> ('z, unit) pact" where
  "pollBegins h =
     bindE (getState waiting) (\<lambda>ws.
     if h \<notin> fst ` set ws then ret ()
     else andThen (modify (\<lambda>s. s\<lparr>waiting := filter (\<lambda>w. fst w \<noteq> h) (waiting s)\<rparr>))
      (bindE (getState isListening) (\<lambda>on.
       if \<not> on then ret () else modify (\<lambda>s. s\<lparr>in_flight := Suc (in_flight s)\<rparr>))))"

definition pollEnds :: "listener_env \<Rightarrow> ('z, unit) pact" where
  "pollEnds env =
     bindE (getState in_flight) (\<lambda>n.
     if n = 0 then ret ()
     else andThen (tryCatch (andThen (fetchAndProcessNewEvents env) (ret ())) (\<lambda>_. ret ()))
      (andThen (modify (\<lambda>s. s\<lparr>in_flight := in_flight s - 1\<rparr>))
        (scheduleNextPoll (ls_pollIntervalMs (listener_settings_of (le_config env))))))"

text \<open>Whatever else runs in the process does not touch the loop.\<close>

definition keeps_loop :: "'z polling_scheme \<Rightarrow> 'z polling_scheme \<Rightarrow> bool" where
  "keeps_loop s t \<longleftrightarrow> isListening t = isListening s \<and> timer t = timer s \<and> waiting t = waiting s \<and>
     in_flight t = in_flight s \<and> next_handle t = next_handle s"

datatype loop_event = LoopStart | LoopStop | TimeoutFires nat | PollReturns | Elsewhere

inductive loop_step :: "listener_env \<Rightarrow> loop_event \<Rightarrow> 'z polling_scheme \<Rightarrow> 'z polling_scheme \<Rightarrow> bool" for env where
  start: "startLoop s = (r, t) \<Longrightarrow> loop_step env LoopStart s t"
| stop: "stopLoop s = (r, t) \<Longrightarrow> loop_step env LoopStop s t"
| fires: "pollBegins h s = (r, t) \<Longrightarrow> loop_step env (TimeoutFires h) s t"
| returns: "pollEnds env s = (r, t) \<Longrightarrow> loop_step env PollReturns s t"
| elsewhere: "keeps_loop s t \<Longrightarrow> loop_step env Elsewhere s t"

inductive loop_run :: "listener_env \<Rightarrow> loop_event list \<Rightarrow> 'z polling_scheme \<Rightarrow> 'z polling_scheme \<Rightarrow> bool" for env where
  nothing: "loop_run env [] s s"
| further: "loop_step env e s t \<Longrightarrow> loop_run env es t u \<Longrightarrow> loop_run env (e # es) s u"

inductive_cases loop_stepE: "loop_step env e s t"
inductive_cases loop_runE: "loop_run env (e # es) s u"

subsection \<open>A poll does not touch the loop\<close>

interpretation kept: effect keeps_loop
  by unfold_locales (auto simp: keeps_loop_def)

lemma processEvent_loop: "obeys keeps_loop (processEvent ev)"
proof -
  have tx: "obeys keeps_loop (event_tx ev e)" for e
    by (rule obeysI, unfold event_tx_def audit_repo_create_def)
      (auto intro!: db_anyI split: option.split simp: prog wp_any keeps_loop_def putRows_def)
  have "obeys keeps_loop (transaction (event_tx ev e))" for e
    by (rule obeysI, unfold wp_transaction, rule wp_mono[OF wp_obeys[OF tx]])
      (auto simp: wp_db_call_any wp_ret keeps_loop_def intro!: db_anyI)
  moreover have "obeys keeps_loop (findEscrowRecord ev)"
    by (rule obeysI, rule wp_findEscrowRecordI) (simp_all add: keeps_loop_def)
  moreover have "obeys keeps_loop (rememberEvent k)" for k
    by (simp add: obeys_def rememberEvent_def modify_def keeps_loop_def)
  ultimately show ?thesis
    unfolding processEvent_def by (intro kept.ob_rules)
qed

lemma fetch_loop: "obeys keeps_loop (fetchAndProcessNewEvents env)"
proof -
  have advance: "obeys keeps_loop (advanceTo n)" for n
    by (simp add: obeys_def advanceTo_def modify_def keeps_loop_def)
  have raw: "obeys keeps_loop (processRaw j)" for j
    unfolding processRaw_def by (intro kept.ob_rules processEvent_loop advance)
  have batch: "obeys keeps_loop (processBatch raws n)" for raws n
    by (induction raws arbitrary: n) (auto intro!: kept.ob_ret kept.ob_bindE raw)
  have "obeys keeps_loop (getTargetContractIds env)"
    by (rule obeysI) (auto simp: getTargetContractIds_def Let_def prog wp_any keeps_loop_def intro!: db_anyI)
  then show ?thesis
    unfolding fetchAndProcessNewEvents_def queryEventsFromRpc_def by (intro kept.ob_rules advance batch)
qed

lemma poll_keeps_loop:
  "keeps_loop s (snd (tryCatch (andThen (fetchAndProcessNewEvents env) (ret ())) (\<lambda>_. ret ()) s))"
  by (rule obeysD[OF kept.ob_tryCatch[OF kept.ob_andThen[OF fetch_loop kept.ob_ret] kept.ob_ret]])

subsection \<open>One loop\<close>

text \<open>
  \<open>one_poll\<close>: the loop is on, and there is either one timeout, which the service can clear, or one
  poll in flight.  \<open>no_poll\<close>: it is off, and at most the poll that was in flight is still running.
\<close>

definition one_poll :: "'z polling_scheme \<Rightarrow> bool" where
  "one_poll s \<longleftrightarrow> isListening s \<and>
     (in_flight s = 1 \<and> waiting s = [] \<or>
      in_flight s = 0 \<and> (\<exists>h d. waiting s = [(h, d)] \<and> timer s = Some h))"

definition no_poll :: "'z polling_scheme \<Rightarrow> bool" where
  "no_poll s \<longleftrightarrow> \<not> isListening s \<and> waiting s = [] \<and> in_flight s \<le> 1"

definition not_started :: "'z polling_scheme \<Rightarrow> bool" where
  "not_started s \<longleftrightarrow> \<not> isListening s \<and> waiting s = [] \<and> in_flight s = 0"

lemmas loop_defs = startLoop_def stopLoop_def pollBegins_def scheduleNextPoll_def setTimeout_def
  startListening_def stopListening_def

lemma startLoop_first: "not_started s \<Longrightarrow> startLoop s = (r, t) \<Longrightarrow> one_poll t"
  by (auto simp: not_started_def one_poll_def loop_defs run_defs)

lemma startLoop_again: "one_poll s \<Longrightarrow> startLoop s = (r, t) \<Longrightarrow> t = s"
  by (auto simp: one_poll_def loop_defs run_defs)

lemma stopLoop_off: "one_poll s \<Longrightarrow> stopLoop s = (r, t) \<Longrightarrow> no_poll t"
  by (auto simp: one_poll_def no_poll_def loop_defs run_defs split: option.splits)

lemma stopLoop_again: "no_poll s \<Longrightarrow> stopLoop s = (r, t) \<Longrightarrow> no_poll t"
  by (auto simp: no_poll_def loop_defs run_defs split: option.splits)

lemma pollBegins_one: "one_poll s \<Longrightarrow> pollBegins h s = (r, t) \<Longrightarrow> one_poll t"
  by (auto simp: one_poll_def loop_defs run_defs split: if_splits)

lemma pollBegins_none: "no_poll s \<Longrightarrow> pollBegins h s = (r, t) \<Longrightarrow> t = s"
  by (auto simp: no_poll_def loop_defs run_defs)

text \<open>The end of a poll: whatever the fetch did, then the \<open>finally\<close>.\<close>

lemma pollEnds_cases:
  assumes "pollEnds env s = (r, t)"
  obtains "in_flight s = 0" "t = s"
  | u where "keeps_loop s u" "in_flight s > 0"
      "t = snd (scheduleNextPoll (ls_pollIntervalMs (listener_settings_of (le_config env))) (u\<lparr>in_flight := in_flight s - 1\<rparr>))"
proof (cases "in_flight s = 0")
  case True
  from that(1)[OF True] show ?thesis using assms True by (simp add: pollEnds_def run_defs)
next
  case False
  let ?m = "tryCatch (andThen (fetchAndProcessNewEvents env) (ret ())) (\<lambda>_. ret ())"
  obtain x u where u: "?m s = (x, u)" by (metis surj_pair)
  have "x = Inr ()" using u by (auto simp: run_defs split: prod.splits sum.splits)
  moreover have k: "keeps_loop s u" using poll_keeps_loop[of s env] by (simp add: u)
  ultimately show ?thesis
    using assms False u by (intro that(2)[OF k]) (auto simp: pollEnds_def bindE_def andThen_def getState_def modify_def keeps_loop_def)
qed

lemma pollEnds_one: "one_poll s \<Longrightarrow> pollEnds env s = (r, t) \<Longrightarrow> one_poll t"
  by (erule pollEnds_cases) (auto simp: one_poll_def keeps_loop_def loop_defs run_defs)

lemma pollEnds_none: "no_poll s \<Longrightarrow> pollEnds env s = (r, t) \<Longrightarrow> no_poll t"
  by (erule pollEnds_cases) (auto simp: no_poll_def keeps_loop_def loop_defs run_defs)

lemma elsewhere_same:
  assumes "keeps_loop s t"
  shows "one_poll t = one_poll s" "no_poll t = no_poll s"
  using assms by (auto simp: keeps_loop_def one_poll_def no_poll_def)

lemma step_one: "loop_step env e s t \<Longrightarrow> e \<noteq> LoopStop \<Longrightarrow> one_poll s \<Longrightarrow> one_poll t"
  by (erule loop_stepE) (auto dest: startLoop_again pollBegins_one pollEnds_one simp: elsewhere_same)

lemma step_none: "loop_step env e s t \<Longrightarrow> e \<noteq> LoopStart \<Longrightarrow> no_poll s \<Longrightarrow> no_poll t"
  by (erule loop_stepE) (auto dest: stopLoop_again pollBegins_none pollEnds_none simp: elsewhere_same)

lemma run_one: "loop_run env es s t \<Longrightarrow> LoopStop \<notin> set es \<Longrightarrow> one_poll s \<Longrightarrow> one_poll t"
  by (induction rule: loop_run.induct) (auto dest: step_one)

lemma run_none: "loop_run env es s t \<Longrightarrow> LoopStart \<notin> set es \<Longrightarrow> no_poll s \<Longrightarrow> no_poll t"
  by (induction rule: loop_run.induct) (auto dest: step_none)

text \<open>
  C32.  The polling of the chain never stops by itself and never runs twice.  From the start of the service
  on, through timeouts, polls that end in any way (also in an exception), repeated starts and
  whatever else the process does, there is one timeout or one poll in flight.  After the stop no timeout
  is left and no poll begins, whatever happens short of a new start.
\<close>

theorem one_loop:
  assumes "not_started s" "loop_run env (LoopStart # es) s t" "LoopStop \<notin> set es"
    and "loop_run env (LoopStop # es') t u" "LoopStart \<notin> set es'"
  shows "isListening t \<and> length (waiting t) + in_flight t = 1 \<and>
    \<not> isListening u \<and> waiting u = [] \<and> in_flight u \<le> 1"
proof -
  obtain v where v: "loop_step env LoopStart s v" "loop_run env es v t" using assms(2) by (auto elim: loop_runE)
  have "one_poll v" using v(1) assms(1) by (auto elim: loop_stepE dest: startLoop_first)
  with v(2) assms(3) have t: "one_poll t" by (rule run_one)
  obtain w where w: "loop_step env LoopStop t w" "loop_run env es' w u" using assms(4) by (auto elim: loop_runE)
  have "no_poll w" using w(1) t by (auto elim: loop_stepE dest: stopLoop_off)
  with w(2) assms(5) have "no_poll u" by (rule run_none)
  with t show ?thesis by (auto simp: one_poll_def no_poll_def)
qed

definition sample_loop :: polling where
  "sample_loop = \<lparr> tables = empty_db, faults = [], clock = 1000, uuid_source = (\<lambda>n. []), uuid_next = 0, tw_calls = [],
     lastProcessedLedger = Some 0, processedEventIds = {}, isListening = False,
     timer = None, waiting = [], in_flight = 0, next_handle = 0 \<rparr>"

definition after :: "('s, 'a) prog \<Rightarrow> 's \<Rightarrow> 's" where
  "after m s = snd (m s)"

lemma step_after:
  "loop_step env LoopStart s (after startLoop s)" "loop_step env LoopStop s (after stopLoop s)"
  "loop_step env (TimeoutFires h) s (after (pollBegins h) s)" "loop_step env PollReturns s (after (pollEnds env) s)"
  by (auto intro!: loop_step.intros simp: after_def prod_eq_iff)

theorem one_loop_witness:
  "let t = after (pollEnds sample_env) (after (pollBegins 0) (after startLoop sample_loop)); u = after stopLoop t
   in isListening t \<and> length (waiting t) + in_flight t = 1 \<and> waiting u = []"
proof -
  have s: "not_started sample_loop" by (simp add: not_started_def sample_loop_def)
  let ?t = "after (pollEnds sample_env) (after (pollBegins 0) (after startLoop sample_loop))"
  have t: "loop_run sample_env [LoopStart, TimeoutFires 0, PollReturns] sample_loop ?t"
    by (rule loop_run.further[OF step_after(1) loop_run.further[OF step_after(3) loop_run.further[OF step_after(4) loop_run.nothing]]])
  have u: "loop_run sample_env [LoopStop] ?t (after stopLoop ?t)"
    by (rule loop_run.further[OF step_after(2) loop_run.nothing])
  from one_loop[OF s t _ u] show ?thesis by (simp add: Let_def)
qed

text \<open>
  A start that follows a stop while a poll is in flight makes two loops: the poll in flight schedules
  its successor beside the new timeout, and a later stop clears only one of them.
\<close>

lemma restart_doubles:
  assumes "isListening s" "in_flight s = 1" "waiting s = []"
  shows "length (waiting (after (pollEnds env) (after startLoop (after stopLoop s)))) = 2"
proof -
  let ?s = "after startLoop (after stopLoop s)"
  have s: "isListening ?s" "in_flight ?s = 1" "length (waiting ?s) = 1"
    using assms by (auto simp: after_def loop_defs run_defs split: option.split)
  obtain r t where t: "pollEnds env ?s = (r, t)" by (metis surj_pair)
  from t have "length (waiting t) = 2"
    by (cases rule: pollEnds_cases) (use s in \<open>auto simp: keeps_loop_def loop_defs run_defs\<close>)
  then show ?thesis using t by (simp add: after_def[of "pollEnds env"])
qed

text \<open>The end of a poll and the poll of \<open>Listener\<close>, which has no timers.\<close>

lemma pollEnds_polls:
  assumes "isListening s" "in_flight s = 1"
  shows "pollEnds env s = andThen (pollEventsWithRecovery env)
     (andThen (modify (\<lambda>s. s\<lparr>in_flight := in_flight s - 1\<rparr>))
       (scheduleNextPoll (ls_pollIntervalMs (listener_settings_of (le_config env))))) s"
  using assms by (simp add: pollEnds_def pollEventsWithRecovery_def andThen_def bindE_def getState_def)

end
