(* ===== verification/Startup.thy ===== *)
theory Startup
  imports Chat FileStorage Numbers
begin

text \<open>
  What the process does before it serves: the bootstrap of \<open>main.ts\<close> (cookies, origins, proxy, port),
  the options of the throttler in \<open>app.module.ts\<close>, the clients that constructors set up (Trustless Work,
  the bucket, the database client with its counter of queries), and the metadata of decorators.
\<close>

subsection \<open>The bootstrap\<close>

text \<open>The middleware that gives a request its cookies, unless something has parsed them before.\<close>

definition attachCookies ::
    "(string \<Rightarrow> string option) option \<Rightarrow> string option \<Rightarrow> (string \<Rightarrow> string option) option" where
  "attachCookies cookies header =
     (case (cookies, header) of (None, Some h) \<Rightarrow> Some (parseCookies (Some h)) | _ \<Rightarrow> cookies)"

definition corsOrigins :: "string list" where
  "corsOrigins =
     [''http://localhost:3000'', ''http://127.0.0.1:3000'', ''http://localhost:3001'', ''http://127.0.0.1:3001'',
      ''https://ikash-frontend-dev-977686155876.us-central1.run.app'', ''https://ikash.it.com'']"

text \<open>The setting \<open>trust proxy\<close> of Express: a number of hops, or a text (here also one whose
  number is infinite).\<close>

definition trustProxy :: "config \<Rightarrow> string + rat" where
  "trustProxy env =
     (let t = get_or (orElse (env ''TRUST_PROXY'') (Some ''1'')) ''1''
      in case js_Number_of t of None \<Rightarrow> Inl t | Some n \<Rightarrow> Inr n)"

definition listenPort :: "config \<Rightarrow> string" where
  "listenPort env = get_or (env ''PORT'') ''3001''"

text \<open>The origins of the chat gateway: those of the HTTP server and \<open>FRONTEND_URL\<close>, when it is set.\<close>

definition allowedOrigins :: "config \<Rightarrow> string list" where
  "allowedOrigins env =
     map the (filter truthy (map Some
       [''http://localhost:3000'', ''http://127.0.0.1:3000'', ''http://localhost:3001'', ''http://127.0.0.1:3001'',
        ''https://ikash-frontend-dev-977686155876.us-central1.run.app'', ''https://ikash.it.com''] @ [env ''FRONTEND_URL'']))"

definition throttlerOptions :: "config \<Rightarrow> rate_limit" where
  "throttlerOptions env =
     \<lparr> rl_limit = limit_var env ''RATE_LIMIT_DEFAULT_MAX'' ''100'',
       rl_ttl = limit_var env ''RATE_LIMIT_DEFAULT_TTL_MS'' ''60000'' \<rparr>"

definition getHello :: string where
  "getHello = ''Hello World!''"

lemma allowedOrigins_iff:
  "x \<in> set (allowedOrigins env) \<longleftrightarrow> x \<in> set corsOrigins \<or> env ''FRONTEND_URL'' = Some x \<and> x \<noteq> []"
  by (cases "env ''FRONTEND_URL''") (auto simp: allowedOrigins_def corsOrigins_def truthy_def)

lemma attachCookies_once: "attachCookies (attachCookies cookies header) header = attachCookies cookies header"
  by (auto simp: attachCookies_def split: option.split)

subsection \<open>The client of Trustless Work\<close>

record http_client =
  hc_baseURL :: string
  hc_timeout :: int
  hc_headers :: "(string \<times> string) list"

definition tw_http :: "config \<Rightarrow> http_client" where
  "tw_http cfg =
     \<lparr> hc_baseURL = get_or (cfg ''TRUSTLESS_WORK_API_URL'') ''https://api.trustlesswork.com'',
       hc_timeout = 60000,
       hc_headers = [(''Content-Type'', ''application/json''),
         (''x-api-key'', get_or (cfg ''TRUSTLESS_WORK_API_KEY'') ''mock-key'')] \<rparr>"

subsection \<open>The bucket\<close>

definition bucketName :: "config \<Rightarrow> string" where
  "bucketName cfg = cfg_get cfg ''GCS_BUCKET_NAME'' ''ikash-profile-images''"

text \<open>The options of the storage client: the project, and the endpoint when one is set.\<close>

definition storageOptions :: "config \<Rightarrow> (string \<times> string) list" where
  "storageOptions cfg =
     (let apiEndpoint = cfg_get cfg ''STORAGE_ENDPOINT'' []
      in (''projectId'', cfg_get cfg ''GCS_PROJECT_ID'' ''ikash-local'') #
         (if apiEndpoint \<noteq> [] then [(''apiEndpoint'', apiEndpoint)] else []))"

text \<open>\<open>onModuleInit\<close>, with the calls \<open>exists\<close> and \<open>create\<close> of the bucket client.\<close>

definition gcs_onModuleInit ::
    "(string \<Rightarrow> ('s, bool) prog) \<Rightarrow> (string \<Rightarrow> ('s, unit) prog) \<Rightarrow> config \<Rightarrow> ('s, unit) prog" where
  "gcs_onModuleInit bucketExists bucketCreate cfg =
     tryCatch (bindE (bucketExists (bucketName cfg)) (\<lambda>there.
       if \<not> there then bucketCreate (bucketName cfg) else ret ()))
     (\<lambda>_. ret ())"

text \<open>The start never fails because of the bucket, and an existing bucket is not created again.\<close>

lemma gcs_starts: "fst (gcs_onModuleInit bucketExists bucketCreate cfg s) = Inr ()"
  by (auto simp: gcs_onModuleInit_def run_defs split: prod.split sum.split)

lemma gcs_existing:
  "bucketExists (bucketName cfg) s = (Inr True, t) \<Longrightarrow> gcs_onModuleInit bucketExists bucketCreate cfg s = (Inr (), t)"
  by (simp add: gcs_onModuleInit_def run_defs)

lemma publicUrlBase_bucket:
  "publicUrlBase cfg = get_or (map_of (storageOptions cfg) ''apiEndpoint'') ''https://storage.googleapis.com'' @ ''/'' @ bucketName cfg"
  by (simp add: publicUrlBase_def storageOptions_def bucketName_def Let_def)

subsection \<open>The database client\<close>

record prisma_service =
  queryLogEnabled :: bool
  queryCount :: nat
  queryListener :: bool
  connected :: bool

definition isQueryLogEnabled :: "config \<Rightarrow> bool" where
  "isQueryLogEnabled env \<longleftrightarrow> env ''NODE_ENV'' \<noteq> Some ''production'' \<and> env ''PRISMA_QUERY_LOG'' = Some ''true''"

definition new_prisma :: "config \<Rightarrow> prisma_service" where
  "new_prisma env = \<lparr> queryLogEnabled = isQueryLogEnabled env, queryCount = 0, queryListener = False, connected = False \<rparr>"

definition registerQueryLogger :: "('z prisma_service_scheme, unit) prog" where
  "registerQueryLogger = modify (\<lambda>s. s\<lparr>queryListener := True\<rparr>)"

text \<open>\<open>onModuleInit\<close>; \<open>connects\<close> is the answer of \<open>$connect\<close>.\<close>

definition prisma_onModuleInit :: "config \<Rightarrow> (exn + unit) \<Rightarrow> ('z prisma_service_scheme, unit) prog" where
  "prisma_onModuleInit env connects =
     bindE (getState queryLogEnabled) (\<lambda>logged.
     andThen (if logged then registerQueryLogger else ret ())
      (if env ''MOCK_PROFILE_UPLOAD'' = Some ''true'' \<or> \<not> truthy (env ''DATABASE_URL'') then ret ()
       else andThen (lift connects) (modify (\<lambda>s. s\<lparr>connected := True\<rparr>))))"

text \<open>The event of a query, which reaches the listener when the client was made to emit it.\<close>

definition query_event :: "('z prisma_service_scheme, unit) prog" where
  "query_event =
     modify (\<lambda>s. if queryLogEnabled s \<and> queryListener s then s\<lparr>queryCount := queryCount s + 1\<rparr> else s)"

definition getQueryCount :: "('z prisma_service_scheme, nat) prog" where
  "getQueryCount = getState queryCount"

definition resetQueryCount :: "('z prisma_service_scheme, unit) prog" where
  "resetQueryCount = modify (\<lambda>s. s\<lparr>queryCount := 0\<rparr>)"

lemma queries_add_up:
  "queryListener s \<Longrightarrow> queryLogEnabled s \<Longrightarrow>
   fst (andThen (forEach (replicate n ()) (\<lambda>_. query_event)) getQueryCount s) = Inr (queryCount s + n)"
  by (induction n arbitrary: s) (simp_all add: query_event_def getQueryCount_def run_defs)

lemma queries_counted:
  "queryListener s \<Longrightarrow> queryLogEnabled s \<Longrightarrow>
   fst (andThen resetQueryCount (andThen (forEach (replicate n ()) (\<lambda>_. query_event)) getQueryCount) s) = Inr n"
  using queries_add_up[of "s\<lparr>queryCount := 0\<rparr>" n] by (simp add: resetQueryCount_def andThen_def bindE_def modify_def)

text \<open>A production server counts no query, and never logs one.\<close>

lemma production_uncounted:
  "env ''NODE_ENV'' = Some ''production'' \<Longrightarrow>
   queryCount (snd (andThen (prisma_onModuleInit env c) (forEach xs (\<lambda>_. query_event)) (new_prisma env))) = 0"
proof -
  assume env: "env ''NODE_ENV'' = Some ''production''"
  have "queryCount (snd (forEach xs (\<lambda>_. query_event) s)) = queryCount s" if "\<not> queryLogEnabled s" for s :: prisma_service
    using that by (induction xs arbitrary: s) (simp_all add: query_event_def run_defs)
  then show ?thesis using env
    by (auto simp: prisma_onModuleInit_def new_prisma_def isQueryLogEnabled_def run_defs split: sum.split)
qed

subsection \<open>Decorators\<close>

text \<open>The metadata a decorator sets, as the guards read it.\<close>

definition meta_CsrfExempt :: "string \<times> bool" where
  "meta_CsrfExempt = (''isCsrfExempt'', True)"

definition meta_ResourceOwner :: "ResourceType \<Rightarrow> string option \<Rightarrow> string \<times> (ResourceType \<times> string)" where
  "meta_ResourceOwner type paramKey = (''resource_owner'', (type, get_or paramKey ''id''))"

definition meta_Roles :: "app_role list \<Rightarrow> string \<times> app_role list" where
  "meta_Roles roles = (''roles'', roles)"

end
