(* ===== verification/Spec2Isabelle.thy ===== *)
theory Spec2Isabelle
  imports AuditProps FileStorage TrustlessWork EscrowProps OrderProps StellarEvents ListenerProps GuardProps
    AuthProps ValidatorProps UserProps Offers KycProps SendProps ChatProps Lifecycle PaymentRuns LoginLive
    StatsProps Validation Seed Poller Startup
begin

text \<open>
  Verification library of the iKash back end, a NestJS service over PostgreSQL (through Prisma) for a
  peer-to-peer market: users publish offers, a buyer opens an order on an offer, a smart contract on
  the Stellar network (deployed through the Trustless Work API) holds the crypto amount in escrow until
  the fiat payment is confirmed.  The sources are below \<open>src/src\<close> and \<open>src/prisma\<close>.

  \<^bold>\<open>The parts of the program and the theories that model them.\<close>

    \<^item> \<open>Store\<close>, \<open>Tables\<close>, \<open>Repository\<close>: the database of \<open>prisma/schema.prisma\<close>.  One record per
      model, a table is a list of rows; \<open>create\<close>, \<open>update\<close>, \<open>delete\<close>, \<open>findUnique\<close>, \<open>updateMany\<close> and
      the others check keys, unique columns and references and apply the deletion rules as Prisma does.
      \<open>common/base.repository.ts\<close> and the selected columns are here too.
    \<^item> \<open>Errors\<close>: the codes and classes of \<open>common/errors\<close> and the body the exception filter builds.
    \<^item> \<open>JsText\<close>, \<open>Decimal\<close>, \<open>Numbers\<close>, \<open>Calendar\<close>: what the code uses of JavaScript: texts, JSON values,
      numerals and \<open>BigInt\<close>, \<open>Number(s)\<close> with its doubles, \<open>Date\<close>.
    \<^item> \<open>Config\<close>: \<open>src/config\<close> and the validation of the environment at start.
    \<^item> \<open>Auth\<close>, \<open>RateLimit\<close>, \<open>Guards\<close>: \<open>modules/auth\<close> (challenge, login, token, purge job, login limiter)
      and \<open>common/guards\<close> (CSRF, owner, roles, verified user).
    \<^item> \<open>Users\<close>, \<open>PaymentMethods\<close>, \<open>PaymentValidators\<close>, \<open>Kyc\<close>, \<open>Offers\<close>, \<open>Orders\<close>, \<open>Chat\<close>, \<open>Send\<close>,
      \<open>Stellar\<close>, \<open>FileStorage\<close>, \<open>AuditLog\<close>, \<open>Stats\<close>: the module of the same name below \<open>src/modules\<close>, its
      service with every operation, its repository, and the checks its controller makes itself.
    \<^item> \<open>TrustlessTypes\<close>, \<open>TrustlessWork\<close>, \<open>Escrow\<close>: \<open>modules/escrow\<close>: the types of the API, its client
      with the signing of a transaction envelope, and the service with its status machine.
    \<^item> \<open>StellarEvents\<close>, \<open>Listener\<close>: the parsing and classification of a chain event, and the poll cycle
      that synchronises the escrows with it.
    \<^item> \<open>Validation\<close>: the DTO classes as lists of decorated fields, and the validation pipe.
    \<^item> \<open>Seed\<close>: \<open>prisma/seed.ts\<close>, the catalogue of providers.
    \<^item> \<open>Routes\<close>, \<open>Server\<close>: the controllers, that is, every route with its guards in the order Nest runs
      them, the global guards, and the process as a function of a sequence of events (\<open>run\<close>).
    \<^item> \<open>Poller\<close>: the loop around those polls, with the timers that the listener sets and clears.
    \<^item> \<open>Startup\<close>: the bootstrap of \<open>main.ts\<close>, the throttler's options, what constructors set up (the client
      of Trustless Work, the bucket, the database client with its counter) and the decorators' metadata.
    \<^item> \<open>Threads\<close>, \<open>Concurrent\<close>: handlers that run at the same time, cut at their \<open>await\<close>s.

  \<^bold>\<open>How they interact.\<close>  A request passes the throttler, the CSRF guard and the guards of its route; its
  handler calls the service, the service calls repositories, other services (an order deploys a contract
  through the escrow service; a setup calls payment methods and the token of the authentication) and the
  remote APIs.  Beside the requests there are the socket events of the chat, the cycles of the chain
  listener, two scheduled jobs and the clock.  All of them change one state: the record \<open>world\<close> (tables,
  clock, source of identifiers, the failures still to come of the database, the calls made to the remote
  services), extended by the listener (\<open>listener_world\<close>), by the chat rooms, and by the server.

  \<^bold>\<open>Conventions.\<close>

    \<^item> An \<open>async\<close> method is a value of type \<open>prog\<close> (theory \<open>Prog\<close>): from a state to an exception or a
      value and a state.  Changes made before an exception stay; \<open>try\<close>/\<open>catch\<close>, early returns and
      \<open>$transaction\<close> (which restores the tables on an exception) are combinators.
    \<^item> Every statement to the database first takes one entry of the list \<open>faults\<close>; \<open>True\<close> makes it fail
      with the exception of a lost connection.  Theorems that do not fix this list hold for every failure.
    \<^item> In the theories of the components a handler runs at one instant of the clock and without another
      handler in between; the interleavings of \<open>run\<close> are those of whole events.  The four handlers whose
      guards read before they write (login, cancellation, synchronisation of a transaction and of a chain
      event) are also given cut at their \<open>await\<close>s, in \<open>Concurrent\<close>; run alone such a thread is the handler
      (\<open>login_alone\<close> and so on).  There every statement to the database, request to the chain and reading
      of the clock is a step; a \<open>$transaction\<close> is one step.
    \<^item> A text is a list of characters of code below 256; changes of case affect ASCII letters only.
      Times are milliseconds as integers, amounts of tokens decimal texts or rationals, numbers in JSON
      bodies integers.  \<open>Number(s)\<close>, and the arithmetic on its result where rounding shows (the fee rate, the
      percentages of the statistics), is that of doubles: exact rationals rounded to 53 bits, ties to even.  An optional field of a body is an \<open>option\<close>; where the code distinguishes an
      absent field from an explicit \<open>null\<close> it is an \<open>option option\<close>.
    \<^item> Identifiers in paths and bodies are taken to be uuids: the error Prisma raises for any other text is
      modelled for the order identifier of a chain event (\<open>findFirstByOrder\<close>), not for requests, where
      the row is just not found.  The largest integer the database takes is not modelled either.
    \<^item> Loops are structural recursions (\<open>forEach\<close>, folds over chunks of a number), except the one of the
      statistics, a \<open>while_option\<close>, whose end is a theorem (\<open>timeline_loop_ends\<close>); no fuel is used.
      The calendar is used from 1970 to 9999, where dates have four digits; a zone is a fixed offset.

  \<^bold>\<open>Parameters.\<close>  What is not under \<open>src\<close> is an argument: the answers of the Trustless Work API, of Horizon
  and of the RPC server, the decoding of event topics, Ed25519, SHA-256, HMAC, the source of random texts and
  identifiers, the passport strategy (\<open>bearer\<close>), the count of the throttler library, the formats of
  class-validator, the bucket client, the Didit API.  They are fields of \<open>services\<close>, \<open>auth_env\<close>, \<open>kyc_env\<close>,
  \<open>horizon_env\<close>, \<open>listener_env\<close> and \<open>formats\<close>, gathered in \<open>env\<close>.  Where a theorem relies on a law of one of
  them (a signature made with the secret verifies), the law is a hypothesis, and the witness has a function
  that obeys it.

  \<^bold>\<open>Interfaces.\<close>  The locale \<open>effect\<close> (\<open>Prog\<close>) is a relation of the states before and after that every step
  of a handler obeys; \<open>table_relation\<close> (\<open>Repository\<close>) is its form for the tables.  Their interpretations are
  the invariants of the library: audit records only grow, escrows move forward, the schema is kept, roles are
  not granted, the listener's ledger does not go back.  The locale \<open>prisma_model\<close> is the contract of a model's
  delegate, with each of the ten tables as an instance; \<open>constrained_model\<close> (\<open>Schema\<close>) adds what its writes
  keep of the constraints.  \<open>Writes\<close> gives every change of the tables as a sequence of elementary steps of a
  kind, and \<open>Footprints\<close> the kinds of every handler; \<open>Surface\<close> and the theorems on runs rest on it.

  \<^bold>\<open>What the theorems show.\<close>  Each theory whose name ends in \<open>Props\<close> proves the properties of its component.

    \<^item> Escrow (\<open>EscrowProps\<close>, \<open>ListenerProps\<close>, \<open>Lifecycle\<close>): the status guard is the relation \<open>escrow_edge\<close>;
      a synchronised transaction and a chain event are atomic, and a handled event is never handled again by any
      later poll; over all runs every event makes only the steps of a small abstract machine that are its
      own (\<open>escrow_step\<close>), which include the one that the code allows by mistake (\<open>reopen\<close>).
    \<^item> The listener's loop (\<open>Poller\<close>): between a start and a stop there is always one timeout or one poll in
      flight, whatever the polls end in; after the stop none.
    \<^item> Orders (\<open>OrderProps\<close>): creation is atomic with respect to its deployment; cancellation and expiry are
      functions of the tables and the clock; an update is not bound by these rules.
    \<^item> Accounts (\<open>AuthProps\<close>, \<open>LoginLive\<close>, \<open>GuardProps\<close>, \<open>RateLimit\<close>, \<open>UserProps\<close>): who gets a token, that
      the owner of a wallet gets one, that a challenge is used once; what guards decide; what erasure leaves.
    \<^item> Money and payment data (\<open>SendProps\<close>, \<open>ValidatorProps\<close>, \<open>PaymentRuns\<close>): amounts are converted without
      loss, IBAN and national rules, and that every stored method satisfies the rules of its provider.
    \<^item> Handlers that interleave (\<open>Races\<close>): a challenge is used once whatever the order of the statements
      of any number of logins; the constraints of the schema survive every interleaving; a cancellation and
      a synchronisation can overwrite what a chain event has written in between, with the run that shows it.
    \<^item> The whole process (\<open>SurfaceProps\<close>, \<open>Platform\<close>): which routes write without a token or without the CSRF
      pair; roles are never granted; the audit trail only grows.  That the constraints of the schema hold in every
      run (\<open>db_wf_run\<close>) is a fact on the database model, which the others use.
    \<^item> Others: \<open>ChatProps\<close> (who is admitted to a room, and stays), \<open>KycProps\<close> (what the signatures cover), \<open>AuditProps\<close>,
      \<open>StatsProps\<close> (the timeline), \<open>Validation\<close> (what bodies and queries are refused), \<open>Seed\<close> (the catalogue is there, nothing else is touched, also when run twice).

  The theorems that describe a defect say so in their text; the state of the code, not of its documents, is
  what is modelled.

  \<^bold>\<open>Not modelled.\<close>  The bodies of successful answers of routes (the services' results are modelled, the
  serialisation is not), logging, the wiring of modules (\<open>*.module.ts\<close> only list providers; guards take the
  metadata they read as arguments), helmet, the answer of CORS to a preflight request, the connection of the ORM client, reading the seed's JSON
  file, the scratch script: input and output or framework configuration.  A route takes a body that has
  passed the validation pipe; the pipe itself is modelled and has its own theorems.  Handlers other
  than the four of \<open>Concurrent\<close> are not cut at their \<open>await\<close>s, so races between those are outside of the model.
\<close>

end
